(* ===== verification/Prelude.thy ===== *)
theory Prelude
  imports Main "HOL-Library.Code_Target_Numeral" "HOL-Library.Multiset" "HOL-Library.List_Lexorder" "HOL-Library.Char_ord"
begin

text \<open>
  Shared base of the development: the error codes and error values of
  \<^verbatim>\<open>src/src/errors.ts\<close>, the two effect types the components are written in (a result
  that is an error or a value, and a computation that threads a state and keeps the
  state it reached when it throws), JavaScript string helpers, and the collections of
  rewrite rules that the component proofs use.
\<close>

named_theorems result_simps \<open>rewrite rules of the result type\<close>
named_theorems stm_simps \<open>rewrite rules of the state-and-exception computations\<close>

section \<open>Errors\<close>

text \<open>The union \<^verbatim>\<open>ErrorCode\<close>, in the source's order.\<close>

datatype (plugins only: code size) error_code =
    APN_INVALID_INPUT
  | APN_ALLOWLIST_UNKNOWN_CHAIN
  | APN_ALLOWLIST_IDENTITY_INVALID
  | APN_ALLOWLIST_ASSET_NOT_FOUND
  | APN_ALLOWLIST_NOT_ADMITTED
  | APN_ALLOWLIST_REFUSED
  | APN_UNSUPPORTED_COMMAND
  | APN_STATE_SECURITY
  | APN_STATE_CORRUPT
  | APN_IDEMPOTENCY_CONFLICT
  | APN_STATE_BUSY
  | APN_NATIVE_CHANNEL_REQUIRED
  | APN_NATIVE_PROTOCOL
  | APN_NATIVE_REJECTED
  | APN_HTTP_CONFIG
  | APN_HTTP_PROTOCOL
  | APN_HTTP_AMBIGUOUS
  | APN_X402_UNSUPPORTED_OFFER
  | APN_X402_CAP_EXCEEDED
  | APN_X402_PROFILE_LIMIT_EXCEEDED
  | APN_X402_OFFER_EXCEEDS_LIMIT
  | APN_X402_PAYMENT_AMBIGUOUS
  | APN_X402_SETTLEMENT_INVALID
  | APN_X402_RESULT_INVALID
  | APN_X402_RECOVERY_AMBIGUOUS
  | APN_RPC_CONFIG
  | APN_RPC_PROTOCOL
  | APN_RPC_AMBIGUOUS
  | APN_RPC_RATE_LIMITED
  | APN_RPC_BUDGET_EXCEEDED
  | APN_CHAIN_MISMATCH
  | APN_WALLET_MISMATCH
  | APN_WALLET_POLICY_REQUIRED
  | APN_FOREGROUND_AUTH_REQUIRED
  | APN_PROVIDER_UNAVAILABLE
  | APN_PROVIDER_CAPABILITY_UNAVAILABLE
  | APN_PROVIDER_PROTOCOL
  | APN_PROVIDER_SESSION_REQUIRED
  | APN_PROVIDER_EFFECT_UNAVAILABLE
  | APN_PROFILE_DRIFT
  | APN_PROFILE_REVISION_CONFLICT
  | APN_FOREGROUND_APPROVAL_REQUIRED
  | APN_WALLET_OVERFUNDED_FOR_UNATTENDED_X402
  | APN_INSUFFICIENT_USDC
  | APN_INSUFFICIENT_ASSET
  | APN_ASSET_MISMATCH
  | APN_ASSET_METADATA_REQUIRED
  | APN_FEE_BUDGET_EXCEEDED
  | APN_INSUFFICIENT_GAS
  | APN_PERMISSION_INACTIVE
  | APN_PERMISSION_ALLOWANCE_INSUFFICIENT
  | APN_REPREPARE_REQUIRED
  | APN_OPERATION_BLOCKED
  | APN_OPERATION_NOT_FOUND
  | APN_RECEIPT_NOT_FOUND
  | APN_INTERNAL

text \<open>
  What a \<^verbatim>\<open>throw\<close> carries. An \<^verbatim>\<open>ApnError\<close> has its code and, where the source puts one into
  \<^verbatim>\<open>details.reason\<close>, that token; the human message has no effect on control flow and is
  not kept. \<open>OtherError\<close> is any other exception, by its class name.
\<close>

datatype js_error = ApnError error_code "string option" | OtherError string

definition assertInput :: "bool \<Rightarrow> js_error + unit" where
  "assertInput condition =
     (if \<not> condition then Inl (ApnError APN_INVALID_INPUT None) else Inr ())"

section \<open>Results\<close>

type_synonym 'a result = "js_error + 'a"

definition rbind :: "'a result \<Rightarrow> ('a \<Rightarrow> 'b result) \<Rightarrow> 'b result" where
  "rbind m f = (case m of Inl e \<Rightarrow> Inl e | Inr x \<Rightarrow> f x)"

lemma rbind_Inl [simp, result_simps]: "rbind (Inl e) f = Inl e"
  by (simp add: rbind_def)

lemma rbind_Inr [simp, result_simps]: "rbind (Inr x) f = f x"
  by (simp add: rbind_def)

lemma rbind_eq_Inr [simp, result_simps]:
  "rbind m f = Inr y \<longleftrightarrow> (\<exists>x. m = Inr x \<and> f x = Inr y)"
  by (cases m) (auto simp: rbind_def)

lemma rbind_cong [fundef_cong]:
  "m = m' \<Longrightarrow> (\<And>x. m' = Inr x \<Longrightarrow> f x = f' x) \<Longrightarrow> rbind m f = rbind m' f'"
  by (cases m') (auto simp: rbind_def)

fun rmap :: "('a \<Rightarrow> 'b result) \<Rightarrow> 'a list \<Rightarrow> 'b list result" where
  "rmap f [] = Inr []"
| "rmap f (x # xs) = rbind (f x) (\<lambda>y. rbind (rmap f xs) (\<lambda>ys. Inr (y # ys)))"

lemma rmap_cong [fundef_cong]:
  "xs = ys \<Longrightarrow> (\<And>x. x \<in> set ys \<Longrightarrow> f x = g x) \<Longrightarrow> rmap f xs = rmap g ys"
  by (induction ys arbitrary: xs) auto

fun is_ok :: "'a result \<Rightarrow> bool" where
  "is_ok (Inl _) = False"
| "is_ok (Inr _) = True"

lemma is_ok_eq [result_simps]: "is_ok m \<longleftrightarrow> (\<exists>x. m = Inr x)"
  by (cases m) auto

section \<open>State with exceptions\<close>

text \<open>
  An asynchronous method of the source runs against stores and ports and may throw; what
  it wrote before it threw stays written. A computation takes the state and returns the
  error or value together with the state reached.
\<close>

type_synonym ('s, 'a) stm = "'s \<Rightarrow> 'a result \<times> 's"

definition ret :: "'a \<Rightarrow> ('s, 'a) stm" where
  "ret x = (\<lambda>s. (Inr x, s))"

definition throw :: "js_error \<Rightarrow> ('s, 'a) stm" where
  "throw e = (\<lambda>s. (Inl e, s))"

definition lift :: "'a result \<Rightarrow> ('s, 'a) stm" where
  "lift r = (\<lambda>s. (r, s))"

definition bnd :: "('s, 'a) stm \<Rightarrow> ('a \<Rightarrow> ('s, 'b) stm) \<Rightarrow> ('s, 'b) stm" where
  "bnd m f = (\<lambda>s. case m s of (Inl e, s') \<Rightarrow> (Inl e, s') | (Inr x, s') \<Rightarrow> f x s')"

definition try_catch :: "('s, 'a) stm \<Rightarrow> (js_error \<Rightarrow> ('s, 'a) stm) \<Rightarrow> ('s, 'a) stm" where
  "try_catch m h = (\<lambda>s. case m s of (Inl e, s') \<Rightarrow> h e s' | (Inr x, s') \<Rightarrow> (Inr x, s'))"

lemma ret_app [simp, stm_simps]: "ret x s = (Inr x, s)"
  by (simp add: ret_def)

lemma throw_app [simp, stm_simps]: "throw e s = (Inl e, s)"
  by (simp add: throw_def)

lemma lift_app [simp, stm_simps]: "lift r s = (r, s)"
  by (simp add: lift_def)

lemma bnd_ret [simp, stm_simps]: "bnd (ret x) f = f x"
  by (simp add: bnd_def ret_def)

lemma bnd_assoc: "bnd (bnd m f) g = bnd m (\<lambda>x. bnd (f x) g)"
  by (rule ext) (auto simp: bnd_def split: prod.splits sum.splits)

lemma bnd_eq [stm_simps]:
  "bnd m f s = (case m s of (Inl e, s') \<Rightarrow> (Inl e, s') | (Inr x, s') \<Rightarrow> f x s')"
  by (simp add: bnd_def)

section \<open>JavaScript strings\<close>

text \<open>
  A string is the list of its bytes; the formats the components test are ASCII. String
  comparison with \<^verbatim>\<open><\<close> is the lexicographic order of \<^theory_text>\<open>HOL-Library.List_Lexorder\<close>.
\<close>

definition digit :: "char \<Rightarrow> bool" where
  "digit c \<longleftrightarrow> CHR ''0'' \<le> c \<and> c \<le> CHR ''9''"

definition lower :: "char \<Rightarrow> bool" where
  "lower c \<longleftrightarrow> CHR ''a'' \<le> c \<and> c \<le> CHR ''z''"

definition upper :: "char \<Rightarrow> bool" where
  "upper c \<longleftrightarrow> CHR ''A'' \<le> c \<and> c \<le> CHR ''Z''"

definition alnum :: "char \<Rightarrow> bool" where
  "alnum c \<longleftrightarrow> digit c \<or> lower c \<or> upper c"

text \<open>\<^verbatim>\<open>[a-f0-9]\<close> and \<^verbatim>\<open>[0-9a-fA-F]\<close>.\<close>

definition lower_hex :: "char \<Rightarrow> bool" where
  "lower_hex c \<longleftrightarrow> digit c \<or> (CHR ''a'' \<le> c \<and> c \<le> CHR ''f'')"

definition any_hex :: "char \<Rightarrow> bool" where
  "any_hex c \<longleftrightarrow> lower_hex c \<or> (CHR ''A'' \<le> c \<and> c \<le> CHR ''F'')"

text \<open>The base58 alphabet \<^verbatim>\<open>[1-9A-HJ-NP-Za-km-z]\<close>.\<close>

definition base58 :: "char \<Rightarrow> bool" where
  "base58 c \<longleftrightarrow> alnum c \<and> c \<noteq> CHR ''0'' \<and> c \<noteq> CHR ''I'' \<and> c \<noteq> CHR ''O'' \<and> c \<noteq> CHR ''l''"

text \<open>\<^verbatim>\<open>/^[a-f0-9]{64}$/\<close>, the form of every digest.\<close>

definition hash_text :: "string \<Rightarrow> bool" where
  "hash_text s \<longleftrightarrow> length s = 64 \<and> list_all lower_hex s"

text \<open>\<^verbatim>\<open>/^[a-z0-9][a-z0-9._-]{0,63}$/\<close>.\<close>

definition version_text :: "string \<Rightarrow> bool" where
  "version_text s \<longleftrightarrow> s \<noteq> [] \<and> length s \<le> 64 \<and>
     (let h = hd s in lower h \<or> digit h) \<and>
     list_all (\<lambda>c. lower c \<or> digit c \<or> c \<in> set ''._-'') s"

text \<open>\<^verbatim>\<open>/^[a-z][a-z0-9_]{0,95}$/\<close>.\<close>

definition token_text :: "string \<Rightarrow> bool" where
  "token_text s \<longleftrightarrow> s \<noteq> [] \<and> length s \<le> 96 \<and> lower (hd s) \<and>
     list_all (\<lambda>c. lower c \<or> digit c \<or> c = CHR ''_'') s"

definition starts_with :: "string \<Rightarrow> string \<Rightarrow> bool" where
  "starts_with p s \<longleftrightarrow> take (length p) s = p"

lemma starts_with_append [simp]: "starts_with p (p @ s)"
  by (simp add: starts_with_def)

section \<open>Generic lemmas\<close>

lemma find_SomeD: "find P xs = Some x \<Longrightarrow> x \<in> set xs \<and> P x"
  by (metis find_Some_iff nth_mem)

lemma find_None: "find P xs = None \<longleftrightarrow> (\<forall>x \<in> set xs. \<not> P x)"
  by (auto simp: find_None_iff)

lemma sum_list_filter_split:
  fixes f :: "'a \<Rightarrow> nat"
  shows "sum_list (map f xs) = sum_list (map f (filter P xs)) + sum_list (map f (filter (\<lambda>x. \<not> P x) xs))"
  by (induction xs) auto

lemma sum_list_map_le:
  fixes f g :: "'a \<Rightarrow> nat"
  assumes "\<And>x. x \<in> set xs \<Longrightarrow> f x \<le> g x"
  shows "sum_list (map f xs) \<le> sum_list (map g xs)"
  using assms by (induction xs) (auto intro: add_mono)

end
