(* ===== verification/Decimal.thy ===== *)
theory Decimal
  imports Prelude
begin

text \<open>
  Decimal text of unsigned integers, as JavaScript's \<^verbatim>\<open>BigInt(text)\<close> reads it and
  \<^verbatim>\<open>value.toString()\<close> writes it: \<open>undec\<close> and \<open>dec\<close>. The two are inverse on the canonical
  texts (no leading zero), which is what lets the components keep amounts as strings.
\<close>

definition digc :: "nat \<Rightarrow> char" where
  "digc n = char_of (48 + n)"

definition digval :: "char \<Rightarrow> nat" where
  "digval c = of_char c - 48"

fun dec :: "nat \<Rightarrow> string" where
  "dec n = (if n < 10 then [digc n] else dec (n div 10) @ [digc (n mod 10)])"

declare dec.simps [simp del]

definition undec :: "string \<Rightarrow> nat" where
  "undec s = foldl (\<lambda>a c. a * 10 + digval c) 0 s"

text \<open>\<^verbatim>\<open>/^(0|[1-9][0-9]*)$/\<close>.\<close>

definition atomic_text :: "string \<Rightarrow> bool" where
  "atomic_text s \<longleftrightarrow> s = ''0'' \<or> (s \<noteq> [] \<and> hd s \<noteq> CHR ''0'' \<and> list_all digit s)"

lemma digit_iff: "digit c \<longleftrightarrow> 48 \<le> (of_char c :: nat) \<and> (of_char c :: nat) \<le> 57"
  by (simp add: digit_def less_eq_char_def)

lemma of_char_digc [simp]: "n < 10 \<Longrightarrow> (of_char (digc n) :: nat) = 48 + n"
  by (simp add: digc_def)

lemma digval_digc [simp]: "n < 10 \<Longrightarrow> digval (digc n) = n"
  by (simp add: digval_def)

lemma digit_digc [simp]: "n < 10 \<Longrightarrow> digit (digc n)"
  by (simp add: digit_iff)

lemma digval_less: "digit c \<Longrightarrow> digval c < 10"
  unfolding digit_iff digval_def by linarith

lemma digc_digval [simp]: "digit c \<Longrightarrow> digc (digval c) = c"
  by (simp add: digit_iff digval_def digc_def)

lemma digval_zero_char: "digval (CHR ''0'') = 0"
  by (simp add: digval_def)

lemma digc_zero: "digc 0 = CHR ''0''"
  unfolding digc_def by code_simp

lemma digc_eq_zero [simp]: "n < 10 \<Longrightarrow> digc n = CHR ''0'' \<longleftrightarrow> n = 0"
  using digval_digc [of n] digval_zero_char digc_zero by fastforce

lemma digval_zero_iff: "digit c \<Longrightarrow> digval c = 0 \<longleftrightarrow> c = CHR ''0''"
  by (metis digc_digval digc_eq_zero digval_less)

lemma undec_Nil [simp]: "undec [] = 0"
  by (simp add: undec_def)

lemma undec_snoc [simp]: "undec (s @ [c]) = undec s * 10 + digval c"
  by (simp add: undec_def)

lemma undec_foldl: "foldl (\<lambda>a c. a * 10 + digval c) k s = k * 10 ^ length s + undec s"
proof (induction s rule: rev_induct)
  case (snoc c s)
  then show ?case by (simp add: algebra_simps)
qed simp

lemma undec_append: "undec (s @ t) = undec s * 10 ^ length t + undec t"
  by (simp add: undec_def foldl_append) (simp add: undec_foldl flip: undec_def)

lemma undec_Cons: "undec (c # s) = digval c * 10 ^ length s + undec s"
  using undec_append [of "[c]" s] by (simp add: undec_def)

lemma undec_bound: "list_all digit s \<Longrightarrow> undec s < 10 ^ length s"
proof (induction s rule: rev_induct)
  case (snoc c s)
  then have "undec s < 10 ^ length s" "digval c < 10" by (auto intro: digval_less)
  then show ?case by simp
qed simp

lemma undec_replicate_zero [simp]: "undec (replicate n CHR ''0'') = 0"
  by (induction n) (auto simp: undec_Cons digval_def)

lemma dec_nonempty [simp]: "dec n \<noteq> []"
  by (subst dec.simps) simp

lemma dec_digits [simp]: "list_all digit (dec n)"
proof (induction n rule: dec.induct)
  case (1 n)
  then show ?case by (subst dec.simps) simp
qed

lemma undec_dec [simp]: "undec (dec n) = n"
proof (induction n rule: dec.induct)
  case (1 n)
  show ?case
  proof (cases "n < 10")
    case True
    then show ?thesis by (subst dec.simps) (simp add: undec_Cons)
  next
    case False
    with 1 have "undec (dec (n div 10)) = n div 10" by simp
    with False show ?thesis by (subst dec.simps) simp
  qed
qed

lemma dec_inj [simp]: "dec m = dec n \<longleftrightarrow> m = n"
  by (metis undec_dec)

lemma dec_0: "dec 0 = ''0''"
  by (subst dec.simps) (simp add: digc_zero)

lemma hd_dec: "0 < n \<Longrightarrow> hd (dec n) \<noteq> CHR ''0''"
proof (induction n rule: dec.induct)
  case (1 n)
  show ?case
  proof (cases "n < 10")
    case True
    with 1 show ?thesis by (subst dec.simps) simp
  next
    case False
    with 1 have "hd (dec (n div 10)) \<noteq> CHR ''0''" by simp
    with False show ?thesis by (subst dec.simps) simp
  qed
qed

lemma atomic_text_dec [simp]: "atomic_text (dec n)"
  by (cases "n = 0") (auto simp: atomic_text_def dec_0 hd_dec)

lemma undec_pos: "s \<noteq> [] \<Longrightarrow> hd s \<noteq> CHR ''0'' \<Longrightarrow> list_all digit s \<Longrightarrow> 0 < undec s"
  using digval_zero_iff by (cases s) (auto simp: undec_Cons intro: gr0I)

lemma dec_undec_aux:
  "s \<noteq> [] \<Longrightarrow> hd s \<noteq> CHR ''0'' \<Longrightarrow> list_all digit s \<Longrightarrow> dec (undec s) = s"
proof (induction s rule: rev_induct)
  case (snoc c s)
  have c: "digit c" "digval c < 10" using snoc.prems by (auto intro: digval_less)
  show ?case
  proof (cases "s = []")
    case True
    then show ?thesis using c by (subst dec.simps) (simp add: undec_Cons)
  next
    case False
    with snoc.prems have s: "hd s \<noteq> CHR ''0''" "list_all digit s" by auto
    with False snoc.IH have IH: "dec (undec s) = s" by simp
    from undec_pos [OF False s] have "\<not> undec s * 10 + digval c < 10" by simp
    moreover from c have "(undec s * 10 + digval c) div 10 = undec s"
      "(undec s * 10 + digval c) mod 10 = digval c" by simp_all
    ultimately show ?thesis using c IH by (subst dec.simps) simp
  qed
qed simp

lemma dec_undec [simp]: "atomic_text s \<Longrightarrow> dec (undec s) = s"
  by (auto simp: atomic_text_def dec_undec_aux dec_0 undec_Cons digval_def)

lemma atomic_text_digits: "atomic_text s \<Longrightarrow> list_all digit s"
  by (auto simp: atomic_text_def digit_iff)

lemma atomic_text_inj: "atomic_text s \<Longrightarrow> atomic_text t \<Longrightarrow> undec s = undec t \<Longrightarrow> s = t"
  by (metis dec_undec)

lemma length_dec_bound: "n < 10 ^ length (dec n)"
  using undec_bound [OF dec_digits, of n] by simp

lemma digit_not_special:
  "digit c \<Longrightarrow> c \<noteq> CHR ''.'' \<and> c \<noteq> CHR '','' \<and> c \<noteq> CHR '']'' \<and> c \<noteq> CHR ''-''"
  by (auto simp: digit_iff)

section \<open>Evaluation of closed texts\<close>

lemma digc_values:
  "digc 0 = CHR ''0''" "digc 1 = CHR ''1''" "digc 2 = CHR ''2''" "digc 3 = CHR ''3''"
  "digc 4 = CHR ''4''" "digc 5 = CHR ''5''" "digc 6 = CHR ''6''" "digc 7 = CHR ''7''"
  "digc 8 = CHR ''8''" "digc 9 = CHR ''9''" "digc (Suc 0) = CHR ''1''"
  by code_simp+

lemmas text_eval = dec.simps digc_values undec_def digval_def digit_iff atomic_text_def

end
