(* ===== verification/Json.thy ===== *)
theory Json
  imports Decimal
begin

text \<open>
  Plain JavaScript values and their canonical text: \<^verbatim>\<open>src/src/canonical.ts\<close>. Every digest of
  the program hashes this text, so the main result here is that it determines the value
  (\<open>stringify_inj\<close>): two records with equal canonical text are equal member by member.
  The digest function itself (SHA-256 of node:crypto) is a parameter of the definitions.
\<close>

section \<open>Values\<close>

text \<open>
  \<open>JNum\<close> is a number with an integer value, \<open>JFloat\<close> a finite number with a fractional part,
  by the text JavaScript prints for it. An object is the list of its own members in
  insertion order. \<open>JUndefined\<close> is \<^verbatim>\<open>undefined\<close> and \<open>JOther\<close> anything that JSON cannot hold
  (a function, a symbol, a bigint, NaN, an infinity).
\<close>

datatype jval =
    JNull
  | JBool bool
  | JNum int
  | JFloat string
  | JStr string
  | JArr "jval list"
  | JObj "(string \<times> jval) list"
  | JUndefined
  | JOther

definition MAX_SAFE_INTEGER :: int where
  "MAX_SAFE_INTEGER = 9007199254740991"

text \<open>\<^verbatim>\<open>value[key]\<close> of a plain record: \<open>JUndefined\<close> when the member is absent.\<close>

definition member :: "(string \<times> jval) list \<Rightarrow> string \<Rightarrow> jval" where
  "member kvs k = (case map_of kvs k of None \<Rightarrow> JUndefined | Some v \<Rightarrow> v)"

definition isPlainRecord :: "jval \<Rightarrow> bool" where
  "isPlainRecord v = (case v of JObj _ \<Rightarrow> True | _ \<Rightarrow> False)"

definition exactKeys :: "(string \<times> jval) list \<Rightarrow> string list \<Rightarrow> bool" where
  "exactKeys kvs keys =
     (let actual = sort (map fst kvs); expected = sort keys
      in length actual = length expected \<and> list_all (\<lambda>(a, e). a = e) (zip actual expected))"

lemma list_all_zip_eq: "length xs = length ys \<Longrightarrow> list_all (\<lambda>(a, e). a = e) (zip xs ys) \<longleftrightarrow> xs = ys"
  by (induction xs ys rule: list_induct2) auto

lemma exactKeys_iff: "exactKeys kvs keys \<longleftrightarrow> sort (map fst kvs) = sort keys"
  unfolding exactKeys_def Let_def by (metis list_all_zip_eq)

lemma exactKeys_set: "exactKeys kvs keys \<Longrightarrow> fst ` set kvs = set keys"
  by (metis exactKeys_iff set_map set_sort)

lemma exactKeys_perm: "exactKeys kvs keys \<longleftrightarrow> mset (map fst kvs) = mset keys"
proof
  assume "exactKeys kvs keys"
  then have "mset (sort (map fst kvs)) = mset (sort keys)" by (simp only: exactKeys_iff)
  then show "mset (map fst kvs) = mset keys" by (simp del: mset_map)
next
  assume "mset (map fst kvs) = mset keys"
  then have "sort (map fst kvs) = sort keys" by (intro properties_for_sort) simp_all
  then show "exactKeys kvs keys" by (simp only: exactKeys_iff)
qed

section \<open>Canonical form\<close>

text \<open>
  \<^verbatim>\<open>Object.keys\<close>, and the member order of \<^verbatim>\<open>JSON.stringify\<close>, put array-index keys first in
  numeric order. Members are inserted in sorted order, so the rest follow sorted.
\<close>

definition array_index_key :: "string \<Rightarrow> bool" where
  "array_index_key k \<longleftrightarrow> atomic_text k \<and> undec k < 4294967295"

definition member_order :: "(string \<times> jval) list \<Rightarrow> (string \<times> jval) list" where
  "member_order kvs =
     sort_key (\<lambda>(k, _). undec k) (filter (\<lambda>(k, _). array_index_key k) kvs) @
     filter (\<lambda>(k, _). \<not> array_index_key k) kvs"

definition sort_members :: "(string \<times> jval) list \<Rightarrow> (string \<times> jval) list" where
  "sort_members kvs = sort_key fst kvs"

fun toCanonical :: "jval \<Rightarrow> jval result" where
  "toCanonical JNull = Inr JNull"
| "toCanonical (JBool b) = Inr (JBool b)"
| "toCanonical (JStr s) = Inr (JStr s)"
| "toCanonical (JNum n) =
     (if \<bar>n\<bar> \<le> MAX_SAFE_INTEGER then Inr (JNum n) else Inl (ApnError APN_INVALID_INPUT None))"
| "toCanonical (JFloat t) = Inr (JFloat t)"
| "toCanonical (JArr vs) = rbind (rmap toCanonical vs) (\<lambda>ws. Inr (JArr ws))"
| "toCanonical (JObj kvs) =
     rbind (rmap (\<lambda>(k, v). rbind (toCanonical v) (\<lambda>w. Inr (k, w)))
              (filter (\<lambda>(k, v). v \<noteq> JUndefined) kvs))
       (\<lambda>ws. Inr (JObj (member_order (sort_members ws))))"
| "toCanonical JUndefined = Inl (ApnError APN_INVALID_INPUT None)"
| "toCanonical JOther = Inl (ApnError APN_INVALID_INPUT None)"

section \<open>JSON.stringify\<close>

definition hexc :: "nat \<Rightarrow> char" where
  "hexc n = (if n < 10 then char_of (48 + n) else char_of (87 + n))"

text \<open>String escapes: the two-character ones, \<^verbatim>\<open>\u00xx\<close> for other controls, the rest verbatim.\<close>

definition esc :: "char \<Rightarrow> string" where
  "esc c =
     (if c = CHR 0x22 then [CHR 0x5C, CHR 0x22]
      else if c = CHR 0x5C then [CHR 0x5C, CHR 0x5C]
      else if c = CHR 0x08 then [CHR 0x5C, CHR ''b'']
      else if c = CHR 0x0C then [CHR 0x5C, CHR ''f'']
      else if c = CHR 0x0A then [CHR 0x5C, CHR ''n'']
      else if c = CHR 0x0D then [CHR 0x5C, CHR ''r'']
      else if c = CHR 0x09 then [CHR 0x5C, CHR ''t'']
      else if of_char c < (32 :: nat) then
        [CHR 0x5C, CHR ''u'', CHR ''0'', CHR ''0'', hexc (of_char c div 16), hexc (of_char c mod 16)]
      else [c])"

definition quote :: "string \<Rightarrow> string" where
  "quote s = [CHR 0x22] @ concat (map esc s) @ [CHR 0x22]"

definition int_text :: "int \<Rightarrow> string" where
  "int_text n = (if n < 0 then CHR ''-'' # dec (nat (- n)) else dec (nat n))"

fun commas :: "string list \<Rightarrow> string" where
  "commas [] = []"
| "commas [x] = x"
| "commas (x # y # ys) = x @ '','' @ commas (y # ys)"

fun stringify :: "jval \<Rightarrow> string" where
  "stringify JNull = ''null''"
| "stringify (JBool b) = (if b then ''true'' else ''false'')"
| "stringify (JNum n) = int_text n"
| "stringify (JFloat t) = t"
| "stringify (JStr s) = quote s"
| "stringify (JArr vs) = ''['' @ commas (map stringify vs) @ '']''"
| "stringify (JObj kvs) = ''{'' @ commas (map (\<lambda>(k, v). quote k @ '':'' @ stringify v) kvs) @ ''}''"
| "stringify JUndefined = ''null''"
| "stringify JOther = ''null''"

definition canonicalJson :: "jval \<Rightarrow> string result" where
  "canonicalJson v = rbind (toCanonical v) (\<lambda>c. Inr (stringify c))"

section \<open>Digests\<close>

text \<open>\<open>sha\<close> stands for the hexadecimal SHA-256 of a byte string.\<close>

definition sha256 :: "(string \<Rightarrow> string) \<Rightarrow> string \<Rightarrow> string" where
  "sha256 sha value = sha value"

definition domainHash :: "(string \<Rightarrow> string) \<Rightarrow> string \<Rightarrow> string \<Rightarrow> string" where
  "domainHash sha domain value = sha (domain @ [CHR 0x00] @ value)"

definition hashObject :: "(string \<Rightarrow> string) \<Rightarrow> jval \<Rightarrow> string result" where
  "hashObject sha v = rbind (canonicalJson v) (\<lambda>t. Inr (sha256 sha t))"

section \<open>The canonical text determines the value\<close>

text \<open>A character that can follow a value inside an array, an object or at the end.\<close>

definition stop :: "string \<Rightarrow> bool" where
  "stop s \<longleftrightarrow> s = [] \<or> hd s = CHR '','' \<or> hd s = CHR '']'' \<or> hd s = CHR ''}''"

definition numchar :: "char \<Rightarrow> bool" where
  "numchar c \<longleftrightarrow> digit c \<or> c = CHR ''-'' \<or> c = CHR ''.'' \<or> c = CHR ''e'' \<or> c = CHR ''+''"

text \<open>The form of the text JavaScript prints for a finite number that is not an integer.\<close>

definition float_text :: "string \<Rightarrow> bool" where
  "float_text t \<longleftrightarrow> t \<noteq> [] \<and> (digit (hd t) \<or> hd t = CHR ''-'') \<and> list_all numchar t \<and>
     list_ex (\<lambda>c. c = CHR ''.'' \<or> c = CHR ''e'') t"

fun jcanon :: "jval \<Rightarrow> bool" where
  "jcanon (JFloat t) = float_text t"
| "jcanon (JArr vs) = list_all jcanon vs"
| "jcanon (JObj kvs) = list_all (\<lambda>(k, v). jcanon v) kvs"
| "jcanon JUndefined = False"
| "jcanon JOther = False"
| "jcanon _ = True"

lemma stop_Cons [simp]: "stop (c # s) \<longleftrightarrow> c = CHR '','' \<or> c = CHR '']'' \<or> c = CHR ''}''"
  by (simp add: stop_def)

lemma stop_not_numchar: "stop (c # s) \<Longrightarrow> \<not> numchar c"
  by (auto simp: numchar_def digit_iff)

lemma digit_numchar [simp]: "digit c \<Longrightarrow> numchar c"
  by (simp add: numchar_def)

lemma takeWhile_numchar:
  assumes "list_all numchar xs" "stop s"
  shows "takeWhile numchar (xs @ s) = xs"
proof -
  have "takeWhile numchar s = []"
    using assms(2) stop_not_numchar by (cases s) auto
  with assms(1) show ?thesis by (simp add: list_all_iff takeWhile_append2)
qed

lemma numeric_prefix:
  assumes "xs @ s = ys @ t" "list_all numchar xs" "list_all numchar ys" "stop s" "stop t"
  shows "xs = ys \<and> s = t"
  using assms by (metis append_same_eq same_append_eq takeWhile_numchar)

subsection \<open>Numbers\<close>

lemma int_text_numchar [simp]: "list_all numchar (int_text n)"
proof -
  have "list_all numchar (dec k)" for k
    using dec_digits [of k] by (auto simp: list_all_iff)
  then show ?thesis by (simp add: int_text_def numchar_def)
qed

lemma int_text_inj: "int_text m = int_text n \<Longrightarrow> m = n"
proof -
  have "\<not> digit (CHR ''-'')" by (simp add: digit_iff)
  then have "dec a \<noteq> CHR ''-'' # t" for a t
    using dec_digits [of a] by (metis list.pred_inject(2))
  moreover assume "int_text m = int_text n"
  ultimately show ?thesis
    by (auto simp: int_text_def split: if_splits) (metis nat_eq_iff2)+
qed

lemma int_text_hd: "int_text n \<noteq> [] \<and> (digit (hd (int_text n)) \<or> hd (int_text n) = CHR ''-'')"
proof -
  have "digit (hd (dec k))" for k
    using dec_digits [of k] by (cases "dec k") auto
  then show ?thesis by (simp add: int_text_def)
qed

lemma int_text_not_float: "\<not> float_text (int_text n)"
proof -
  have "\<not> list_ex (\<lambda>c. c = CHR ''.'' \<or> c = CHR ''e'') (dec k)" for k
    using dec_digits [of k] by (auto simp: list_ex_iff list_all_iff digit_iff)
  then show ?thesis by (auto simp: float_text_def int_text_def)
qed

subsection \<open>Strings\<close>

text \<open>Reading one escaped character back.\<close>

definition hexv :: "char \<Rightarrow> nat" where
  "hexv c = (if digit c then of_char c - 48 else of_char c - 87)"

definition unesc :: "string \<Rightarrow> (char \<times> string) option" where
  "unesc s = (case s of [] \<Rightarrow> None | x # r \<Rightarrow>
     if x \<noteq> CHR 0x5C then Some (x, r)
     else (case r of [] \<Rightarrow> None | e # q \<Rightarrow>
       if e = CHR ''u'' then (case q of _ # _ # h # l # q' \<Rightarrow> Some (char_of (16 * hexv h + hexv l), q') | _ \<Rightarrow> None)
       else if e = CHR ''b'' then Some (CHR 0x08, q)
       else if e = CHR ''f'' then Some (CHR 0x0C, q)
       else if e = CHR ''n'' then Some (CHR 0x0A, q)
       else if e = CHR ''r'' then Some (CHR 0x0D, q)
       else if e = CHR ''t'' then Some (CHR 0x09, q)
       else Some (e, q)))"

lemma hexv_table: "list_all (\<lambda>m. hexv (hexc m) = m) [0..<16]"
  by code_simp

lemma hexv_hexc: "m < 16 \<Longrightarrow> hexv (hexc m) = m"
  using hexv_table by (simp add: list_all_iff)

lemma unesc_control:
  assumes "of_char c < (32 :: nat)"
  shows "char_of (16 * hexv (hexc (of_char c div 16)) + hexv (hexc (of_char c mod 16))) = c"
  using assms by (simp add: hexv_hexc)

lemma unesc_special:
  "unesc (esc (CHR 0x22) @ s) = Some (CHR 0x22, s)"
  "unesc (esc (CHR 0x5C) @ s) = Some (CHR 0x5C, s)"
  "unesc (esc (CHR 0x08) @ s) = Some (CHR 0x08, s)"
  "unesc (esc (CHR 0x0C) @ s) = Some (CHR 0x0C, s)"
  "unesc (esc (CHR 0x0A) @ s) = Some (CHR 0x0A, s)"
  "unesc (esc (CHR 0x0D) @ s) = Some (CHR 0x0D, s)"
  "unesc (esc (CHR 0x09) @ s) = Some (CHR 0x09, s)"
  by (simp_all add: esc_def unesc_def)

lemma esc_cases:
  obtains (special) "c = CHR 0x22 \<or> c = CHR 0x5C \<or> c = CHR 0x08 \<or> c = CHR 0x0C \<or> c = CHR 0x0A \<or> c = CHR 0x0D \<or> c = CHR 0x09"
  | (control) "esc c = [CHR 0x5C, CHR ''u'', CHR ''0'', CHR ''0'', hexc (of_char c div 16), hexc (of_char c mod 16)]"
      "of_char c < (32 :: nat)"
  | (plain) "esc c = [c]" "c \<noteq> CHR 0x5C"
proof (cases "c = CHR 0x22 \<or> c = CHR 0x5C \<or> c = CHR 0x08 \<or> c = CHR 0x0C \<or> c = CHR 0x0A \<or> c = CHR 0x0D \<or> c = CHR 0x09")
  case False
  then show ?thesis using control plain by (cases "of_char c < (32 :: nat)") (simp_all only: esc_def de_Morgan_disj if_False if_True simp_thms)
qed (rule special)

lemma unesc_esc: "unesc (esc c @ s) = Some (c, s)"
proof (cases c rule: esc_cases)
  case special
  then show ?thesis using unesc_special [of s] by (elim disjE) (simp_all only:)
next
  case control
  then show ?thesis by (simp add: unesc_def unesc_control)
next
  case plain
  then show ?thesis by (simp add: unesc_def)
qed

lemma esc_prefix: "esc c @ s = esc d @ t \<Longrightarrow> c = d \<and> s = t"
  by (metis unesc_esc option.inject prod.inject)

lemma esc_not_quote: "esc c @ s \<noteq> CHR 0x22 # t"
  by (simp add: esc_def)

lemma esc_body:
  "concat (map esc a) @ CHR 0x22 # s = concat (map esc b) @ CHR 0x22 # t \<Longrightarrow> a = b \<and> s = t"
proof (induction a arbitrary: b)
  case Nil
  show ?case
  proof (cases b)
    case (Cons d b')
    with Nil have "esc d @ (concat (map esc b') @ CHR 0x22 # t) = CHR 0x22 # s" by (simp only: list.map concat.simps append_assoc append_Nil)
    with esc_not_quote show ?thesis by blast
  qed (use Nil in simp)
next
  case (Cons c a)
  have eq: "esc c @ (concat (map esc a) @ CHR 0x22 # s) = concat (map esc b) @ CHR 0x22 # t"
    using Cons.prems by (simp only: list.map concat.simps append_assoc)
  show ?case
  proof (cases b)
    case Nil
    with eq have "esc c @ (concat (map esc a) @ CHR 0x22 # s) = CHR 0x22 # t"
      by (simp only: list.map concat.simps append_Nil)
    with esc_not_quote show ?thesis by blast
  next
    case b: (Cons d b')
    from eq b have "c = d \<and> concat (map esc a) @ CHR 0x22 # s = concat (map esc b') @ CHR 0x22 # t"
      by (intro esc_prefix) (simp only: list.map concat.simps append_assoc)
    with b Cons.IH show ?thesis by blast
  qed
qed

lemma quote_prefix: "quote a @ s = quote b @ t \<Longrightarrow> a = b \<and> s = t"
proof -
  assume "quote a @ s = quote b @ t"
  then have "concat (map esc a) @ CHR 0x22 # s = concat (map esc b) @ CHR 0x22 # t"
    by (simp only: quote_def append_assoc append_Cons append_Nil list.inject simp_thms)
  then show ?thesis by (rule esc_body)
qed

subsection \<open>Lists\<close>

lemma commas_Cons: "commas (x # xs) = x @ concat (map (\<lambda>y. CHR '','' # y) xs)"
  by (induction xs arbitrary: x) auto

lemma tails_prefix:
  assumes "\<And>x y s t. x \<in> set xs \<Longrightarrow> y \<in> set ys \<Longrightarrow> f x @ s = f y @ t \<Longrightarrow> stop s \<Longrightarrow> stop t \<Longrightarrow> x = y \<and> s = t"
    and "c = CHR '']'' \<or> c = CHR ''}''"
    and "concat (map (\<lambda>y. CHR '','' # f y) xs) @ c # s = concat (map (\<lambda>y. CHR '','' # f y) ys) @ c # t"
  shows "xs = ys \<and> s = t"
  using assms(1,3)
proof (induction xs arbitrary: ys)
  case Nil
  with assms(2) show ?case by (cases ys) auto
next
  case (Cons x xs)
  show ?case
  proof (cases ys)
    case Nil
    with Cons.prems assms(2) show ?thesis by auto
  next
    case (Cons y ys')
    have stop: "stop (concat (map (\<lambda>y. CHR '','' # f y) zs) @ c # u)" for zs u
      using assms(2) by (cases zs) auto
    have "x = y \<and> concat (map (\<lambda>y. CHR '','' # f y) xs) @ c # s
        = concat (map (\<lambda>y. CHR '','' # f y) ys') @ c # t"
      using Cons.prems(2) Cons stop by (intro Cons.prems(1)) simp_all
    moreover from this have "xs = ys' \<and> s = t"
      using Cons Cons.prems(1) by (intro Cons.IH) auto
    ultimately show ?thesis using Cons by simp
  qed
qed

lemma commas_prefix:
  assumes pre: "\<And>x y s t. x \<in> set xs \<Longrightarrow> y \<in> set ys \<Longrightarrow> f x @ s = f y @ t \<Longrightarrow> stop s \<Longrightarrow> stop t \<Longrightarrow> x = y \<and> s = t"
    and start: "\<And>x s. x \<in> set xs \<union> set ys \<Longrightarrow> \<not> stop (f x @ s)"
    and c: "c = CHR '']'' \<or> c = CHR ''}''"
    and eq: "commas (map f xs) @ c # s = commas (map f ys) @ c # t"
  shows "xs = ys \<and> s = t"
proof (cases xs)
  case Nil
  then show ?thesis
  proof (cases ys)
    case (Cons y ys')
    with Nil eq have "c # s = f y @ (concat (map (\<lambda>y. CHR '','' # y) (map f ys')) @ c # t)"
      by (simp add: commas_Cons del: map_map)
    with start [of y] Cons c show ?thesis by (metis UnCI list.set_intros(1) stop_Cons)
  qed (use eq in simp)
next
  case (Cons x xs')
  note xs = Cons
  show ?thesis
  proof (cases ys)
    case Nil
    with Cons eq have "c # t = f x @ (concat (map (\<lambda>y. CHR '','' # y) (map f xs')) @ c # s)"
      by (simp add: commas_Cons del: map_map)
    with start [of x] Cons c show ?thesis by (metis UnCI list.set_intros(1) stop_Cons)
  next
    case (Cons y ys')
    have stop: "stop (concat (map (\<lambda>y. CHR '','' # f y) zs) @ c # u)" for zs u
      using c by (cases zs) auto
    have "x = y \<and> concat (map (\<lambda>y. CHR '','' # f y) xs') @ c # s
        = concat (map (\<lambda>y. CHR '','' # f y) ys') @ c # t"
      using eq xs Cons stop by (intro pre) (simp_all add: commas_Cons comp_def)
    moreover from this have "xs' = ys' \<and> s = t"
      using xs Cons pre c by (intro tails_prefix [of xs' ys' f c]) auto
    ultimately show ?thesis using xs Cons by simp
  qed
qed

subsection \<open>Values\<close>

lemma stringify_start: "jcanon v \<Longrightarrow> \<not> stop (stringify v @ s)"
proof -
  assume v: "jcanon v"
  have digit: "\<not> digit (CHR '','')" "\<not> digit (CHR '']'')" "\<not> digit (CHR ''}'')"
    by (simp_all add: digit_iff)
  have num: "\<not> stop (t @ s)" if "t \<noteq> []" "digit (hd t) \<or> hd t = CHR ''-''" for t
    using that digit by (cases t) auto
  show ?thesis
  proof (cases v)
    case (JNum n)
    then show ?thesis using num int_text_hd by simp
  next
    case (JFloat t)
    with v show ?thesis using num by (simp add: float_text_def)
  qed (use v in \<open>simp_all add: quote_def\<close>)
qed

text \<open>The first character of a text tells which kind of value it is.\<close>

definition value_kind :: "jval \<Rightarrow> nat" where
  "value_kind v = (case v of JNull \<Rightarrow> 0 | JBool b \<Rightarrow> if b then 1 else 2 | JNum _ \<Rightarrow> 3 | JFloat _ \<Rightarrow> 3
     | JStr _ \<Rightarrow> 4 | JArr _ \<Rightarrow> 5 | JObj _ \<Rightarrow> 6 | _ \<Rightarrow> 7)"

definition lead :: "char \<Rightarrow> nat" where
  "lead c = (if c = CHR ''n'' then 0 else if c = CHR ''t'' then 1 else if c = CHR ''f'' then 2
     else if c = CHR 0x22 then 4 else if c = CHR ''['' then 5 else if c = CHR ''{'' then 6 else 3)"

lemma lead_num: "digit c \<or> c = CHR ''-'' \<Longrightarrow> lead c = 3"
  by (auto simp: lead_def digit_iff)

lemma lead_kind: "jcanon v \<Longrightarrow> lead (hd (stringify v @ s)) = value_kind v"
proof (cases v)
  case (JNum n)
  then show ?thesis using int_text_hd [of n] by (simp add: value_kind_def lead_num)
next
  case (JFloat t)
  moreover assume "jcanon v"
  ultimately show ?thesis by (auto simp: value_kind_def lead_num float_text_def)
qed (simp_all add: value_kind_def lead_def quote_def)

lemma kind_eq: "jcanon v \<Longrightarrow> jcanon w \<Longrightarrow> stringify v @ s = stringify w @ t \<Longrightarrow> value_kind v = value_kind w"
  by (metis lead_kind)

definition numeric :: "jval \<Rightarrow> bool" where
  "numeric v \<longleftrightarrow> (case v of JNum _ \<Rightarrow> True | JFloat _ \<Rightarrow> True | _ \<Rightarrow> False)"

lemma numeric_text: "jcanon v \<Longrightarrow> numeric v \<Longrightarrow> list_all numchar (stringify v)"
  by (cases v) (simp_all add: numeric_def float_text_def)

lemma numeric_inj:
  "jcanon v \<Longrightarrow> jcanon w \<Longrightarrow> numeric v \<Longrightarrow> numeric w \<Longrightarrow> stringify v = stringify w \<Longrightarrow> v = w"
  using int_text_inj int_text_not_float by (cases v; cases w) (auto simp: numeric_def)

lemma kind_numeric: "value_kind v = 3 \<longleftrightarrow> numeric v"
  by (cases v) (auto simp: value_kind_def numeric_def)

lemma stringify_prefix:
  assumes "jcanon v" "jcanon w" "stringify v @ s = stringify w @ t" "stop s" "stop t"
  shows "v = w \<and> s = t"
  using assms
proof (induction v arbitrary: w s t)
  case (JStr a)
  then have "value_kind w = 4" using kind_eq [of "JStr a" w] by (simp add: value_kind_def)
  then obtain b where "w = JStr b" by (cases w) (auto simp: value_kind_def split: if_splits)
  with JStr show ?case using quote_prefix [of a s b t] by simp
next
  case (JArr vs)
  then have "value_kind w = 5" using kind_eq [of "JArr vs" w] by (simp add: value_kind_def)
  then obtain ws where w: "w = JArr ws" by (cases w) (auto simp: value_kind_def split: if_splits)
  have "commas (map stringify vs) @ CHR '']'' # s = commas (map stringify ws) @ CHR '']'' # t"
    using JArr.prems w by simp
  then have "vs = ws \<and> s = t"
    by (rule commas_prefix [rotated 3])
      (use JArr w stringify_start in \<open>auto simp: list_all_iff\<close>)
  with w show ?case by simp
next
  case (JObj vs)
  then have "value_kind w = 6" using kind_eq [of "JObj vs" w] by (simp add: value_kind_def)
  then obtain ws where w: "w = JObj ws" by (cases w) (auto simp: value_kind_def split: if_splits)
  let ?f = "\<lambda>(k, v). quote k @ '':'' @ stringify v"
  have pre: "x = y \<and> s' = t'"
    if "x \<in> set vs" "y \<in> set ws" "?f x @ s' = ?f y @ t'" "stop s'" "stop t'" for x y s' t'
  proof -
    obtain k v k' v' where xy: "x = (k, v)" "y = (k', v')" by (cases x, cases y)
    with that have "quote k @ (CHR '':'' # stringify v @ s') = quote k' @ (CHR '':'' # stringify v' @ t')"
      by simp
    then have "k = k' \<and> CHR '':'' # stringify v @ s' = CHR '':'' # stringify v' @ t'"
      by (rule quote_prefix)
    then have "k = k'" "stringify v @ s' = stringify v' @ t'" by simp_all
    moreover have "jcanon v" "jcanon v'" using JObj.prems w that xy by (auto simp: list_all_iff)
    ultimately have "v = v' \<and> s' = t'"
      using JObj.IH [of x v v' s' t'] that xy by simp
    with xy \<open>k = k'\<close> show ?thesis by simp
  qed
  have "commas (map ?f vs) @ CHR ''}'' # s = commas (map ?f ws) @ CHR ''}'' # t"
    using JObj.prems w by simp
  then have "vs = ws \<and> s = t"
    by (rule commas_prefix [rotated 3]) (use pre in \<open>auto simp: quote_def\<close>)
  with w show ?case by simp
next
  case (JNum n)
  then have "numeric w" using kind_eq [of "JNum n" w] kind_numeric by (simp add: value_kind_def)
  with JNum have "stringify (JNum n) = stringify w \<and> s = t"
    by (intro numeric_prefix numeric_text) (simp_all add: numeric_def)
  with JNum \<open>numeric w\<close> show ?case using numeric_inj [of "JNum n" w] by (simp add: numeric_def)
next
  case (JFloat n)
  then have "numeric w" using kind_eq [of "JFloat n" w] kind_numeric by (simp add: value_kind_def)
  with JFloat have "stringify (JFloat n) = stringify w \<and> s = t"
    by (intro numeric_prefix numeric_text) (simp_all add: numeric_def float_text_def)
  with JFloat \<open>numeric w\<close> show ?case using numeric_inj [of "JFloat n" w] by (simp add: numeric_def)
next
  case JNull
  then have "value_kind w = 0" using kind_eq [of JNull w] by (simp add: value_kind_def)
  then have "w = JNull" by (cases w) (auto simp: value_kind_def split: if_splits)
  with JNull show ?case by simp
next
  case (JBool b)
  then have "value_kind w = (if b then 1 else 2)" using kind_eq [of "JBool b" w] by (simp add: value_kind_def)
  then have "w = JBool b" by (cases w) (auto simp: value_kind_def split: if_splits)
  with JBool show ?case by simp
qed simp_all

theorem stringify_inj: "jcanon v \<Longrightarrow> jcanon w \<Longrightarrow> stringify v = stringify w \<Longrightarrow> v = w"
  using stringify_prefix [of v w "[]" "[]"] by (simp add: stop_def)

subsection \<open>Canonical values\<close>

text \<open>Every fractional number inside a value prints as JavaScript prints one.\<close>

fun floats_ok :: "jval \<Rightarrow> bool" where
  "floats_ok (JFloat t) = float_text t"
| "floats_ok (JArr vs) = list_all floats_ok vs"
| "floats_ok (JObj kvs) = list_all (\<lambda>(k, v). floats_ok v) kvs"
| "floats_ok _ = True"

lemma set_member_order [simp]: "set (member_order kvs) = set kvs"
  by (auto simp: member_order_def)

lemma set_sort_members [simp]: "set (sort_members kvs) = set kvs"
  by (simp add: sort_members_def)

lemma rmap_InrD: "rmap f xs = Inr ys \<Longrightarrow> y \<in> set ys \<Longrightarrow> \<exists>x \<in> set xs. f x = Inr y"
  by (induction xs arbitrary: ys) auto

lemma toCanonical_jcanon: "toCanonical v = Inr c \<Longrightarrow> floats_ok v \<Longrightarrow> jcanon c"
proof (induction v arbitrary: c)
  case (JArr vs)
  then obtain ws where ws: "rmap toCanonical vs = Inr ws" "c = JArr ws" by auto
  have "jcanon w" if "w \<in> set ws" for w
  proof -
    from rmap_InrD [OF ws(1) that] obtain v where "v \<in> set vs" "toCanonical v = Inr w" by blast
    with JArr.IH JArr.prems show ?thesis by (auto simp: list_all_iff)
  qed
  with ws show ?case by (simp add: list_all_iff)
next
  case (JObj kvs)
  let ?f = "\<lambda>(k, v). rbind (toCanonical v) (\<lambda>w. Inr (k, w))"
  from JObj.prems obtain ws where
    ws: "rmap ?f (filter (\<lambda>(k, v). v \<noteq> JUndefined) kvs) = Inr ws" and
    c: "c = JObj (member_order (sort_members ws))" by auto
  have "jcanon w" if "(k, w) \<in> set ws" for k w
  proof -
    from rmap_InrD [OF ws that] obtain v where v: "(k, v) \<in> set kvs" "toCanonical v = Inr w"
      by auto
    with JObj.prems have "floats_ok v" by (auto simp: list_all_iff)
    with v show ?thesis using JObj.IH [of "(k, v)" v w] by simp
  qed
  with c show ?case by (auto simp: list_all_iff)
qed (auto split: if_splits)

lemma canonicalJson_eqD:
  assumes "canonicalJson v = Inr t" "canonicalJson w = Inr t" "floats_ok v" "floats_ok w"
  shows "toCanonical v = toCanonical w"
proof -
  from assms obtain c d where
    "toCanonical v = Inr c" "toCanonical w = Inr d" "stringify c = stringify d"
    by (auto simp: canonicalJson_def)
  with assms show ?thesis using stringify_inj toCanonical_jcanon by metis
qed

text \<open>Values that \<^verbatim>\<open>toCanonical\<close> accepts.\<close>

fun plain_json :: "jval \<Rightarrow> bool" where
  "plain_json JUndefined = False"
| "plain_json JOther = False"
| "plain_json (JNum n) = (\<bar>n\<bar> \<le> MAX_SAFE_INTEGER)"
| "plain_json (JArr vs) = list_all plain_json vs"
| "plain_json (JObj kvs) = list_all (\<lambda>(k, v). plain_json v) kvs"
| "plain_json _ = True"

lemma rmap_total: "(\<And>x. x \<in> set xs \<Longrightarrow> \<exists>y. f x = Inr y) \<Longrightarrow> \<exists>ys. rmap f xs = Inr ys"
  by (induction xs) fastforce+

lemma toCanonical_total: "plain_json v \<Longrightarrow> \<exists>c. toCanonical v = Inr c"
proof (induction v)
  case (JArr vs)
  then have "\<exists>ws. rmap toCanonical vs = Inr ws" by (intro rmap_total) (auto simp: list_all_iff)
  then show ?case by auto
next
  case (JObj kvs)
  have "\<exists>ws. rmap (\<lambda>(k, v). rbind (toCanonical v) (\<lambda>w. Inr (k, w))) (filter (\<lambda>(k, v). v \<noteq> JUndefined) kvs) = Inr ws"
  proof (rule rmap_total)
    fix x assume "x \<in> set (filter (\<lambda>(k, v). v \<noteq> JUndefined) kvs)"
    then obtain k v where x: "x = (k, v)" "(k, v) \<in> set kvs" by auto
    with JObj.prems have "plain_json v" by (auto simp: list_all_iff)
    with x JObj.IH [of "(k, v)" v] show "\<exists>y. (\<lambda>(k, v). rbind (toCanonical v) (\<lambda>w. Inr (k, w))) x = Inr y" by auto
  qed
  then show ?case by auto
qed auto

lemma canonicalJson_total: "plain_json v \<Longrightarrow> \<exists>t. canonicalJson v = Inr t"
  using toCanonical_total [of v] by (auto simp: canonicalJson_def)

subsection \<open>Members of a canonical record\<close>

lemma rmap_set: "rmap f xs = Inr ys \<Longrightarrow> x \<in> set xs \<Longrightarrow> \<exists>y \<in> set ys. f x = Inr y"
  by (induction xs arbitrary: ys) auto

lemma toCanonical_JStr: "toCanonical v = Inr (JStr s) \<Longrightarrow> v = JStr s"
  by (cases v) (auto split: if_splits)

lemma canonical_member_iff:
  assumes "toCanonical (JObj kvs) = Inr (JObj ws)"
  shows "(k, JStr s) \<in> set ws \<longleftrightarrow> (k, JStr s) \<in> set kvs"
proof -
  let ?f = "\<lambda>(k, v). rbind (toCanonical v) (\<lambda>w. Inr (k, w))"
  from assms obtain us where us: "rmap ?f (filter (\<lambda>(k, v). v \<noteq> JUndefined) kvs) = Inr us" "set ws = set us"
    by auto
  show ?thesis
  proof
    assume "(k, JStr s) \<in> set ws"
    with rmap_InrD [OF us(1)] us(2) show "(k, JStr s) \<in> set kvs" by (fastforce dest: toCanonical_JStr)
  next
    assume "(k, JStr s) \<in> set kvs"
    with rmap_set [OF us(1), of "(k, JStr s)"] us(2) show "(k, JStr s) \<in> set ws" by auto
  qed
qed

text \<open>Two records with one canonical text have the same string members.\<close>

lemma canonicalJson_member:
  assumes "canonicalJson (JObj kvs) = Inr t" "canonicalJson (JObj kvs') = Inr t"
    "floats_ok (JObj kvs)" "floats_ok (JObj kvs')" "(k, JStr s) \<in> set kvs"
  shows "(k, JStr s) \<in> set kvs'"
proof -
  have eq: "toCanonical (JObj kvs) = toCanonical (JObj kvs')" using canonicalJson_eqD assms by blast
  from assms(1) obtain ws where ws: "toCanonical (JObj kvs) = Inr (JObj ws)" by (auto simp: canonicalJson_def)
  with eq have "toCanonical (JObj kvs') = Inr (JObj ws)" by simp
  with ws assms(5) show ?thesis using canonical_member_iff by metis
qed

text \<open>The order in which the members of a record were written does not show in its text.\<close>

lemma rmap_append: "rmap f (xs @ ys) = rbind (rmap f xs) (\<lambda>a. rbind (rmap f ys) (\<lambda>b. Inr (a @ b)))"
  by (induction xs) (auto simp: rbind_def split: sum.splits)

lemma rmap_perm:
  "rmap f zs = Inr ys \<Longrightarrow> mset zs = mset zs' \<Longrightarrow> \<exists>ys'. rmap f zs' = Inr ys' \<and> mset ys' = mset ys"
proof (induction zs arbitrary: zs' ys)
  case (Cons z zs)
  from Cons.prems obtain y us where y: "f z = Inr y" "rmap f zs = Inr us" "ys = y # us" by auto
  from Cons.prems(2) obtain as bs where zs': "zs' = as @ z # bs"
    by (metis in_set_conv_decomp mset_eq_setD list.set_intros(1))
  with Cons.prems(2) have "mset zs = mset (as @ bs)" by simp
  with Cons.IH [OF y(2)] obtain us' where us': "rmap f (as @ bs) = Inr us'" "mset us' = mset us" by blast
  then obtain a b where "rmap f as = Inr a" "rmap f bs = Inr b" "us' = a @ b" by (auto simp: rmap_append)
  with us' y zs' show ?case by (auto simp: rmap_append)
qed simp

lemma sort_key_unique:
  assumes "mset xs = mset ys" "distinct (map f xs)"
  shows "sort_key f xs = sort_key (f :: 'a \<Rightarrow> 'b :: linorder) ys"
proof -
  have one: "filter (\<lambda>x. f k = f x) zs = [k]" if "k \<in> set zs" "distinct (map f zs)" for k zs
    using that by (induction zs) (auto simp: filter_empty_conv image_iff)
  have d: "distinct (map f ys)" using assms by (metis mset_map mset_eq_imp_distinct_iff)
  have same: "set xs = set ys" using assms(1) by (rule mset_eq_setD)
  have "filter (\<lambda>x. f k = f x) (sort_key f ys) = filter (\<lambda>x. f k = f x) xs" if "k \<in> set (sort_key f ys)" for k
  proof -
    from that same have k: "k \<in> set xs" "k \<in> set ys" by simp_all
    have "distinct (map f (sort_key f ys))" using d by (metis mset_map mset_sort mset_eq_imp_distinct_iff)
    with that have "filter (\<lambda>x. f k = f x) (sort_key f ys) = [k]" by (rule one)
    with one [OF k(1) assms(2)] show ?thesis by simp
  qed
  with assms(1) show ?thesis by (intro properties_for_sort_key) simp_all
qed

lemma rmap_InlD: "rmap f xs = Inl e \<Longrightarrow> \<exists>x \<in> set xs. f x = Inl e"
  by (induction xs) (auto simp: rbind_def split: sum.splits)

lemma toCanonical_Inl: "toCanonical v = Inl e \<Longrightarrow> e = ApnError APN_INVALID_INPUT None"
proof (induction v arbitrary: e)
  case (JArr vs)
  then have "rmap toCanonical vs = Inl e" by (cases "rmap toCanonical vs") auto
  with JArr.IH show ?case by (blast dest: rmap_InlD)
next
  case (JObj kvs)
  let ?f = "\<lambda>(k, v). rbind (toCanonical v) (\<lambda>w. Inr (k, w))" and ?xs = "filter (\<lambda>(k, v). v \<noteq> JUndefined) kvs"
  from JObj.prems have "rmap ?f ?xs = Inl e" by (cases "rmap ?f ?xs") auto
  then obtain k v where "(k, v) \<in> set kvs" "rbind (toCanonical v) (\<lambda>w. Inr (k, w)) = Inl e"
    by (fastforce dest: rmap_InlD)
  then show ?case using JObj.IH [of "(k, v)" v e] by (cases "toCanonical v") auto
qed (auto split: if_splits)

text \<open>
  The canonical text of a record does not depend on the order its members were
  written in, so the digest of a record is a function of its content.
\<close>

lemma canonicalJson_order:
  assumes "mset kvs = mset kvs'" "distinct (map fst kvs)"
  shows "canonicalJson (JObj kvs) = canonicalJson (JObj kvs')"
proof -
  let ?f = "\<lambda>(k, v). rbind (toCanonical v) (\<lambda>w. Inr (k, w))" and ?p = "\<lambda>(k :: string, v). v \<noteq> JUndefined"
  have canon: "toCanonical (JObj ys) = toCanonical (JObj zs)"
    if "mset ys = mset zs" "distinct (map fst ys)" "rmap ?f (filter ?p ys) = Inr us" for ys zs us
  proof -
    from that(1) have "mset (filter ?p ys) = mset (filter ?p zs)" by simp
    from rmap_perm [OF that(3) this] obtain vs where vs: "rmap ?f (filter ?p zs) = Inr vs" "mset vs = mset us" by blast
    have keys: "map fst ws = map fst xs" if "rmap ?f xs = Inr ws" for xs ws
      using that by (induction xs arbitrary: ws) auto
    have "distinct (map fst us)" using keys [OF that(3)] that(2) by (simp add: distinct_map_filter)
    then have "sort_members us = sort_members vs"
      unfolding sort_members_def using vs(2) by (intro sort_key_unique) simp_all
    with that(3) vs(1) show ?thesis by simp
  qed
  have "toCanonical (JObj kvs) = toCanonical (JObj kvs')"
  proof (cases "rmap ?f (filter ?p kvs)")
    case (Inr us)
    with assms show ?thesis by (rule canon)
  next
    case (Inl e)
    show ?thesis
    proof (cases "rmap ?f (filter ?p kvs')")
      case (Inr us)
      have "distinct (map fst kvs')" using assms by (metis mset_map mset_eq_imp_distinct_iff)
      with canon [OF assms(1) [symmetric] _ Inr] show ?thesis by simp
    next
      case (Inl e')
      with \<open>rmap ?f (filter ?p kvs) = Inl e\<close> have "toCanonical (JObj kvs) = Inl e" "toCanonical (JObj kvs') = Inl e'"
        by simp_all
      then show ?thesis using toCanonical_Inl by metis
    qed
  qed
  then show ?thesis by (simp only: canonicalJson_def)
qed



end
