(* ===== verification/Money.thy ===== *)
theory Money
  imports Json
begin

text \<open>
  Money amounts, \<^verbatim>\<open>src/src/money.ts\<close>: canonical unsigned integer strings in the asset's atomic
  unit, canonical decimal strings, and the conversions between them.
\<close>

definition MAX_UINT256 :: nat where
  "MAX_UINT256 = 2 ^ 256 - 1"

text \<open>\<^verbatim>\<open>parseAtomic(value, { positive })\<close>.\<close>

definition parseAtomic :: "jval \<Rightarrow> bool \<Rightarrow> nat result" where
  "parseAtomic value positive =
     (case value of
        JStr s \<Rightarrow>
          (if \<not> atomic_text s then Inl (ApnError APN_INVALID_INPUT None)
           else (let parsed = undec s in
             if positive \<and> parsed = 0 then Inl (ApnError APN_INVALID_INPUT None) else Inr parsed))
      | _ \<Rightarrow> Inl (ApnError APN_INVALID_INPUT None))"

text \<open>
  \<^verbatim>\<open>/^(0|[1-9][0-9]*)(?:\.([0-9]*[1-9]))?$/\<close>: the text before the first point is a canonical
  integer, and a fraction, when there is one, is digits that do not end in zero.
\<close>

definition split_dot :: "string \<Rightarrow> string \<times> string option" where
  "split_dot s =
     (let whole = takeWhile (\<lambda>c. c \<noteq> CHR ''.'') s; rest = dropWhile (\<lambda>c. c \<noteq> CHR ''.'') s
      in (whole, case rest of [] \<Rightarrow> None | _ # f \<Rightarrow> Some f))"

definition decimal_text :: "string \<Rightarrow> bool" where
  "decimal_text s =
     (case split_dot s of
        (whole, None) \<Rightarrow> atomic_text whole
      | (whole, Some f) \<Rightarrow> atomic_text whole \<and> f \<noteq> [] \<and> list_all digit f \<and> last f \<noteq> CHR ''0'')"

text \<open>\<^verbatim>\<open>padEnd\<close> and \<^verbatim>\<open>padStart\<close> with zeros, and \<^verbatim>\<open>replace(/0+$/, "")\<close>.\<close>

definition pad_end :: "nat \<Rightarrow> string \<Rightarrow> string" where
  "pad_end n s = s @ replicate (n - length s) CHR ''0''"

definition pad_start :: "nat \<Rightarrow> string \<Rightarrow> string" where
  "pad_start n s = replicate (n - length s) CHR ''0'' @ s"

definition strip_zeros :: "string \<Rightarrow> string" where
  "strip_zeros s = rev (dropWhile (\<lambda>c. c = CHR ''0'') (rev s))"

text \<open>\<^verbatim>\<open>parseDecimal\<close> returns the atomic and the decimal text.\<close>

definition parseDecimal :: "jval \<Rightarrow> nat \<Rightarrow> bool \<Rightarrow> (string \<times> string) result" where
  "parseDecimal value decimals positive =
     (case value of
        JStr s \<Rightarrow>
          (if \<not> decimal_text s then Inl (ApnError APN_INVALID_INPUT None)
           else (let whole = fst (split_dot s);
                     fraction = (case snd (split_dot s) of None \<Rightarrow> [] | Some f \<Rightarrow> f) in
             if length fraction > decimals then Inl (ApnError APN_INVALID_INPUT None)
             else (let atomic = undec whole * 10 ^ decimals + undec (pad_end decimals fraction) in
               if positive \<and> atomic = 0 then Inl (ApnError APN_INVALID_INPUT None)
               else Inr (dec atomic, s))))
      | _ \<Rightarrow> Inl (ApnError APN_INVALID_INPUT None))"

definition formatAtomic :: "jval \<Rightarrow> nat \<Rightarrow> string result" where
  "formatAtomic value decimals =
     rbind (parseAtomic value False) (\<lambda>parsed.
       (let scale = 10 ^ decimals;
            whole = parsed div scale;
            fraction = strip_zeros (pad_start decimals (dec (parsed mod scale))) in
        Inr (if length fraction = 0 then dec whole else dec whole @ ''.'' @ fraction)))"

definition multiplyAtomic :: "jval \<Rightarrow> jval \<Rightarrow> string result" where
  "multiplyAtomic a b =
     rbind (parseAtomic a False) (\<lambda>x. rbind (parseAtomic b False) (\<lambda>y. Inr (dec (x * y))))"

section \<open>Parsing and printing\<close>

lemma parseAtomic_dec [simp]: "parseAtomic (JStr (dec n)) p = (if p \<and> n = 0 then Inl (ApnError APN_INVALID_INPUT None) else Inr n)"
  by (simp add: parseAtomic_def)

lemma parseAtomic_InrD: "parseAtomic v p = Inr n \<Longrightarrow> v = JStr (dec n) \<and> (p \<longrightarrow> 0 < n)"
  by (auto simp: parseAtomic_def Let_def split: jval.splits if_splits)

lemma parseAtomic_Inr_iff: "parseAtomic v p = Inr n \<longleftrightarrow> v = JStr (dec n) \<and> (p \<longrightarrow> 0 < n)"
  using parseAtomic_InrD by auto

lemma parseAtomic_Inl: "parseAtomic v p = Inl e \<Longrightarrow> e = ApnError APN_INVALID_INPUT None"
  by (auto simp: parseAtomic_def Let_def split: jval.splits if_splits)

lemma multiplyAtomic_dec: "multiplyAtomic (JStr (dec m)) (JStr (dec n)) = Inr (dec (m * n))"
  by (simp add: multiplyAtomic_def)

subsection \<open>Fractions\<close>

lemma strip_zeros_split: "\<exists>k. s = strip_zeros s @ replicate k CHR ''0''"
proof (induction s rule: rev_induct)
  case (snoc c s)
  then obtain k where k: "s = strip_zeros s @ replicate k CHR ''0''" by blast
  show ?case
  proof (cases "c = CHR ''0''")
    case True
    then have "strip_zeros (s @ [c]) = strip_zeros s" by (simp add: strip_zeros_def)
    moreover from k True have "s @ [c] = strip_zeros s @ replicate (Suc k) CHR ''0''"
      by (metis append_assoc replicate_append_same replicate_Suc)
    ultimately show ?thesis by metis
  next
    case False
    then have "strip_zeros (s @ [c]) = s @ [c] @ replicate 0 CHR ''0''" by (simp add: strip_zeros_def)
    then show ?thesis by (metis append_Nil2 replicate_0)
  qed
qed (simp add: strip_zeros_def)

lemma strip_zeros_last: "strip_zeros s \<noteq> [] \<Longrightarrow> last (strip_zeros s) \<noteq> CHR ''0''"
  unfolding strip_zeros_def by (metis (mono_tags) hd_dropWhile last_rev rev_is_Nil_conv)

lemma strip_zeros_pad: "f = [] \<or> last f \<noteq> CHR ''0'' \<Longrightarrow> strip_zeros (pad_end n f) = f"
proof (cases f rule: rev_cases)
  case (snoc ys y)
  moreover assume "f = [] \<or> last f \<noteq> CHR ''0''"
  moreover have "dropWhile (\<lambda>c. c = CHR ''0'') (replicate m CHR ''0'' @ zs) = dropWhile (\<lambda>c. c = CHR ''0'') zs" for m zs
    by (induction m) auto
  ultimately show ?thesis by (simp add: strip_zeros_def pad_end_def)
qed (simp add: strip_zeros_def pad_end_def)

lemma pad_strip_zeros: "length s = n \<Longrightarrow> pad_end n (strip_zeros s) = s"
proof -
  assume "length s = n"
  obtain k where "s = strip_zeros s @ replicate k CHR ''0''" using strip_zeros_split by blast
  with \<open>length s = n\<close> have "k = n - length (strip_zeros s)"
    by (metis add_diff_cancel_left' length_append length_replicate)
  with \<open>s = _\<close> show ?thesis by (simp add: pad_end_def)
qed

lemma undec_digits_inj:
  "length s = length t \<Longrightarrow> list_all digit s \<Longrightarrow> list_all digit t \<Longrightarrow> undec s = undec t \<Longrightarrow> s = t"
proof (induction s t rule: list_induct2)
  case (Cons c s d t)
  then have "undec s < 10 ^ length s" "undec t < 10 ^ length s"
    using undec_bound [of s] undec_bound [of t] by auto
  moreover have "digval c * 10 ^ length s + undec s = digval d * 10 ^ length s + undec t"
    using Cons by (simp add: undec_Cons)
  ultimately have "(digval c * 10 ^ length s + undec s) div 10 ^ length s = (digval d * 10 ^ length s + undec t) div 10 ^ length s"
    "(digval c * 10 ^ length s + undec s) mod 10 ^ length s = (digval d * 10 ^ length s + undec t) mod 10 ^ length s"
    by simp_all
  with \<open>undec s < _\<close> \<open>undec t < _\<close> have "digval c = digval d" "undec s = undec t" by simp_all
  with Cons show ?case by (metis digc_digval list.pred_inject(2))
qed simp

lemma undec_pad_start [simp]: "undec (pad_start n s) = undec s"
  by (simp add: pad_start_def undec_append)

lemma length_dec_le: "n < 10 ^ k \<Longrightarrow> 0 < k \<Longrightarrow> length (dec n) \<le> k"
proof (induction k arbitrary: n)
  case (Suc k)
  show ?case
  proof (cases "n < 10")
    case True
    then show ?thesis by (subst dec.simps) simp
  next
    case False
    with Suc.prems have "n div 10 < 10 ^ k" by (simp add: div_less_iff_less_mult)
    moreover from False this have "0 < k" by (cases k) auto
    ultimately have "length (dec (n div 10)) \<le> k" using Suc.IH by blast
    with False show ?thesis by (subst dec.simps) simp
  qed
qed simp

lemma length_pad_dec: "n < 10 ^ k \<Longrightarrow> 0 < k \<Longrightarrow> length (pad_start k (dec n)) = k"
  by (simp add: pad_start_def length_dec_le)

lemma digits_pad_start [simp]: "list_all digit (pad_start k (dec n))"
  by (simp add: pad_start_def list_all_iff [of digit "replicate _ _"]) (simp add: digit_iff)

lemma digits_no_dot: "list_all digit s \<Longrightarrow> takeWhile (\<lambda>c. c \<noteq> CHR ''.'') (s @ t) = s @ takeWhile (\<lambda>c. c \<noteq> CHR ''.'') t"
  by (intro takeWhile_append2) (auto simp: list_all_iff digit_iff)

lemma digits_no_dot': "list_all digit s \<Longrightarrow> dropWhile (\<lambda>c. c \<noteq> CHR ''.'') (s @ t) = dropWhile (\<lambda>c. c \<noteq> CHR ''.'') t"
  by (intro dropWhile_append2) (auto simp: list_all_iff digit_iff)

lemma split_dot_whole: "list_all digit w \<Longrightarrow> split_dot w = (w, None)"
  using digits_no_dot [of w "[]"] digits_no_dot' [of w "[]"]
  unfolding split_dot_def Let_def by (simp only: append_Nil2 takeWhile.simps dropWhile.simps list.case)

lemma split_dot_fraction: "list_all digit w \<Longrightarrow> split_dot (w @ ''.'' @ f) = (w, Some f)"
  using digits_no_dot [of w "''.'' @ f"] digits_no_dot' [of w "''.'' @ f"] by (simp add: split_dot_def)

lemma formatAtomic_cases:
  assumes "formatAtomic (JStr (dec n)) d = Inr t"
  obtains (whole) "n mod 10 ^ d = 0" "t = dec (n div 10 ^ d)"
  | (fraction) f where "f \<noteq> []" "last f \<noteq> CHR ''0''" "list_all digit f" "length f \<le> d"
      "undec (pad_end d f) = n mod 10 ^ d" "t = dec (n div 10 ^ d) @ ''.'' @ f"
proof (cases "d = 0")
  case True
  with assms whole show ?thesis by (auto simp: formatAtomic_def strip_zeros_def pad_start_def dec_0)
next
  case False
  define p where "p = pad_start d (dec (n mod 10 ^ d))"
  define f where "f = strip_zeros p"
  have len: "length p = d" using False by (simp add: p_def length_pad_dec)
  then have pad: "pad_end d f = p" by (simp add: f_def pad_strip_zeros)
  have val: "undec p = n mod 10 ^ d" by (simp add: p_def)
  have t: "t = (if f = [] then dec (n div 10 ^ d) else dec (n div 10 ^ d) @ ''.'' @ f)"
    using assms unfolding f_def p_def by (auto simp: formatAtomic_def Let_def)
  show ?thesis
  proof (cases "f = []")
    case True
    with pad val have "n mod 10 ^ d = 0" by (metis append_Nil pad_end_def undec_replicate_zero)
    with True t show ?thesis by (intro whole) simp_all
  next
    case f: False
    obtain k where k: "p = f @ replicate k CHR ''0''" using strip_zeros_split f_def by metis
    have "list_all digit p" by (simp add: p_def)
    with k have digits: "list_all digit f" by simp
    from k len have "length f \<le> d" by auto
    with f digits t pad val show ?thesis using strip_zeros_last f_def by (intro fraction [of f]) simp_all
  qed
qed

text \<open>
  The property C12: what \<^verbatim>\<open>formatAtomic\<close> prints, \<^verbatim>\<open>parseDecimal\<close> reads back to the
  same atomic amount, for every amount and every number of decimals.
\<close>

theorem format_parse_roundtrip:
  "\<exists>t. formatAtomic (JStr (dec n)) d = Inr t \<and>
     parseDecimal (JStr t) d False = Inr (dec n, t)"
proof -
  obtain t where t: "formatAtomic (JStr (dec n)) d = Inr t"
    by (simp add: formatAtomic_def Let_def)
  from t have "parseDecimal (JStr t) d False = Inr (dec n, t)"
  proof (cases rule: formatAtomic_cases)
    case whole
    have "pad_end d [] = replicate d CHR ''0''" by (simp add: pad_end_def)
    moreover have "n div 10 ^ d * 10 ^ d = n" using whole(1) by auto
    ultimately show ?thesis
      using whole by (simp add: parseDecimal_def decimal_text_def split_dot_whole)
  next
    case (fraction f)
    have "n div 10 ^ d * 10 ^ d + undec (pad_end d f) = n"
      using fraction(5) by (metis div_mult_mod_eq)
    then show ?thesis
      using fraction by (simp add: parseDecimal_def decimal_text_def split_dot_fraction [simplified])
  qed
  with t show ?thesis by blast
qed

lemma parse_format:
  assumes "parseDecimal (JStr s) d p = Inr (a, t)"
  shows "t = s \<and> formatAtomic (JStr a) d = Inr s"
proof -
  let ?w = "fst (split_dot s)"
  have dot: "split_dot s = (?w, snd (split_dot s))" by simp
  have s_eq: "s = (case snd (split_dot s) of None \<Rightarrow> ?w | Some f \<Rightarrow> ?w @ ''.'' @ f)"
  proof -
    define w r where wr: "w = takeWhile (\<lambda>c. c \<noteq> CHR ''.'') s" "r = dropWhile (\<lambda>c. c \<noteq> CHR ''.'') s"
    have s: "w @ r = s" by (simp add: wr)
    have sd: "split_dot s = (w, case r of [] \<Rightarrow> None | _ # g \<Rightarrow> Some g)"
      by (simp add: split_dot_def Let_def wr)
    show ?thesis
    proof (cases r)
      case (Cons c g)
      then have "c = CHR ''.''" using hd_dropWhile [of "\<lambda>c. c \<noteq> CHR ''.''" s] unfolding wr(2) [symmetric] by simp
      with s Cons show ?thesis by (simp add: sd)
    qed (use s in \<open>simp add: sd\<close>)
  qed
  define f where "f = (case snd (split_dot s) of None \<Rightarrow> [] | Some g \<Rightarrow> g)"
  from assms have ok: "decimal_text s" "length f \<le> d" "t = s"
    and a: "a = dec (undec ?w * 10 ^ d + undec (pad_end d f))"
    by (auto simp: parseDecimal_def Let_def f_def split: if_splits)
  from ok(1) have w: "atomic_text ?w" and f: "list_all digit f" "f = [] \<or> last f \<noteq> CHR ''0''"
    "f = [] \<longleftrightarrow> snd (split_dot s) = None"
    by (auto simp: decimal_text_def f_def split: option.splits prod.splits)
  have digits: "list_all digit (pad_end d f)"
    using f(1) by (auto simp: pad_end_def list_all_iff digit_iff)
  have len: "length (pad_end d f) = d" using ok(2) by (simp add: pad_end_def)
  define n where "n = undec ?w * 10 ^ d + undec (pad_end d f)"
  have small: "undec (pad_end d f) < 10 ^ d" using undec_bound [OF digits] len by simp
  then have n: "n div 10 ^ d = undec ?w" "n mod 10 ^ d = undec (pad_end d f)"
    by (simp_all add: n_def)
  have pad: "strip_zeros (pad_start d (dec (n mod 10 ^ d))) = f"
  proof -
    show ?thesis
    proof (cases "d = 0")
      case True
      with ok(2) n(2) show ?thesis by (simp add: pad_end_def pad_start_def strip_zeros_def dec_0)
    next
      case False
      then have "pad_start d (dec (undec (pad_end d f))) = pad_end d f"
        using small len digits by (intro undec_digits_inj) (simp_all add: length_pad_dec)
      then show ?thesis using n(2) f(2) strip_zeros_pad by simp
    qed
  qed
  have "formatAtomic (JStr a) d = Inr (if f = [] then ?w else ?w @ ''.'' @ f)"
    using w unfolding a n_def [symmetric] by (simp add: formatAtomic_def Let_def pad n(1))
  with s_eq f(3) ok(3) show ?thesis by (auto simp: f_def split: option.splits)
qed

text \<open>
  A decimal text that \<^verbatim>\<open>parseDecimal\<close> accepts is the one
  \<^verbatim>\<open>formatAtomic\<close> prints for the amount it denotes, so an amount has one accepted spelling.
\<close>

lemma parse_format_roundtrip:
  assumes "parseDecimal (JStr s) d p = Inr (a, t)"
  shows "t = s \<and> formatAtomic (JStr a) d = Inr s"
  using assms by (rule parse_format)

end
