(* ===== verification/Instants.thy ===== *)
theory Instants
  imports Decimal
begin

text \<open>
  UTC instants as the source keeps them: the text \<^verbatim>\<open>Date.prototype.toISOString\<close> prints, for the
  years 0000 to 9999 (the extended six-digit years are outside the model). A \<^verbatim>\<open>Date\<close> argument
  is its ISO text, or \<open>None\<close> for an invalid date, whose \<^verbatim>\<open>getTime()\<close> is NaN. Components
  compare instants as strings.
\<close>

type_synonym instant_text = string
type_synonym jsdate = "string option"

definition leap_year :: "nat \<Rightarrow> bool" where
  "leap_year y \<longleftrightarrow> (y mod 4 = 0 \<and> y mod 100 \<noteq> 0) \<or> y mod 400 = 0"

definition days_in_month :: "nat \<Rightarrow> nat \<Rightarrow> nat" where
  "days_in_month y m =
     (if m = 2 then (if leap_year y then 29 else 28)
      else if m \<in> {4, 6, 9, 11} then 30 else 31)"

definition date_shape :: "string \<Rightarrow> bool" where
  "date_shape s \<longleftrightarrow> length s = 10 \<and> list_all digit (take 4 s) \<and> s ! 4 = CHR ''-'' \<and>
     list_all digit (take 2 (drop 5 s)) \<and> s ! 7 = CHR ''-'' \<and> list_all digit (drop 8 s)"

definition date_year :: "string \<Rightarrow> nat" where "date_year s = undec (take 4 s)"
definition date_month :: "string \<Rightarrow> nat" where "date_month s = undec (take 2 (drop 5 s))"
definition date_day :: "string \<Rightarrow> nat" where "date_day s = undec (take 2 (drop 8 s))"

text \<open>The date exists in the calendar.\<close>

definition real_date :: "string \<Rightarrow> bool" where
  "real_date s \<longleftrightarrow> date_shape s \<and> 1 \<le> date_month s \<and> date_month s \<le> 12 \<and>
     1 \<le> date_day s \<and> date_day s \<le> days_in_month (date_year s) (date_month s)"

text \<open>The JavaScript date parser takes days 1 to 31 in every month and normalises the rest.\<close>

definition parsable_date :: "string \<Rightarrow> bool" where
  "parsable_date s \<longleftrightarrow> date_shape s \<and> 1 \<le> date_month s \<and> date_month s \<le> 12 \<and>
     1 \<le> date_day s \<and> date_day s \<le> 31"

text \<open>\<^verbatim>\<open>Number.isFinite(Date.parse(value)) && new Date(value).toISOString() === value\<close>.\<close>

definition isIsoInstant :: "string \<Rightarrow> bool" where
  "isIsoInstant s \<longleftrightarrow> length s = 24 \<and> real_date (take 10 s) \<and> s ! 10 = CHR ''T'' \<and>
     list_all digit (take 2 (drop 11 s)) \<and> undec (take 2 (drop 11 s)) \<le> 23 \<and> s ! 13 = CHR '':'' \<and>
     list_all digit (take 2 (drop 14 s)) \<and> undec (take 2 (drop 14 s)) \<le> 59 \<and> s ! 16 = CHR '':'' \<and>
     list_all digit (take 2 (drop 17 s)) \<and> undec (take 2 (drop 17 s)) \<le> 59 \<and> s ! 19 = CHR ''.'' \<and>
     list_all digit (take 3 (drop 20 s)) \<and> s ! 23 = CHR ''Z''"

text \<open>\<^verbatim>\<open>value.slice(0, 10)\<close>: the UTC day of an instant.\<close>

definition day_of :: "string \<Rightarrow> string" where
  "day_of s = take 10 s"

text \<open>
  \<^verbatim>\<open>Date.parse\<close> in milliseconds: days since 1970-01-01 by counting years of 365 days, the leap
  days before them and the months.
\<close>

definition leaps_before :: "nat \<Rightarrow> int" where
  "leaps_before y = (int y + 3) div 4 - (int y + 99) div 100 + (int y + 399) div 400"

definition days_before_month :: "nat \<Rightarrow> nat \<Rightarrow> nat" where
  "days_before_month y m = sum_list (map (days_in_month y) [1..<m])"

definition epoch_day :: "string \<Rightarrow> int" where
  "epoch_day d =
     365 * int (date_year d) + leaps_before (date_year d) - 719528 +
     int (days_before_month (date_year d) (date_month d)) + int (date_day d) - 1"

definition dateParse :: "string \<Rightarrow> int" where
  "dateParse s =
     86400000 * epoch_day (take 10 s) + 3600000 * int (undec (take 2 (drop 11 s))) +
     60000 * int (undec (take 2 (drop 14 s))) + 1000 * int (undec (take 2 (drop 17 s))) +
     int (undec (take 3 (drop 20 s)))"

lemma dateParse_epoch: "dateParse ''1970-01-01T00:00:00.000Z'' = 0"
  by (simp add: dateParse_def epoch_day_def date_year_def date_month_def date_day_def
      leaps_before_def undec_def digval_def days_before_month_def)

lemma upt_1_9: "[Suc 0..<9] = [1, 2, 3, 4, 5, 6, 7, 8]"
  by code_simp

lemma dateParse_sample: "dateParse ''2026-09-17T12:00:00.250Z'' = 1789646400250"
  by (simp add: dateParse_def epoch_day_def date_year_def date_month_def date_day_def
      leaps_before_def undec_def digval_def days_before_month_def days_in_month_def leap_year_def upt_1_9)

lemma isIsoInstant_length: "isIsoInstant s \<Longrightarrow> length s = 24"
  by (simp add: isIsoInstant_def)

lemma take_mono_lex: "(s :: string) \<le> t \<Longrightarrow> take n s \<le> take n t"
proof (induction n arbitrary: s t)
  case (Suc n)
  then show ?case by (cases s; cases t) auto
qed simp

lemma day_of_mono: "s \<le> t \<Longrightarrow> day_of s \<le> day_of t"
  by (simp add: day_of_def take_mono_lex)

end
