(* ===== verification/Addresses.thy ===== *)
theory Addresses
  imports Json
begin

text \<open>
  Account and token identities of the three network families: \<^verbatim>\<open>tronAddress\<close> of
  \<^verbatim>\<open>src/src/tron/codec.ts\<close>, the owner recipient pins' canonical spelling
  (\<^verbatim>\<open>src/src/allowlist-recipient-pins.ts\<close>) and the CAIP-2 network identities.

  The address codecs of the third-party packages are parameters, gathered in one record:
  viem's \<^verbatim>\<open>getAddress\<close> (checksum spelling, throws on a malformed address), @solana/kit's
  \<^verbatim>\<open>address\<close>, and the four codecs of the vendored TRON utilities; \<open>sha\<close> is node:crypto's
  SHA-256 in hexadecimal. \<open>None\<close> is a throw.
\<close>

record prims =
  sha :: "string \<Rightarrow> string"
  getAddress :: "string \<Rightarrow> string option"
  solanaAddress :: "string \<Rightarrow> string option"
  tronHexBytes :: "string \<Rightarrow> nat list"
  decodeBase58Address :: "string \<Rightarrow> nat list option"
  getBase58CheckAddress :: "nat list \<Rightarrow> string"
  tronToHex :: "string \<Rightarrow> string"
  bytesToHex :: "nat list \<Rightarrow> string"

definition to_lower :: "string \<Rightarrow> string" where
  "to_lower = map (\<lambda>c. if upper c then char_of (of_char c + (32 :: nat)) else c)"

datatype family = Evm | Solana | Tron

text \<open>\<^verbatim>\<open>/^41[a-fA-F0-9]{40}$/\<close> and \<^verbatim>\<open>/^T[1-9A-HJ-NP-Za-km-z]{33}$/\<close>.\<close>

definition tron_hex_text :: "string \<Rightarrow> bool" where
  "tron_hex_text s \<longleftrightarrow> length s = 42 \<and> starts_with ''41'' s \<and> list_all any_hex (drop 2 s)"

definition tron_base58_text :: "string \<Rightarrow> bool" where
  "tron_base58_text s \<longleftrightarrow> length s = 34 \<and> starts_with ''T'' s \<and> list_all base58 (drop 1 s)"

definition tronAddress :: "prims \<Rightarrow> string \<Rightarrow> string result" where
  "tronAddress P value =
     (let invalidAddress = Inl (ApnError APN_INVALID_INPUT None);
          bytes = (if tron_hex_text value then Some (tronHexBytes P value)
                   else if tron_base58_text value then decodeBase58Address P value
                   else None) in
      case bytes of None \<Rightarrow> invalidAddress
      | Some bs \<Rightarrow>
          if length bs \<noteq> 21 \<or> hd bs \<noteq> 65 then invalidAddress
          else (let address = getBase58CheckAddress P bs in
            if starts_with ''T'' value \<and> address \<noteq> value then invalidAddress
            else if to_lower (tronToHex P address) \<noteq> bytesToHex P bs then invalidAddress
            else Inr address))"

definition zero_evm :: string where
  "zero_evm = ''0x0000000000000000000000000000000000000000''"

text \<open>\<^verbatim>\<open>ZERO\<close> of the recipient pins.\<close>

fun zero_address :: "family \<Rightarrow> string" where
  "zero_address Evm = zero_evm"
| "zero_address Solana = ''11111111111111111111111111111111''"
| "zero_address Tron = ''T9yD14Nj9j7xAB4dbGeiX9h8unkKHxuWwb''"

definition evm_hex_text :: "string \<Rightarrow> bool" where
  "evm_hex_text s \<longleftrightarrow> length s = 42 \<and> starts_with ''0x'' s \<and> list_all any_hex (drop 2 s)"

text \<open>The codec of one family; a throw is \<open>None\<close>.\<close>

fun family_address :: "prims \<Rightarrow> family \<Rightarrow> string \<Rightarrow> string option" where
  "family_address P Evm v = getAddress P v"
| "family_address P Solana v = solanaAddress P v"
| "family_address P Tron v = (case tronAddress P v of Inl _ \<Rightarrow> None | Inr a \<Rightarrow> Some a)"

fun first_family :: "prims \<Rightarrow> family list \<Rightarrow> string \<Rightarrow> (family \<times> string) option" where
  "first_family P [] v = None"
| "first_family P (f # fs) v =
     (case family_address P f v of
        None \<Rightarrow> first_family P fs v
      | Some a \<Rightarrow> if a = zero_address f then None else Some (f, a))"

definition canonicalRecipient :: "prims \<Rightarrow> string \<Rightarrow> (family \<times> string) option" where
  "canonicalRecipient P value =
     first_family P (if evm_hex_text value then [Evm] else [Tron, Solana]) value"

definition policyChainFamily :: "string \<Rightarrow> family option" where
  "policyChainFamily chain =
     (if starts_with ''eip155:'' chain then Some Evm
      else if starts_with ''solana:'' chain then Some Solana
      else if starts_with ''tron:'' chain then Some Tron else None)"

definition MAX_RECIPIENT_PINS :: nat where
  "MAX_RECIPIENT_PINS = 16"

definition recipientPinList :: "prims \<Rightarrow> string list \<Rightarrow> family option \<Rightarrow> string list option" where
  "recipientPinList P value family =
     (if length value < 1 \<or> length value > MAX_RECIPIENT_PINS \<or> \<not> distinct value then None
      else if list_all (\<lambda>entry. case canonicalRecipient P entry of None \<Rightarrow> False
             | Some (f, a) \<Rightarrow> a = entry \<and> (case family of None \<Rightarrow> True | Some g \<Rightarrow> f = g)) value
      then Some value else None)"

section \<open>Network identities\<close>

text \<open>\<^verbatim>\<open>/^eip155:([1-9][0-9]{0,77})$/\<close>: the digits after the prefix.\<close>

definition evm_chain_number :: "string \<Rightarrow> nat option" where
  "evm_chain_number chain =
     (let n = drop 7 chain in
      if starts_with ''eip155:'' chain \<and> n \<noteq> [] \<and> length n \<le> 78 \<and> hd n \<noteq> CHR ''0'' \<and> list_all digit n
      then Some (undec n) else None)"

definition solana_chain_key :: "string \<Rightarrow> string option" where
  "solana_chain_key chain =
     (let k = drop 7 chain in
      if starts_with ''solana:'' chain \<and> 32 \<le> length k \<and> length k \<le> 44 \<and> list_all base58 k
      then Some k else None)"

definition tron_chain_text :: "string \<Rightarrow> bool" where
  "tron_chain_text chain \<longleftrightarrow> starts_with ''tron:'' chain \<and> hash_text (drop 5 chain)"

section \<open>Laws\<close>

text \<open>The spelling a codec returns is the one it accepts as itself.\<close>

definition canonical_codec :: "(string \<Rightarrow> string option) \<Rightarrow> bool" where
  "canonical_codec f \<longleftrightarrow> (\<forall>v a. f v = Some a \<longrightarrow> f a = Some a)"

lemma first_family_nonzero: "first_family P fs v = Some (f, a) \<Longrightarrow> a \<noteq> zero_address f \<and> family_address P f v = Some a"
  by (induction fs) (auto split: option.splits if_splits)

lemma canonicalRecipient_nonzero:
  "canonicalRecipient P v = Some (f, a) \<Longrightarrow> a \<noteq> zero_address f \<and> family_address P f v = Some a"
  by (simp add: canonicalRecipient_def first_family_nonzero)

lemma recipientPinList_bounds:
  "recipientPinList P ps fam = Some qs \<Longrightarrow> qs = ps \<and> ps \<noteq> [] \<and> length ps \<le> 16 \<and> distinct ps"
  by (auto simp: recipientPinList_def MAX_RECIPIENT_PINS_def split: if_splits)

lemma recipientPinList_entry:
  assumes "recipientPinList P ps fam = Some qs" "p \<in> set ps"
  shows "\<exists>f. canonicalRecipient P p = Some (f, p) \<and> (fam = None \<or> fam = Some f)"
proof -
  from assms have "case canonicalRecipient P p of None \<Rightarrow> False
      | Some (f, a) \<Rightarrow> a = p \<and> (case fam of None \<Rightarrow> True | Some g \<Rightarrow> f = g)"
    by (auto simp: recipientPinList_def list_all_iff split: if_splits)
  then show ?thesis by (cases fam) (auto split: option.splits)
qed

end
