(* ===== verification/SwapPins.thy ===== *)
theory SwapPins
  imports Addresses
begin

text \<open>
  What the owner admits for a swap: the legacy mechanism pin of \<^verbatim>\<open>src/src/swap/pin.ts\<close> and the
  route admission of \<^verbatim>\<open>src/src/swap/route-admission.ts\<close>. Either admits by its route, that is
  the protocol, the chain, the router and the set of contracts it touches.
\<close>

datatype swap_protocol = UniswapEthereum | SunswapTron | JupiterSolana | OrcaSolana

definition SWAP_MECHANISM_PIN_SCHEMA :: string where
  "SWAP_MECHANISM_PIN_SCHEMA = ''apn.swap-mechanism-pin.v1''"

definition SWAP_ROUTE_SCHEMA :: string where
  "SWAP_ROUTE_SCHEMA = ''apn.swap-route.v1''"

definition MAX_SWAP_ADMISSION_OPTIONS :: nat where
  "MAX_SWAP_ADMISSION_OPTIONS = 16"

fun protocol_text :: "swap_protocol \<Rightarrow> string" where
  "protocol_text UniswapEthereum = ''uniswap_ethereum''"
| "protocol_text SunswapTron = ''sunswap_tron''"
| "protocol_text JupiterSolana = ''jupiter_solana''"
| "protocol_text OrcaSolana = ''orca_solana''"

fun network_text :: "family \<Rightarrow> string" where
  "network_text Evm = ''evm''"
| "network_text Tron = ''tron''"
| "network_text Solana = ''solana''"

fun SWAP_PROTOCOL_NETWORKS :: "swap_protocol \<Rightarrow> family \<times> string" where
  "SWAP_PROTOCOL_NETWORKS UniswapEthereum = (Evm, ''eip155:1'')"
| "SWAP_PROTOCOL_NETWORKS SunswapTron =
     (Tron, ''tron:00000000000000001ebf88508a03865c71d452e25f4d51194196a1d22b6653dc'')"
| "SWAP_PROTOCOL_NETWORKS JupiterSolana = (Solana, ''solana:5eykt4UsFv8P8NJdTREpY1vzqKqZKvdpKuc147dw2N9d'')"
| "SWAP_PROTOCOL_NETWORKS OrcaSolana = (Solana, ''solana:5eykt4UsFv8P8NJdTREpY1vzqKqZKvdpKuc147dw2N9d'')"

record swap_mechanism_pin =
  pin_protocolFamily :: swap_protocol
  pin_networkFamily :: family
  pin_chain :: string
  pin_protocolVersion :: string
  pin_constructorKind :: string
  pin_constructorIdentity :: string
  pin_constructorVersion :: string
  pin_routerProgramIdentity :: string
  pin_auxiliary :: "string list"
  pin_quoteSchemaVersion :: string
  pin_transactionSchemaVersion :: string
  pin_validationPolicyIdentity :: string
  pin_validationPolicyVersion :: string

record swap_route_admission =
  route_protocolFamily :: swap_protocol
  route_chain :: string
  route_routerProgramIdentity :: string
  route_auxiliary :: "string list"

datatype swap_admission = LegacyPin swap_mechanism_pin | Route swap_route_admission

text \<open>
  \<^verbatim>\<open>TEXT = /^[A-Za-z0-9][A-Za-z0-9._:/@+-]{0,255}$/\<close> and
  \<^verbatim>\<open>VERSION = /^(?=[A-Za-z0-9._+-]{1,64}$)(?=.*[0-9])[A-Za-z0-9][A-Za-z0-9._+-]*$/\<close>.
\<close>

definition TEXT :: "string \<Rightarrow> bool" where
  "TEXT s \<longleftrightarrow> s \<noteq> [] \<and> length s \<le> 256 \<and> alnum (hd s) \<and>
     list_all (\<lambda>c. alnum c \<or> c \<in> set ''._:/@+-'') s"

definition VERSION :: "string \<Rightarrow> bool" where
  "VERSION s \<longleftrightarrow> s \<noteq> [] \<and> length s \<le> 64 \<and> alnum (hd s) \<and> list_ex digit s \<and>
     list_all (\<lambda>c. alnum c \<or> c \<in> set ''._+-'') s"

definition canonicalProgramIdentity :: "prims \<Rightarrow> family \<Rightarrow> string \<Rightarrow> string result" where
  "canonicalProgramIdentity P family value =
     (case family_address P family value of
        None \<Rightarrow> Inl (ApnError APN_INVALID_INPUT None)
      | Some a \<Rightarrow> if family = Evm \<and> a = zero_evm then Inl (ApnError APN_INVALID_INPUT None) else Inr a)"

text \<open>
  \<^verbatim>\<open>programs.some(identity => canonicalProgramIdentity(family, identity) !== identity)\<close>: the
  first identity that is not a program of the family throws.
\<close>

fun some_not_canonical :: "prims \<Rightarrow> family \<Rightarrow> string list \<Rightarrow> bool result" where
  "some_not_canonical P family [] = Inr False"
| "some_not_canonical P family (x # xs) =
     rbind (canonicalProgramIdentity P family x)
       (\<lambda>a. if a \<noteq> x then Inr True else some_not_canonical P family xs)"

definition validateSwapMechanismPin :: "prims \<Rightarrow> swap_mechanism_pin \<Rightarrow> swap_mechanism_pin result" where
  "validateSwapMechanismPin P value =
     (let invalid = Inl (ApnError APN_INVALID_INPUT None);
          programs = pin_routerProgramIdentity value # pin_auxiliary value in
      if (pin_constructorKind value \<noteq> ''builder_api'' \<and> pin_constructorKind value \<noteq> ''sdk'') \<or>
         length (pin_auxiliary value) > 16 \<or> \<not> TEXT (pin_constructorIdentity value) \<or>
         \<not> VERSION (pin_protocolVersion value) \<or>
         \<not> VERSION (pin_constructorVersion value) \<or> \<not> VERSION (pin_quoteSchemaVersion value) \<or>
         \<not> VERSION (pin_transactionSchemaVersion value) \<or> \<not> TEXT (pin_validationPolicyIdentity value) \<or>
         \<not> VERSION (pin_validationPolicyVersion value) \<or> \<not> distinct programs
      then invalid
      else (let expected = SWAP_PROTOCOL_NETWORKS (pin_protocolFamily value) in
        if pin_networkFamily value \<noteq> fst expected \<or> pin_chain value \<noteq> snd expected then invalid
        else rbind (some_not_canonical P (pin_networkFamily value) programs)
               (\<lambda>bad. if bad then invalid else Inr value)))"

definition validateSwapAdmissionMechanism :: "prims \<Rightarrow> swap_admission \<Rightarrow> swap_admission result" where
  "validateSwapAdmissionMechanism P value =
     (case value of
        LegacyPin p \<Rightarrow> rbind (validateSwapMechanismPin P p) (\<lambda>q. Inr (LegacyPin q))
      | Route r \<Rightarrow>
          (let invalid = Inl (ApnError APN_INVALID_INPUT None);
               network = SWAP_PROTOCOL_NETWORKS (route_protocolFamily r);
               programs = route_routerProgramIdentity r # route_auxiliary r in
           if length (route_auxiliary r) > 16 then invalid
           else if route_chain r \<noteq> snd network then invalid
           else rbind (some_not_canonical P (fst network) programs)
                  (\<lambda>bad. if bad \<or> \<not> distinct programs then invalid else Inr value)))"

definition swapRouteOf :: "prims \<Rightarrow> swap_mechanism_pin \<Rightarrow> swap_route_admission result" where
  "swapRouteOf P pin =
     rbind (validateSwapMechanismPin P pin) (\<lambda>value.
       Inr \<lparr>route_protocolFamily = pin_protocolFamily value, route_chain = pin_chain value,
            route_routerProgramIdentity = pin_routerProgramIdentity value,
            route_auxiliary = pin_auxiliary value\<rparr>)"

text \<open>The four members of either form that make its route.\<close>

fun mechanism_route :: "swap_admission \<Rightarrow> swap_route_admission" where
  "mechanism_route (Route r) = r"
| "mechanism_route (LegacyPin p) =
     \<lparr>route_protocolFamily = pin_protocolFamily p, route_chain = pin_chain p,
      route_routerProgramIdentity = pin_routerProgramIdentity p, route_auxiliary = pin_auxiliary p\<rparr>"

definition route_json :: "swap_route_admission \<Rightarrow> jval" where
  "route_json r = JObj
     [(''protocolFamily'', JStr (protocol_text (route_protocolFamily r))),
      (''chain'', JStr (route_chain r)),
      (''routerProgramIdentity'', JStr (route_routerProgramIdentity r)),
      (''auxiliaryContractProgramIdentities'', JArr (map JStr (sort (route_auxiliary r))))]"

definition swapRouteDigest :: "prims \<Rightarrow> swap_admission \<Rightarrow> string result" where
  "swapRouteDigest P value =
     rbind (validateSwapAdmissionMechanism P value) (\<lambda>mechanism.
       rbind (canonicalJson (route_json (mechanism_route mechanism))) (\<lambda>t.
         Inr (domainHash (sha P) SWAP_ROUTE_SCHEMA t)))"

definition pin_json :: "swap_mechanism_pin \<Rightarrow> jval" where
  "pin_json p = JObj
     [(''schemaVersion'', JStr SWAP_MECHANISM_PIN_SCHEMA),
      (''protocolFamily'', JStr (protocol_text (pin_protocolFamily p))),
      (''networkFamily'', JStr (network_text (pin_networkFamily p))),
      (''chain'', JStr (pin_chain p)),
      (''protocolVersion'', JStr (pin_protocolVersion p)),
      (''constructorKind'', JStr (pin_constructorKind p)),
      (''constructorIdentity'', JStr (pin_constructorIdentity p)),
      (''constructorVersion'', JStr (pin_constructorVersion p)),
      (''routerProgramIdentity'', JStr (pin_routerProgramIdentity p)),
      (''auxiliaryContractProgramIdentities'', JArr (map JStr (pin_auxiliary p))),
      (''quoteSchemaVersion'', JStr (pin_quoteSchemaVersion p)),
      (''transactionSchemaVersion'', JStr (pin_transactionSchemaVersion p)),
      (''validationPolicyIdentity'', JStr (pin_validationPolicyIdentity p)),
      (''validationPolicyVersion'', JStr (pin_validationPolicyVersion p))]"

definition swapMechanismDigest :: "prims \<Rightarrow> swap_mechanism_pin \<Rightarrow> string result" where
  "swapMechanismDigest P value =
     rbind (validateSwapMechanismPin P value) (\<lambda>pin.
       rbind (canonicalJson (pin_json pin)) (\<lambda>t.
         Inr (domainHash (sha P) SWAP_MECHANISM_PIN_SCHEMA t)))"

section \<open>A legacy pin and its route admit the same\<close>

lemma canonicalProgramIdentity_self:
  "canonicalProgramIdentity P f v = Inr v \<Longrightarrow> family_address P f v = Some v"
  by (auto simp: canonicalProgramIdentity_def split: option.splits if_splits)

lemma route_json_perm:
  "mset (route_auxiliary r) = mset (route_auxiliary r') \<Longrightarrow>
   route_protocolFamily r = route_protocolFamily r' \<Longrightarrow> route_chain r = route_chain r' \<Longrightarrow>
   route_routerProgramIdentity r = route_routerProgramIdentity r' \<Longrightarrow> route_json r = route_json r'"
proof -
  assume "mset (route_auxiliary r) = mset (route_auxiliary r')"
  then have "sort (route_auxiliary r) = sort (route_auxiliary r')"
    by (intro properties_for_sort) simp_all
  moreover assume "route_protocolFamily r = route_protocolFamily r'" "route_chain r = route_chain r'"
    "route_routerProgramIdentity r = route_routerProgramIdentity r'"
  ultimately show ?thesis by (simp only: route_json_def)
qed

text \<open>
  A legacy pin that validates has a route, that route validates, and both have the same
  digest: a version bump of a lane never changes what the owner admitted.
\<close>

lemma pin_route_valid:
  assumes "validateSwapMechanismPin P p = Inr q"
  shows "validateSwapAdmissionMechanism P (Route (mechanism_route (LegacyPin p))) = Inr (Route (mechanism_route (LegacyPin p)))"
    "q = p"
  using assms
  by (auto simp: validateSwapMechanismPin_def validateSwapAdmissionMechanism_def Let_def split: if_splits)

lemma pin_route_digest:
  assumes "swapRouteOf P p = Inr r"
  shows "swapRouteDigest P (LegacyPin p) = swapRouteDigest P (Route r)"
proof -
  from assms have v: "validateSwapMechanismPin P p = Inr p" and r: "r = mechanism_route (LegacyPin p)"
    using pin_route_valid(2) by (auto simp: swapRouteOf_def)
  have "validateSwapAdmissionMechanism P (LegacyPin p) = Inr (LegacyPin p)"
    by (simp add: validateSwapAdmissionMechanism_def v)
  with pin_route_valid(1) [OF v] r show ?thesis by (simp add: swapRouteDigest_def)
qed

end
