(* ===== verification/AssetPolicy.thy ===== *)
theory AssetPolicy
  imports Money Instants SwapPins
begin

text \<open>
  The owner's asset policy registry, \<^verbatim>\<open>src/src/asset-policy-registry.ts\<close>, and the recipient pins
  that restrict an admission, \<^verbatim>\<open>src/src/allowlist-recipient-pins.ts\<close>. A registry lists chains,
  their assets, the rails each asset is admitted on and the caps that apply;
  \<open>evaluateAssetPolicy\<close> is the single fail-closed evaluator every money rail calls.

  Records carry the member types that the source checks with \<^verbatim>\<open>isPlainRecord\<close>, \<^verbatim>\<open>exactKeys\<close>
  and \<^verbatim>\<open>typeof\<close>; every other check of the validators is a branch here. Amounts stay decimal
  strings and instants ISO strings, compared as strings as in the source.
\<close>

section \<open>Data\<close>

datatype rail = Direct | Gasless | X402 | Bridge | Swap

datatype asset_kind = Native | Token

text \<open>A native asset has the null identifier, a token its contract or mint address.\<close>

datatype schema = V1 | V2

record rail_admission =
  direct :: bool
  gasless :: bool
  x402 :: bool
  bridge :: bool
  swap :: bool

fun admits :: "rail_admission \<Rightarrow> rail \<Rightarrow> bool" where
  "admits r Direct = direct r"
| "admits r Gasless = gasless r"
| "admits r X402 = x402 r"
| "admits r Bridge = bridge r"
| "admits r Swap = swap r"

definition all_rails :: "rail list" where
  "all_rails = [Direct, Gasless, X402, Bridge, Swap]"

record atomic_caps =
  maximumPerTransferAtomic :: string
  dailyLimitAtomic :: string

record mechanism =
  provider :: string
  reference :: string

record mechanism_option =
  opt_provider :: string
  opt_reference :: string
  opt_maximumPerTransferAtomic :: string
  opt_recipients :: "string list option"

record mechanism_pins =
  pins_gasless :: "mechanism option"
  pins_x402 :: "mechanism option"
  pins_bridge :: "mechanism option"
  pins_swap :: "swap_admission option"

record mechanism_options =
  options_bridge :: "mechanism_option list option"
  options_swap :: "swap_admission list option"

record policy_row =
  row_kind :: asset_kind
  row_identifier :: "string option"
  row_symbol :: string
  row_decimals :: int
  row_rails :: rail_admission
  row_caps :: "atomic_caps option"
  row_railCaps :: "(rail \<times> atomic_caps) list option"
  row_mechanismPins :: "mechanism_pins option"
  row_mechanismOptions :: "mechanism_options option"
  row_gaslessRecipient :: "string option"
  row_recipients :: "(rail \<times> string list) list option"

record policy_chain =
  chain_id :: string
  chain_family :: family
  chain_name :: string
  chain_assets :: "policy_row list"

record policy_registry =
  reg_schemaVersion :: schema
  reg_registryVersion :: string
  reg_publishedAt :: string
  reg_effectiveDate :: string
  reg_effectiveAt :: "string option"
  reg_expiresAt :: "string option"
  reg_chains :: "policy_chain list"
  reg_policyDigest :: string

record asset_ref =
  ref_kind :: asset_kind
  ref_identifier :: "string option"

record evaluation_input =
  in_chain :: string
  in_asset :: asset_ref
  in_rail :: rail
  in_mechanism :: "mechanism option"
  in_amountAtomic :: string
  in_dailyUsageAtomic :: string
  in_asOfDate :: string
  in_asOf :: "string option"

record policy_admission =
  adm_policyDigest :: string
  adm_registryVersion :: string
  adm_effectiveDate :: string
  adm_chain :: string
  adm_family :: family
  adm_asset :: policy_row
  adm_rail :: rail
  adm_caps :: atomic_caps
  adm_amountAtomic :: string
  adm_dailyUsageAtomic :: string
  adm_dailyRemainingAtomic :: string

definition MAX_CHAINS :: nat where "MAX_CHAINS = 64"
definition MAX_ASSETS_PER_CHAIN :: nat where "MAX_ASSETS_PER_CHAIN = 256"

definition invalid :: "'a result" where
  "invalid = Inl (ApnError APN_INVALID_INPUT None)"

definition denied :: "'a result" where
  "denied = Inl (ApnError APN_OPERATION_BLOCKED None)"

text \<open>\<^verbatim>\<open>for (const x of xs) check(x)\<close>: the first failing element throws.\<close>

fun rall :: "('a \<Rightarrow> unit result) \<Rightarrow> 'a list \<Rightarrow> unit result" where
  "rall f [] = Inr ()"
| "rall f (x # xs) = rbind (f x) (\<lambda>_. rall f xs)"

lemma rall_Inr [simp]: "rall f xs = Inr u \<longleftrightarrow> (\<forall>x \<in> set xs. f x = Inr ())"
  by (induction xs) auto

definition require :: "bool \<Rightarrow> unit result" where
  "require c = (if c then Inr () else invalid)"

lemma require_Inr [simp]: "require c = Inr u \<longleftrightarrow> c"
  by (simp add: require_def invalid_def)

section \<open>Leaf checks\<close>

definition atomic :: "string \<Rightarrow> bool \<Rightarrow> nat result" where
  "atomic value positive =
     (if length value > 78 then invalid
      else case parseAtomic (JStr value) positive of
             Inl _ \<Rightarrow> invalid
           | Inr parsed \<Rightarrow> if parsed > MAX_UINT256 then invalid else Inr parsed)"

text \<open>An impossible month or day of 32 makes \<^verbatim>\<open>toISOString\<close> throw a RangeError.\<close>

definition calendarDate :: "string \<Rightarrow> string result" where
  "calendarDate value =
     (if \<not> date_shape value then invalid
      else if \<not> parsable_date value then Inl (OtherError ''RangeError'')
      else if \<not> real_date value then invalid
      else Inr value)"

definition canonicalTokenIdentifier :: "prims \<Rightarrow> family \<Rightarrow> string \<Rightarrow> string result" where
  "canonicalTokenIdentifier P family value =
     (case family of
        Evm \<Rightarrow> (case getAddress P value of
            None \<Rightarrow> invalid
          | Some canonical \<Rightarrow> if canonical = zero_evm \<or> canonical \<noteq> value then invalid else Inr canonical)
      | Solana \<Rightarrow> (case solanaAddress P value of None \<Rightarrow> invalid | Some a \<Rightarrow> Inr a)
      | Tron \<Rightarrow> (case tronAddress P value of Inl _ \<Rightarrow> invalid | Inr a \<Rightarrow> Inr a))"

definition canonicalChain :: "prims \<Rightarrow> family \<Rightarrow> string \<Rightarrow> bool" where
  "canonicalChain P family value =
     (case family of
        Evm \<Rightarrow> (case evm_chain_number value of None \<Rightarrow> False | Some n \<Rightarrow> n \<le> MAX_UINT256)
      | Solana \<Rightarrow> (case solana_chain_key value of None \<Rightarrow> False | Some k \<Rightarrow> solanaAddress P k = Some k)
      | Tron \<Rightarrow> tron_chain_text value)"

definition canonicalEvmRecipient :: "prims \<Rightarrow> string \<Rightarrow> string option" where
  "canonicalEvmRecipient P value =
     (case getAddress P value of None \<Rightarrow> None | Some r \<Rightarrow> if r = zero_evm then None else Some r)"

definition validateCaps :: "atomic_caps \<Rightarrow> unit result" where
  "validateCaps value =
     rbind (atomic (maximumPerTransferAtomic value) True) (\<lambda>maximum.
       rbind (atomic (dailyLimitAtomic value) True) (\<lambda>daily.
         if maximum > daily then invalid else Inr ()))"

definition validateRailCaps :: "rail_admission \<Rightarrow> (rail \<times> atomic_caps) list \<Rightarrow> unit result" where
  "validateRailCaps rails value =
     (let admitted = filter (admits rails) all_rails in
      if admitted = [] \<or> \<not> (distinct (map fst value) \<and> set (map fst value) = set admitted) then invalid
      else rall (\<lambda>r. case map_of value r of None \<Rightarrow> invalid | Some c \<Rightarrow> validateCaps c) admitted)"

definition validatePin :: "mechanism option \<Rightarrow> unit result" where
  "validatePin pin =
     (case pin of None \<Rightarrow> Inr ()
      | Some m \<Rightarrow> if \<not> TEXT (provider m) \<or> \<not> TEXT (reference m) then invalid else Inr ())"

definition validateMechanismPins :: "prims \<Rightarrow> mechanism_pins \<Rightarrow> unit result" where
  "validateMechanismPins P value =
     rall id
       [validatePin (pins_gasless value), validatePin (pins_x402 value), validatePin (pins_bridge value),
        case pins_swap value of None \<Rightarrow> Inr ()
        | Some s \<Rightarrow> rbind (validateSwapAdmissionMechanism P s) (\<lambda>_. Inr ())]"

definition validateSwapOptions :: "prims \<Rightarrow> bool \<Rightarrow> swap_admission list \<Rightarrow> swap_admission option \<Rightarrow> unit result" where
  "validateSwapOptions P admitted value single =
     (if \<not> admitted \<or> single \<noteq> None \<or> length value < 2 \<or> length value > MAX_SWAP_ADMISSION_OPTIONS then invalid
      else rbind (rmap (swapRouteDigest P) value) (\<lambda>digests.
        if distinct digests then Inr () else invalid))"

section \<open>Rows, chains, registries\<close>

definition isRecipientPinRail :: "rail \<Rightarrow> bool" where
  "isRecipientPinRail r = (r = Direct \<or> r = X402 \<or> r = Bridge)"

definition rowRecipientPinsValid ::
  "prims \<Rightarrow> (rail \<times> string list) list \<Rightarrow> rail_admission \<Rightarrow> family \<Rightarrow> bool \<Rightarrow> bool" where
  "rowRecipientPinsValid P value rails family bridgeAlternatives \<longleftrightarrow>
     value \<noteq> [] \<and>
     list_all (\<lambda>(rail, pins). isRecipientPinRail rail \<and> admits rails rail \<and>
       \<not> (rail = Bridge \<and> bridgeAlternatives) \<and>
       recipientPinList P pins (if rail = Bridge then None else Some family) \<noteq> None) value"

definition validateBridgeOption :: "prims \<Rightarrow> atomic_caps \<Rightarrow> mechanism_option \<Rightarrow> unit result" where
  "validateBridgeOption P railCap option =
     rbind (require (case opt_recipients option of None \<Rightarrow> True
                     | Some rs \<Rightarrow> recipientPinList P rs None \<noteq> None)) (\<lambda>_.
     rbind (validatePin (Some \<lparr>provider = opt_provider option, reference = opt_reference option\<rparr>)) (\<lambda>_.
     rbind (atomic (opt_maximumPerTransferAtomic option) True) (\<lambda>cap.
       if cap > undec (maximumPerTransferAtomic railCap) then invalid else Inr ())))"

definition pin_of :: "(mechanism_pins \<Rightarrow> 'a option) \<Rightarrow> policy_row \<Rightarrow> 'a option" where
  "pin_of f row = (case row_mechanismPins row of None \<Rightarrow> None | Some p \<Rightarrow> f p)"

definition options_of :: "(mechanism_options \<Rightarrow> 'a option) \<Rightarrow> policy_row \<Rightarrow> 'a option" where
  "options_of f row = (case row_mechanismOptions row of None \<Rightarrow> None | Some p \<Rightarrow> f p)"

definition validateBridgeOptions :: "prims \<Rightarrow> schema \<Rightarrow> policy_row \<Rightarrow> mechanism_option list \<Rightarrow> unit result" where
  "validateBridgeOptions P schema row options =
     (if schema \<noteq> V2 \<or> \<not> bridge (row_rails row) \<or> length options < 2 \<or> length options > 16 \<or>
         pin_of pins_bridge row \<noteq> None then invalid
      else case row_railCaps row of None \<Rightarrow> invalid
      | Some caps \<Rightarrow> (case map_of caps Bridge of None \<Rightarrow> invalid
        | Some cap \<Rightarrow>
            rbind (rall (validateBridgeOption P cap) options) (\<lambda>_.
              require (distinct (map (\<lambda>o'. (opt_provider o', opt_reference o')) options)))))"

definition validateAsset :: "prims \<Rightarrow> family \<Rightarrow> policy_row \<Rightarrow> schema \<Rightarrow> unit result" where
  "validateAsset P family value schema =
     rbind (require ((schema = V2) = (row_railCaps value \<noteq> None) \<and> (schema = V1) = (row_caps value \<noteq> None) \<and>
       (let s = row_symbol value in s \<noteq> [] \<and> length s \<le> 16 \<and> alnum (hd s) \<and>
          list_all (\<lambda>c. alnum c \<or> c \<in> set ''._-'') s) \<and>
       0 \<le> row_decimals value \<and> row_decimals value \<le> 255)) (\<lambda>_.
     rbind (case row_kind value of
         Native \<Rightarrow> require (row_identifier value = None)
       | Token \<Rightarrow> (case row_identifier value of None \<Rightarrow> invalid
           | Some i \<Rightarrow> rbind (canonicalTokenIdentifier P family i) (\<lambda>c. require (c = i)))) (\<lambda>_.
     rbind (case row_railCaps value of
         Some rc \<Rightarrow> validateRailCaps (row_rails value) rc
       | None \<Rightarrow> (case row_caps value of None \<Rightarrow> invalid | Some c \<Rightarrow> validateCaps c)) (\<lambda>_.
     rbind (case row_mechanismPins value of None \<Rightarrow> Inr () | Some p \<Rightarrow> validateMechanismPins P p) (\<lambda>_.
     rbind (case row_gaslessRecipient value of None \<Rightarrow> Inr ()
       | Some g \<Rightarrow> require (family = Evm \<and> gasless (row_rails value) \<and>
           (case pin_of pins_gasless value of None \<Rightarrow> False
            | Some m \<Rightarrow> provider m = ''local'' \<or> provider m = ''coinbase-agentic-wallet'') \<and>
           canonicalEvmRecipient P g = Some g)) (\<lambda>_.
     rbind (case options_of options_swap value of None \<Rightarrow> Inr ()
       | Some os \<Rightarrow> validateSwapOptions P (swap (row_rails value)) os (pin_of pins_swap value)) (\<lambda>_.
     rbind (case row_mechanismOptions value of None \<Rightarrow> Inr ()
       | Some mo \<Rightarrow>
           if options_swap mo \<noteq> None \<and> options_bridge mo = None then Inr ()
           else (case options_bridge mo of None \<Rightarrow> invalid
             | Some bs \<Rightarrow> validateBridgeOptions P schema value bs)) (\<lambda>_.
     rbind (case row_recipients value of None \<Rightarrow> Inr ()
       | Some rs \<Rightarrow> require (rowRecipientPinsValid P rs (row_rails value) family
           (options_of options_bridge value \<noteq> None))) (\<lambda>_.
     require (swap (row_rails value) =
       (pin_of pins_swap value \<noteq> None \<or> options_of options_swap value \<noteq> None))))))))))"

definition validateChain :: "prims \<Rightarrow> schema \<Rightarrow> policy_chain \<Rightarrow> unit result" where
  "validateChain P schema value =
     rbind (require ((let n = chain_name value in n \<noteq> [] \<and> length n \<le> 64 \<and> alnum (hd n) \<and>
         list_all (\<lambda>c. alnum c \<or> c \<in> set '' .()/-'') n) \<and>
       canonicalChain P (chain_family value) (chain_id value) \<and>
       chain_assets value \<noteq> [] \<and> length (chain_assets value) \<le> MAX_ASSETS_PER_CHAIN)) (\<lambda>_.
     rbind (rall (\<lambda>asset.
         rbind (validateAsset P (chain_family value) asset schema) (\<lambda>_.
         rbind (require (row_gaslessRecipient asset = None \<or>
           chain_id value = ''eip155:1'' \<or> chain_id value = ''eip155:8453'')) (\<lambda>_.
         require (\<not> (case pin_of pins_gasless asset of None \<Rightarrow> False
             | Some m \<Rightarrow> provider m = ''coinbase-agentic-wallet'') \<or>
           (chain_id value = ''eip155:8453'' \<and> row_gaslessRecipient asset \<noteq> None))))) (chain_assets value)) (\<lambda>_.
     require (distinct (map (\<lambda>a. (row_kind a, row_identifier a)) (chain_assets value)))))"

definition validateRegistryBody :: "prims \<Rightarrow> policy_registry \<Rightarrow> unit result" where
  "validateRegistryBody P value =
     rbind (require (version_text (reg_registryVersion value) \<and> isIsoInstant (reg_publishedAt value))) (\<lambda>_.
     rbind (calendarDate (reg_effectiveDate value)) (\<lambda>effectiveDate.
     rbind (require (case reg_effectiveAt value of None \<Rightarrow> True
       | Some a \<Rightarrow> isIsoInstant a \<and> day_of a = effectiveDate)) (\<lambda>_.
     rbind (require (case reg_expiresAt value of None \<Rightarrow> True
       | Some e \<Rightarrow> isIsoInstant e \<and>
           (case reg_effectiveAt value of None \<Rightarrow> \<not> day_of e \<le> effectiveDate | Some a \<Rightarrow> \<not> e \<le> a))) (\<lambda>_.
     rbind (require (reg_chains value \<noteq> [] \<and> length (reg_chains value) \<le> MAX_CHAINS)) (\<lambda>_.
     rbind (rall (validateChain P (reg_schemaVersion value)) (reg_chains value)) (\<lambda>_.
     require (distinct (map chain_id (reg_chains value)))))))))"

section \<open>The registry as JSON and its digest\<close>

text \<open>An optional member is absent from the object when it is \<open>None\<close>.\<close>

definition opt_member :: "string \<Rightarrow> jval option \<Rightarrow> (string \<times> jval) list" where
  "opt_member k v = (case v of None \<Rightarrow> [] | Some w \<Rightarrow> [(k, w)])"

fun rail_text :: "rail \<Rightarrow> string" where
  "rail_text Direct = ''direct''"
| "rail_text Gasless = ''gasless''"
| "rail_text X402 = ''x402''"
| "rail_text Bridge = ''bridge''"
| "rail_text Swap = ''swap''"

fun kind_text :: "asset_kind \<Rightarrow> string" where
  "kind_text Native = ''native''"
| "kind_text Token = ''token''"

fun schema_text :: "schema \<Rightarrow> string" where
  "schema_text V1 = ''apn.asset-policy-registry.v1''"
| "schema_text V2 = ''apn.asset-policy-registry.v2''"

definition nullable :: "string option \<Rightarrow> jval" where
  "nullable v = (case v of None \<Rightarrow> JNull | Some s \<Rightarrow> JStr s)"

definition rails_json :: "rail_admission \<Rightarrow> jval" where
  "rails_json r = JObj (map (\<lambda>x. (rail_text x, JBool (admits r x))) all_rails)"

definition caps_json :: "atomic_caps \<Rightarrow> jval" where
  "caps_json c = JObj [(''maximumPerTransferAtomic'', JStr (maximumPerTransferAtomic c)),
     (''dailyLimitAtomic'', JStr (dailyLimitAtomic c))]"

definition mechanism_json :: "mechanism \<Rightarrow> jval" where
  "mechanism_json m = JObj [(''provider'', JStr (provider m)), (''reference'', JStr (reference m))]"

definition admission_json :: "swap_admission \<Rightarrow> jval" where
  "admission_json s = (case s of LegacyPin p \<Rightarrow> pin_json p
     | Route r \<Rightarrow> JObj [(''schemaVersion'', JStr SWAP_ROUTE_SCHEMA),
         (''protocolFamily'', JStr (protocol_text (route_protocolFamily r))),
         (''chain'', JStr (route_chain r)),
         (''routerProgramIdentity'', JStr (route_routerProgramIdentity r)),
         (''auxiliaryContractProgramIdentities'', JArr (map JStr (route_auxiliary r)))])"

definition pins_json :: "mechanism_pins \<Rightarrow> jval" where
  "pins_json p = JObj (opt_member ''gasless'' (map_option mechanism_json (pins_gasless p)) @
     opt_member ''x402'' (map_option mechanism_json (pins_x402 p)) @
     opt_member ''bridge'' (map_option mechanism_json (pins_bridge p)) @
     opt_member ''swap'' (map_option admission_json (pins_swap p)))"

definition option_json :: "mechanism_option \<Rightarrow> jval" where
  "option_json m = JObj ([(''provider'', JStr (opt_provider m)), (''reference'', JStr (opt_reference m)),
     (''maximumPerTransferAtomic'', JStr (opt_maximumPerTransferAtomic m))] @
     opt_member ''recipients'' (map_option (\<lambda>rs. JArr (map JStr rs)) (opt_recipients m)))"

definition options_json :: "mechanism_options \<Rightarrow> jval" where
  "options_json p = JObj (opt_member ''bridge'' (map_option (\<lambda>os. JArr (map option_json os)) (options_bridge p)) @
     opt_member ''swap'' (map_option (\<lambda>os. JArr (map admission_json os)) (options_swap p)))"

definition row_json :: "policy_row \<Rightarrow> jval" where
  "row_json r = JObj ([(''kind'', JStr (kind_text (row_kind r))), (''identifier'', nullable (row_identifier r)),
     (''symbol'', JStr (row_symbol r)), (''decimals'', JNum (row_decimals r)), (''rails'', rails_json (row_rails r))] @
     opt_member ''caps'' (map_option caps_json (row_caps r)) @
     opt_member ''railCaps'' (map_option (\<lambda>cs. JObj (map (\<lambda>(k, c). (rail_text k, caps_json c)) cs)) (row_railCaps r)) @
     opt_member ''mechanismPins'' (map_option pins_json (row_mechanismPins r)) @
     opt_member ''mechanismOptions'' (map_option options_json (row_mechanismOptions r)) @
     opt_member ''gaslessRecipient'' (map_option JStr (row_gaslessRecipient r)) @
     opt_member ''recipients'' (map_option (\<lambda>rs. JObj (map (\<lambda>(k, ps). (rail_text k, JArr (map JStr ps))) rs)) (row_recipients r)))"

definition chain_json :: "policy_chain \<Rightarrow> jval" where
  "chain_json c = JObj [(''chain'', JStr (chain_id c)), (''family'', JStr (network_text (chain_family c))),
     (''name'', JStr (chain_name c)), (''assets'', JArr (map row_json (chain_assets c)))]"

definition registry_body_json :: "policy_registry \<Rightarrow> jval" where
  "registry_body_json v = JObj ([(''schemaVersion'', JStr (schema_text (reg_schemaVersion v))),
     (''registryVersion'', JStr (reg_registryVersion v)), (''publishedAt'', JStr (reg_publishedAt v)),
     (''effectiveDate'', JStr (reg_effectiveDate v))] @
     opt_member ''effectiveAt'' (map_option JStr (reg_effectiveAt v)) @
     opt_member ''expiresAt'' (map_option JStr (reg_expiresAt v)) @
     [(''chains'', JArr (map chain_json (reg_chains v)))])"

definition assetPolicyDigest :: "prims \<Rightarrow> policy_registry \<Rightarrow> string result" where
  "assetPolicyDigest P value =
     rbind (validateRegistryBody P value) (\<lambda>_.
     rbind (canonicalJson (registry_body_json value)) (\<lambda>t.
       Inr (domainHash (sha P) (schema_text (reg_schemaVersion value)) t)))"

definition validateAssetPolicyRegistry :: "prims \<Rightarrow> policy_registry \<Rightarrow> policy_registry result" where
  "validateAssetPolicyRegistry P value =
     rbind (validateRegistryBody P value) (\<lambda>_.
     rbind (canonicalJson (registry_body_json value)) (\<lambda>t.
       if \<not> hash_text (reg_policyDigest value) \<or>
          domainHash (sha P) (schema_text (reg_schemaVersion value)) t \<noteq> reg_policyDigest value
       then invalid else Inr value))"

definition sealAssetPolicyRegistry :: "prims \<Rightarrow> policy_registry \<Rightarrow> policy_registry result" where
  "sealAssetPolicyRegistry P value =
     rbind (assetPolicyDigest P value) (\<lambda>d. validateAssetPolicyRegistry P (value\<lparr>reg_policyDigest := d\<rparr>))"

section \<open>Evaluation\<close>

definition find_option :: "mechanism_option list \<Rightarrow> mechanism \<Rightarrow> mechanism_option option" where
  "find_option options m =
     find (\<lambda>option. opt_provider option = provider m \<and> opt_reference option = reference m) options"

definition validateEvaluationInput :: "evaluation_input \<Rightarrow> unit result" where
  "validateEvaluationInput value =
     require (ref_kind (in_asset value) = Native \<longleftrightarrow> ref_identifier (in_asset value) = None)"

definition effective_window :: "policy_registry \<Rightarrow> evaluation_input \<Rightarrow> string \<Rightarrow> unit result" where
  "effective_window registry input asOfDate =
     (if reg_effectiveAt registry \<noteq> None \<or> reg_expiresAt registry \<noteq> None then
        (case in_asOf input of None \<Rightarrow> invalid
         | Some at \<Rightarrow>
             if \<not> isIsoInstant at \<or> day_of at \<noteq> asOfDate then invalid
             else if (case reg_effectiveAt registry of None \<Rightarrow> False | Some e \<Rightarrow> at < e) then denied
             else if (case reg_expiresAt registry of None \<Rightarrow> False | Some e \<Rightarrow> \<not> at < e) then denied
             else Inr ())
      else Inr ())"

definition find_row :: "policy_chain \<Rightarrow> asset_kind \<Rightarrow> string option \<Rightarrow> policy_row option" where
  "find_row chain kind identifier =
     find (\<lambda>row. row_kind row = kind \<and> row_identifier row = identifier) (chain_assets chain)"

definition applied_caps :: "schema \<Rightarrow> policy_row \<Rightarrow> rail \<Rightarrow> atomic_caps option" where
  "applied_caps schema asset rail =
     (if schema = V2 then (case row_railCaps asset of None \<Rightarrow> None | Some cs \<Rightarrow> map_of cs rail)
      else row_caps asset)"

text \<open>The alternative the operation names, when the row has bridge alternatives.\<close>

definition selected_option :: "policy_row \<Rightarrow> rail \<Rightarrow> mechanism option \<Rightarrow> mechanism_option option result" where
  "selected_option asset rail m =
     (case options_of options_bridge asset of
        None \<Rightarrow> Inr None
      | Some options \<Rightarrow>
          if rail \<noteq> Bridge then Inr None
          else (case m of None \<Rightarrow> denied
            | Some mech \<Rightarrow> (case find_option options mech of None \<Rightarrow> denied | Some o' \<Rightarrow> Inr (Some o'))))"

definition identity_text :: "prims \<Rightarrow> policy_chain \<Rightarrow> asset_ref \<Rightarrow> string option result" where
  "identity_text P chain asset =
     (case ref_identifier asset of
        None \<Rightarrow> Inr None
      | Some i \<Rightarrow> if ref_kind asset = Native then Inr None
          else rbind (canonicalTokenIdentifier P (chain_family chain) i) (\<lambda>c. Inr (Some c)))"

text \<open>The evaluation against a registry that has been validated.\<close>

definition evaluate_validated :: "prims \<Rightarrow> policy_registry \<Rightarrow> evaluation_input \<Rightarrow> policy_admission result" where
  "evaluate_validated P registry input =
     rbind (validateEvaluationInput input) (\<lambda>_.
     rbind (calendarDate (in_asOfDate input)) (\<lambda>asOfDate.
     if asOfDate < reg_effectiveDate registry then denied else
     rbind (effective_window registry input asOfDate) (\<lambda>_.
     case find (\<lambda>row. chain_id row = in_chain input) (reg_chains registry) of
       None \<Rightarrow> denied
     | Some chain \<Rightarrow>
     rbind (identity_text P chain (in_asset input)) (\<lambda>identifier.
     case find_row chain (ref_kind (in_asset input)) identifier of
       None \<Rightarrow> denied
     | Some asset \<Rightarrow>
     if \<not> admits (row_rails asset) (in_rail input) then denied else
     (case applied_caps (reg_schemaVersion registry) asset (in_rail input) of
       None \<Rightarrow> invalid
     | Some caps \<Rightarrow>
     rbind (atomic (in_amountAtomic input) True) (\<lambda>amount.
     rbind (atomic (in_dailyUsageAtomic input) False) (\<lambda>usage.
     rbind (selected_option asset (in_rail input) (in_mechanism input)) (\<lambda>selected.
     (let perTransferText = (case selected of None \<Rightarrow> maximumPerTransferAtomic caps
                             | Some o' \<Rightarrow> opt_maximumPerTransferAtomic o');
          perTransfer = undec perTransferText;
          dailyLimit = undec (dailyLimitAtomic caps) in
      if amount > perTransfer then denied
      else if usage > dailyLimit \<or> usage + amount > dailyLimit then denied
      else Inr \<lparr>adm_policyDigest = reg_policyDigest registry,
                adm_registryVersion = reg_registryVersion registry,
                adm_effectiveDate = reg_effectiveDate registry,
                adm_chain = chain_id chain,
                adm_family = chain_family chain,
                adm_asset = asset,
                adm_rail = in_rail input,
                adm_caps = \<lparr>maximumPerTransferAtomic = perTransferText,
                            dailyLimitAtomic = dailyLimitAtomic caps\<rparr>,
                adm_amountAtomic = dec amount,
                adm_dailyUsageAtomic = dec usage,
                adm_dailyRemainingAtomic = dec (dailyLimit - usage - amount)\<rparr>)))))))))"

definition evaluateAssetPolicy :: "prims \<Rightarrow> policy_registry \<Rightarrow> evaluation_input \<Rightarrow> policy_admission result" where
  "evaluateAssetPolicy P registryValue input =
     rbind (validateAssetPolicyRegistry P registryValue) (\<lambda>registry. evaluate_validated P registry input)"

definition bridgeMechanismAdmitted :: "policy_admission \<Rightarrow> mechanism \<Rightarrow> bool" where
  "bridgeMechanismAdmitted admission mech =
     (if adm_rail admission \<noteq> Bridge then False
      else case options_of options_bridge (adm_asset admission) of
        Some options \<Rightarrow> list_ex (\<lambda>o'. opt_provider o' = provider mech \<and> opt_reference o' = reference mech) options
      | None \<Rightarrow> (case pin_of pins_bridge (adm_asset admission) of None \<Rightarrow> False
          | Some pin \<Rightarrow> provider pin = provider mech \<and> reference pin = reference mech))"

section \<open>Recipient pins of an admission\<close>

definition admittedRecipientPins :: "policy_admission \<Rightarrow> mechanism option \<Rightarrow> string list option result" where
  "admittedRecipientPins admission mech =
     (if \<not> isRecipientPinRail (adm_rail admission) then Inr None
      else let options = (if adm_rail admission = Bridge then options_of options_bridge (adm_asset admission) else None) in
        case options of
          None \<Rightarrow> Inr (case row_recipients (adm_asset admission) of None \<Rightarrow> None
                       | Some rs \<Rightarrow> map_of rs (adm_rail admission))
        | Some os \<Rightarrow>
            (case (case mech of None \<Rightarrow> None | Some m \<Rightarrow> find_option os m) of
               None \<Rightarrow> Inl (ApnError APN_ALLOWLIST_REFUSED (Some ''allowlist_recipient_mechanism_required''))
             | Some selected \<Rightarrow> Inr (opt_recipients selected)))"

definition recipientAdmitted :: "prims \<Rightarrow> policy_admission \<Rightarrow> mechanism option \<Rightarrow> string \<Rightarrow> bool result" where
  "recipientAdmitted P admission mech recipient =
     rbind (admittedRecipientPins admission mech) (\<lambda>pins.
       case pins of None \<Rightarrow> Inr True
       | Some ps \<Rightarrow> Inr (case canonicalRecipient P recipient of None \<Rightarrow> False | Some (_, a) \<Rightarrow> a \<in> set ps))"

definition assertRecipientAdmitted :: "prims \<Rightarrow> policy_admission \<Rightarrow> mechanism option \<Rightarrow> string \<Rightarrow> unit result" where
  "assertRecipientAdmitted P admission mech recipient =
     rbind (recipientAdmitted P admission mech recipient) (\<lambda>ok.
       if ok then Inr ()
       else Inl (ApnError APN_ALLOWLIST_REFUSED (Some ''allowlist_recipient_not_admitted'')))"

section \<open>What an admission guarantees\<close>

lemma denied_not_Inr [simp]: "denied \<noteq> Inr x" "invalid \<noteq> Inr x"
  by (simp_all add: denied_def invalid_def)

lemma atomic_Inr: "atomic v p = Inr n \<longleftrightarrow> v = dec n \<and> (p \<longrightarrow> 0 < n) \<and> n \<le> MAX_UINT256 \<and> length v \<le> 78"
  by (auto simp: atomic_def parseAtomic_Inr_iff split: if_splits sum.splits dest: parseAtomic_InrD)

lemma atomic_dec: "length (dec n) \<le> 78 \<Longrightarrow> n \<le> MAX_UINT256 \<Longrightarrow> (p \<longrightarrow> 0 < n) \<Longrightarrow> atomic (dec n) p = Inr n"
  by (simp add: atomic_Inr)

lemma validateCaps_InrD:
  assumes "validateCaps c = Inr u"
  shows "\<exists>m d. maximumPerTransferAtomic c = dec m \<and> dailyLimitAtomic c = dec d \<and> 0 < m \<and> m \<le> d \<and> d \<le> MAX_UINT256"
proof -
  from assms obtain m d where
    "atomic (maximumPerTransferAtomic c) True = Inr m" "atomic (dailyLimitAtomic c) True = Inr d" "\<not> d < m"
    by (auto simp: validateCaps_def split: if_splits)
  then show ?thesis by (intro exI [of _ m] exI [of _ d]) (simp add: atomic_Inr)
qed

lemma validateRailCaps_InrD:
  assumes "validateRailCaps rails cs = Inr u" "map_of cs r = Some c"
  shows "validateCaps c = Inr () \<and> admits rails r"
proof -
  from assms(2) have "r \<in> set (map fst cs)" by (force dest: map_of_SomeD)
  with assms have "r \<in> set (filter (admits rails) all_rails)"
    by (auto simp: validateRailCaps_def Let_def split: if_splits)
  with assms show ?thesis
    by (auto simp: validateRailCaps_def Let_def split: if_splits)
qed

text \<open>The checks of a row, and of a registry, that an evaluation rests on.\<close>

lemma validateAsset_InrD:
  assumes "validateAsset P family row sch = Inr u"
  shows "row_railCaps row \<noteq> None \<longleftrightarrow> sch = V2" "row_caps row \<noteq> None \<longleftrightarrow> sch = V1"
    "row_railCaps row = Some rc \<Longrightarrow> validateRailCaps (row_rails row) rc = Inr ()"
    "row_caps row = Some c \<Longrightarrow> sch = V1 \<Longrightarrow> validateCaps c = Inr ()"
    "row_kind row = Native \<longleftrightarrow> row_identifier row = None"
    "options_of options_bridge row = Some bs \<Longrightarrow> validateBridgeOptions P sch row bs = Inr ()"
    "row_recipients row = Some rs \<Longrightarrow>
       rowRecipientPinsValid P rs (row_rails row) family (options_of options_bridge row \<noteq> None)"
  using assms
  by (auto simp: validateAsset_def options_of_def invalid_def split: asset_kind.splits option.splits if_splits)

lemma validateRegistry_row:
  assumes "validateAssetPolicyRegistry P reg = Inr reg'" "chain \<in> set (reg_chains reg)" "row \<in> set (chain_assets chain)"
  shows "validateAsset P (chain_family chain) row (reg_schemaVersion reg) = Inr ()" "reg' = reg"
  using assms
  by (auto simp: validateAssetPolicyRegistry_def validateRegistryBody_def validateChain_def split: if_splits)

text \<open>Every cap pair that an evaluation applies is a checked one.\<close>

lemma applied_caps_valid:
  assumes "validateAsset P family row sch = Inr u" "applied_caps sch row rail = Some c"
  shows "validateCaps c = Inr ()"
  using assms(2) validateAsset_InrD [OF assms(1)] validateRailCaps_InrD
  by (cases sch) (auto simp: applied_caps_def split: option.splits)

text \<open>The facts an admission carries, in one place.\<close>

lemma evaluateAssetPolicy_InrD:
  assumes "evaluateAssetPolicy P reg input = Inr adm"
  obtains chain asset caps sel ident where
    "validateAssetPolicyRegistry P reg = Inr reg"
    "chain \<in> set (reg_chains reg)" "chain_id chain = in_chain input"
    "identity_text P chain (in_asset input) = Inr ident"
    "asset \<in> set (chain_assets chain)" "row_kind asset = ref_kind (in_asset input)" "row_identifier asset = ident"
    "admits (row_rails asset) (in_rail input)"
    "applied_caps (reg_schemaVersion reg) asset (in_rail input) = Some caps"
    "selected_option asset (in_rail input) (in_mechanism input) = Inr sel"
    "adm_policyDigest adm = reg_policyDigest reg" "adm_registryVersion adm = reg_registryVersion reg"
    "adm_chain adm = chain_id chain" "adm_family adm = chain_family chain" "adm_asset adm = asset"
    "adm_rail adm = in_rail input"
    "maximumPerTransferAtomic (adm_caps adm) =
       (case sel of None \<Rightarrow> maximumPerTransferAtomic caps | Some o' \<Rightarrow> opt_maximumPerTransferAtomic o')"
    "dailyLimitAtomic (adm_caps adm) = dailyLimitAtomic caps"
    "adm_amountAtomic adm = in_amountAtomic input" "adm_dailyUsageAtomic adm = in_dailyUsageAtomic input"
    "in_amountAtomic input = dec (undec (in_amountAtomic input))" "0 < undec (in_amountAtomic input)"
    "in_dailyUsageAtomic input = dec (undec (in_dailyUsageAtomic input))"
    "undec (in_amountAtomic input) \<le> undec (maximumPerTransferAtomic (adm_caps adm))"
    "undec (in_dailyUsageAtomic input) + undec (in_amountAtomic input) \<le> undec (dailyLimitAtomic caps)"
    "adm_dailyRemainingAtomic adm =
       dec (undec (dailyLimitAtomic caps) - undec (in_dailyUsageAtomic input) - undec (in_amountAtomic input))"
proof -
  have reg: "reg' = reg" if "validateAssetPolicyRegistry P reg = Inr reg'" for reg'
    using that by (auto simp: validateAssetPolicyRegistry_def split: if_splits)
  from assms obtain chain asset caps sel ident amount usage date where
    v: "validateAssetPolicyRegistry P reg = Inr reg"
    and c: "find (\<lambda>row. chain_id row = in_chain input) (reg_chains reg) = Some chain"
    and i: "identity_text P chain (in_asset input) = Inr ident"
    and a: "find_row chain (ref_kind (in_asset input)) ident = Some asset"
    and r: "admits (row_rails asset) (in_rail input)"
    and cap: "applied_caps (reg_schemaVersion reg) asset (in_rail input) = Some caps"
    and am: "atomic (in_amountAtomic input) True = Inr amount"
    and us: "atomic (in_dailyUsageAtomic input) False = Inr usage"
    and s: "selected_option asset (in_rail input) (in_mechanism input) = Inr sel"
    and bounds: "amount \<le> undec (case sel of None \<Rightarrow> maximumPerTransferAtomic caps | Some o' \<Rightarrow> opt_maximumPerTransferAtomic o')"
      "usage + amount \<le> undec (dailyLimitAtomic caps)"
    and adm: "adm = \<lparr>adm_policyDigest = reg_policyDigest reg, adm_registryVersion = reg_registryVersion reg,
        adm_effectiveDate = reg_effectiveDate reg, adm_chain = chain_id chain, adm_family = chain_family chain,
        adm_asset = asset, adm_rail = in_rail input,
        adm_caps = \<lparr>maximumPerTransferAtomic = (case sel of None \<Rightarrow> maximumPerTransferAtomic caps
            | Some o' \<Rightarrow> opt_maximumPerTransferAtomic o'), dailyLimitAtomic = dailyLimitAtomic caps\<rparr>,
        adm_amountAtomic = dec amount, adm_dailyUsageAtomic = dec usage,
        adm_dailyRemainingAtomic = dec (undec (dailyLimitAtomic caps) - usage - amount)\<rparr>"
    unfolding evaluateAssetPolicy_def evaluate_validated_def Let_def rbind_eq_Inr
    using reg by (fastforce split: if_splits option.splits)
  from c have chain: "chain \<in> set (reg_chains reg)" "chain_id chain = in_chain input" by (auto dest: find_SomeD)
  from a have asset: "asset \<in> set (chain_assets chain)" "row_kind asset = ref_kind (in_asset input)"
    "row_identifier asset = ident" by (auto simp: find_row_def dest: find_SomeD)
  from am us have n: "in_amountAtomic input = dec amount" "0 < amount" "in_dailyUsageAtomic input = dec usage"
    by (simp_all add: atomic_Inr)
  show thesis using bounds n by (intro that [OF v chain i asset r cap s]) (simp_all add: adm)
qed

end
