(* ===== verification/UsageRecord.thy ===== *)
theory UsageRecord
  imports AssetPolicy
begin

text \<open>
  One reservation of the common usage ledger: \<^verbatim>\<open>src/src/asset-usage-ledger-types.ts\<close>, the record
  codec and accounting of \<^verbatim>\<open>src/src/asset-usage-ledger-record.ts\<close>, the stored check of the
  historical native hold (\<^verbatim>\<open>src/src/legacy/cleanup85-native-records.ts\<close>) and the projection of
  historical retirements (\<^verbatim>\<open>historicalRetirementUsage\<close> in
  \<^verbatim>\<open>src/src/legacy/jupiter-historical-retirement/record.ts\<close>).
\<close>

section \<open>Data\<close>

datatype usage_state = Reserved | Submitted | UnknownFinality | Finalized | FailedBeforeEffect
  | ReleasedUnsubmitted | FailedConfirmedRevert

record usage_identity =
  id_account :: string
  id_chain :: string
  id_asset :: asset_ref

record mm_marker =
  mm_operationId :: string
  mm_quoteHash :: string

record mm_fee =
  mmf_kind :: string
  mmf_operationId :: string
  mmf_quoteHash :: string
  mmf_receiptHash :: string
  mmf_actualFee :: string
  mmf_reservedFee :: string

record merchant_fee =
  mf_kind :: string
  mf_operationId :: string
  mf_fingerprint :: string
  mf_receiptHash :: string
  mf_actualFee :: string
  mf_reservedFee :: string

record cleanup_marker =
  cm_version :: string
  cm_operationId :: string
  cm_fingerprint :: string
  cm_requestBinding :: string
  cm_envelopeHash :: string
  cm_signedMaximumDebitAtomic :: string
  cm_reservedAtomic :: string
  cm_policyDigest :: string
  cm_activationDigest :: string

record cleanup_actual =
  ca_kind :: string
  ca_operationId :: string
  ca_fingerprint :: string
  ca_requestBinding :: string
  ca_transactionHash :: string
  ca_receiptHash :: string
  ca_blockHash :: string
  ca_blockNumberAtomic :: string
  ca_actualFeeAtomic :: string
  ca_nativeConsumedAtomic :: string
  ca_reservedAtomic :: string
  ca_nativeReservationId :: string
  ca_policyDigest :: string
  ca_outcomeDigest :: string

record usage_reservation =
  res_reservationId :: string
  res_idempotencyHash :: string
  res_policyDigest :: string
  res_registryVersion :: string
  res_identity :: usage_identity
  usage_rail :: rail
  res_amountAtomic :: string
  res_consumedAtomic :: "string option"
  res_merchantNativeActualFee :: "merchant_fee option"
  res_metamaskNativeReservation :: "mm_marker option"
  res_metamaskNativeActualFee :: "mm_fee option"
  res_cleanup85NativeReservation :: "cleanup_marker option"
  res_cleanup85NativeActual :: "cleanup_actual option"
  res_state :: usage_state
  res_reservedAt :: string
  res_updatedAt :: string
  res_effectAt :: "string option"
  res_outcomeDigest :: "string option"
  res_reservationDigest :: string

definition ASSET_USAGE_RESERVATION_SCHEMA :: string where
  "ASSET_USAGE_RESERVATION_SCHEMA = ''apn.asset-usage-reservation.v1''"

definition blocked :: "'a result" where
  "blocked = Inl (ApnError APN_OPERATION_BLOCKED None)"

definition corrupt :: "'a result" where
  "corrupt = Inl (ApnError APN_STATE_CORRUPT None)"

definition failure :: "bool \<Rightarrow> 'a result" where
  "failure stored = (if stored then corrupt else invalid)"

lemma failure_not_Inr [simp]: "failure b \<noteq> Inr x" "corrupt \<noteq> Inr x" "blocked \<noteq> Inr x"
  by (simp_all add: failure_def corrupt_def blocked_def invalid_def)

text \<open>A stored check throws \<^verbatim>\<open>APN_STATE_CORRUPT\<close>.\<close>

definition check :: "bool \<Rightarrow> unit result" where
  "check c = (if c then Inr () else corrupt)"

lemma check_Inr [simp]: "check c = Inr u \<longleftrightarrow> c"
  by (simp add: check_def)

section \<open>Leaf checks\<close>

definition usage_atomic :: "string \<Rightarrow> bool \<Rightarrow> bool \<Rightarrow> nat result" where
  "usage_atomic value positive stored =
     (case parseAtomic (JStr value) positive of
        Inl _ \<Rightarrow> failure stored
      | Inr parsed \<Rightarrow> if parsed > MAX_UINT256 then failure stored else Inr parsed)"

definition instant :: "jsdate \<Rightarrow> string result" where
  "instant value = (case value of None \<Rightarrow> invalid | Some t \<Rightarrow> Inr t)"

definition storedInstant :: "string \<Rightarrow> string result" where
  "storedInstant value = (if \<not> isIsoInstant value then corrupt else Inr value)"

definition digest_of :: "string \<Rightarrow> bool \<Rightarrow> string result" where
  "digest_of value stored = (if \<not> hash_text value then failure stored else Inr value)"

text \<open>\<^verbatim>\<open>[^\x21-\x7e]\<close> excludes everything but the visible ASCII characters.\<close>

definition idempotency :: "prims \<Rightarrow> string \<Rightarrow> string result" where
  "idempotency P value =
     (if length value < 8 \<or> length value > 256 \<or> list_ex (\<lambda>c. c < CHR ''!'' \<or> CHR ''~'' < c) value then invalid
      else Inr (sha256 (sha P) (''asset-usage-idempotency'' @ [CHR 0x00] @ value)))"

definition canonicalAccount :: "prims \<Rightarrow> string \<Rightarrow> string \<Rightarrow> bool \<Rightarrow> string result" where
  "canonicalAccount P chain value stored =
     (case evm_chain_number chain of
        Some n \<Rightarrow> if n \<le> MAX_UINT256 then
            (case getAddress P value of None \<Rightarrow> failure stored
             | Some canonical \<Rightarrow> if canonical = zero_evm \<or> canonical \<noteq> value then failure stored else Inr canonical)
          else failure stored
      | None \<Rightarrow> (case solana_chain_key chain of
        Some k \<Rightarrow> if solanaAddress P k = Some k then
            (case solanaAddress P value of None \<Rightarrow> failure stored
             | Some canonical \<Rightarrow> if canonical \<noteq> value then failure stored else Inr canonical)
          else failure stored
      | None \<Rightarrow> if tron_chain_text chain then
            (case tronAddress P value of Inl _ \<Rightarrow> failure stored
             | Inr canonical \<Rightarrow> if canonical \<noteq> value then failure stored else Inr canonical)
          else failure stored))"

definition canonicalToken :: "prims \<Rightarrow> string \<Rightarrow> string \<Rightarrow> bool \<Rightarrow> string result" where
  "canonicalToken P chain value stored =
     (if evm_chain_number chain \<noteq> None then
        (case getAddress P value of None \<Rightarrow> failure stored
         | Some canonical \<Rightarrow> if canonical = zero_evm \<or> canonical \<noteq> value then failure stored else Inr canonical)
      else if solana_chain_key chain \<noteq> None then
        (case solanaAddress P value of None \<Rightarrow> failure stored
         | Some canonical \<Rightarrow> if canonical \<noteq> value then failure stored else Inr canonical)
      else if tron_chain_text chain then
        (case tronAddress P value of Inl _ \<Rightarrow> failure stored
         | Inr canonical \<Rightarrow> if canonical \<noteq> value then failure stored else Inr canonical)
      else failure stored)"

definition validateIdentity :: "prims \<Rightarrow> usage_identity \<Rightarrow> bool \<Rightarrow> usage_identity result" where
  "validateIdentity P value stored =
     (if id_chain value = [] \<or> length (id_chain value) > 128 then failure stored
      else rbind (canonicalAccount P (id_chain value) (id_account value) stored) (\<lambda>acct.
        case ref_kind (id_asset value) of
          Native \<Rightarrow> (case ref_identifier (id_asset value) of
              Some _ \<Rightarrow> failure stored
            | None \<Rightarrow> Inr \<lparr>id_account = acct, id_chain = id_chain value, id_asset = \<lparr>ref_kind = Native, ref_identifier = None\<rparr>\<rparr>)
        | Token \<Rightarrow> (case ref_identifier (id_asset value) of
              None \<Rightarrow> failure stored
            | Some i \<Rightarrow> if i = [] \<or> length i > 128 then failure stored
                else rbind (canonicalToken P (id_chain value) i stored) (\<lambda>t.
                  Inr \<lparr>id_account = acct, id_chain = id_chain value, id_asset = \<lparr>ref_kind = Token, ref_identifier = Some t\<rparr>\<rparr>))))"

definition asset_json :: "asset_ref \<Rightarrow> jval" where
  "asset_json a = JObj [(''kind'', JStr (kind_text (ref_kind a))), (''identifier'', nullable (ref_identifier a))]"

definition identity_members :: "usage_identity \<Rightarrow> (string \<times> jval) list" where
  "identity_members i = [(''account'', JStr (id_account i)), (''chain'', JStr (id_chain i)), (''asset'', asset_json (id_asset i))]"

definition reservationIdFor :: "prims \<Rightarrow> usage_identity \<Rightarrow> string \<Rightarrow> string result" where
  "reservationIdFor P i idem =
     rbind (canonicalJson (JObj (identity_members i @ [(''idempotencyHash'', JStr idem)]))) (\<lambda>t.
       Inr (domainHash (sha P) ASSET_USAGE_RESERVATION_SCHEMA t))"

definition assetUsageReservationId :: "prims \<Rightarrow> usage_identity \<Rightarrow> string \<Rightarrow> string result" where
  "assetUsageReservationId P identityValue idempotencyKey =
     rbind (validateIdentity P identityValue False) (\<lambda>i.
     rbind (idempotency P idempotencyKey) (\<lambda>h. reservationIdFor P i h))"

section \<open>The record as JSON\<close>

fun usage_state_text :: "usage_state \<Rightarrow> string" where
  "usage_state_text Reserved = ''reserved''"
| "usage_state_text Submitted = ''submitted''"
| "usage_state_text UnknownFinality = ''unknown_finality''"
| "usage_state_text Finalized = ''finalized''"
| "usage_state_text FailedBeforeEffect = ''failed_before_effect''"
| "usage_state_text ReleasedUnsubmitted = ''released_unsubmitted''"
| "usage_state_text FailedConfirmedRevert = ''failed_confirmed_revert''"

definition mm_marker_json :: "mm_marker \<Rightarrow> jval" where
  "mm_marker_json m = JObj [(''operationId'', JStr (mm_operationId m)), (''quoteHash'', JStr (mm_quoteHash m))]"

definition mm_fee_json :: "mm_fee \<Rightarrow> jval" where
  "mm_fee_json p = JObj [(''kind'', JStr (mmf_kind p)), (''operationId'', JStr (mmf_operationId p)),
     (''quoteHash'', JStr (mmf_quoteHash p)), (''receiptHash'', JStr (mmf_receiptHash p)),
     (''actualFee'', JStr (mmf_actualFee p)), (''reservedFee'', JStr (mmf_reservedFee p))]"

definition merchant_fee_json :: "merchant_fee \<Rightarrow> jval" where
  "merchant_fee_json p = JObj [(''kind'', JStr (mf_kind p)), (''operationId'', JStr (mf_operationId p)),
     (''fingerprint'', JStr (mf_fingerprint p)), (''receiptHash'', JStr (mf_receiptHash p)),
     (''actualFee'', JStr (mf_actualFee p)), (''reservedFee'', JStr (mf_reservedFee p))]"

definition cleanup_marker_json :: "cleanup_marker \<Rightarrow> jval" where
  "cleanup_marker_json m = JObj [(''version'', JStr (cm_version m)), (''operationId'', JStr (cm_operationId m)),
     (''fingerprint'', JStr (cm_fingerprint m)), (''requestBinding'', JStr (cm_requestBinding m)),
     (''envelopeHash'', JStr (cm_envelopeHash m)), (''signedMaximumDebitAtomic'', JStr (cm_signedMaximumDebitAtomic m)),
     (''reservedAtomic'', JStr (cm_reservedAtomic m)), (''policyDigest'', JStr (cm_policyDigest m)),
     (''activationDigest'', JStr (cm_activationDigest m))]"

definition cleanup_actual_members :: "cleanup_actual \<Rightarrow> (string \<times> jval) list" where
  "cleanup_actual_members p = [(''kind'', JStr (ca_kind p)), (''operationId'', JStr (ca_operationId p)),
     (''fingerprint'', JStr (ca_fingerprint p)), (''requestBinding'', JStr (ca_requestBinding p)),
     (''transactionHash'', JStr (ca_transactionHash p)), (''receiptHash'', JStr (ca_receiptHash p)),
     (''blockHash'', JStr (ca_blockHash p)), (''blockNumberAtomic'', JStr (ca_blockNumberAtomic p)),
     (''actualFeeAtomic'', JStr (ca_actualFeeAtomic p)), (''nativeConsumedAtomic'', JStr (ca_nativeConsumedAtomic p)),
     (''reservedAtomic'', JStr (ca_reservedAtomic p)), (''nativeReservationId'', JStr (ca_nativeReservationId p)),
     (''policyDigest'', JStr (ca_policyDigest p))]"

definition cleanup_actual_json :: "cleanup_actual \<Rightarrow> jval" where
  "cleanup_actual_json p = JObj (cleanup_actual_members p @ [(''outcomeDigest'', JStr (ca_outcomeDigest p))])"

definition reservation_body_json :: "usage_reservation \<Rightarrow> jval" where
  "reservation_body_json v = JObj ([(''schemaVersion'', JStr ASSET_USAGE_RESERVATION_SCHEMA),
     (''reservationId'', JStr (res_reservationId v)), (''idempotencyHash'', JStr (res_idempotencyHash v)),
     (''policyDigest'', JStr (res_policyDigest v)), (''registryVersion'', JStr (res_registryVersion v))] @
     identity_members (res_identity v) @
     [(''rail'', JStr (rail_text (usage_rail v))), (''amountAtomic'', JStr (res_amountAtomic v))] @
     opt_member ''consumedAtomic'' (map_option JStr (res_consumedAtomic v)) @
     opt_member ''merchantNativeActualFee'' (map_option merchant_fee_json (res_merchantNativeActualFee v)) @
     opt_member ''metamaskNativeReservation'' (map_option mm_marker_json (res_metamaskNativeReservation v)) @
     opt_member ''metamaskNativeActualFee'' (map_option mm_fee_json (res_metamaskNativeActualFee v)) @
     opt_member ''cleanup85NativeReservation'' (map_option cleanup_marker_json (res_cleanup85NativeReservation v)) @
     opt_member ''cleanup85NativeActual'' (map_option cleanup_actual_json (res_cleanup85NativeActual v)) @
     [(''state'', JStr (usage_state_text (res_state v))), (''reservedAt'', JStr (res_reservedAt v)),
      (''updatedAt'', JStr (res_updatedAt v)), (''effectAt'', nullable (res_effectAt v)),
      (''outcomeDigest'', nullable (res_outcomeDigest v))])"

section \<open>Stored validation\<close>

definition tx_hash_text :: "string \<Rightarrow> bool" where
  "tx_hash_text s \<longleftrightarrow> length s = 66 \<and> starts_with ''0x'' s \<and> list_all lower_hex (drop 2 s)"

text \<open>\<^verbatim>\<open>/^eip155:[1-9][0-9]*$/\<close>.\<close>

definition eip155_text :: "string \<Rightarrow> bool" where
  "eip155_text s \<longleftrightarrow> starts_with ''eip155:'' s \<and> (let n = drop 7 s in n \<noteq> [] \<and> hd n \<noteq> CHR ''0'' \<and> list_all digit n)"

text \<open>The reservation and idempotency identities a marker claims are the ones its key produces.\<close>

definition bound_to_key :: "prims \<Rightarrow> usage_reservation \<Rightarrow> string \<Rightarrow> unit result" where
  "bound_to_key P v key =
     rbind (idempotency P key) (\<lambda>h.
     rbind (check (res_idempotencyHash v = h)) (\<lambda>_.
     rbind (assetUsageReservationId P (res_identity v) key) (\<lambda>i. check (res_reservationId v = i))))"

definition validateCleanup85NativeUsage :: "prims \<Rightarrow> usage_reservation \<Rightarrow> unit result" where
  "validateCleanup85NativeUsage P v =
     (case res_cleanup85NativeReservation v of None \<Rightarrow> corrupt
      | Some m \<Rightarrow>
     rbind (check (cm_version m = ''apn.cleanup85-native-reservation.v1'' \<and> cm_reservedAtomic m = ''2000000000000'' \<and>
       id_account (res_identity v) = ''0x823A3a5BaB1186141b32fC65F8E25Ca24c679Ce7'' \<and>
       id_chain (res_identity v) = ''eip155:42161'' \<and> usage_rail v = Direct \<and>
       id_asset (res_identity v) = \<lparr>ref_kind = Native, ref_identifier = None\<rparr> \<and>
       res_amountAtomic v = cm_reservedAtomic m \<and> res_policyDigest v = cm_policyDigest m)) (\<lambda>_.
     rbind (check (list_all hash_text [cm_operationId m, cm_fingerprint m, cm_requestBinding m, cm_envelopeHash m,
       cm_policyDigest m, cm_activationDigest m])) (\<lambda>_.
     rbind (usage_atomic (cm_signedMaximumDebitAtomic m) True True) (\<lambda>maximum.
     rbind (check (maximum \<le> 2000000000000)) (\<lambda>_.
     rbind (bound_to_key P v (''apn.cleanup85-native:'' @ cm_operationId m)) (\<lambda>_.
     rbind (check (res_state v \<noteq> FailedConfirmedRevert)) (\<lambda>_.
     case res_cleanup85NativeActual v of
       None \<Rightarrow> check (res_state v \<in> {Reserved, Submitted, UnknownFinality} \<and> res_consumedAtomic v = None)
     | Some p \<Rightarrow>
     rbind (check (ca_kind p = ''circle_cleanup85_native_actual'' \<and> res_state v = Finalized \<and>
       ca_operationId p = cm_operationId m \<and> ca_fingerprint p = cm_fingerprint m \<and>
       ca_requestBinding p = cm_requestBinding m \<and> ca_policyDigest p = cm_policyDigest m \<and>
       ca_reservedAtomic p = cm_reservedAtomic m)) (\<lambda>_.
     rbind (check (list_all hash_text [ca_operationId p, ca_fingerprint p, ca_requestBinding p, ca_receiptHash p,
       ca_nativeReservationId p, ca_policyDigest p, ca_outcomeDigest p] \<and>
       list_all tx_hash_text [ca_transactionHash p, ca_blockHash p])) (\<lambda>_.
     rbind (check (res_reservationId v = ca_nativeReservationId p \<and> res_outcomeDigest v = Some (ca_outcomeDigest p))) (\<lambda>_.
     rbind (hashObject (sha P) (JObj (cleanup_actual_members p))) (\<lambda>h.
     rbind (check (h = ca_outcomeDigest p \<and> res_consumedAtomic v = Some (ca_nativeConsumedAtomic p))) (\<lambda>_.
     rbind (usage_atomic (ca_nativeConsumedAtomic p) True True) (\<lambda>consumed.
     rbind (usage_atomic (ca_actualFeeAtomic p) False True) (\<lambda>fee.
     rbind (usage_atomic (ca_blockNumberAtomic p) True True) (\<lambda>_.
     check (consumed = fee + 1 \<and> consumed \<le> maximum))))))))))))))))"

definition mm_marker_ok :: "prims \<Rightarrow> usage_reservation \<Rightarrow> mm_marker \<Rightarrow> unit result" where
  "mm_marker_ok P v p =
     rbind (check (hash_text (mm_operationId p) \<and> hash_text (mm_quoteHash p) \<and>
       evm_hex_text (id_account (res_identity v)) \<and> usage_rail v = Direct)) (\<lambda>_.
     bound_to_key P v (''apn.metamask-native:'' @ mm_operationId p @ '':'' @ kind_text (ref_kind (id_asset (res_identity v)))))"

definition mm_fee_ok :: "prims \<Rightarrow> usage_reservation \<Rightarrow> mm_fee \<Rightarrow> unit result" where
  "mm_fee_ok P v p =
     rbind (check ((case res_metamaskNativeReservation v of None \<Rightarrow> False
         | Some m \<Rightarrow> mm_operationId m = mmf_operationId p \<and> mm_quoteHash m = mmf_quoteHash p) \<and>
       mmf_kind p = ''metamask_native_actual_fee'' \<and>
       list_all hash_text [mmf_operationId p, mmf_quoteHash p, mmf_receiptHash p] \<and> res_state v = Finalized \<and>
       evm_hex_text (id_account (res_identity v)) \<and> eip155_text (id_chain (res_identity v)) \<and> usage_rail v = Direct \<and>
       id_asset (res_identity v) = \<lparr>ref_kind = Native, ref_identifier = None\<rparr>)) (\<lambda>_.
     rbind (bound_to_key P v (''apn.metamask-native:'' @ mmf_operationId p @ '':native'')) (\<lambda>_.
     rbind (check (mmf_reservedFee p = res_amountAtomic v \<and> Some (mmf_actualFee p) = res_consumedAtomic v)) (\<lambda>_.
     rbind (usage_atomic (mmf_actualFee p) True True) (\<lambda>actual.
     rbind (usage_atomic (mmf_reservedFee p) True True) (\<lambda>reserved.
     rbind (check (actual \<le> reserved)) (\<lambda>_.
     rbind (hashObject (sha P) (mm_fee_json p)) (\<lambda>h. check (res_outcomeDigest v = Some h))))))))"

definition merchant_fee_ok :: "prims \<Rightarrow> usage_reservation \<Rightarrow> merchant_fee \<Rightarrow> unit result" where
  "merchant_fee_ok P v p =
     rbind (check (mf_kind p = ''merchant_mega_native_actual_fee'' \<and>
       list_all hash_text [mf_operationId p, mf_fingerprint p, mf_receiptHash p] \<and> res_state v = Finalized \<and>
       eip155_text (id_chain (res_identity v)) \<and> usage_rail v = X402 \<and>
       id_asset (res_identity v) = \<lparr>ref_kind = Native, ref_identifier = None\<rparr>)) (\<lambda>_.
     rbind (bound_to_key P v (''apn.merchant-native:'' @ mf_operationId p)) (\<lambda>_.
     rbind (check (mf_reservedFee p = res_amountAtomic v \<and> Some (mf_actualFee p) = res_consumedAtomic v)) (\<lambda>_.
     rbind (hashObject (sha P) (merchant_fee_json p)) (\<lambda>h. check (res_outcomeDigest v = Some h)))))"

text \<open>The timestamps and outcome of each state.\<close>

definition validateOutcome :: "usage_reservation \<Rightarrow> unit result" where
  "validateOutcome v =
     rbind (storedInstant (res_reservedAt v)) (\<lambda>reserved.
     rbind (storedInstant (res_updatedAt v)) (\<lambda>updated.
     rbind (check (\<not> updated < reserved)) (\<lambda>_.
     let outcome = (case res_outcomeDigest v of None \<Rightarrow> corrupt
           | Some d \<Rightarrow> rbind (digest_of d True) (\<lambda>_. Inr ())) in
     if res_state v = Finalized then
       (case res_effectAt v of None \<Rightarrow> corrupt
        | Some e \<Rightarrow> rbind (storedInstant e) (\<lambda>e. rbind (check (\<not> e < reserved \<and> \<not> updated < e)) (\<lambda>_. outcome)))
     else if res_state v \<in> {FailedBeforeEffect, ReleasedUnsubmitted, FailedConfirmedRevert} then
       rbind (if res_state v = FailedConfirmedRevert \<and> res_consumedAtomic v \<noteq> None then
                (case res_effectAt v of None \<Rightarrow> corrupt
                 | Some e \<Rightarrow> rbind (storedInstant e) (\<lambda>e. check (e = updated)))
              else check (res_effectAt v = None)) (\<lambda>_. outcome)
     else check (res_effectAt v = None \<and> res_outcomeDigest v = None))))"

definition validateConsumed :: "usage_reservation \<Rightarrow> unit result" where
  "validateConsumed v =
     (case res_consumedAtomic v of None \<Rightarrow> Inr ()
      | Some c \<Rightarrow>
          if res_state v \<noteq> FailedConfirmedRevert \<and> res_merchantNativeActualFee v = None \<and>
             res_cleanup85NativeActual v = None \<and> res_metamaskNativeActualFee v = None then corrupt
          else rbind (usage_atomic c False True) (\<lambda>consumed.
               rbind (usage_atomic (res_amountAtomic v) True True) (\<lambda>amount. check (consumed \<le> amount))))"

definition validateBody :: "prims \<Rightarrow> usage_reservation \<Rightarrow> unit result" where
  "validateBody P v =
     rbind (digest_of (res_reservationId v) True) (\<lambda>_.
     rbind (digest_of (res_idempotencyHash v) True) (\<lambda>_.
     rbind (digest_of (res_policyDigest v) True) (\<lambda>_.
     rbind (check (version_text (res_registryVersion v))) (\<lambda>_.
     rbind (validateIdentity P (res_identity v) True) (\<lambda>_.
     rbind (usage_atomic (res_amountAtomic v) True True) (\<lambda>_.
     rbind (validateConsumed v) (\<lambda>_.
     rbind (case res_metamaskNativeReservation v of None \<Rightarrow> Inr () | Some p \<Rightarrow> mm_marker_ok P v p) (\<lambda>_.
     rbind (case res_metamaskNativeActualFee v of None \<Rightarrow> Inr () | Some p \<Rightarrow> mm_fee_ok P v p) (\<lambda>_.
     rbind (if res_cleanup85NativeActual v \<noteq> None \<or> res_cleanup85NativeReservation v \<noteq> None
            then validateCleanup85NativeUsage P v else Inr ()) (\<lambda>_.
     rbind (case res_merchantNativeActualFee v of None \<Rightarrow> Inr () | Some p \<Rightarrow> merchant_fee_ok P v p) (\<lambda>_.
     validateOutcome v)))))))))))"

text \<open>The optional members that may stand together: the key lists of the validator.\<close>

definition shape_ok :: "usage_reservation \<Rightarrow> bool" where
  "shape_ok v \<longleftrightarrow>
     (let c = res_consumedAtomic v \<noteq> None; x = res_merchantNativeActualFee v \<noteq> None;
          m = res_metamaskNativeReservation v \<noteq> None; f = res_metamaskNativeActualFee v \<noteq> None;
          a = res_cleanup85NativeReservation v \<noteq> None; b = res_cleanup85NativeActual v \<noteq> None in
      (c, x, m, f, a, b) \<in>
        {(False, False, False, False, False, False), (True, False, False, False, False, False),
         (True, False, False, True, False, False), (True, True, False, False, False, False),
         (True, False, False, False, True, True), (False, False, False, False, True, False),
         (False, False, True, False, False, False), (True, False, True, False, False, False),
         (True, False, True, True, False, False)})"

definition reservation_digest :: "prims \<Rightarrow> usage_reservation \<Rightarrow> string result" where
  "reservation_digest P v =
     rbind (canonicalJson (reservation_body_json v)) (\<lambda>t. Inr (domainHash (sha P) ASSET_USAGE_RESERVATION_SCHEMA t))"

definition validateAssetUsageReservation :: "prims \<Rightarrow> usage_reservation \<Rightarrow> usage_reservation result" where
  "validateAssetUsageReservation P value =
     (if \<not> shape_ok value then corrupt
      else rbind (validateBody P value) (\<lambda>_.
        if \<not> hash_text (res_reservationDigest value) then corrupt
        else rbind (reservation_digest P value) (\<lambda>d.
          if d \<noteq> res_reservationDigest value then corrupt else Inr value)))"

definition seal :: "prims \<Rightarrow> usage_reservation \<Rightarrow> usage_reservation result" where
  "seal P body =
     rbind (reservation_digest P body) (\<lambda>d. validateAssetUsageReservation P (body\<lparr>res_reservationDigest := d\<rparr>))"

section \<open>Accounting\<close>

fun allowed_transitions :: "usage_state \<Rightarrow> usage_state list" where
  "allowed_transitions Reserved = [Submitted, UnknownFinality, Finalized, FailedBeforeEffect, ReleasedUnsubmitted]"
| "allowed_transitions Submitted = [UnknownFinality, Finalized, FailedConfirmedRevert]"
| "allowed_transitions UnknownFinality = [Finalized, FailedConfirmedRevert, ReleasedUnsubmitted]"
| "allowed_transitions Finalized = []"
| "allowed_transitions FailedBeforeEffect = []"
| "allowed_transitions ReleasedUnsubmitted = []"
| "allowed_transitions FailedConfirmedRevert = []"

definition assertTransition :: "usage_state \<Rightarrow> usage_state \<Rightarrow> unit result" where
  "assertTransition from to' = (if to' \<notin> set (allowed_transitions from) then blocked else Inr ())"

definition assertReplay :: "usage_reservation \<Rightarrow> string \<Rightarrow> string \<Rightarrow> rail \<Rightarrow> string \<Rightarrow> string \<Rightarrow> unit result" where
  "assertReplay r policyDigest registryVersion rail amount idem =
     (if res_policyDigest r \<noteq> policyDigest \<or> res_registryVersion r \<noteq> registryVersion \<or> usage_rail r \<noteq> rail \<or>
         res_amountAtomic r \<noteq> amount \<or> res_idempotencyHash r \<noteq> idem then blocked else Inr ())"

definition newest :: "usage_reservation list \<Rightarrow> string \<Rightarrow> string" where
  "newest records at = foldl (\<lambda>n r. if n < res_updatedAt r then res_updatedAt r else n) at records"

definition bucketStamp :: "usage_reservation list \<Rightarrow> jsdate \<Rightarrow> string result" where
  "bucketStamp records now = rbind (instant now) (\<lambda>at. Inr (newest records at))"

text \<open>A member the source reads with \<^verbatim>\<open>!\<close>: a missing one makes the method call throw.\<close>

definition effect_day :: "usage_reservation \<Rightarrow> string result" where
  "effect_day r = (case res_effectAt r of None \<Rightarrow> Inl (OtherError ''TypeError'') | Some e \<Rightarrow> Inr (day_of e))"

definition settled_by_fee :: "usage_reservation \<Rightarrow> bool" where
  "settled_by_fee r \<longleftrightarrow> res_merchantNativeActualFee r \<noteq> None \<or> res_cleanup85NativeActual r \<noteq> None \<or>
     res_metamaskNativeActualFee r \<noteq> None"

text \<open>One turn of the accounting loop: \<open>None\<close> is \<^verbatim>\<open>continue\<close>.\<close>

definition charge_of :: "string \<Rightarrow> usage_reservation \<Rightarrow> nat option result" where
  "charge_of day r =
     (if res_state r = FailedBeforeEffect \<or> res_state r = ReleasedUnsubmitted then Inr None
      else if res_state r = FailedConfirmedRevert \<and> res_consumedAtomic r = None then Inr None
      else rbind (if res_state r = Finalized \<or> res_state r = FailedConfirmedRevert
                  then rbind (effect_day r) (\<lambda>e. Inr (e < day)) else Inr False) (\<lambda>past.
        if past then Inr None
        else rbind (if res_state r = FailedConfirmedRevert \<or> settled_by_fee r then
               (case res_consumedAtomic r of None \<Rightarrow> corrupt | Some c \<Rightarrow> usage_atomic c False True)
             else usage_atomic (res_amountAtomic r) True True) (\<lambda>n. Inr (Some n))))"

fun sum_from :: "nat \<Rightarrow> string \<Rightarrow> usage_reservation list \<Rightarrow> nat result" where
  "sum_from acc day [] = Inr acc"
| "sum_from acc day (r # rs) =
     rbind (charge_of day r) (\<lambda>c.
       case c of None \<Rightarrow> sum_from acc day rs
       | Some n \<Rightarrow> if acc + n > MAX_UINT256 then corrupt else sum_from (acc + n) day rs)"

definition sumUsage :: "usage_reservation list \<Rightarrow> jsdate \<Rightarrow> string result" where
  "sumUsage records now =
     rbind (instant now) (\<lambda>at. rbind (sum_from 0 (day_of at) records) (\<lambda>acc. Inr (dec acc)))"

text \<open>
  A historical retirement, reduced to what the accounting reads: the row it replaces and the
  instant that fixes its accounting day.
\<close>

record retirement =
  ret_usageLease :: usage_reservation
  ret_accountingAt :: string

definition reservation_json :: "usage_reservation \<Rightarrow> jval" where
  "reservation_json v = (case reservation_body_json v of
     JObj kvs \<Rightarrow> JObj (kvs @ [(''reservationDigest'', JStr (res_reservationDigest v))]) | j \<Rightarrow> j)"

definition same_json :: "usage_reservation \<Rightarrow> usage_reservation \<Rightarrow> bool" where
  "same_json a b \<longleftrightarrow> canonicalJson (reservation_json a) = canonicalJson (reservation_json b)"

fun retired_charge :: "string \<Rightarrow> string set \<Rightarrow> usage_reservation list \<Rightarrow> retirement list \<Rightarrow> (string set \<times> nat) result" where
  "retired_charge day ids records [] = Inr (ids, 0)"
| "retired_charge day ids records (r # rs) =
     (let row = ret_usageLease r in
      if res_reservationId row \<in> ids \<or> \<not> list_ex (\<lambda>v. same_json v row) records then corrupt
      else rbind (retired_charge day (insert (res_reservationId row) ids) records rs) (\<lambda>(all, c).
        Inr (all, (if day \<le> day_of (ret_accountingAt r) then 6000000 else 0) + c)))"

definition historicalRetirementUsage :: "usage_reservation list \<Rightarrow> retirement list \<Rightarrow> jsdate \<Rightarrow> string result" where
  "historicalRetirementUsage records retirements now =
     rbind (instant now) (\<lambda>at.
     rbind (retired_charge (day_of at) {} records retirements) (\<lambda>(ids, charge).
     rbind (sumUsage (filter (\<lambda>r. res_reservationId r \<notin> ids) records) now) (\<lambda>t.
       let acc = undec t + charge in
       if acc > MAX_UINT256 then corrupt else Inr (dec acc))))"

section \<open>Laws of a stored record\<close>

definition stored_ok :: "prims \<Rightarrow> usage_reservation \<Rightarrow> bool" where
  "stored_ok P r \<longleftrightarrow> validateAssetUsageReservation P r = Inr r"

definition terminal :: "usage_state \<Rightarrow> bool" where
  "terminal s \<longleftrightarrow> allowed_transitions s = []"

lemma terminal_states: "terminal s \<longleftrightarrow> s \<in> {Finalized, FailedBeforeEffect, ReleasedUnsubmitted, FailedConfirmedRevert}"
  by (cases s) (auto simp: terminal_def)

lemma usage_atomic_Inr: "usage_atomic v p st = Inr n \<longleftrightarrow> v = dec n \<and> (p \<longrightarrow> 0 < n) \<and> n \<le> MAX_UINT256"
  by (auto simp: usage_atomic_def parseAtomic_Inr_iff split: sum.splits if_splits dest: parseAtomic_InrD)

lemma validate_self: "validateAssetUsageReservation P r = Inr r' \<Longrightarrow> r' = r"
  by (auto simp: validateAssetUsageReservation_def split: if_splits)

lemma stored_okD:
  assumes "stored_ok P r"
  shows "shape_ok r" "validateBody P r = Inr ()" "hash_text (res_reservationDigest r)"
    "reservation_digest P r = Inr (res_reservationDigest r)"
  using assms by (auto simp: stored_ok_def validateAssetUsageReservation_def split: if_splits)

lemma seal_stored_ok: "seal P b = Inr r \<Longrightarrow> stored_ok P r \<and> (\<exists>d. r = b\<lparr>res_reservationDigest := d\<rparr>)"
  using validate_self by (fastforce simp: seal_def stored_ok_def)

lemma stored_amount:
  assumes "stored_ok P r"
  obtains n where "res_amountAtomic r = dec n" "0 < n" "n \<le> MAX_UINT256"
  using stored_okD(2) [OF assms] that by (auto simp: validateBody_def usage_atomic_Inr)

lemma stored_consumed:
  assumes "stored_ok P r" "res_consumedAtomic r = Some c"
  obtains n where "c = dec n" "n \<le> undec (res_amountAtomic r)" "n \<le> MAX_UINT256"
proof -
  have "validateConsumed r = Inr ()" using stored_okD(2) [OF assms(1)] by (auto simp: validateBody_def)
  with assms(2) that show ?thesis by (auto simp: validateConsumed_def usage_atomic_Inr split: if_splits)
qed

lemma stored_settled_consumed: "stored_ok P r \<Longrightarrow> settled_by_fee r \<Longrightarrow> res_consumedAtomic r \<noteq> None"
  using stored_okD(1) [of P r] by (auto simp: shape_ok_def settled_by_fee_def Let_def)

lemma stored_outcome: "stored_ok P r \<Longrightarrow> validateOutcome r = Inr ()"
  using stored_okD(2) by (auto simp: validateBody_def)

lemma stored_effect:
  assumes "stored_ok P r"
  shows "res_state r = Finalized \<Longrightarrow> \<exists>e. res_effectAt r = Some e \<and> res_reservedAt r \<le> e \<and> e \<le> res_updatedAt r"
    "res_state r = FailedConfirmedRevert \<Longrightarrow> res_consumedAtomic r \<noteq> None \<Longrightarrow> res_effectAt r = Some (res_updatedAt r)"
  using stored_outcome [OF assms]
  by (auto simp: validateOutcome_def Let_def storedInstant_def split: if_splits option.splits)

lemma stored_times:
  assumes "stored_ok P r"
  shows "res_reservedAt r \<le> res_updatedAt r" "isIsoInstant (res_updatedAt r)" "isIsoInstant (res_reservedAt r)"
  using stored_outcome [OF assms]
  by (auto simp: validateOutcome_def Let_def storedInstant_def split: if_splits)

text \<open>What a stored record adds to the usage of a day.\<close>

definition charge :: "string \<Rightarrow> usage_reservation \<Rightarrow> nat" where
  "charge day r = (case charge_of day r of Inr (Some n) \<Rightarrow> n | _ \<Rightarrow> 0)"

lemma charge_cases:
  assumes "stored_ok P r"
  shows "(charge_of day r = Inr None \<and> charge day r = 0) \<or> charge_of day r = Inr (Some (charge day r))"
    "charge day r \<le> undec (res_amountAtomic r)"
proof -
  obtain n where n: "res_amountAtomic r = dec n" "0 < n" "n \<le> MAX_UINT256" using assms by (rule stored_amount)
  have "\<exists>c. charge_of day r = Inr c \<and> (\<forall>m. c = Some m \<longrightarrow> m \<le> n)"
  proof (cases "res_consumedAtomic r")
    case None
    with stored_settled_consumed [OF assms] have "\<not> settled_by_fee r" by blast
    with None n stored_effect(1) [OF assms] show ?thesis
      by (cases "res_state r") (auto simp: charge_of_def effect_day_def usage_atomic_def simp del: rbind_eq_Inr)
  next
    case (Some c)
    with assms obtain k where k: "c = dec k" "k \<le> undec (res_amountAtomic r)" "k \<le> MAX_UINT256" by (rule stored_consumed)
    then have "usage_atomic c False True = Inr k" "usage_atomic (dec n) True True = Inr n" "k \<le> n"
      using n by (simp_all add: usage_atomic_Inr)
    with Some n stored_effect [OF assms] show ?thesis
      by (cases "res_state r") (auto simp: charge_of_def effect_day_def simp del: rbind_eq_Inr)
  qed
  then obtain c where c: "charge_of day r = Inr c" "\<And>m. c = Some m \<Longrightarrow> m \<le> n" by blast
  then show "(charge_of day r = Inr None \<and> charge day r = 0) \<or> charge_of day r = Inr (Some (charge day r))"
    by (cases c) (auto simp: charge_def)
  show "charge day r \<le> undec (res_amountAtomic r)"
    using c n by (cases c) (auto simp: charge_def)
qed

lemma sum_from_charges:
  assumes "\<And>r. r \<in> set rs \<Longrightarrow> stored_ok P r" "acc \<le> MAX_UINT256"
  shows "sum_from acc day rs =
    (if acc + sum_list (map (charge day) rs) \<le> MAX_UINT256 then Inr (acc + sum_list (map (charge day) rs)) else corrupt)"
  using assms
proof (induction rs arbitrary: acc)
  case (Cons r rs)
  from Cons.prems(1) [of r] have "(charge_of day r = Inr None \<and> charge day r = 0) \<or> charge_of day r = Inr (Some (charge day r))"
    by (simp add: charge_cases)
  then show ?case
  proof
    assume "charge_of day r = Inr None \<and> charge day r = 0"
    with Cons show ?thesis by simp
  next
    assume c: "charge_of day r = Inr (Some (charge day r))"
    show ?thesis
    proof (cases "MAX_UINT256 < acc + charge day r")
      case True
      with c show ?thesis by simp
    next
      case False
      with c Cons.IH [of "acc + charge day r"] Cons.prems(1) show ?thesis by (simp add: add.assoc)
    qed
  qed
qed simp

lemma charge_open: "stored_ok P r \<Longrightarrow> res_state r \<in> {Reserved, Submitted, UnknownFinality} \<Longrightarrow> \<not> settled_by_fee r \<Longrightarrow>
  charge day r = undec (res_amountAtomic r)"
  by (erule stored_amount) (auto simp: charge_def charge_of_def usage_atomic_def split: option.splits)

text \<open>An open hold carries no settlement.\<close>

lemma open_not_settled: "stored_ok P r \<Longrightarrow> res_state r \<noteq> Finalized \<Longrightarrow> \<not> settled_by_fee r"
  using stored_okD(2) [of P r]
  by (auto simp: validateBody_def settled_by_fee_def merchant_fee_ok_def mm_fee_ok_def validateCleanup85NativeUsage_def
      split: option.splits if_splits)

lemma charge_antitone:
  assumes "stored_ok P r" "day \<le> day'"
  shows "charge day' r \<le> charge day r"
proof (cases "res_state r = Finalized \<or> (res_state r = FailedConfirmedRevert \<and> res_consumedAtomic r \<noteq> None)")
  case True
  then obtain e where e: "res_effectAt r = Some e" using stored_effect [OF assms(1)] by blast
  show ?thesis
  proof (cases "day_of e < day")
    case True
    with assms(2) e \<open>res_state r = _ \<or> _\<close> show ?thesis
      by (auto simp: charge_def charge_of_def effect_day_def)
  next
    case False
    with assms(2) e \<open>res_state r = _ \<or> _\<close> show ?thesis
      by (auto simp: charge_def charge_of_def effect_day_def)
  qed
next
  case False
  then show ?thesis by (auto simp: charge_def charge_of_def)
qed

end
