(* ===== verification/UsageLedger.thy ===== *)
theory UsageLedger
  imports UsageRecord
begin

text \<open>
  The common usage ledger, \<^verbatim>\<open>src/src/asset-usage-ledger.ts\<close>: one bucket of reservations per paying
  account, chain and asset, shared by every money rail. Each operation runs under its bucket
  lock, so it is one atomic step here; the file of a row is an entry of its bucket.

  What other components decide is a field of \<open>ledger_env\<close>: the retirement reader of
  \<^verbatim>\<open>src/src/legacy/jupiter-historical-retirement\<close>, the MetaMask journal's assertions and settlement
  (\<^verbatim>\<open>src/src/metamask-native-journal.ts\<close>) and the merchant proof
  (\<^verbatim>\<open>src/src/x402-merchant/fee-settlement.ts\<close>). The theorems hold whatever they answer.
\<close>

section \<open>State and collaborators\<close>

text \<open>A bucket directory maps the file name (less its extension) to the stored row.\<close>

type_synonym ledger = "string \<Rightarrow> (string \<times> usage_reservation) list"

record mm_reserve_authority =
  mma_sender :: string
  mma_chain :: string
  mma_token :: string
  mma_quoteHash :: string
  mma_registry :: policy_registry
  mma_totalQuoteWei :: string
  mma_tokenAmountAtomic :: string

record mm_settle_authority =
  mms_proof :: mm_fee
  mms_policyDigest :: string
  mms_reservations :: "usage_reservation list"
  mms_nativeFeeAtomic :: string
  mms_transferAccepted :: bool
  mms_tokenAmountAtomic :: string

record merchant_authority =
  mca_proof :: merchant_fee
  mca_walletAddress :: string
  mca_policyDigest :: string

record ledger_env =
  retirementsFor :: "usage_identity \<Rightarrow> retirement list result"
  genericCapacityRelease :: "usage_reservation \<Rightarrow> unit result"
  mmFailedBeforeEffect :: "string \<Rightarrow> unit result"
  mmReservation :: "string \<Rightarrow> mm_reserve_authority result"
  mmSettlement :: "string \<Rightarrow> mm_settle_authority result"
  merchantSettlement :: "string \<Rightarrow> merchant_authority result"

record reserve_input =
  ri_identity :: usage_identity
  ri_registry :: policy_registry
  ri_rail :: rail
  ri_mechanism :: "mechanism option"
  ri_amountAtomic :: string
  ri_idempotencyKey :: string
  ri_now :: jsdate
  ri_retryFailedBeforeEffect :: bool

record owner_cap_input =
  oc_identity :: usage_identity
  oc_amountAtomic :: string
  oc_maximumAtomic :: string
  oc_policyDigest :: string
  oc_registryVersion :: string
  oc_idempotencyKey :: string
  oc_now :: jsdate

record transition_input =
  ti_identity :: usage_identity
  ti_reservationId :: string
  ti_policyDigest :: string
  ti_state :: usage_state
  ti_now :: jsdate
  ti_outcomeDigest :: "string option"
  ti_consumedAtomic :: "string option"
  ti_effectAt :: "jsdate option"
  ti_expectedCurrentStates :: "usage_state list option"

record cancel_input =
  ci_identity :: usage_identity
  ci_idempotencyKey :: string
  ci_policyDigest :: string
  ci_registryVersion :: string
  ci_amountAtomic :: string
  ci_outcomeDigest :: string
  ci_now :: jsdate

section \<open>Rows on disk\<close>

definition identity_json :: "usage_identity \<Rightarrow> jval" where
  "identity_json i = JObj (identity_members i)"

definition bucketDirectory :: "prims \<Rightarrow> usage_identity \<Rightarrow> string result" where
  "bucketDirectory P i =
     rbind (canonicalJson (identity_json i)) (\<lambda>t. Inr (domainHash (sha P) ''apn.asset-usage-bucket.v1'' t))"

definition same_identity :: "usage_identity \<Rightarrow> usage_identity \<Rightarrow> bool" where
  "same_identity a b \<longleftrightarrow> canonicalJson (identity_json a) = canonicalJson (identity_json b)"

definition load_entry :: "prims \<Rightarrow> usage_identity \<Rightarrow> string \<times> usage_reservation \<Rightarrow> usage_reservation result" where
  "load_entry P i entry =
     (if \<not> hash_text (fst entry) then corrupt
      else rbind (validateAssetUsageReservation P (snd entry)) (\<lambda>r.
        if \<not> same_identity (res_identity r) i \<or> res_reservationId r \<noteq> fst entry then corrupt else Inr r))"

definition loadBucket :: "prims \<Rightarrow> usage_identity \<Rightarrow> (ledger, usage_reservation list) stm" where
  "loadBucket P i =
     bnd (lift (bucketDirectory P i)) (\<lambda>b s. (rmap (load_entry P i) (s b), s))"

definition readRecord :: "prims \<Rightarrow> usage_identity \<Rightarrow> string \<Rightarrow> (ledger, usage_reservation option) stm" where
  "readRecord P i n = bnd (lift (bucketDirectory P i)) (\<lambda>b s. (Inr (map_of (s b) n), s))"

fun put_entry :: "string \<Rightarrow> usage_reservation \<Rightarrow> (string \<times> usage_reservation) list \<Rightarrow> (string \<times> usage_reservation) list" where
  "put_entry n r [] = [(n, r)]"
| "put_entry n r ((m, x) # es) = (if m = n then (n, r) # es else (m, x) # put_entry n r es)"

definition writeRecord :: "prims \<Rightarrow> usage_identity \<Rightarrow> string \<Rightarrow> usage_reservation \<Rightarrow> bool \<Rightarrow> (ledger, unit) stm" where
  "writeRecord P i n r createOnly =
     bnd (lift (bucketDirectory P i)) (\<lambda>b s.
       if createOnly \<and> map_of (s b) n \<noteq> None then (Inl (ApnError APN_STATE_SECURITY None), s)
       else (Inr (), s(b := put_entry n r (s b))))"

definition sumBucketUsage :: "ledger_env \<Rightarrow> usage_identity \<Rightarrow> usage_reservation list \<Rightarrow> jsdate \<Rightarrow> string result" where
  "sumBucketUsage E i records now =
     rbind (retirementsFor E i) (\<lambda>retired. historicalRetirementUsage records retired now)"

section \<open>Reserving\<close>

definition evaluation :: "reserve_input \<Rightarrow> string \<Rightarrow> asset_ref \<Rightarrow> string \<Rightarrow> string \<Rightarrow> string \<Rightarrow> evaluation_input" where
  "evaluation input chain asset amount usage at =
     \<lparr>in_chain = chain, in_asset = asset, in_rail = ri_rail input, in_mechanism = ri_mechanism input,
      in_amountAtomic = amount, in_dailyUsageAtomic = usage, in_asOfDate = day_of at, in_asOf = Some at\<rparr>"

definition exactAsset :: "policy_row \<Rightarrow> asset_ref" where
  "exactAsset row = (if row_kind row = Native then \<lparr>ref_kind = Native, ref_identifier = None\<rparr>
     else \<lparr>ref_kind = Token, ref_identifier = row_identifier row\<rparr>)"

definition fresh_row ::
  "string \<Rightarrow> string \<Rightarrow> string \<Rightarrow> string \<Rightarrow> usage_identity \<Rightarrow> rail \<Rightarrow> string \<Rightarrow> string \<Rightarrow> mm_marker option \<Rightarrow> usage_reservation" where
  "fresh_row rid idem policy version i rail amount stamp mm =
     \<lparr>res_reservationId = rid, res_idempotencyHash = idem, res_policyDigest = policy, res_registryVersion = version,
      res_identity = i, usage_rail = rail, res_amountAtomic = amount, res_consumedAtomic = None,
      res_merchantNativeActualFee = None, res_metamaskNativeReservation = mm, res_metamaskNativeActualFee = None,
      res_cleanup85NativeReservation = None, res_cleanup85NativeActual = None, res_state = Reserved,
      res_reservedAt = stamp, res_updatedAt = stamp, res_effectAt = None, res_outcomeDigest = None,
      res_reservationDigest = []\<rparr>"

definition marker_json :: "mm_marker option \<Rightarrow> jval" where
  "marker_json m = (case m of None \<Rightarrow> JNull | Some x \<Rightarrow> mm_marker_json x)"

definition findRow :: "string \<Rightarrow> usage_reservation list \<Rightarrow> usage_reservation option" where
  "findRow rid rs = find (\<lambda>r. res_reservationId r = rid) rs"

text \<open>The part of a reservation that runs under the bucket lock.\<close>

definition reserve_locked ::
  "prims \<Rightarrow> ledger_env \<Rightarrow> reserve_input \<Rightarrow> mm_marker option \<Rightarrow> policy_registry \<Rightarrow> string \<Rightarrow> policy_admission \<Rightarrow>
   usage_identity \<Rightarrow> string \<Rightarrow> string \<Rightarrow> (ledger, usage_reservation) stm" where
  "reserve_locked P E input mm registry at initial i idem rid =
     bnd (loadBucket P i) (\<lambda>rows.
     case findRow rid rows of
       Some existing \<Rightarrow>
         if canonicalJson (marker_json (res_metamaskNativeReservation existing)) \<noteq> canonicalJson (marker_json mm)
         then lift blocked
         else bnd (lift (assertReplay existing (adm_policyDigest initial) (adm_registryVersion initial) (ri_rail input)
                (adm_amountAtomic initial) idem)) (\<lambda>_.
           if ri_retryFailedBeforeEffect input \<and> res_state existing = FailedBeforeEffect then
             bnd (lift (bucketStamp rows (ri_now input))) (\<lambda>stamp.
             bnd (lift (sumBucketUsage E i rows (ri_now input))) (\<lambda>usage.
             bnd (lift (evaluateAssetPolicy P registry
               (evaluation input (id_chain i) (id_asset i) (adm_amountAtomic initial) usage at))) (\<lambda>_.
             bnd (lift (seal P (existing\<lparr>res_state := Reserved, res_reservedAt := stamp, res_updatedAt := stamp,
               res_effectAt := None, res_outcomeDigest := None\<rparr>))) (\<lambda>reopened.
             bnd (writeRecord P i rid reopened False) (\<lambda>_. ret reopened)))))
           else ret existing)
     | None \<Rightarrow>
         bnd (lift (bucketStamp rows (ri_now input))) (\<lambda>stamp.
         bnd (lift (sumBucketUsage E i rows (ri_now input))) (\<lambda>usage.
         bnd (lift (evaluateAssetPolicy P registry
           (evaluation input (id_chain i) (id_asset i) (adm_amountAtomic initial) usage at))) (\<lambda>_.
         bnd (lift (seal P (fresh_row rid idem (adm_policyDigest initial) (adm_registryVersion initial) i
           (ri_rail input) (adm_amountAtomic initial) stamp mm))) (\<lambda>row.
         bnd (writeRecord P i rid row True) (\<lambda>_. ret row))))))"

definition reserveBound :: "prims \<Rightarrow> ledger_env \<Rightarrow> reserve_input \<Rightarrow> mm_marker option \<Rightarrow> (ledger, usage_reservation) stm" where
  "reserveBound P E input mm =
     (let key = ri_idempotencyKey input; asked = ri_identity input in
     if starts_with ''apn.metamask-native:'' key \<and> mm = None then lift blocked
     else if starts_with ''apn.cleanup85-native:'' key then lift blocked
     else
     bnd (lift (validateAssetPolicyRegistry P (ri_registry input))) (\<lambda>registry.
     bnd (lift (instant (ri_now input))) (\<lambda>at.
     bnd (lift (evaluateAssetPolicy P registry
       (evaluation input (id_chain asked) (id_asset asked) (ri_amountAtomic input) ''0'' at))) (\<lambda>initial.
     bnd (lift (canonicalAccount P (adm_chain initial) (id_account asked) False)) (\<lambda>acct.
     bnd (lift (idempotency P key)) (\<lambda>idem.
     let i = \<lparr>id_account = acct, id_chain = adm_chain initial, id_asset = exactAsset (adm_asset initial)\<rparr> in
     bnd (lift (reservationIdFor P i idem)) (\<lambda>rid.
       reserve_locked P E input mm registry at initial i idem rid)))))))"

definition reserve :: "prims \<Rightarrow> ledger_env \<Rightarrow> reserve_input \<Rightarrow> (ledger, usage_reservation) stm" where
  "reserve P E input = reserveBound P E input None"

definition reserveMetaMaskNative :: "prims \<Rightarrow> ledger_env \<Rightarrow> string \<Rightarrow> asset_kind \<Rightarrow> jsdate \<Rightarrow> (ledger, usage_reservation) stm" where
  "reserveMetaMaskNative P E operationId kind now =
     bnd (lift (mmReservation E operationId)) (\<lambda>p.
       reserveBound P E
         \<lparr>ri_identity = \<lparr>id_account = mma_sender p, id_chain = mma_chain p,
            id_asset = (if kind = Native then \<lparr>ref_kind = Native, ref_identifier = None\<rparr>
                        else \<lparr>ref_kind = Token, ref_identifier = Some (mma_token p)\<rparr>)\<rparr>,
          ri_registry = mma_registry p, ri_rail = Direct, ri_mechanism = None,
          ri_amountAtomic = (if kind = Native then mma_totalQuoteWei p else mma_tokenAmountAtomic p),
          ri_idempotencyKey = ''apn.metamask-native:'' @ operationId @ '':'' @ kind_text kind,
          ri_now = now, ri_retryFailedBeforeEffect = False\<rparr>
         (Some \<lparr>mm_operationId = operationId, mm_quoteHash = mma_quoteHash p\<rparr>))"

definition reserveWithinOwnerCap :: "prims \<Rightarrow> owner_cap_input \<Rightarrow> (ledger, usage_reservation) stm" where
  "reserveWithinOwnerCap P input =
     bnd (lift (validateIdentity P (oc_identity input) False)) (\<lambda>i.
     bnd (lift (idempotency P (oc_idempotencyKey input))) (\<lambda>idem.
     bnd (lift (instant (oc_now input))) (\<lambda>_.
     bnd (lift (digest_of (oc_policyDigest input) False)) (\<lambda>policy.
     bnd (lift (usage_atomic (oc_amountAtomic input) True False)) (\<lambda>amount.
     bnd (lift (usage_atomic (oc_maximumAtomic input) True False)) (\<lambda>maximum.
     if amount > maximum then lift blocked else
     bnd (lift (reservationIdFor P i idem)) (\<lambda>rid.
     bnd (loadBucket P i) (\<lambda>rows.
     case findRow rid rows of
       Some existing \<Rightarrow>
         bnd (lift (assertReplay existing policy (oc_registryVersion input) X402 (dec amount) idem)) (\<lambda>_. ret existing)
     | None \<Rightarrow>
         bnd (lift (bucketStamp rows (oc_now input))) (\<lambda>stamp.
         bnd (lift (seal P (fresh_row rid idem policy (oc_registryVersion input) i X402 (dec amount) stamp None))) (\<lambda>row.
         bnd (writeRecord P i rid row True) (\<lambda>_. ret row)))))))))))"

section \<open>Transitions\<close>

definition expectedStates :: "usage_state list \<Rightarrow> usage_state list result" where
  "expectedStates value = (if value = [] then invalid else Inr (remdups value))"

text \<open>The instant a proven spend counts from: never before the hold's last write, never after this one.\<close>

definition proven_effect :: "string \<Rightarrow> string \<Rightarrow> string \<Rightarrow> string" where
  "proven_effect proven at last_write =
     (if dateParse proven < dateParse last_write then last_write
      else if dateParse proven > dateParse at then at else proven)"

definition transition :: "prims \<Rightarrow> ledger_env \<Rightarrow> transition_input \<Rightarrow> (ledger, usage_reservation) stm" where
  "transition P E input =
     bnd (lift (validateIdentity P (ti_identity input) False)) (\<lambda>i.
     bnd (lift (digest_of (ti_reservationId input) False)) (\<lambda>rid.
     bnd (lift (digest_of (ti_policyDigest input) False)) (\<lambda>policy.
     bnd (lift (instant (ti_now input))) (\<lambda>_.
     bnd (lift (case ti_expectedCurrentStates input of None \<Rightarrow> Inr None
       | Some v \<Rightarrow> rbind (expectedStates v) (\<lambda>e. Inr (Some e)))) (\<lambda>expected.
     bnd (loadBucket P i) (\<lambda>rows.
     bnd (lift (retirementsFor E i)) (\<lambda>retired.
     if list_ex (\<lambda>r. res_reservationId (ret_usageLease r) = rid) retired then lift blocked else
     bnd (readRecord P i rid) (\<lambda>value.
     case value of None \<Rightarrow> lift blocked | Some stored \<Rightarrow>
     bnd (lift (validateAssetUsageReservation P stored)) (\<lambda>current.
     let settling = ti_state input \<notin> {Submitted, UnknownFinality} in
     bnd (lift (if settling then genericCapacityRelease E current else Inr ())) (\<lambda>_.
     bnd (lift (case res_metamaskNativeReservation current of None \<Rightarrow> Inr ()
       | Some m \<Rightarrow> if settling then
             (if ti_state input \<noteq> FailedBeforeEffect then blocked else mmFailedBeforeEffect E (mm_operationId m))
           else Inr ())) (\<lambda>_.
     if res_reservationId current \<noteq> rid \<or> res_policyDigest current \<noteq> policy \<or> \<not> same_identity (res_identity current) i
     then lift blocked
     else if (case expected of None \<Rightarrow> False | Some es \<Rightarrow> res_state current \<notin> set es) then lift blocked else
     bnd (lift (bucketStamp rows (ti_now input))) (\<lambda>at.
     let final = ti_state input \<in> {Finalized, FailedBeforeEffect, ReleasedUnsubmitted, FailedConfirmedRevert} in
     if final \<and> res_cleanup85NativeReservation current \<noteq> None then lift blocked else
     bnd (lift (if final then (case ti_outcomeDigest input of None \<Rightarrow> invalid
         | Some d \<Rightarrow> rbind (digest_of d False) (\<lambda>d. Inr (Some d))) else Inr None)) (\<lambda>outcome.
     bnd (lift (case ti_consumedAtomic input of None \<Rightarrow> Inr None
       | Some c \<Rightarrow> rbind (usage_atomic c False True) (\<lambda>n. Inr (Some (dec n))))) (\<lambda>consumed.
     if (case consumed of None \<Rightarrow> False
         | Some c \<Rightarrow> ti_state input \<noteq> FailedConfirmedRevert \<or> undec c > undec (res_amountAtomic current)) then lift blocked
     else if ti_effectAt input \<noteq> None \<and> ti_state input \<noteq> Finalized then lift invalid else
     bnd (lift (case ti_effectAt input of None \<Rightarrow> Inr at | Some d \<Rightarrow> instant d)) (\<lambda>proven.
     let effect = proven_effect proven at (res_updatedAt current) in
     if res_state current = ti_state input then
       (if res_outcomeDigest current \<noteq> outcome \<or> res_consumedAtomic current \<noteq> consumed then lift blocked else ret current)
     else
     bnd (lift (assertTransition (res_state current) (ti_state input))) (\<lambda>_.
     bnd (lift (seal P (current\<lparr>res_state := ti_state input, res_updatedAt := at,
       res_effectAt := (if ti_state input = Finalized then Some effect else if consumed \<noteq> None then Some at else None),
       res_outcomeDigest := outcome,
       res_consumedAtomic := (case consumed of None \<Rightarrow> res_consumedAtomic current | Some c \<Rightarrow> Some c)\<rparr>))) (\<lambda>row.
     bnd (writeRecord P i rid row False) (\<lambda>_. ret row))))))))))))))))))"

text \<open>
  \<^verbatim>\<open>releaseDirectReservedAfter\<close> keeps the bucket lock while the caller persists its own outcome.
  The state is the ledger beside the caller's store; the callback sees only the latter.
\<close>

definition on_ledger :: "(ledger, 'a) stm \<Rightarrow> (ledger \<times> 'w, 'a) stm" where
  "on_ledger m = (\<lambda>(l, w). case m l of (r, l') \<Rightarrow> (r, (l', w)))"

definition on_caller :: "('w, 'a) stm \<Rightarrow> (ledger \<times> 'w, 'a) stm" where
  "on_caller m = (\<lambda>(l, w). case m w of (r, w') \<Rightarrow> (r, (l, w')))"

definition releaseDirectReservedAfter ::
  "prims \<Rightarrow> ledger_env \<Rightarrow> usage_reservation \<Rightarrow> ('w, 'v \<times> jsdate \<times> string) stm \<Rightarrow> (ledger \<times> 'w, 'v) stm" where
  "releaseDirectReservedAfter P E expectedValue persistOutcome =
     bnd (lift (validateAssetUsageReservation P expectedValue)) (\<lambda>expected.
     if res_metamaskNativeReservation expected \<noteq> None \<or> res_cleanup85NativeReservation expected \<noteq> None then lift blocked
     else if usage_rail expected \<noteq> Direct \<or> res_state expected \<noteq> Reserved then lift blocked else
     bnd (lift (validateIdentity P (res_identity expected) False)) (\<lambda>i.
     bnd (on_ledger (readRecord P i (res_reservationId expected))) (\<lambda>value.
     case value of None \<Rightarrow> lift blocked | Some stored \<Rightarrow>
     bnd (lift (validateAssetUsageReservation P stored)) (\<lambda>current.
     if \<not> same_json current expected then lift blocked else
     bnd (lift (genericCapacityRelease E expected)) (\<lambda>_.
     bnd (on_ledger (loadBucket P i)) (\<lambda>rows.
     bnd (on_caller persistOutcome) (\<lambda>(v, now, outcome).
     bnd (lift (bucketStamp rows now)) (\<lambda>at.
     bnd (lift (digest_of outcome False)) (\<lambda>d.
     bnd (lift (seal P (expected\<lparr>res_state := FailedBeforeEffect, res_updatedAt := at, res_effectAt := None,
       res_outcomeDigest := Some d\<rparr>))) (\<lambda>released.
     bnd (on_ledger (writeRecord P i (res_reservationId expected) released False)) (\<lambda>_. ret v)))))))))))"

text \<open>\<^verbatim>\<open>/^x402-permit2-production\.v2:[a-f0-9]{64}$/\<close> and \<^verbatim>\<open>/^eip155:[1-9][0-9]{0,15}$/\<close>.\<close>

definition permit2_key :: "string \<Rightarrow> bool" where
  "permit2_key s \<longleftrightarrow> starts_with ''x402-permit2-production.v2:'' s \<and> hash_text (drop 27 s)"

definition permit2_chain :: "string \<Rightarrow> bool" where
  "permit2_chain s \<longleftrightarrow> eip155_text s \<and> length (drop 7 s) \<le> 16"

definition cancelUnsubmittedReservation :: "prims \<Rightarrow> cancel_input \<Rightarrow> (ledger, usage_reservation) stm" where
  "cancelUnsubmittedReservation P input =
     (if \<not> permit2_chain (id_chain (ci_identity input)) \<or> ref_kind (id_asset (ci_identity input)) \<noteq> Token \<or>
         (case ref_identifier (id_asset (ci_identity input)) of None \<Rightarrow> True | Some t \<Rightarrow> \<not> evm_hex_text t) \<or>
         \<not> permit2_key (ci_idempotencyKey input) \<or> \<not> version_text (ci_registryVersion input) then lift invalid
      else
     bnd (lift (validateIdentity P (ci_identity input) False)) (\<lambda>i.
     bnd (lift (idempotency P (ci_idempotencyKey input))) (\<lambda>idem.
     bnd (lift (instant (ci_now input))) (\<lambda>_.
     bnd (lift (reservationIdFor P i idem)) (\<lambda>rid.
     bnd (lift (digest_of (ci_policyDigest input) False)) (\<lambda>policy.
     bnd (lift (digest_of (ci_outcomeDigest input) False)) (\<lambda>outcome.
     bnd (lift (usage_atomic (ci_amountAtomic input) True False)) (\<lambda>amount.
     bnd (loadBucket P i) (\<lambda>rows.
     bnd (lift (bucketStamp rows (ci_now input))) (\<lambda>at.
     case findRow rid rows of
       Some current \<Rightarrow>
         bnd (lift (assertReplay current policy (ci_registryVersion input) X402 (dec amount) idem)) (\<lambda>_.
         if res_state current = ReleasedUnsubmitted then
           (if res_outcomeDigest current \<noteq> Some outcome then lift blocked else ret current)
         else if res_state current \<noteq> Reserved then lift blocked else
         bnd (lift (seal P (current\<lparr>res_state := ReleasedUnsubmitted, res_updatedAt := at, res_effectAt := None,
           res_outcomeDigest := Some outcome\<rparr>))) (\<lambda>released.
         bnd (writeRecord P i rid released False) (\<lambda>_. ret released)))
     | None \<Rightarrow>
         bnd (lift (seal P ((fresh_row rid idem policy (ci_registryVersion input) i X402 (dec amount) at None)
           \<lparr>res_state := ReleasedUnsubmitted, res_outcomeDigest := Some outcome\<rparr>))) (\<lambda>released.
         bnd (writeRecord P i rid released True) (\<lambda>_. ret released))))))))))))"

section \<open>Settlements\<close>

definition settleMerchantNativeActualFee :: "prims \<Rightarrow> ledger_env \<Rightarrow> string \<Rightarrow> jsdate \<Rightarrow> (ledger, usage_reservation) stm" where
  "settleMerchantNativeActualFee P E operationId now =
     bnd (lift (merchantSettlement E operationId)) (\<lambda>a.
     let i = \<lparr>id_account = mca_walletAddress a, id_chain = ''eip155:4326'',
              id_asset = \<lparr>ref_kind = Native, ref_identifier = None\<rparr>\<rparr>;
         key = ''apn.merchant-native:'' @ operationId; proof = mca_proof a in
     bnd (lift (assetUsageReservationId P i key)) (\<lambda>rid.
     bnd (lift (instant now)) (\<lambda>_.
     bnd (readRecord P i rid) (\<lambda>value.
     case value of None \<Rightarrow> lift blocked | Some stored \<Rightarrow>
     bnd (loadBucket P i) (\<lambda>rows.
     bnd (lift (bucketStamp rows now)) (\<lambda>at.
     bnd (lift (validateAssetUsageReservation P stored)) (\<lambda>current.
     bnd (lift (hashObject (sha P) (merchant_fee_json proof))) (\<lambda>outcome.
     bnd (lift (idempotency P key)) (\<lambda>idem.
     if res_reservationId current \<noteq> rid \<or> res_idempotencyHash current \<noteq> idem \<or> usage_rail current \<noteq> X402 \<or>
        res_policyDigest current \<noteq> mca_policyDigest a \<or> res_amountAtomic current \<noteq> mf_reservedFee proof \<or>
        undec (mf_actualFee proof) > undec (res_amountAtomic current) then lift blocked
     else if res_state current = Finalized then
       (if res_outcomeDigest current \<noteq> Some outcome \<or> (case res_merchantNativeActualFee current of None \<Rightarrow> True
           | Some f \<Rightarrow> canonicalJson (merchant_fee_json f) \<noteq> canonicalJson (merchant_fee_json proof)) then lift blocked
        else ret current)
     else if res_state current \<notin> {Submitted, UnknownFinality} then lift blocked else
     bnd (lift (seal P (current\<lparr>res_state := Finalized, res_updatedAt := at, res_effectAt := Some at,
       res_outcomeDigest := Some outcome, res_consumedAtomic := Some (mf_actualFee proof),
       res_merchantNativeActualFee := Some proof\<rparr>))) (\<lambda>row.
     bnd (writeRecord P i rid row False) (\<lambda>_. ret row)))))))))))"

definition settle_mm_row :: "prims \<Rightarrow> mm_settle_authority \<Rightarrow> jsdate \<Rightarrow> usage_reservation \<Rightarrow> (ledger, unit) stm" where
  "settle_mm_row P p now expected =
     bnd (lift (validateIdentity P (res_identity expected) False)) (\<lambda>i.
     bnd (readRecord P i (res_reservationId expected)) (\<lambda>value.
     case value of None \<Rightarrow> lift blocked | Some stored \<Rightarrow>
     bnd (loadBucket P i) (\<lambda>rows.
     bnd (lift (bucketStamp rows now)) (\<lambda>at.
     bnd (lift (validateAssetUsageReservation P stored)) (\<lambda>current.
     bnd (lift (hashObject (sha P) (mm_fee_json (mms_proof p)))) (\<lambda>outcome.
     if res_reservationId current \<noteq> res_reservationId expected \<or>
        res_idempotencyHash current \<noteq> res_idempotencyHash expected \<or> res_policyDigest current \<noteq> mms_policyDigest p \<or>
        res_amountAtomic current \<noteq> res_amountAtomic expected \<or>
        canonicalJson (marker_json (res_metamaskNativeReservation current)) \<noteq>
          canonicalJson (marker_json (res_metamaskNativeReservation expected)) \<or> usage_rail current \<noteq> Direct then lift blocked
     else if res_state current = Finalized \<or> res_state current = FailedConfirmedRevert then
       (if res_outcomeDigest current \<noteq> Some outcome then lift blocked else ret ())
     else if res_state current \<notin> {Submitted, UnknownFinality} then lift blocked else
     let native = (ref_kind (id_asset i) = Native);
         consumed = (if native then mms_nativeFeeAtomic p else if mms_transferAccepted p then mms_tokenAmountAtomic p else ''0'') in
     if undec consumed > undec (res_amountAtomic current) then lift blocked else
     bnd (lift (seal P (current\<lparr>res_state := (if native \<or> mms_transferAccepted p then Finalized else FailedConfirmedRevert),
       res_updatedAt := at, res_effectAt := Some at, res_outcomeDigest := Some outcome,
       res_consumedAtomic := (if native then Some consumed else if mms_transferAccepted p then res_consumedAtomic current
         else Some ''0''),
       res_metamaskNativeActualFee := (if native then Some (mms_proof p) else res_metamaskNativeActualFee current)\<rparr>))) (\<lambda>row.
     writeRecord P i (res_reservationId current) row False)))))))"

fun settle_mm_rows :: "prims \<Rightarrow> mm_settle_authority \<Rightarrow> jsdate \<Rightarrow> usage_reservation list \<Rightarrow> (ledger, unit) stm" where
  "settle_mm_rows P p now [] = ret ()"
| "settle_mm_rows P p now (r # rs) = bnd (settle_mm_row P p now r) (\<lambda>_. settle_mm_rows P p now rs)"

definition settleMetaMaskNativeActual :: "prims \<Rightarrow> ledger_env \<Rightarrow> string \<Rightarrow> jsdate \<Rightarrow> (ledger, unit) stm" where
  "settleMetaMaskNativeActual P E operationId now =
     bnd (lift (mmSettlement E operationId)) (\<lambda>p.
     bnd (lift (instant now)) (\<lambda>_. settle_mm_rows P p now (mms_reservations p)))"

section \<open>Reading\<close>

record usage_snapshot =
  us_windowStart :: string
  us_amountAtomic :: string

definition usage :: "prims \<Rightarrow> ledger_env \<Rightarrow> usage_identity \<Rightarrow> jsdate \<Rightarrow> (ledger, usage_snapshot) stm" where
  "usage P E identityValue now =
     bnd (lift (validateIdentity P identityValue False)) (\<lambda>i.
     bnd (lift (instant now)) (\<lambda>at.
     bnd (loadBucket P i) (\<lambda>rows.
     bnd (lift (sumBucketUsage E i rows now)) (\<lambda>t.
     ret \<lparr>us_windowStart = day_of at @ ''T00:00:00.000Z'', us_amountAtomic = t\<rparr>))))"

definition usageWithReservation ::
  "prims \<Rightarrow> ledger_env \<Rightarrow> usage_identity \<Rightarrow> string \<Rightarrow> jsdate \<Rightarrow> (ledger, usage_snapshot \<times> usage_reservation option) stm" where
  "usageWithReservation P E identityValue rid now =
     bnd (lift (validateIdentity P identityValue False)) (\<lambda>i.
     bnd (lift (digest_of rid False)) (\<lambda>rid.
     bnd (lift (instant now)) (\<lambda>at.
     bnd (loadBucket P i) (\<lambda>rows.
     bnd (lift (sumBucketUsage E i rows now)) (\<lambda>t.
     ret (\<lparr>us_windowStart = day_of at @ ''T00:00:00.000Z'', us_amountAtomic = t\<rparr>, findRow rid rows))))))"

definition load :: "prims \<Rightarrow> usage_identity \<Rightarrow> string \<Rightarrow> (ledger, usage_reservation option) stm" where
  "load P identityValue rid =
     bnd (lift (validateIdentity P identityValue False)) (\<lambda>i.
     bnd (lift (digest_of rid False)) (\<lambda>rid.
     bnd (readRecord P i rid) (\<lambda>value.
     case value of None \<Rightarrow> ret None
     | Some stored \<Rightarrow>
         bnd (lift (validateAssetUsageReservation P stored)) (\<lambda>r.
           if res_reservationId r \<noteq> rid \<or> \<not> same_identity (res_identity r) i then lift corrupt else ret (Some r)))))"

text \<open>Relay retirement: refused while a matching bridge hold exists.\<close>

definition withNoMatchingRelayReservation ::
  "prims \<Rightarrow> string \<Rightarrow> string option \<Rightarrow> string \<Rightarrow> nat \<Rightarrow> string option \<Rightarrow> ('w, 'v) stm \<Rightarrow> (ledger \<times> 'w, 'v) stm" where
  "withNoMatchingRelayReservation P acct policy amount sourceChainId allowed action =
     bnd (lift (case policy of None \<Rightarrow> Inr () | Some d \<Rightarrow> rbind (digest_of d False) (\<lambda>_. Inr ()))) (\<lambda>_.
     bnd (lift (case getAddress P acct of None \<Rightarrow> Inl (OtherError ''InvalidAddressError'') | Some a \<Rightarrow> Inr a)) (\<lambda>a.
     bnd (lift (validateIdentity P
       (if sourceChainId \<noteq> 1 then \<lparr>id_account = a, id_chain = ''eip155:'' @ dec sourceChainId,
          id_asset = \<lparr>ref_kind = Native, ref_identifier = None\<rparr>\<rparr>
        else \<lparr>id_account = a, id_chain = ''eip155:1'',
          id_asset = \<lparr>ref_kind = Token, ref_identifier = Some ''0xA0b86991c6218b36c1d19D4a2e9Eb0cE3606eB48''\<rparr>\<rparr>) False)) (\<lambda>i.
     bnd (on_ledger (loadBucket P i)) (\<lambda>rows.
     if list_ex (\<lambda>r. usage_rail r = Bridge \<and> (policy = None \<or> policy = Some (res_policyDigest r)) \<and>
          res_amountAtomic r = amount \<and>
          \<not> (Some (res_reservationId r) = allowed \<and> res_state r = FailedBeforeEffect)) rows
     then lift blocked else on_caller action))))"

section \<open>Every operation is one write of a legal row\<close>

text \<open>A bucket holds stored rows under their own names and identities.\<close>

definition ledger_ok :: "prims \<Rightarrow> ledger \<Rightarrow> bool" where
  "ledger_ok P s \<longleftrightarrow> (\<forall>b. distinct (map fst (s b)) \<and>
     (\<forall>(n, r) \<in> set (s b). stored_ok P r \<and> res_reservationId r = n \<and> bucketDirectory P (res_identity r) = Inr b))"

text \<open>
  The abstract ledger: a step writes nothing, adds a fresh row, moves an open row to an allowed
  state without touching its amount, or reopens a hold that failed before its effect.
\<close>

definition same_hold :: "usage_reservation \<Rightarrow> usage_reservation \<Rightarrow> bool" where
  "same_hold old new \<longleftrightarrow> res_reservationId new = res_reservationId old \<and> res_amountAtomic new = res_amountAtomic old \<and>
     res_idempotencyHash new = res_idempotencyHash old \<and> res_policyDigest new = res_policyDigest old \<and>
     usage_rail new = usage_rail old"

inductive ledger_step :: "prims \<Rightarrow> ledger \<Rightarrow> ledger \<Rightarrow> bool" for P where
  unchanged: "ledger_step P s s"
| created: "ledger_step P s (s(b := put_entry (res_reservationId r) r (s b)))"
    if "stored_ok P r" "bucketDirectory P (res_identity r) = Inr b"
      "res_reservationId r \<notin> fst ` set (s b)" "res_state r = Reserved \<or> res_state r = ReleasedUnsubmitted"
| moved: "ledger_step P s (s(b := put_entry (res_reservationId old) new (s b)))"
    if "(res_reservationId old, old) \<in> set (s b)" "stored_ok P new" "bucketDirectory P (res_identity new) = Inr b"
      "same_hold old new" "res_state new \<in> set (allowed_transitions (res_state old))"
      "res_updatedAt old \<le> res_updatedAt new"
| reopened: "ledger_step P s (s(b := put_entry (res_reservationId old) new (s b)))"
    if "(res_reservationId old, old) \<in> set (s b)" "stored_ok P new" "bucketDirectory P (res_identity new) = Inr b"
      "same_hold old new" "res_state old = FailedBeforeEffect" "res_state new = Reserved"
      "res_updatedAt old \<le> res_updatedAt new"

lemma set_put_entry:
  "distinct (map fst es) \<Longrightarrow> set (put_entry n r es) = insert (n, r) {e \<in> set es. fst e \<noteq> n}"
proof (induction es)
  case (Cons e es)
  then show ?case by (cases e) (auto simp: image_iff)
qed simp

lemma keys_put_entry: "map fst (put_entry n r es) = (if n \<in> fst ` set es then map fst es else map fst es @ [n])"
  by (induction n r es rule: put_entry.induct) auto

lemma ledger_ok_put:
  assumes "ledger_ok P s" "stored_ok P r" "bucketDirectory P (res_identity r) = Inr b" "res_reservationId r = n"
  shows "ledger_ok P (s(b := put_entry n r (s b)))"
proof -
  have d: "distinct (map fst (s b))" using assms(1) by (simp add: ledger_ok_def)
  then have "distinct (map fst (put_entry n r (s b)))" by (auto simp: keys_put_entry)
  moreover have "stored_ok P x \<and> res_reservationId x = m \<and> bucketDirectory P (res_identity x) = Inr b"
    if "(m, x) \<in> set (put_entry n r (s b))" for m x
    using that assms unfolding set_put_entry [OF d] by (auto simp: ledger_ok_def)
  ultimately show ?thesis using assms(1) by (auto simp: ledger_ok_def)
qed

lemma ledger_step_ok: "ledger_step P s s' \<Longrightarrow> ledger_ok P s \<Longrightarrow> ledger_ok P s'"
  by (cases rule: ledger_step.cases) (auto intro: ledger_ok_put simp: same_hold_def)

subsection \<open>Reading a bucket\<close>

lemma loadBucket_result:
  "loadBucket P i s = (r, s') \<Longrightarrow> s' = s \<and> (\<forall>rows. r = Inr rows \<longrightarrow>
     (\<exists>b. bucketDirectory P i = Inr b \<and> rmap (load_entry P i) (s b) = Inr rows))"
  by (auto simp: loadBucket_def bnd_def split: sum.splits)

lemma load_entries_eq:
  "rmap (load_entry P i) es = Inr rows \<Longrightarrow> rows = map snd es \<and>
     (\<forall>(n, r) \<in> set es. hash_text n \<and> stored_ok P r \<and> res_reservationId r = n \<and> same_identity (res_identity r) i)"
proof (induction es arbitrary: rows)
  case (Cons e es)
  then show ?case
    by (cases e) (auto simp: load_entry_def stored_ok_def split: if_splits dest: validate_self)
qed simp

lemma same_identity_bucket: "same_identity a b \<Longrightarrow> bucketDirectory P a = bucketDirectory P b"
  by (simp add: same_identity_def bucketDirectory_def)

lemma newest_ge: "at \<le> newest rows at \<and> (\<forall>r \<in> set rows. res_updatedAt r \<le> newest rows at)"
proof (induction rows rule: rev_induct)
  case (snoc r rows)
  then show ?case by (auto simp: newest_def intro: order_trans)
qed (simp add: newest_def)

lemma bucketStamp_ge: "bucketStamp rows now = Inr at \<Longrightarrow> r \<in> set rows \<Longrightarrow> res_updatedAt r \<le> at"
  using newest_ge by (auto simp: bucketStamp_def)

subsection \<open>Operations as steps\<close>

text \<open>Rules that walk an operation down to its write, keeping what each check established.\<close>

definition runs_step :: "prims \<Rightarrow> ledger \<Rightarrow> (ledger, 'a) stm \<Rightarrow> bool" where
  "runs_step P s m \<longleftrightarrow> ledger_step P s (snd (m s))"

lemma step_lift: "runs_step P s (lift r)"
  by (simp add: runs_step_def unchanged)

lemma step_ret: "runs_step P s (ret x)"
  by (simp add: runs_step_def unchanged)

lemma step_bnd_lift: "(\<And>x. r = Inr x \<Longrightarrow> runs_step P s (f x)) \<Longrightarrow> runs_step P s (bnd (lift r) f)"
  by (cases r) (simp_all add: runs_step_def bnd_def unchanged)

lemma step_if: "(c \<Longrightarrow> runs_step P s m) \<Longrightarrow> (\<not> c \<Longrightarrow> runs_step P s m') \<Longrightarrow> runs_step P s (if c then m else m')"
  by simp

lemma step_option: "(v = None \<Longrightarrow> runs_step P s m) \<Longrightarrow> (\<And>x. v = Some x \<Longrightarrow> runs_step P s (f x)) \<Longrightarrow>
  runs_step P s (case v of None \<Rightarrow> m | Some x \<Rightarrow> f x)"
  by (cases v) simp_all

lemma step_load:
  assumes "\<And>b rows. bucketDirectory P i = Inr b \<Longrightarrow> rows = map snd (s b) \<Longrightarrow>
    (\<And>n r. (n, r) \<in> set (s b) \<Longrightarrow> stored_ok P r \<and> res_reservationId r = n \<and> bucketDirectory P (res_identity r) = Inr b) \<Longrightarrow>
    runs_step P s (f rows)"
  shows "runs_step P s (bnd (loadBucket P i) f)"
proof (cases "loadBucket P i s")
  case (Pair r s')
  show ?thesis
  proof (cases r)
    case (Inl e)
    with Pair loadBucket_result [OF Pair] show ?thesis by (simp add: runs_step_def bnd_def unchanged)
  next
    case (Inr rows)
    with loadBucket_result [OF Pair] obtain b where
      s': "s' = s" and b: "bucketDirectory P i = Inr b" "rmap (load_entry P i) (s b) = Inr rows" by auto
    from load_entries_eq [OF b(2)] have rows: "rows = map snd (s b)" and
      es: "\<And>n r. (n, r) \<in> set (s b) \<Longrightarrow> stored_ok P r \<and> res_reservationId r = n \<and> same_identity (res_identity r) i"
      by auto
    have "runs_step P s (f rows)"
      by (rule assms [OF b(1) rows]) (use es b(1) same_identity_bucket in fastforce)
    with Pair Inr s' show ?thesis by (simp add: runs_step_def bnd_def)
  qed
qed

lemma step_read:
  assumes "\<And>b. bucketDirectory P i = Inr b \<Longrightarrow> runs_step P s (f (map_of (s b) n))"
  shows "runs_step P s (bnd (readRecord P i n) f)"
  using assms by (cases "bucketDirectory P i") (simp_all add: runs_step_def readRecord_def bnd_def unchanged)

lemma step_write:
  assumes "\<And>b. bucketDirectory P i = Inr b \<Longrightarrow> (c \<Longrightarrow> map_of (s b) n = None) \<Longrightarrow> ledger_step P s (s(b := put_entry n r (s b)))"
  shows "runs_step P s (bnd (writeRecord P i n r c) (\<lambda>_. ret x))"
  using assms by (cases "bucketDirectory P i") (auto simp: runs_step_def writeRecord_def bnd_def unchanged)

lemmas step_rules = step_bnd_lift step_load step_read step_write step_if step_option step_lift step_ret

lemma findRow_Some: "findRow rid rows = Some r \<Longrightarrow> r \<in> set rows \<and> res_reservationId r = rid"
  by (auto simp: findRow_def dest: find_SomeD)

lemma findRow_None: "findRow rid rows = None \<longleftrightarrow> (\<forall>r \<in> set rows. res_reservationId r \<noteq> rid)"
  by (simp add: findRow_def find_None)

lemma fresh_row_fields [simp]:
  "res_reservationId (fresh_row a b c d e f g h k) = a" "res_identity (fresh_row a b c d e f g h k) = e"
  "res_amountAtomic (fresh_row a b c d e f g h k) = g" "res_state (fresh_row a b c d e f g h k) = Reserved"
  "usage_rail (fresh_row a b c d e f g h k) = f" "res_updatedAt (fresh_row a b c d e f g h k) = h"
  by (simp_all add: fresh_row_def)

lemma create_step:
  assumes "seal P row = Inr r" "bucketDirectory P (res_identity row) = Inr b" "res_reservationId row = n"
    "map_of (s b) n = None" "res_state row = Reserved \<or> res_state row = ReleasedUnsubmitted"
  shows "ledger_step P s (s(b := put_entry n r (s b)))"
proof -
  from seal_stored_ok [OF assms(1)] obtain d where r: "stored_ok P r" "r = row\<lparr>res_reservationDigest := d\<rparr>" by blast
  have "ledger_step P s (s(b := put_entry (res_reservationId r) r (s b)))"
    using r assms(2-5) by (intro created) (auto simp: map_of_eq_None_iff)
  with r assms(3) show ?thesis by simp
qed

lemma move_step:
  assumes "seal P row = Inr r" "(n, old) \<in> set (s b)" "res_reservationId old = n" "bucketDirectory P (res_identity row) = Inr b"
    "same_hold old row" "res_updatedAt old \<le> res_updatedAt row"
    "res_state row \<in> set (allowed_transitions (res_state old)) \<or> res_state old = FailedBeforeEffect \<and> res_state row = Reserved"
  shows "ledger_step P s (s(b := put_entry n r (s b)))"
proof -
  from seal_stored_ok [OF assms(1)] obtain d where r: "stored_ok P r" "r = row\<lparr>res_reservationDigest := d\<rparr>" by blast
  from assms(5) r(2) have "same_hold old r" by (simp add: same_hold_def)
  with assms r moved [of old s b P r] reopened [of old s b P r] show ?thesis by auto
qed

text \<open>The two shapes the writes of the operations have, over the facts the walk collects.\<close>

definition loaded :: "prims \<Rightarrow> ledger \<Rightarrow> string \<Rightarrow> bool" where
  "loaded P s b \<longleftrightarrow> (\<forall>(n, r) \<in> set (s b). stored_ok P r \<and> res_reservationId r = n \<and> bucketDirectory P (res_identity r) = Inr b)"

lemma loadedI:
  "(\<And>n r. (n, r) \<in> set (s b) \<Longrightarrow> stored_ok P r \<and> res_reservationId r = n \<and> bucketDirectory P (res_identity r) = Inr b) \<Longrightarrow>
   loaded P s b"
  by (auto simp: loaded_def)

lemma move_loaded:
  assumes "loaded P s b" "(n, old) \<in> set (s b)" "seal P row = Inr r" "bucketStamp (map snd (s b)) now = Inr at"
    "bucketDirectory P i = Inr b" "bucketDirectory P i = Inr b'"
    "same_hold old row" "res_updatedAt row = at" "bucketDirectory P (res_identity row) = bucketDirectory P (res_identity old)"
    "res_state row \<in> set (allowed_transitions (res_state old)) \<or> res_state old = FailedBeforeEffect \<and> res_state row = Reserved"
  shows "ledger_step P s (s(b' := put_entry n r (s b')))"
proof -
  have old: "res_reservationId old = n" "bucketDirectory P (res_identity old) = Inr b"
    using assms(1,2) by (auto simp: loaded_def)
  have "res_updatedAt old \<le> res_updatedAt row"
    using bucketStamp_ge [OF assms(4), of old] assms(2,8) by force
  with old assms show ?thesis by (intro move_step [of P row r n old s]) auto
qed

lemma move_found:
  assumes "findRow n rows = Some old" "rows = map snd (s b)"
    "\<And>n r. (n, r) \<in> set (s b) \<Longrightarrow> stored_ok P r \<and> res_reservationId r = n \<and> bucketDirectory P (res_identity r) = Inr b"
    "seal P row = Inr r" "bucketStamp rows now = Inr at" "bucketDirectory P i = Inr b" "bucketDirectory P i = Inr b'"
    "same_hold old row" "res_updatedAt row = at" "res_identity row = res_identity old"
    "res_state row \<in> set (allowed_transitions (res_state old)) \<or> res_state old = FailedBeforeEffect \<and> res_state row = Reserved"
  shows "ledger_step P s (s(b' := put_entry n r (s b')))"
proof -
  from assms(1,2) have "old \<in> set (map snd (s b))" "res_reservationId old = n" by (auto dest: findRow_Some)
  with assms(3) have "(n, old) \<in> set (s b)" by fastforce
  with assms show ?thesis by (intro move_loaded [of P s b n old row r now at i]) (auto intro: loadedI)
qed

lemma move_read:
  assumes "map_of (s c) n = Some old" "rows = map snd (s b)"
    "\<And>n r. (n, r) \<in> set (s b) \<Longrightarrow> stored_ok P r \<and> res_reservationId r = n \<and> bucketDirectory P (res_identity r) = Inr b"
    "validateAssetUsageReservation P old = Inr cur"
    "seal P row = Inr r" "bucketStamp rows now = Inr at" "bucketDirectory P i = Inr b" "bucketDirectory P i = Inr c" "bucketDirectory P i = Inr b'"
    "same_hold cur row" "res_updatedAt row = at" "res_identity row = res_identity cur"
    "res_state row \<in> set (allowed_transitions (res_state cur))" "n' = n"
  shows "ledger_step P s (s(b' := put_entry n' r (s b')))"
  using assms validate_self [OF assms(4)]
  by (intro move_loaded [of P s b n' old row r now at i]) (auto intro: loadedI map_of_SomeD)

lemma assertTransition_Inr [simp]: "assertTransition a b = Inr u \<longleftrightarrow> b \<in> set (allowed_transitions a)"
  by (simp add: assertTransition_def)

lemma reserveBound_step: "runs_step P s (reserveBound P E input mm)"
  unfolding reserveBound_def reserve_locked_def Let_def
  apply (intro step_rules)
   apply (rule create_step, assumption, simp_all) [1]
  apply (rule move_found, assumption+)
     apply (simp_all add: same_hold_def)
  done

lemma reserveMetaMaskNative_step: "runs_step P s (reserveMetaMaskNative P E op kind now)"
  unfolding reserveMetaMaskNative_def by (intro step_rules reserveBound_step)

lemma reserveWithinOwnerCap_step: "runs_step P s (reserveWithinOwnerCap P input)"
  unfolding reserveWithinOwnerCap_def
  by (intro step_rules) (rule create_step, assumption, simp_all)

lemma transition_step: "runs_step P s (transition P E input)"
  unfolding transition_def Let_def
  apply (intro step_rules)
  apply (rule move_read, assumption+)
      apply (auto simp: same_hold_def)
  done

lemma cancelUnsubmittedReservation_step: "runs_step P s (cancelUnsubmittedReservation P input)"
  unfolding cancelUnsubmittedReservation_def
  apply (intro step_rules)
   apply (rule create_step, assumption, simp_all) [1]
  apply (rule move_found, assumption+)
     apply (simp_all add: same_hold_def)
  done

lemma settleMerchantNativeActualFee_step: "runs_step P s (settleMerchantNativeActualFee P E op now)"
  unfolding settleMerchantNativeActualFee_def Let_def
  apply (intro step_rules)
  apply (rule move_read, assumption+)
      apply (auto simp: same_hold_def)
  done

lemma step_write_unit:
  assumes "\<And>b. bucketDirectory P i = Inr b \<Longrightarrow> ledger_step P s (s(b := put_entry n r (s b)))"
  shows "runs_step P s (writeRecord P i n r False)"
  using assms by (cases "bucketDirectory P i") (auto simp: runs_step_def writeRecord_def bnd_def unchanged)

lemma settle_mm_row_step: "runs_step P s (settle_mm_row P p now expected)"
  unfolding settle_mm_row_def Let_def
  apply (intro step_rules step_write_unit)
  apply (rule move_read, assumption+)
      apply (auto simp: same_hold_def)
  done

lemma settle_mm_rows_step: "(ledger_step P)\<^sup>*\<^sup>* s (snd (settle_mm_rows P p now rs s))"
proof (induction rs arbitrary: s)
  case (Cons r rs)
  have one: "ledger_step P s (snd (settle_mm_row P p now r s))"
    using settle_mm_row_step by (simp add: runs_step_def)
  show ?case
  proof (cases "settle_mm_row P p now r s")
    case (Pair res s')
    with one Cons [of s'] show ?thesis
      by (cases res) (auto simp: bnd_def intro: converse_rtranclp_into_rtranclp)
  qed
qed simp

text \<open>The same walk for an operation that also runs a callback on the caller's store.\<close>

definition runs_step_with :: "prims \<Rightarrow> ledger \<Rightarrow> (ledger \<times> 'w, 'a) stm \<Rightarrow> bool" where
  "runs_step_with P s m \<longleftrightarrow> (\<forall>w. ledger_step P s (fst (snd (m (s, w)))))"

lemma with_lift: "runs_step_with P s (lift r)"
  by (simp add: runs_step_with_def unchanged)

lemma with_bnd_lift: "(\<And>x. r = Inr x \<Longrightarrow> runs_step_with P s (f x)) \<Longrightarrow> runs_step_with P s (bnd (lift r) f)"
  by (cases r) (simp_all add: runs_step_with_def bnd_def unchanged)

lemma with_if: "(c \<Longrightarrow> runs_step_with P s m) \<Longrightarrow> (\<not> c \<Longrightarrow> runs_step_with P s m') \<Longrightarrow> runs_step_with P s (if c then m else m')"
  by simp

lemma with_option: "(v = None \<Longrightarrow> runs_step_with P s m) \<Longrightarrow> (\<And>x. v = Some x \<Longrightarrow> runs_step_with P s (f x)) \<Longrightarrow>
  runs_step_with P s (case v of None \<Rightarrow> m | Some x \<Rightarrow> f x)"
  by (cases v) simp_all

lemma with_read:
  assumes "\<And>b. bucketDirectory P i = Inr b \<Longrightarrow> runs_step_with P s (f (map_of (s b) n))"
  shows "runs_step_with P s (bnd (on_ledger (readRecord P i n)) f)"
  using assms
  by (cases "bucketDirectory P i") (simp_all add: runs_step_with_def on_ledger_def readRecord_def bnd_def unchanged)

lemma with_load:
  assumes "\<And>b rows. bucketDirectory P i = Inr b \<Longrightarrow> rows = map snd (s b) \<Longrightarrow>
    (\<And>n r. (n, r) \<in> set (s b) \<Longrightarrow> stored_ok P r \<and> res_reservationId r = n \<and> bucketDirectory P (res_identity r) = Inr b) \<Longrightarrow>
    runs_step_with P s (f rows)"
  shows "runs_step_with P s (bnd (on_ledger (loadBucket P i)) f)"
proof (cases "loadBucket P i s")
  case (Pair r s')
  with loadBucket_result [OF Pair] have s': "s' = s" by simp
  show ?thesis
  proof (cases r)
    case (Inl e)
    with Pair s' show ?thesis by (simp add: runs_step_with_def on_ledger_def bnd_def unchanged)
  next
    case (Inr rows)
    with loadBucket_result [OF Pair] obtain b where
      b: "bucketDirectory P i = Inr b" "rmap (load_entry P i) (s b) = Inr rows" by auto
    from load_entries_eq [OF b(2)] have rows: "rows = map snd (s b)" and
      es: "\<And>n r. (n, r) \<in> set (s b) \<Longrightarrow> stored_ok P r \<and> res_reservationId r = n \<and> same_identity (res_identity r) i"
      by auto
    have "runs_step_with P s (f rows)"
      by (rule assms [OF b(1) rows]) (use es b(1) same_identity_bucket in fastforce)
    with Pair Inr s' show ?thesis by (simp add: runs_step_with_def on_ledger_def bnd_def)
  qed
qed

lemma with_caller:
  assumes "\<And>x. runs_step_with P s (f x)"
  shows "runs_step_with P s (bnd (on_caller m) f)"
  using assms by (auto simp: runs_step_with_def on_caller_def bnd_def unchanged split: prod.splits sum.splits)

lemma with_pair: "(\<And>a b c. x = (a, b, c) \<Longrightarrow> runs_step_with P s (f a b c)) \<Longrightarrow> runs_step_with P s (case x of (a, b, c) \<Rightarrow> f a b c)"
  by (cases x) simp

lemma with_write:
  assumes "\<And>b. bucketDirectory P i = Inr b \<Longrightarrow> ledger_step P s (s(b := put_entry n r (s b)))"
  shows "runs_step_with P s (bnd (on_ledger (writeRecord P i n r False)) (\<lambda>_. ret x))"
  using assms
  by (cases "bucketDirectory P i") (auto simp: runs_step_with_def on_ledger_def writeRecord_def bnd_def unchanged)

lemmas with_rules = with_bnd_lift with_read with_load with_caller with_pair with_write with_if with_option with_lift

text \<open>Rows with one canonical text hold the same amount.\<close>

lemma opt_member_string: "(k, v) \<in> set (opt_member k' w) \<Longrightarrow> k = k'"
  by (auto simp: opt_member_def split: option.splits)

lemma reservation_floats: "floats_ok (reservation_json x)"
  by (auto simp: reservation_json_def reservation_body_json_def identity_members_def asset_json_def nullable_def
      opt_member_def mm_marker_json_def mm_fee_json_def merchant_fee_json_def cleanup_marker_json_def
      cleanup_actual_json_def cleanup_actual_members_def split: option.splits)

lemma same_json_fields:
  assumes "same_json a b" "canonicalJson (reservation_json a) = Inr t"
  shows "res_reservationId a = res_reservationId b" "res_amountAtomic a = res_amountAtomic b"
    "res_idempotencyHash a = res_idempotencyHash b" "res_policyDigest a = res_policyDigest b"
    "res_updatedAt a = res_updatedAt b"
    "usage_state_text (res_state a) = usage_state_text (res_state b)" "rail_text (usage_rail a) = rail_text (usage_rail b)"
proof -
  obtain ka kb where k: "reservation_json a = JObj ka" "reservation_json b = JObj kb"
    by (simp add: reservation_json_def reservation_body_json_def)
  note fl = reservation_floats
  have mem: "(n, JStr s) \<in> set ka \<Longrightarrow> (n, JStr s) \<in> set kb" for n s
    using canonicalJson_member [of ka t kb] assms fl [of a] fl [of b] k by (simp add: same_json_def)
  note defs = reservation_json_def reservation_body_json_def identity_members_def
  have ka: "(''reservationId'', JStr (res_reservationId a)) \<in> set ka" "(''amountAtomic'', JStr (res_amountAtomic a)) \<in> set ka"
    "(''idempotencyHash'', JStr (res_idempotencyHash a)) \<in> set ka" "(''policyDigest'', JStr (res_policyDigest a)) \<in> set ka"
    "(''updatedAt'', JStr (res_updatedAt a)) \<in> set ka" "(''state'', JStr (usage_state_text (res_state a))) \<in> set ka"
    "(''rail'', JStr (rail_text (usage_rail a))) \<in> set ka"
    using k(1) by (auto simp: defs)
  have kb: "(''reservationId'', JStr s) \<in> set kb \<Longrightarrow> s = res_reservationId b" "(''amountAtomic'', JStr s) \<in> set kb \<Longrightarrow> s = res_amountAtomic b"
    "(''idempotencyHash'', JStr s) \<in> set kb \<Longrightarrow> s = res_idempotencyHash b" "(''policyDigest'', JStr s) \<in> set kb \<Longrightarrow> s = res_policyDigest b"
    "(''updatedAt'', JStr s) \<in> set kb \<Longrightarrow> s = res_updatedAt b" "(''state'', JStr s) \<in> set kb \<Longrightarrow> s = usage_state_text (res_state b)"
    "(''rail'', JStr s) \<in> set kb \<Longrightarrow> s = rail_text (usage_rail b)" for s
    using k(2) by (auto simp: defs dest!: opt_member_string)
  show "res_reservationId a = res_reservationId b" "res_amountAtomic a = res_amountAtomic b"
    "res_idempotencyHash a = res_idempotencyHash b" "res_policyDigest a = res_policyDigest b"
    "res_updatedAt a = res_updatedAt b"
    "usage_state_text (res_state a) = usage_state_text (res_state b)" "rail_text (usage_rail a) = rail_text (usage_rail b)"
    using ka [THEN mem] kb by auto
qed

lemma validateIdentity_self: "validateIdentity P v st = Inr i \<Longrightarrow> i = v"
proof -
  assume v: "validateIdentity P v st = Inr i"
  have acct: "a = id_account v" if "canonicalAccount P (id_chain v) (id_account v) st = Inr a" for a
    using that by (auto simp: canonicalAccount_def split: option.splits sum.splits if_splits)
  have tok: "t = x" if "canonicalToken P (id_chain v) x st = Inr t" for x t
    using that by (auto simp: canonicalToken_def split: option.splits sum.splits if_splits)
  obtain acct ch k ident where v': "v = \<lparr>id_account = acct, id_chain = ch, id_asset = \<lparr>ref_kind = k, ref_identifier = ident\<rparr>\<rparr>"
    by (metis (full_types) asset_ref.surjective old.unit.exhaust usage_identity.surjective)
  show ?thesis
  proof (cases k)
    case Native
    with v v' show ?thesis
      by (cases ident) (auto simp: validateIdentity_def dest: acct [unfolded v', simplified] split: if_splits)
  next
    case Token
    with v v' show ?thesis
      by (cases ident)
        (auto simp: validateIdentity_def dest: acct [unfolded v', simplified] tok [unfolded v', simplified] split: if_splits)
  qed
qed

lemma plain_opt_member: "(\<And>x. w = Some x \<Longrightarrow> plain_json x) \<Longrightarrow> list_all (\<lambda>(k, v). plain_json v) (opt_member k w)"
  by (auto simp: opt_member_def split: option.splits)

lemma plain_nullable [simp]: "plain_json (nullable x)"
  by (auto simp: nullable_def split: option.splits)

lemma reservation_plain: "plain_json (reservation_body_json r)" "plain_json (reservation_json r)"
  by (auto simp: reservation_json_def reservation_body_json_def identity_members_def asset_json_def
      mm_marker_json_def mm_fee_json_def merchant_fee_json_def cleanup_marker_json_def
      cleanup_actual_json_def cleanup_actual_members_def intro!: plain_opt_member)

lemma reservation_json_total: "\<exists>t. canonicalJson (reservation_json r) = Inr t"
  by (rule canonicalJson_total) (rule reservation_plain)

lemma usage_state_text_inj: "usage_state_text a = usage_state_text b \<Longrightarrow> a = b"
  by (cases a; cases b) auto

lemma rail_text_inj: "rail_text a = rail_text b \<Longrightarrow> a = b"
  by (cases a; cases b) auto

lemma same_json_hold:
  assumes "same_json a b"
  shows "same_hold a b \<and> res_state a = res_state b \<and> res_updatedAt a = res_updatedAt b"
proof -
  obtain t where "canonicalJson (reservation_json a) = Inr t" using reservation_json_total by blast
  note fields = same_json_fields [OF assms this]
  show ?thesis
    using fields(1-5) usage_state_text_inj [OF fields(6)] rail_text_inj [OF fields(7)] by (simp add: same_hold_def)
qed

lemma release_leaf:
  assumes "validateAssetUsageReservation P e0 = Inr e" "\<not> (usage_rail e \<noteq> Direct \<or> res_state e \<noteq> Reserved)"
    "validateIdentity P (res_identity e) False = Inr i" "map_of (s c) (res_reservationId e) = Some old"
    "validateAssetUsageReservation P old = Inr cur" "\<not> \<not> same_json cur e" "rows = map snd (s b)"
    "\<And>n r. (n, r) \<in> set (s b) \<Longrightarrow> stored_ok P r \<and> res_reservationId r = n \<and> bucketDirectory P (res_identity r) = Inr b"
    "seal P (e\<lparr>res_state := FailedBeforeEffect, res_updatedAt := at, res_effectAt := None, res_outcomeDigest := Some d\<rparr>) = Inr r"
    "bucketStamp rows now = Inr at" "bucketDirectory P i = Inr b" "bucketDirectory P i = Inr c" "bucketDirectory P i = Inr b'"
  shows "ledger_step P s (s(b' := put_entry (res_reservationId e) r (s b')))"
proof -
  have cur: "cur = old" using validate_self [OF assms(5)] .
  have hold: "same_hold old e" "res_state old = res_state e" using same_json_hold [of cur e] assms(6) cur by auto
  have bs: "c = b" "b' = b" using assms(11-13) by simp_all
  have old: "(res_reservationId e, old) \<in> set (s b)" using assms(4) bs by (auto dest: map_of_SomeD)
  have i: "i = res_identity e" using validateIdentity_self [OF assms(3)] .
  have "loaded P s b" using assms(8) by (rule loadedI)
  moreover have "bucketStamp (map snd (s b)) now = Inr at" using assms(7,10) by simp
  moreover have "bucketDirectory P (res_identity old) = Inr b" using assms(8) [OF old] by blast
  ultimately show ?thesis
    using assms(2,11,13) hold i
    by (intro move_loaded [where s = s and b = b and old = old and P = P and now = now and at = at, OF _ old assms(9)])
      (auto simp: same_hold_def)
qed

lemma releaseDirectReservedAfter_step: "runs_step_with P s (releaseDirectReservedAfter P E expected persist)"
  unfolding releaseDirectReservedAfter_def
  apply (intro with_rules)
  apply (rule release_leaf, assumption+)
  done

end
