(* ===== verification/AssetPolicyLaws.thy ===== *)
theory AssetPolicyLaws
  imports AssetPolicy
begin

text \<open>
  What the owner can rely on: the properties of \<^verbatim>\<open>evaluateAssetPolicy\<close> and of the recipient
  pins, over the lemmas of \<open>AssetPolicy\<close>. A small sealed registry evaluates them on concrete
  input.
\<close>

section \<open>A sample registry\<close>

definition sample_prims :: prims where
  "sample_prims = \<lparr>sha = (\<lambda>_. replicate 64 CHR ''a''), getAddress = (\<lambda>a. Some a), solanaAddress = (\<lambda>a. Some a),
     tronHexBytes = (\<lambda>_. []), decodeBase58Address = (\<lambda>_. None), getBase58CheckAddress = (\<lambda>_. []),
     tronToHex = (\<lambda>a. a), bytesToHex = (\<lambda>_. [])\<rparr>"

definition sample_usdc :: string where
  "sample_usdc = ''0x833589fCD6eDb6E08f4c7C32D4f71b54bdA02913''"

definition sample_recipient :: string where
  "sample_recipient = ''0x1111111111111111111111111111111111111111''"

definition sample_row :: policy_row where
  "sample_row = \<lparr>row_kind = Token, row_identifier = Some sample_usdc, row_symbol = ''USDC'', row_decimals = 6,
     row_rails = \<lparr>direct = True, gasless = False, x402 = False, bridge = True, swap = False\<rparr>,
     row_caps = None,
     row_railCaps = Some [(Direct, \<lparr>maximumPerTransferAtomic = ''5'', dailyLimitAtomic = ''9''\<rparr>),
                          (Bridge, \<lparr>maximumPerTransferAtomic = ''8'', dailyLimitAtomic = ''9''\<rparr>)],
     row_mechanismPins = None,
     row_mechanismOptions = Some \<lparr>options_bridge = Some
       [\<lparr>opt_provider = ''lifi'', opt_reference = ''cctp'', opt_maximumPerTransferAtomic = ''3'', opt_recipients = Some [sample_recipient]\<rparr>,
        \<lparr>opt_provider = ''relay'', opt_reference = ''v2'', opt_maximumPerTransferAtomic = ''8'', opt_recipients = None\<rparr>],
       options_swap = None\<rparr>,
     row_gaslessRecipient = None, row_recipients = Some [(Direct, [sample_recipient])]\<rparr>"

definition sample_registry :: policy_registry where
  "sample_registry = \<lparr>reg_schemaVersion = V2, reg_registryVersion = ''r1'', reg_publishedAt = ''2026-01-01T00:00:00.000Z'',
     reg_effectiveDate = ''2026-01-02'', reg_effectiveAt = None, reg_expiresAt = Some ''2026-12-01T00:00:00.000Z'',
     reg_chains = [\<lparr>chain_id = ''eip155:8453'', chain_family = Evm, chain_name = ''Base'', chain_assets = [sample_row]\<rparr>],
     reg_policyDigest = replicate 64 CHR ''a''\<rparr>"

definition sample_input :: "rail \<Rightarrow> string \<Rightarrow> evaluation_input" where
  "sample_input rail amount = \<lparr>in_chain = ''eip155:8453'', in_asset = \<lparr>ref_kind = Token, ref_identifier = Some sample_usdc\<rparr>,
     in_rail = rail, in_mechanism = (if rail = Bridge then Some \<lparr>provider = ''lifi'', reference = ''cctp''\<rparr> else None),
     in_amountAtomic = amount, in_dailyUsageAtomic = ''4'', in_asOfDate = ''2026-05-05'', in_asOf = Some ''2026-05-05T10:00:00.000Z''\<rparr>"

text \<open>Its digest function is constant, so every digest of the samples is the same text.\<close>

abbreviation aaa :: string where
  "aaa \<equiv> replicate 64 CHR ''a''"

lemma sample_sha [simp]: "sha sample_prims t = aaa"
  by (simp add: sample_prims_def)

lemma sample_canonical [simp]: "plain_json v \<Longrightarrow> rbind (canonicalJson v) (\<lambda>t. Inr (domainHash (sha sample_prims) d t)) = Inr aaa"
  using canonicalJson_total [of v] by (auto simp: domainHash_def)

lemma sample_hash [simp]: "plain_json v \<Longrightarrow> hashObject (sha sample_prims) v = Inr aaa"
  using canonicalJson_total [of v] by (auto simp: hashObject_def sha256_def)

lemma sample_body: "is_ok (validateRegistryBody sample_prims sample_registry)" "plain_json (registry_body_json sample_registry)"
  by code_simp+

lemma sample_valid: "validateAssetPolicyRegistry sample_prims sample_registry = Inr sample_registry"
proof -
  obtain t where "canonicalJson (registry_body_json sample_registry) = Inr t" using sample_body(2) canonicalJson_total by blast
  moreover have "reg_policyDigest sample_registry = aaa" "hash_text aaa" by code_simp+
  ultimately show ?thesis using sample_body(1) by (simp add: validateAssetPolicyRegistry_def is_ok_eq domainHash_def)
qed

lemma sample_evaluation:
  "evaluateAssetPolicy sample_prims sample_registry input = evaluate_validated sample_prims sample_registry input"
  by (simp add: evaluateAssetPolicy_def sample_valid)

lemma sample_direct: "is_ok (evaluateAssetPolicy sample_prims sample_registry (sample_input Direct ''5''))"
  unfolding sample_evaluation by code_simp

lemma sample_bridge: "is_ok (evaluateAssetPolicy sample_prims sample_registry (sample_input Bridge ''3''))"
  unfolding sample_evaluation by code_simp

section \<open>Caps\<close>

text \<open>
  The property C2: an amount the evaluator admits is positive, at most the per-transfer cap it
  reports, and together with the day's usage at most the daily cap; both caps are canonical
  uint256 amounts and the remaining allowance it reports is exact.
\<close>

theorem admitted_within_caps:
  assumes "evaluateAssetPolicy P reg input = Inr adm"
  shows "0 < undec (in_amountAtomic input) \<and>
    undec (in_amountAtomic input) \<le> undec (maximumPerTransferAtomic (adm_caps adm)) \<and>
    undec (in_dailyUsageAtomic input) + undec (in_amountAtomic input) + undec (adm_dailyRemainingAtomic adm)
      = undec (dailyLimitAtomic (adm_caps adm)) \<and>
    undec (dailyLimitAtomic (adm_caps adm)) \<le> MAX_UINT256"
proof -
  obtain chain asset caps sel where
    v: "validateAssetPolicyRegistry P reg = Inr reg" "chain \<in> set (reg_chains reg)" "asset \<in> set (chain_assets chain)"
    and cap: "applied_caps (reg_schemaVersion reg) asset (in_rail input) = Some caps" "dailyLimitAtomic (adm_caps adm) = dailyLimitAtomic caps"
    and am: "0 < undec (in_amountAtomic input)" "undec (in_amountAtomic input) \<le> undec (maximumPerTransferAtomic (adm_caps adm))"
    and d: "undec (in_dailyUsageAtomic input) + undec (in_amountAtomic input) \<le> undec (dailyLimitAtomic caps)"
      "adm_dailyRemainingAtomic adm = dec (undec (dailyLimitAtomic caps) - undec (in_dailyUsageAtomic input) - undec (in_amountAtomic input))"
    using assms by (rule evaluateAssetPolicy_InrD) blast
  have "validateCaps caps = Inr ()"
    using validateRegistry_row(1) [OF v] cap(1) by (rule applied_caps_valid)
  then have "undec (dailyLimitAtomic caps) \<le> MAX_UINT256" using validateCaps_InrD by fastforce
  with am d cap(2) show ?thesis by simp
qed

theorem admitted_within_caps_witness:
  "\<exists>adm. evaluateAssetPolicy sample_prims sample_registry (sample_input Direct ''5'') = Inr adm \<and>
     undec (in_amountAtomic (sample_input Direct ''5'')) \<le> undec (maximumPerTransferAtomic (adm_caps adm))"
  using sample_direct admitted_within_caps [of sample_prims sample_registry "sample_input Direct ''5''"]
  by (auto simp: is_ok_eq)

text \<open>
  An admission names a chain and an asset row that the sealed registry lists, on a rail
  the row admits, for the token the caller asked for; version 2 applies the caps of that rail
  alone.
\<close>

lemma admitted_row_listed:
  assumes "evaluateAssetPolicy P reg input = Inr adm"
  shows "\<exists>chain \<in> set (reg_chains reg). chain_id chain = in_chain input \<and> adm_chain adm = in_chain input \<and>
    adm_asset adm \<in> set (chain_assets chain) \<and>
    admits (row_rails (adm_asset adm)) (in_rail input) \<and> adm_rail adm = in_rail input \<and>
    identity_text P chain (in_asset input) = Inr (row_identifier (adm_asset adm)) \<and>
    row_kind (adm_asset adm) = ref_kind (in_asset input) \<and>
    adm_policyDigest adm = reg_policyDigest reg \<and>
    (reg_schemaVersion reg = V2 \<longrightarrow>
      (\<exists>cs c. row_railCaps (adm_asset adm) = Some cs \<and> map_of cs (in_rail input) = Some c \<and>
        dailyLimitAtomic (adm_caps adm) = dailyLimitAtomic c))"
  using assms
  by (rule evaluateAssetPolicy_InrD) (auto simp: applied_caps_def split: option.splits intro!: bexI)

lemma bridge_option_cap:
  assumes "validateAsset P family row sch = Inr u" "options_of options_bridge row = Some os" "o' \<in> set os"
    "applied_caps sch row Bridge = Some caps"
  shows "undec (opt_maximumPerTransferAtomic o') \<le> undec (maximumPerTransferAtomic caps)"
    "0 < undec (opt_maximumPerTransferAtomic o')"
    "opt_recipients o' = Some rs \<Longrightarrow> recipientPinList P rs None \<noteq> None"
proof -
  have "validateBridgeOptions P sch row os = Inr ()"
    using validateAsset_InrD(6) [OF assms(1,2)] .
  with assms(3,4) have "validateBridgeOption P caps o' = Inr ()"
    by (auto simp: validateBridgeOptions_def applied_caps_def invalid_def split: if_splits option.splits)
  then show "undec (opt_maximumPerTransferAtomic o') \<le> undec (maximumPerTransferAtomic caps)"
    "0 < undec (opt_maximumPerTransferAtomic o')"
    "opt_recipients o' = Some rs \<Longrightarrow> recipientPinList P rs None \<noteq> None"
    by (auto simp: validateBridgeOption_def atomic_Inr split: if_splits)
qed

lemma selected_option_bridge:
  "options_of options_bridge row = Some os \<Longrightarrow> selected_option row Bridge m = Inr sel \<Longrightarrow>
   \<exists>mech o'. m = Some mech \<and> find_option os mech = Some o' \<and> sel = Some o'"
  by (cases m; cases "find_option os (the m)") (auto simp: selected_option_def)

text \<open>
  On a row with bridge alternatives a bridge admission names a listed mechanism, and the
  per-transfer cap it applies is that alternative's own, never above the rail's.
\<close>

lemma admitted_bridge_mechanism:
  assumes "evaluateAssetPolicy P reg input = Inr adm" "in_rail input = Bridge"
    "options_of options_bridge (adm_asset adm) = Some os"
  shows "\<exists>m. in_mechanism input = Some m \<and> bridgeMechanismAdmitted adm m \<and>
    (\<exists>o' \<in> set os. opt_provider o' = provider m \<and> opt_reference o' = reference m \<and>
      maximumPerTransferAtomic (adm_caps adm) = opt_maximumPerTransferAtomic o' \<and>
      (\<exists>c. applied_caps (reg_schemaVersion reg) (adm_asset adm) Bridge = Some c \<and>
        undec (opt_maximumPerTransferAtomic o') \<le> undec (maximumPerTransferAtomic c)))"
proof -
  obtain chain caps sel where
    v: "validateAssetPolicyRegistry P reg = Inr reg" "chain \<in> set (reg_chains reg)" "adm_asset adm \<in> set (chain_assets chain)"
    and cap: "applied_caps (reg_schemaVersion reg) (adm_asset adm) Bridge = Some caps"
    and s: "selected_option (adm_asset adm) Bridge (in_mechanism input) = Inr sel"
    and r: "adm_rail adm = Bridge"
    and m: "maximumPerTransferAtomic (adm_caps adm) =
       (case sel of None \<Rightarrow> maximumPerTransferAtomic caps | Some o' \<Rightarrow> opt_maximumPerTransferAtomic o')"
    using assms(1) by (rule evaluateAssetPolicy_InrD) (metis assms(2))
  from selected_option_bridge [OF assms(3) s] obtain mech o' where o':
    "in_mechanism input = Some mech" "find_option os mech = Some o'" "sel = Some o'" by blast
  then have f: "o' \<in> set os" "opt_provider o' = provider mech" "opt_reference o' = reference mech"
    by (auto simp: find_option_def dest: find_SomeD)
  have "undec (opt_maximumPerTransferAtomic o') \<le> undec (maximumPerTransferAtomic caps)"
    using validateRegistry_row(1) [OF v] assms(3) f(1) cap by (rule bridge_option_cap)
  with cap m o' f r assms(3) show ?thesis
    by (auto simp: bridgeMechanismAdmitted_def list_ex_iff)
qed

lemma sample_row_admitted:
  assumes "evaluateAssetPolicy sample_prims sample_registry (sample_input rail amount) = Inr adm"
  shows "adm_asset adm = sample_row \<and> adm_rail adm = rail"
  using assms by (rule evaluateAssetPolicy_InrD) (auto simp: sample_registry_def sample_input_def)

section \<open>Recipients\<close>

lemma row_pin_list:
  assumes "validateAsset P family row sch = Inr u" "row_recipients row = Some rs" "map_of rs r = Some ps"
  shows "\<exists>fam. recipientPinList P ps fam \<noteq> None"
proof -
  have "rowRecipientPinsValid P rs (row_rails row) family (options_of options_bridge row \<noteq> None)"
    using validateAsset_InrD(7) [OF assms(1,2)] .
  moreover have "(r, ps) \<in> set rs" using assms(3) by (rule map_of_SomeD)
  ultimately have "recipientPinList P ps (if r = Bridge then None else Some family) \<noteq> None"
    unfolding rowRecipientPinsValid_def list_all_iff by fast
  then show ?thesis by blast
qed

text \<open>The pins that govern an admission are a checked list.\<close>

lemma governing_pins_checked:
  assumes "evaluateAssetPolicy P reg input = Inr adm" "admittedRecipientPins adm m = Inr (Some ps)"
  shows "\<exists>fam. recipientPinList P ps fam \<noteq> None"
proof -
  obtain chain caps where
    v: "validateAssetPolicyRegistry P reg = Inr reg" "chain \<in> set (reg_chains reg)" "adm_asset adm \<in> set (chain_assets chain)"
    and cap: "applied_caps (reg_schemaVersion reg) (adm_asset adm) (adm_rail adm) = Some caps"
    using assms(1) by (rule evaluateAssetPolicy_InrD) metis
  note row = validateRegistry_row(1) [OF v]
  show ?thesis
  proof (cases "if adm_rail adm = Bridge then options_of options_bridge (adm_asset adm) else None")
    case None
    with assms(2) obtain rs where "row_recipients (adm_asset adm) = Some rs" "map_of rs (adm_rail adm) = Some ps"
      by (auto simp: admittedRecipientPins_def Let_def split: if_splits option.splits)
    with row show ?thesis by (rule row_pin_list)
  next
    case (Some os)
    then have rail: "adm_rail adm = Bridge" and os: "options_of options_bridge (adm_asset adm) = Some os"
      by (auto split: if_splits)
    from assms(2) Some obtain o' where "o' \<in> set os" "opt_recipients o' = Some ps"
      by (auto simp: admittedRecipientPins_def find_option_def Let_def dest!: find_SomeD split: if_splits option.splits)
    then show ?thesis using bridge_option_cap(3) [OF row os _ cap [unfolded rail]] by blast
  qed
qed

text \<open>
  The property C9: when the owner pinned the recipients of an admission, the recipient check accepts an
  address exactly when its canonical spelling is one of the one to sixteen pinned ones, and no
  pinned one is a zero or system address.
\<close>

theorem pinned_recipients_enforced:
  assumes "evaluateAssetPolicy P reg input = Inr adm" "admittedRecipientPins adm m = Inr (Some ps)"
  shows "(assertRecipientAdmitted P adm m r = Inr () \<longleftrightarrow> (\<exists>f a. canonicalRecipient P r = Some (f, a) \<and> a \<in> set ps)) \<and>
    ps \<noteq> [] \<and> length ps \<le> 16 \<and> distinct ps \<and>
    (\<forall>p \<in> set ps. \<exists>f. canonicalRecipient P p = Some (f, p) \<and> p \<noteq> zero_address f)"
proof -
  obtain fam qs where l: "recipientPinList P ps fam = Some qs"
    using governing_pins_checked [OF assms] by auto
  have "\<exists>f. canonicalRecipient P p = Some (f, p) \<and> p \<noteq> zero_address f" if "p \<in> set ps" for p
    using recipientPinList_entry [OF l that] canonicalRecipient_nonzero by blast
  moreover have "assertRecipientAdmitted P adm m r = Inr () \<longleftrightarrow>
      (\<exists>f a. canonicalRecipient P r = Some (f, a) \<and> a \<in> set ps)"
    by (auto simp: assertRecipientAdmitted_def recipientAdmitted_def assms(2) split: option.splits if_splits)
  ultimately show ?thesis using recipientPinList_bounds [OF l] by blast
qed

theorem pinned_recipients_enforced_witness:
  "\<exists>adm. evaluateAssetPolicy sample_prims sample_registry (sample_input Direct ''5'') = Inr adm \<and>
     assertRecipientAdmitted sample_prims adm None sample_recipient = Inr ()"
proof -
  obtain adm where adm: "evaluateAssetPolicy sample_prims sample_registry (sample_input Direct ''5'') = Inr adm"
    using sample_direct by (auto simp: is_ok_eq)
  then have pins: "admittedRecipientPins adm None = Inr (Some [sample_recipient])"
    using sample_row_admitted by (simp add: admittedRecipientPins_def isRecipientPinRail_def sample_row_def)
  have "canonicalRecipient sample_prims sample_recipient = Some (Evm, sample_recipient)" by code_simp
  with adm pinned_recipients_enforced [OF adm pins, of sample_recipient] show ?thesis by auto
qed

section \<open>Sealing\<close>

lemma registry_body_json_digest [simp]: "registry_body_json (v\<lparr>reg_policyDigest := d\<rparr>) = registry_body_json v"
  by (simp add: registry_body_json_def)

lemma validateRegistryBody_digest [simp]: "validateRegistryBody P (v\<lparr>reg_policyDigest := d\<rparr>) = validateRegistryBody P v"
  by (simp add: validateRegistryBody_def cong del: option.case_cong_weak)

text \<open>
  The property C10: sealing a registry whose body is valid gives one that validates as itself; and a sealed
  registry can be exchanged for another under the same digest only if both have the same
  canonical text, or the two texts collide under SHA-256.
\<close>

theorem sealed_registry_validates:
  assumes "assetPolicyDigest P v = Inr d" "hash_text d"
  shows "sealAssetPolicyRegistry P v = Inr (v\<lparr>reg_policyDigest := d\<rparr>) \<and>
    (\<forall>w. validateAssetPolicyRegistry P w = Inr w \<and> reg_policyDigest w = d \<longrightarrow>
      (\<exists>s t. canonicalJson (registry_body_json v) = Inr s \<and> canonicalJson (registry_body_json w) = Inr t \<and>
        sha P (schema_text (reg_schemaVersion v) @ [CHR 0x00] @ s) = sha P (schema_text (reg_schemaVersion w) @ [CHR 0x00] @ t)))"
proof -
  obtain s where s: "validateRegistryBody P v = Inr ()" "canonicalJson (registry_body_json v) = Inr s"
    "d = domainHash (sha P) (schema_text (reg_schemaVersion v)) s"
    using assms(1) by (auto simp: assetPolicyDigest_def)
  then have seal: "sealAssetPolicyRegistry P v = Inr (v\<lparr>reg_policyDigest := d\<rparr>)"
    using assms by (simp add: sealAssetPolicyRegistry_def validateAssetPolicyRegistry_def)
  have "\<exists>t. canonicalJson (registry_body_json w) = Inr t \<and> domainHash (sha P) (schema_text (reg_schemaVersion w)) t = d"
    if "validateAssetPolicyRegistry P w = Inr w \<and> reg_policyDigest w = d" for w
    using that by (auto simp: validateAssetPolicyRegistry_def split: if_splits)
  with seal s show ?thesis by (fastforce simp: domainHash_def)
qed

theorem sealed_registry_validates_witness:
  "\<exists>v. sealAssetPolicyRegistry sample_prims sample_registry = Inr v"
proof -
  have "is_ok (validateRegistryBody sample_prims sample_registry)" "is_ok (canonicalJson (registry_body_json sample_registry))"
    using sample_direct by (auto simp: is_ok_eq evaluateAssetPolicy_def validateAssetPolicyRegistry_def split: if_splits)
  then have "assetPolicyDigest sample_prims sample_registry = Inr (replicate 64 CHR ''a'')"
    by (auto simp: assetPolicyDigest_def is_ok_eq domainHash_def sample_prims_def)
  moreover have "hash_text (replicate 64 CHR ''a'')" by code_simp
  ultimately show ?thesis using sealed_registry_validates by blast
qed

end
