(* ===== verification/UsageSamples.thy ===== *)
theory UsageSamples
  imports UsageLedger AssetPolicyLaws
begin

text \<open>
  A sample caller of the usage ledger, run to its end by rewriting: the owner-cap reservation, the
  policy reservation and the rows they leave. The witnesses of the ledger's properties rest on
  these runs.
\<close>

section \<open>Caller and environment\<close>

definition sample_env :: ledger_env where
  "sample_env = \<lparr>retirementsFor = (\<lambda>_. Inr []), genericCapacityRelease = (\<lambda>_. Inr ()), mmFailedBeforeEffect = (\<lambda>_. Inr ()),
     mmReservation = (\<lambda>_. blocked), mmSettlement = (\<lambda>_. blocked), merchantSettlement = (\<lambda>_. blocked)\<rparr>"

definition sample_owner_input :: owner_cap_input where
  "sample_owner_input = \<lparr>oc_identity = \<lparr>id_account = sample_recipient, id_chain = ''eip155:8453'',
       id_asset = \<lparr>ref_kind = Token, ref_identifier = Some sample_usdc\<rparr>\<rparr>,
     oc_amountAtomic = ''5'', oc_maximumAtomic = ''9'', oc_policyDigest = replicate 64 CHR ''a'',
     oc_registryVersion = ''r1'', oc_idempotencyKey = ''key-0001'', oc_now = Some ''2026-05-05T10:00:00.000Z''\<rparr>"

definition sample_reserve :: reserve_input where
  "sample_reserve = \<lparr>ri_identity = oc_identity sample_owner_input, ri_registry = sample_registry, ri_rail = Direct,
     ri_mechanism = None, ri_amountAtomic = ''5'', ri_idempotencyKey = ''key-0001'', ri_now = Some ''2026-05-05T10:00:00.000Z'',
     ri_retryFailedBeforeEffect = False\<rparr>"

lemma bnd_lift_ok: "bnd (lift (Inr x)) f = f x"
  by (simp add: bnd_def fun_eq_iff)

section \<open>A stored hold\<close>

text \<open>The row of the sample caller, in a ledger of its own.\<close>

definition sample_hold :: usage_reservation where
  "sample_hold = \<lparr>res_reservationId = replicate 64 CHR ''a'', res_idempotencyHash = replicate 64 CHR ''a'',
     res_policyDigest = replicate 64 CHR ''a'', res_registryVersion = ''r1'', res_identity = oc_identity sample_owner_input,
     usage_rail = X402, res_amountAtomic = ''5'', res_consumedAtomic = None, res_merchantNativeActualFee = None,
     res_metamaskNativeReservation = None, res_metamaskNativeActualFee = None, res_cleanup85NativeReservation = None,
     res_cleanup85NativeActual = None, res_state = Reserved, res_reservedAt = ''2026-05-05T10:00:00.000Z'',
     res_updatedAt = ''2026-05-05T10:00:00.000Z'', res_effectAt = None, res_outcomeDigest = None,
     res_reservationDigest = replicate 64 CHR ''a''\<rparr>"

definition sample_held :: ledger where
  "sample_held = (\<lambda>_. [])(replicate 64 CHR ''a'' := [(replicate 64 CHR ''a'', sample_hold)])"

lemma sample_bucket [simp]: "bucketDirectory sample_prims i = Inr aaa"
  unfolding bucketDirectory_def
  by (rule sample_canonical) (auto simp: identity_json_def identity_members_def asset_json_def nullable_def split: option.splits)

lemma sample_rid [simp]: "reservationIdFor sample_prims i h = Inr aaa"
  unfolding reservationIdFor_def
  by (rule sample_canonical) (auto simp: identity_members_def asset_json_def nullable_def split: option.splits)

lemma sample_reservation_digest [simp]: "reservation_digest sample_prims r = Inr aaa"
  unfolding reservation_digest_def using reservation_plain by simp

lemma sample_hold_body: "validateBody sample_prims sample_hold = Inr ()" "shape_ok sample_hold" "hash_text aaa"
  by code_simp+

lemma sample_hold_ok: "validateAssetUsageReservation sample_prims sample_hold = Inr sample_hold"
  using sample_hold_body by (simp add: validateAssetUsageReservation_def) (simp add: sample_hold_def)

lemma sample_held_ok: "ledger_ok sample_prims sample_held"
  using sample_hold_ok by (auto simp: ledger_ok_def sample_held_def stored_ok_def) (simp_all add: sample_hold_def)


section \<open>Runs\<close>

lemma dec_zero: "dec 0 = ''0''" "undec ''0'' = 0" "dec 5 = ''5''" "undec ''5'' = 5"
  by code_simp+

lemma sample_load:
  "loadBucket sample_prims i (\<lambda>_. []) = (Inr [], \<lambda>_. [])"
  "loadBucket sample_prims (oc_identity sample_owner_input) sample_held = (Inr [sample_hold], sample_held)"
  using sample_hold_ok
  by (simp_all add: loadBucket_def bnd_def load_entry_def sample_held_def sample_hold_body same_identity_def)
    (simp add: sample_hold_def)

lemma sample_usage_empty: "sumBucketUsage sample_env i [] (Some ''2026-05-05T10:00:00.000Z'') = Inr ''0''"
  by (simp add: sumBucketUsage_def sample_env_def historicalRetirementUsage_def sumUsage_def instant_def MAX_UINT256_def Let_def dec_zero)

lemma sample_usage_held: "sumBucketUsage sample_env i [sample_hold] (Some ''2026-05-05T10:00:00.000Z'') = Inr ''5''"
proof -
  have "charge_of (day_of ''2026-05-05T10:00:00.000Z'') sample_hold = Inr (Some 5)" by code_simp
  then show ?thesis
    by (simp add: sumBucketUsage_def sample_env_def historicalRetirementUsage_def sumUsage_def instant_def MAX_UINT256_def Let_def dec_zero)
qed

lemma sample_identity_checks:
  "validateIdentity sample_prims (oc_identity sample_owner_input) False = Inr (oc_identity sample_owner_input)"
  "canonicalAccount sample_prims ''eip155:8453'' (id_account (oc_identity sample_owner_input)) False =
     Inr (id_account (oc_identity sample_owner_input))"
  "id_chain (oc_identity sample_owner_input) = ''eip155:8453''"
  "idempotency sample_prims ''key-0001'' = Inr aaa"
  by code_simp+

lemma sample_seal:
  assumes "r \<in> {X402, Direct}"
  shows "seal sample_prims (sample_hold\<lparr>usage_rail := r, res_reservationDigest := []\<rparr>) = Inr (sample_hold\<lparr>usage_rail := r\<rparr>)"
    "validateAssetUsageReservation sample_prims (sample_hold\<lparr>usage_rail := r\<rparr>) = Inr (sample_hold\<lparr>usage_rail := r\<rparr>)"
proof -
  have "validateBody sample_prims (sample_hold\<lparr>usage_rail := X402\<rparr>) = Inr ()" "validateBody sample_prims (sample_hold\<lparr>usage_rail := Direct\<rparr>) = Inr ()"
    "shape_ok (sample_hold\<lparr>usage_rail := X402\<rparr>)" "shape_ok (sample_hold\<lparr>usage_rail := Direct\<rparr>)"
    by code_simp+
  with assms have body: "validateBody sample_prims (sample_hold\<lparr>usage_rail := r\<rparr>) = Inr ()" "shape_ok (sample_hold\<lparr>usage_rail := r\<rparr>)"
    by auto
  then show "validateAssetUsageReservation sample_prims (sample_hold\<lparr>usage_rail := r\<rparr>) = Inr (sample_hold\<lparr>usage_rail := r\<rparr>)"
    using sample_hold_body(3) by (simp add: validateAssetUsageReservation_def) (simp add: sample_hold_def)
  moreover have "sample_hold\<lparr>usage_rail := r, res_reservationDigest := aaa\<rparr> = sample_hold\<lparr>usage_rail := r\<rparr>"
    by (simp add: sample_hold_def)
  ultimately show "seal sample_prims (sample_hold\<lparr>usage_rail := r, res_reservationDigest := []\<rparr>) = Inr (sample_hold\<lparr>usage_rail := r\<rparr>)"
    by (simp add: seal_def)
qed

lemma sample_owner_run:
  "reserveWithinOwnerCap sample_prims sample_owner_input (\<lambda>_. []) = (Inr sample_hold, sample_held)"
proof -
  have fields: "oc_idempotencyKey sample_owner_input = ''key-0001''" "oc_now sample_owner_input = Some ''2026-05-05T10:00:00.000Z''"
    "oc_policyDigest sample_owner_input = aaa" "oc_amountAtomic sample_owner_input = ''5''"
    "oc_maximumAtomic sample_owner_input = ''9''" "oc_registryVersion sample_owner_input = ''r1''"
    by (simp_all add: sample_owner_input_def)
  have amounts: "usage_atomic ''5'' True False = Inr 5" "usage_atomic ''9'' True False = Inr 9" by code_simp+
  have row: "fresh_row aaa aaa aaa ''r1'' (oc_identity sample_owner_input) X402 ''5'' ''2026-05-05T10:00:00.000Z'' None =
      sample_hold\<lparr>usage_rail := X402, res_reservationDigest := []\<rparr>" "sample_hold\<lparr>usage_rail := X402\<rparr> = sample_hold"
    by (simp_all add: fresh_row_def sample_hold_def)
  have sealed: "seal sample_prims (sample_hold\<lparr>res_reservationDigest := []\<rparr>) = Inr sample_hold"
    using sample_seal(1) [of X402] by (simp add: row(2))
  show ?thesis
    by (simp add: reserveWithinOwnerCap_def sample_identity_checks fields bnd_def instant_def digest_of_def sample_hold_body amounts
        sample_load findRow_def bucketStamp_def newest_def dec_zero row sealed writeRecord_def sample_held_def)
qed

text \<open>The policy reservation of the same amount on the direct rail.\<close>

definition sample_direct_hold :: usage_reservation where
  "sample_direct_hold = sample_hold\<lparr>usage_rail := Direct\<rparr>"

definition sample_direct_input :: evaluation_input where
  "sample_direct_input = (sample_input Direct ''5'')\<lparr>in_dailyUsageAtomic := ''0''\<rparr>"

lemma sample_admission_facts:
  "case evaluate_validated sample_prims sample_registry sample_direct_input of Inl _ \<Rightarrow> False | Inr adm \<Rightarrow>
     adm_policyDigest adm = aaa \<and> adm_registryVersion adm = ''r1'' \<and> adm_chain adm = ''eip155:8453'' \<and> adm_rail adm = Direct \<and>
     adm_amountAtomic adm = ''5'' \<and> exactAsset (adm_asset adm) = id_asset (oc_identity sample_owner_input)"
  by code_simp

lemma sample_admission:
  obtains adm where "evaluateAssetPolicy sample_prims sample_registry sample_direct_input = Inr adm"
    "adm_policyDigest adm = aaa" "adm_registryVersion adm = ''r1''" "adm_chain adm = ''eip155:8453''" "adm_rail adm = Direct"
    "adm_amountAtomic adm = ''5''" "exactAsset (adm_asset adm) = id_asset (oc_identity sample_owner_input)"
  using sample_admission_facts that by (auto simp: sample_evaluation split: sum.splits)

lemma sample_reserve_run:
  "reserveBound sample_prims sample_env sample_reserve None (\<lambda>_. []) =
     (Inr sample_direct_hold, (\<lambda>_. [])(aaa := [(aaa, sample_direct_hold)]))"
proof -
  have fields: "ri_identity sample_reserve = oc_identity sample_owner_input" "ri_registry sample_reserve = sample_registry"
    "ri_rail sample_reserve = Direct" "ri_mechanism sample_reserve = None" "ri_amountAtomic sample_reserve = ''5''"
    "ri_idempotencyKey sample_reserve = ''key-0001''" "ri_now sample_reserve = Some ''2026-05-05T10:00:00.000Z''"
    by (simp_all add: sample_reserve_def)
  have input: "evaluation sample_reserve ''eip155:8453'' (id_asset (oc_identity sample_owner_input)) ''5'' ''0'' ''2026-05-05T10:00:00.000Z''
      = sample_direct_input"
    by (simp add: evaluation_def fields sample_direct_input_def sample_input_def sample_owner_input_def day_of_def)
  have identity: "\<lparr>id_account = id_account (oc_identity sample_owner_input), id_chain = ''eip155:8453'',
      id_asset = id_asset (oc_identity sample_owner_input)\<rparr> = oc_identity sample_owner_input"
    by (simp add: sample_identity_checks(3) [symmetric])
  have row: "fresh_row aaa aaa aaa ''r1'' (oc_identity sample_owner_input) Direct ''5'' ''2026-05-05T10:00:00.000Z'' None =
      sample_hold\<lparr>usage_rail := Direct, res_reservationDigest := []\<rparr>"
    by (simp add: fresh_row_def sample_hold_def)
  have key: "\<not> starts_with ''apn.metamask-native:'' ''key-0001''" "\<not> starts_with ''apn.cleanup85-native:'' ''key-0001''"
    by code_simp+
  obtain adm where adm: "evaluateAssetPolicy sample_prims sample_registry sample_direct_input = Inr adm"
    "adm_policyDigest adm = aaa" "adm_registryVersion adm = ''r1''" "adm_chain adm = ''eip155:8453''" "adm_rail adm = Direct"
    "adm_amountAtomic adm = ''5''" "exactAsset (adm_asset adm) = id_asset (oc_identity sample_owner_input)"
    by (rule sample_admission)
  show ?thesis
    using key
    by (simp add: reserveBound_def fields bnd_lift_ok sample_valid instant_def sample_identity_checks input adm identity Let_def
        reserve_locked_def bnd_def sample_load findRow_def bucketStamp_def newest_def sample_usage_empty row sample_seal
        writeRecord_def sample_direct_hold_def)
qed

end
