(* ===== verification/UsageSafety.thy ===== *)
theory UsageSafety
  imports UsageSamples
begin

text \<open>
  What the common ledger guarantees across operations: every operation refines the abstract
  step, the stored rows stay valid, a hold keeps its amount and its terminal outcome, replaying
  a reservation returns the row it made, and no reservation takes the day's usage past the
  owner's daily cap.
\<close>

section \<open>Operations and reachable ledgers\<close>

datatype ledger_op =
    OpReserve reserve_input
  | OpReserveMetaMask string asset_kind jsdate
  | OpOwnerCap owner_cap_input
  | OpTransition transition_input
  | OpCancel cancel_input
  | OpSettleMerchant string jsdate
  | OpSettleMetaMask string jsdate
  | OpReleaseDirect usage_reservation "(jsdate \<times> string) result"

fun run_op :: "prims \<Rightarrow> ledger_env \<Rightarrow> ledger_op \<Rightarrow> ledger \<Rightarrow> ledger" where
  "run_op P E (OpReserve input) s = snd (reserve P E input s)"
| "run_op P E (OpReserveMetaMask op kind now) s = snd (reserveMetaMaskNative P E op kind now s)"
| "run_op P E (OpOwnerCap input) s = snd (reserveWithinOwnerCap P input s)"
| "run_op P E (OpTransition input) s = snd (transition P E input s)"
| "run_op P E (OpCancel input) s = snd (cancelUnsubmittedReservation P input s)"
| "run_op P E (OpSettleMerchant op now) s = snd (settleMerchantNativeActualFee P E op now s)"
| "run_op P E (OpSettleMetaMask op now) s = snd (settleMetaMaskNativeActual P E op now s)"
| "run_op P E (OpReleaseDirect expected outcome) s =
     fst (snd (releaseDirectReservedAfter P E expected
       (lift (rbind outcome (\<lambda>(now, d). Inr ((), now, d)))) (s, ())))"

text \<open>Any sequence of operations, each with whatever its collaborators answer at that time.\<close>

inductive ledger_reachable :: "prims \<Rightarrow> ledger \<Rightarrow> bool" for P where
  initial: "ledger_reachable P (\<lambda>_. [])"
| operation: "ledger_reachable P s \<Longrightarrow> ledger_reachable P (run_op P E op s)"

lemma run_op_steps: "(ledger_step P)\<^sup>*\<^sup>* s (run_op P E op s)"
proof (cases op)
  case (OpSettleMetaMask id now)
  show ?thesis
  proof (cases "mmSettlement E id")
    case (Inr p)
    then show ?thesis
      using OpSettleMetaMask settle_mm_rows_step
      by (cases now) (auto simp: settleMetaMaskNativeActual_def bnd_def instant_def invalid_def)
  qed (simp add: OpSettleMetaMask settleMetaMaskNativeActual_def bnd_def)
next
  case (OpReleaseDirect expected outcome)
  show ?thesis
    using releaseDirectReservedAfter_step
        [of P s E expected "lift (rbind outcome (\<lambda>(now, d). Inr ((), now, d))) :: (unit, unit \<times> jsdate \<times> string) stm"]
    unfolding OpReleaseDirect runs_step_with_def by (auto intro: r_into_rtranclp)
qed (use reserveBound_step reserveMetaMaskNative_step reserveWithinOwnerCap_step transition_step
    cancelUnsubmittedReservation_step settleMerchantNativeActualFee_step
    in \<open>auto simp: runs_step_def reserve_def intro!: r_into_rtranclp\<close>)

lemma ledger_steps_ok: "(ledger_step P)\<^sup>*\<^sup>* s s' \<Longrightarrow> ledger_ok P s \<Longrightarrow> ledger_ok P s'"
  by (induction rule: rtranclp_induct) (auto intro: ledger_step_ok)

text \<open>
  The property C4: every operation of the ledger, whatever its collaborators answer and whether it
  returns or throws, is a sequence of legal steps of the abstract ledger: rows are only added,
  moved along the state graph with their amount and binding kept, or reopened after a failure
  before any effect.
\<close>

theorem ledger_refines_steps: "(ledger_step P)\<^sup>*\<^sup>* s (run_op P E op s)"
  by (rule run_op_steps)

lemma reachable_ok: "ledger_reachable P s \<Longrightarrow> ledger_ok P s"
proof (induction rule: ledger_reachable.induct)
  case initial
  show ?case by (simp add: ledger_ok_def)
next
  case (operation s E op)
  then show ?case using ledger_steps_ok run_op_steps by blast
qed

text \<open>
  The property C7: in every reachable ledger each stored row passes the full stored validation, lies under
  its own reservation id in the bucket of its own identity, and no bucket has two files of one id.
\<close>

theorem reachable_ledger_ok:
  assumes "ledger_reachable P s"
  shows "distinct (map fst (s b)) \<and> (\<forall>(n, r) \<in> set (s b). validateAssetUsageReservation P r = Inr r \<and>
    res_reservationId r = n \<and> bucketDirectory P (res_identity r) = Inr b)"
  using reachable_ok [OF assms] by (auto simp: ledger_ok_def stored_ok_def)

theorem reachable_ledger_ok_witness:
  "distinct (map fst (run_op sample_prims sample_env (OpOwnerCap sample_owner_input) (\<lambda>_. []) (replicate 64 CHR ''a'')))"
  using reachable_ledger_ok [OF ledger_reachable.operation [OF ledger_reachable.initial]] by blast

section \<open>A hold over time\<close>

lemma put_entry_get:
  assumes "distinct (map fst es)" "(n, r) \<in> set es"
  shows "(\<exists>r'. (n, r') \<in> set (put_entry m x es) \<and> (if m = n then r' = x else r' = r))"
  using assms by (auto simp: set_put_entry)

lemma step_keeps_hold:
  assumes "ledger_step P s s'" "ledger_ok P s" "(n, r) \<in> set (s b)"
  shows "\<exists>r'. (n, r') \<in> set (s' b) \<and> same_hold r r' \<and> res_updatedAt r \<le> res_updatedAt r' \<and>
    (r' = r \<or> res_state r' \<in> set (allowed_transitions (res_state r)) \<or>
      res_state r = FailedBeforeEffect \<and> res_state r' = Reserved)"
  using assms
proof (cases rule: ledger_step.cases)
  case unchanged
  with assms(3) show ?thesis by (auto simp: same_hold_def)
next
  case (created x c)
  have "(n, r) \<in> set (s' b)"
  proof (cases "c = b")
    case True
    with created(4) assms(3) have "res_reservationId x \<noteq> n" by force
    with True created(1) assms(2,3) show ?thesis by (auto simp: ledger_ok_def set_put_entry)
  qed (use created(1) assms(3) in simp)
  then show ?thesis by (auto simp: same_hold_def)
next
  case (moved old c new)
  then show ?thesis
    using assms(2,3) put_entry_get [of "s b" n r "res_reservationId old" new] eq_key_imp_eq_value [of "s b" n r old]
    by (cases "c = b \<and> res_reservationId old = n") (auto simp: ledger_ok_def same_hold_def)
next
  case (reopened old c new)
  then show ?thesis
    using assms(2,3) put_entry_get [of "s b" n r "res_reservationId old" new] eq_key_imp_eq_value [of "s b" n r old]
    by (cases "c = b \<and> res_reservationId old = n") (auto simp: ledger_ok_def same_hold_def)
qed

lemma steps_keep_hold:
  assumes "(ledger_step P)\<^sup>*\<^sup>* s s'" "ledger_ok P s" "(n, r) \<in> set (s b)"
  shows "\<exists>r'. (n, r') \<in> set (s' b) \<and> same_hold r r' \<and> res_updatedAt r \<le> res_updatedAt r' \<and>
    (terminal (res_state r) \<longrightarrow> res_state r \<noteq> FailedBeforeEffect \<longrightarrow> r' = r)"
  using assms(1)
proof (induction rule: rtranclp_induct)
  case base
  with assms show ?case by (auto simp: same_hold_def)
next
  case (step t u)
  then obtain r' where r': "(n, r') \<in> set (t b)" "same_hold r r'" "res_updatedAt r \<le> res_updatedAt r'"
    "terminal (res_state r) \<longrightarrow> res_state r \<noteq> FailedBeforeEffect \<longrightarrow> r' = r" by blast
  have "ledger_ok P t" using ledger_steps_ok step.hyps(1) assms(2) by blast
  from step_keeps_hold [OF step.hyps(2) this r'(1)] obtain r'' where
    "(n, r'') \<in> set (u b)" "same_hold r' r''" "res_updatedAt r' \<le> res_updatedAt r''"
    "r'' = r' \<or> res_state r'' \<in> set (allowed_transitions (res_state r')) \<or>
      res_state r' = FailedBeforeEffect \<and> res_state r'' = Reserved" by blast
  with r' show ?case by (intro exI [of _ r'']) (auto simp: same_hold_def terminal_def)
qed

text \<open>
  The property C5: once a hold is finalized, released or reverted, no later operation of any rail changes its
  row; an open hold is never removed and never changes amount, rail, policy or key, and its
  write stamp never goes back.
\<close>

theorem terminal_hold_immutable:
  assumes "ledger_reachable P s" "(n, r) \<in> set (s b)"
  shows "\<exists>r'. (n, r') \<in> set (run_op P E op s b) \<and> same_hold r r' \<and> res_updatedAt r \<le> res_updatedAt r' \<and>
    (res_state r \<in> {Finalized, ReleasedUnsubmitted, FailedConfirmedRevert} \<longrightarrow> r' = r)"
  using steps_keep_hold [OF run_op_steps reachable_ok [OF assms(1)] assms(2)]
  by (fastforce simp: terminal_states)

lemma sample_owner_state:
  "run_op sample_prims sample_env (OpOwnerCap sample_owner_input) (\<lambda>_. []) = sample_held"
  "ledger_reachable sample_prims sample_held" "(aaa, sample_hold) \<in> set (sample_held aaa)"
proof -
  show run: "run_op sample_prims sample_env (OpOwnerCap sample_owner_input) (\<lambda>_. []) = sample_held"
    by (simp add: sample_owner_run)
  show "ledger_reachable sample_prims sample_held"
    unfolding run [symmetric] by (intro ledger_reachable.intros)
  show "(aaa, sample_hold) \<in> set (sample_held aaa)" by (simp add: sample_held_def)
qed

theorem terminal_hold_immutable_witness:
  "\<exists>r'. (aaa, r') \<in> set (run_op sample_prims sample_env (OpSettleMetaMask [] None) sample_held aaa) \<and> same_hold sample_hold r'"
  using terminal_hold_immutable [OF sample_owner_state(2, 3)] by blast

section \<open>The daily cap\<close>

text \<open>What the ledger reads as the usage of an identity.\<close>

definition read_usage :: "prims \<Rightarrow> ledger_env \<Rightarrow> usage_identity \<Rightarrow> jsdate \<Rightarrow> ledger \<Rightarrow> string result" where
  "read_usage P E i now s = fst (bnd (loadBucket P i) (\<lambda>rows. lift (sumBucketUsage E i rows now)) s)"

definition kept_charge :: "string set \<Rightarrow> string \<Rightarrow> usage_reservation \<Rightarrow> nat" where
  "kept_charge ids day r = (if res_reservationId r \<in> ids then 0 else charge day r)"

lemma sum_kept:
  "sum_list (map (charge day) (filter (\<lambda>r. res_reservationId r \<notin> ids) rows)) = sum_list (map (kept_charge ids day) rows)"
  by (induction rows) (auto simp: kept_charge_def)

lemma historical_usage:
  assumes "\<And>r. r \<in> set rows \<Longrightarrow> stored_ok P r" "retired_charge (day_of at) {} rows retired = Inr (ids, c)"
  shows "historicalRetirementUsage rows retired (Some at) =
    (let t = sum_list (map (kept_charge ids (day_of at)) rows) in
     if t + c \<le> MAX_UINT256 then Inr (dec (t + c)) else corrupt)"
proof -
  have "sum_from 0 (day_of at) (filter (\<lambda>r. res_reservationId r \<notin> ids) rows) =
      (let t = sum_list (map (kept_charge ids (day_of at)) rows) in if t \<le> MAX_UINT256 then Inr t else corrupt)"
    using sum_from_charges [of "filter (\<lambda>r. res_reservationId r \<notin> ids) rows" P 0 "day_of at"] assms(1)
    by (simp add: sum_kept)
  with assms(2) show ?thesis
    by (auto simp: historicalRetirementUsage_def instant_def sumUsage_def Let_def corrupt_def)
qed

lemma historical_usage_InrD:
  assumes "\<And>r. r \<in> set rows \<Longrightarrow> stored_ok P r" "historicalRetirementUsage rows retired (Some at) = Inr t"
  obtains ids c where "retired_charge (day_of at) {} rows retired = Inr (ids, c)"
    "t = dec (sum_list (map (kept_charge ids (day_of at)) rows) + c)"
    "sum_list (map (kept_charge ids (day_of at)) rows) + c \<le> MAX_UINT256"
proof -
  from assms(2) obtain ids c where r: "retired_charge (day_of at) {} rows retired = Inr (ids, c)"
    by (auto simp: historicalRetirementUsage_def instant_def)
  with historical_usage [OF assms(1) r] assms(2) that show ?thesis
    by (auto simp: Let_def corrupt_def split: if_splits)
qed

text \<open>Which holds are retired, and their charge, depend on the retirements alone.\<close>

lemma retired_charge_records:
  "retired_charge day ids rows rs = Inr (all, c) \<Longrightarrow> retired_charge day ids rows' rs = Inr (all', c') \<Longrightarrow> all' = all \<and> c' = c"
proof (induction rs arbitrary: ids all c all' c')
  case (Cons r rs)
  let ?ids = "insert (res_reservationId (ret_usageLease r)) ids"
  from Cons.prems obtain c1 c1' where
    "retired_charge day ?ids rows rs = Inr (all, c1)" "retired_charge day ?ids rows' rs = Inr (all', c1')"
    and c: "c = (if day \<le> day_of (ret_accountingAt r) then 6000000 else 0) + c1"
      "c' = (if day \<le> day_of (ret_accountingAt r) then 6000000 else 0) + c1'"
    by (auto simp: Let_def split: if_splits)
  with Cons.IH show ?case by metis
qed simp

lemma sum_put_entry:
  fixes f :: "usage_reservation \<Rightarrow> nat"
  assumes "distinct (map fst es)"
  shows "sum_list (map f (map snd (put_entry n r es))) + (case map_of es n of None \<Rightarrow> 0 | Some old \<Rightarrow> f old) =
    sum_list (map f (map snd es)) + f r"
  using assms
proof (induction es)
  case (Cons e es)
  then show ?case by (cases e) (auto simp: map_of_eq_None_iff split: option.splits)
qed simp

lemma read_usage_InrD:
  assumes "read_usage P E i (Some at) s = Inr t"
  obtains b retired where "bucketDirectory P i = Inr b" "rmap (load_entry P i) (s b) = Inr (map snd (s b))"
    "retirementsFor E i = Inr retired" "historicalRetirementUsage (map snd (s b)) retired (Some at) = Inr t"
proof (cases "loadBucket P i s")
  case (Pair r s')
  from assms Pair obtain rows where rows: "r = Inr rows" "sumBucketUsage E i rows (Some at) = Inr t"
    by (cases r) (auto simp: read_usage_def bnd_def)
  from loadBucket_result [OF Pair] rows(1) obtain b where
    b: "bucketDirectory P i = Inr b" "rmap (load_entry P i) (s b) = Inr rows" by blast
  with load_entries_eq [OF b(2)] rows(2) that show ?thesis by (auto simp: sumBucketUsage_def)
qed

text \<open>One write raises the usage by at most what the new row charges.\<close>

lemma usage_after_write:
  assumes "ledger_ok P s" "bucketDirectory P i = Inr b" "stored_ok P r" "res_reservationId r = n"
    "historicalRetirementUsage (map snd (s b)) retired (Some at) = Inr t"
    "retirementsFor E i = Inr retired"
    "read_usage P E i (Some at) (s(b := put_entry n r (s b))) = Inr t'"
  shows "undec t' \<le> undec t + charge (day_of at) r"
    "map_of (s b) n = Some old \<Longrightarrow> charge (day_of at) r \<le> charge (day_of at) old \<Longrightarrow> undec t' \<le> undec t"
proof -
  let ?es = "put_entry n r (s b)" and ?f = "kept_charge"
  have d: "distinct (map fst (s b))" using assms(1) by (simp add: ledger_ok_def)
  have ok: "\<And>x. x \<in> set (map snd (s b)) \<Longrightarrow> stored_ok P x" using assms(1) by (fastforce simp: ledger_ok_def)
  have ok': "\<And>x. x \<in> set (map snd ?es) \<Longrightarrow> stored_ok P x"
    using ok assms(3) by (auto simp: set_put_entry [OF d])
  from assms(5) ok obtain ids c where
    r: "retired_charge (day_of at) {} (map snd (s b)) retired = Inr (ids, c)" and
    t: "t = dec (sum_list (map (?f ids (day_of at)) (map snd (s b))) + c)"
    by (elim historical_usage_InrD) blast+
  from assms(2,6,7) have "historicalRetirementUsage (map snd ?es) retired (Some at) = Inr t'"
    by (elim read_usage_InrD) simp
  with ok' obtain ids' c' where
    r': "retired_charge (day_of at) {} (map snd ?es) retired = Inr (ids', c')" and
    t': "t' = dec (sum_list (map (?f ids' (day_of at)) (map snd ?es)) + c')"
    by (elim historical_usage_InrD) blast+
  have same: "ids' = ids" "c' = c" using retired_charge_records [OF r r'] by simp_all
  note sum = sum_put_entry [OF d, of "?f ids (day_of at)" n r]
  have le: "?f ids (day_of at) r \<le> charge (day_of at) r" by (simp add: kept_charge_def)
  show "undec t' \<le> undec t + charge (day_of at) r"
    using sum le unfolding t t' same by simp
  show "undec t' \<le> undec t" if "map_of (s b) n = Some old" "charge (day_of at) r \<le> charge (day_of at) old"
  proof -
    have "res_reservationId old = n"
      using assms(1) map_of_SomeD [OF that(1)] by (fastforce simp: ledger_ok_def)
    with that assms(4) have "?f ids (day_of at) r \<le> ?f ids (day_of at) old" by (simp add: kept_charge_def)
    with sum that(1) show ?thesis unfolding t t' same by simp
  qed
qed

lemma bnd_InrD:
  "bnd m f s = (Inr y, s') \<Longrightarrow> \<exists>x s1. m s = (Inr x, s1) \<and> f x s1 = (Inr y, s')"
  by (auto simp: bnd_def split: prod.splits sum.splits)

lemma bnd_lift_Inr [simp]: "bnd (lift r) f s = (Inr y, s') \<longleftrightarrow> (\<exists>x. r = Inr x \<and> f x s = (Inr y, s'))"
  by (cases r) (auto simp: bnd_def)

lemma bnd_load_Inr:
  "bnd (loadBucket P i) f s = (Inr y, s') \<Longrightarrow>
   \<exists>b. bucketDirectory P i = Inr b \<and> rmap (load_entry P i) (s b) = Inr (map snd (s b)) \<and> f (map snd (s b)) s = (Inr y, s')"
proof -
  assume "bnd (loadBucket P i) f s = (Inr y, s')"
  then obtain rows s1 where l: "loadBucket P i s = (Inr rows, s1)" and f: "f rows s1 = (Inr y, s')"
    by (auto dest: bnd_InrD)
  from loadBucket_result [OF l] obtain b where
    b: "s1 = s" "bucketDirectory P i = Inr b" "rmap (load_entry P i) (s b) = Inr rows" by blast
  with load_entries_eq [OF b(3)] f show ?thesis by auto
qed

lemma bnd_load_eq:
  "bucketDirectory P i = Inr b \<Longrightarrow> rmap (load_entry P i) (s b) = Inr rows \<Longrightarrow> bnd (loadBucket P i) f s = f rows s"
  by (simp add: loadBucket_def bnd_def)

lemma bnd_write_Inr:
  "bnd (writeRecord P i n r c) (\<lambda>_. ret x) s = (Inr y, s') \<Longrightarrow>
   \<exists>b. bucketDirectory P i = Inr b \<and> y = x \<and> s' = s(b := put_entry n r (s b)) \<and> (c \<longrightarrow> map_of (s b) n = None)"
  by (cases "bucketDirectory P i") (auto simp: writeRecord_def bnd_def split: if_splits)

text \<open>A reservation that wrote went through the evaluator with the usage it read.\<close>

definition reserve_write :: "prims \<Rightarrow> ledger_env \<Rightarrow> reserve_input \<Rightarrow> ledger \<Rightarrow> usage_reservation \<Rightarrow> ledger \<Rightarrow> bool" where
  "reserve_write P E input s r s' \<longleftrightarrow>
     (\<exists>i at t b adm row. ri_now input = Some at \<and> same_identity (res_identity row) i \<and>
       read_usage P E i (Some at) s = Inr t \<and>
       evaluateAssetPolicy P (ri_registry input)
         (evaluation input (id_chain i) (id_asset i) (res_amountAtomic row) t at) = Inr adm \<and>
       seal P row = Inr r \<and> res_state row = Reserved \<and> bucketDirectory P i = Inr b \<and>
       (map_of (s b) (res_reservationId row) = None \<or>
         (\<exists>old. map_of (s b) (res_reservationId row) = Some old \<and> res_state old = FailedBeforeEffect)) \<and>
       s' = s(b := put_entry (res_reservationId row) r (s b)))"

lemma registry_self: "validateAssetPolicyRegistry P reg = Inr reg' \<Longrightarrow> reg' = reg"
  by (auto simp: validateAssetPolicyRegistry_def split: if_splits)

lemma read_usageI:
  "bucketDirectory P i = Inr b \<Longrightarrow> rmap (load_entry P i) (s b) = Inr rows \<Longrightarrow>
   sumBucketUsage E i rows now = Inr t \<Longrightarrow> read_usage P E i now s = Inr t"
  by (simp add: read_usage_def loadBucket_def bnd_def)

lemma findRow_entry:
  assumes "rmap (load_entry P i) es = Inr (map snd es)"
  shows "findRow n (map snd es) = Some r \<Longrightarrow> (n, r) \<in> set es \<and> same_identity (res_identity r) i"
    "findRow n (map snd es) = None \<Longrightarrow> map_of es n = None"
  using load_entries_eq [OF assms]
  by (force dest!: findRow_Some, force simp: findRow_None map_of_eq_None_iff)

lemma assertReplay_Inr: "assertReplay r p v k a h = Inr u \<longleftrightarrow>
  res_policyDigest r = p \<and> res_registryVersion r = v \<and> usage_rail r = k \<and> res_amountAtomic r = a \<and> res_idempotencyHash r = h"
  by (auto simp: assertReplay_def)

text \<open>What a reservation that wrote did under the lock.\<close>

lemma reserve_locked_body:
  assumes "reserve_locked P E input mm (ri_registry input) at initial i idem rid s = (Inr r, s')" "s' \<noteq> s"
    "ri_now input = Some at"
  obtains b stamp t adm row where "bucketDirectory P i = Inr b" "rmap (load_entry P i) (s b) = Inr (map snd (s b))"
    "sumBucketUsage E i (map snd (s b)) (Some at) = Inr t"
    "evaluateAssetPolicy P (ri_registry input) (evaluation input (id_chain i) (id_asset i) (adm_amountAtomic initial) t at) = Inr adm"
    "seal P row = Inr r" "s' = s(b := put_entry rid r (s b))"
    "findRow rid (map snd (s b)) = None \<and> row = fresh_row rid idem (adm_policyDigest initial) (adm_registryVersion initial) i
           (ri_rail input) (adm_amountAtomic initial) stamp mm \<or>
     (\<exists>old. findRow rid (map snd (s b)) = Some old \<and> res_state old = FailedBeforeEffect \<and>
       canonicalJson (marker_json (res_metamaskNativeReservation old)) = canonicalJson (marker_json mm) \<and>
       assertReplay old (adm_policyDigest initial) (adm_registryVersion initial) (ri_rail input) (adm_amountAtomic initial) idem = Inr () \<and>
       row = old\<lparr>res_state := Reserved, res_reservedAt := stamp, res_updatedAt := stamp,
               res_effectAt := None, res_outcomeDigest := None\<rparr>)"
proof -
  from bnd_load_Inr [OF assms(1) [unfolded reserve_locked_def]] obtain b where
    b: "bucketDirectory P i = Inr b" and l: "rmap (load_entry P i) (s b) = Inr (map snd (s b))"
    by blast
  note m = assms(1) [unfolded reserve_locked_def bnd_load_eq [of P i b s, OF b l] assms(3)]
  show thesis
  proof (cases "findRow rid (map snd (s b))")
    case None
    with m b show thesis by (auto dest!: bnd_write_Inr intro!: that [OF b l])
  next
    case (Some old)
    with m assms(2) b show thesis
      by (auto simp: blocked_def dest!: bnd_write_Inr intro!: that [OF b l] split: if_splits)
  qed
qed

lemma reserve_locked_write:
  assumes "reserve_locked P E input mm (ri_registry input) at initial i idem rid s = (Inr r, s')" "s' \<noteq> s"
    "ri_now input = Some at" "ledger_ok P s"
  shows "reserve_write P E input s r s'"
  using assms(1-3)
proof (cases rule: reserve_locked_body)
  case (1 b stamp t adm row)
  note read = read_usageI [of P i b s, OF 1(1,2,3)]
  show ?thesis
  proof (cases "findRow rid (map snd (s b))")
    case None
    with 1(7) have row: "row = fresh_row rid idem (adm_policyDigest initial) (adm_registryVersion initial) i
           (ri_rail input) (adm_amountAtomic initial) stamp mm" by simp
    show ?thesis
      unfolding reserve_write_def using assms(3) read 1(1,4,5,6) findRow_entry(2) [OF 1(2) None] row
      by (intro exI [of _ i] exI [of _ at] exI [of _ t] exI [of _ b] exI [of _ adm] exI [of _ row] conjI)
        (auto simp: same_identity_def)
  next
    case (Some old)
    with 1(7) have old: "res_state old = FailedBeforeEffect" "res_amountAtomic old = adm_amountAtomic initial" and
      row: "row = old\<lparr>res_state := Reserved, res_reservedAt := stamp, res_updatedAt := stamp,
               res_effectAt := None, res_outcomeDigest := None\<rparr>" by (auto simp: assertReplay_Inr)
    have rid: "res_reservationId old = rid" using Some by (auto dest: findRow_Some)
    have "(rid, old) \<in> set (s b)" "same_identity (res_identity old) i" using findRow_entry(1) [OF 1(2) Some] by simp_all
    moreover from this(1) have "map_of (s b) rid = Some old" using assms(4) by (simp add: ledger_ok_def)
    ultimately show ?thesis
      unfolding reserve_write_def using assms(3) read 1(1,4,5,6) old rid row
      by (intro exI [of _ i] exI [of _ at] exI [of _ t] exI [of _ b] exI [of _ adm] exI [of _ row] conjI) auto
  qed
qed

lemma reserveBound_write:
  assumes "reserveBound P E input mm s = (Inr r, s')" "s' \<noteq> s" "ledger_ok P s"
  shows "reserve_write P E input s r s'"
proof -
  from assms(1) obtain registry at initial i idem rid where
    "validateAssetPolicyRegistry P (ri_registry input) = Inr registry" "instant (ri_now input) = Inr at"
    "reserve_locked P E input mm registry at initial i idem rid s = (Inr r, s')"
    unfolding reserveBound_def Let_def by (auto simp: blocked_def split: if_splits)
  moreover from this(1,2) have "registry = ri_registry input" "ri_now input = Some at"
    by (auto dest: registry_self simp: instant_def invalid_def split: option.splits)
  ultimately show ?thesis using reserve_locked_write assms(2,3) by blast
qed

text \<open>
  The property C1: a reservation on any rail that writes a row was admitted by the owner's policy against
  the usage of its bucket, read under the same lock: that usage plus the new amount is at most the
  rail's daily cap, the amount at most the per-transfer cap, and every usage the ledger reads at
  that instant afterwards is still within the daily cap.
\<close>

theorem reserve_within_daily_cap:
  assumes "ledger_reachable P s" "reserveBound P E input mm s = (Inr r, s')" "s' \<noteq> s"
  shows "\<exists>i at t adm. ri_now input = Some at \<and> same_identity (res_identity r) i \<and> read_usage P E i (Some at) s = Inr t \<and>
    evaluateAssetPolicy P (ri_registry input)
      (evaluation input (id_chain i) (id_asset i) (res_amountAtomic r) t at) = Inr adm \<and>
    undec (res_amountAtomic r) \<le> undec (maximumPerTransferAtomic (adm_caps adm)) \<and>
    undec t + undec (res_amountAtomic r) \<le> undec (dailyLimitAtomic (adm_caps adm)) \<and>
    (\<forall>t'. read_usage P E i (Some at) s' = Inr t' \<longrightarrow> undec t' \<le> undec (dailyLimitAtomic (adm_caps adm)))"
proof -
  note ok = reachable_ok [OF assms(1)]
  from reserveBound_write [OF assms(2,3) ok] obtain i at t b adm row where
    w: "ri_now input = Some at" "same_identity (res_identity row) i" "read_usage P E i (Some at) s = Inr t"
    "evaluateAssetPolicy P (ri_registry input) (evaluation input (id_chain i) (id_asset i) (res_amountAtomic row) t at) = Inr adm"
    and seal: "seal P row = Inr r" "res_state row = Reserved" and b: "bucketDirectory P i = Inr b"
    and s': "s' = s(b := put_entry (res_reservationId row) r (s b))"
    unfolding reserve_write_def by blast
  from seal_stored_ok [OF seal(1)] obtain d where r: "stored_ok P r" "r = row\<lparr>res_reservationDigest := d\<rparr>" by blast
  from w(4) have caps: "undec (res_amountAtomic row) \<le> undec (maximumPerTransferAtomic (adm_caps adm))"
    "undec t + undec (res_amountAtomic row) \<le> undec (dailyLimitAtomic (adm_caps adm))"
    by (rule evaluateAssetPolicy_InrD, simp add: evaluation_def)+
  have after: "undec t' \<le> undec (dailyLimitAtomic (adm_caps adm))" if t': "read_usage P E i (Some at) s' = Inr t'" for t'
  proof -
    from w(3) b obtain retired where
      "retirementsFor E i = Inr retired" "historicalRetirementUsage (map snd (s b)) retired (Some at) = Inr t"
      by (elim read_usage_InrD) simp
    then have "undec t' \<le> undec t + charge (day_of at) r"
      using usage_after_write(1) [OF ok b r(1)] t' r(2) s' by auto
    also have "charge (day_of at) r \<le> undec (res_amountAtomic row)" using charge_cases(2) [OF r(1)] r(2) by simp
    finally show ?thesis using caps(2) by simp
  qed
  from w caps after r(2) show ?thesis by (intro exI conjI) auto
qed


section \<open>Replaying a reservation\<close>

lemma load_after_put:
  assumes "rmap (load_entry P i) es = Inr (map snd es)" "load_entry P i (n, r) = Inr r"
  shows "rmap (load_entry P i) (put_entry n r es) = Inr (map snd (put_entry n r es))"
  using assms
proof (induction es)
  case (Cons e es)
  then obtain x where "load_entry P i e = Inr x" "snd e = x" "rmap (load_entry P i) es = Inr (map snd es)" by auto
  with Cons show ?case by (cases e) auto
qed simp

lemma findRow_put:
  assumes "distinct (map fst es)" "\<And>m x. (m, x) \<in> set es \<Longrightarrow> res_reservationId x = m" "res_reservationId r = n"
  shows "findRow n (map snd (put_entry n r es)) = Some r"
  using assms
proof (induction es)
  case (Cons e es)
  obtain m x where e: "e = (m, x)" by (cases e)
  with Cons.prems(2) have x: "res_reservationId x = m" by simp
  have "findRow n (map snd (put_entry n r es)) = Some r" using Cons.prems by (intro Cons.IH) auto
  with e x Cons.prems(3) show ?case by (simp add: findRow_def)
qed (simp add: findRow_def)

lemma stored_hash_id: "stored_ok P r \<Longrightarrow> hash_text (res_reservationId r)"
  using stored_okD(2) [of P r] by (cases "hash_text (res_reservationId r)") (simp_all add: validateBody_def digest_of_def)

lemma reserve_locked_replay:
  assumes "reserve_locked P E input mm (ri_registry input) at initial i idem rid s = (Inr r, s')" "s' \<noteq> s"
    "ri_now input = Some at" "ledger_ok P s"
  shows "reserve_locked P E' input mm (ri_registry input) at initial i idem rid s' = (Inr r, s')"
  using assms(1-3)
proof (cases rule: reserve_locked_body)
  case (1 b stamp t adm row)
  from seal_stored_ok [OF 1(5)] obtain d where r: "stored_ok P r" "r = row\<lparr>res_reservationDigest := d\<rparr>" by blast
  have row: "res_reservationId row = rid" "same_identity (res_identity row) i" "res_state row = Reserved"
    "canonicalJson (marker_json (res_metamaskNativeReservation row)) = canonicalJson (marker_json mm)"
    "assertReplay row (adm_policyDigest initial) (adm_registryVersion initial) (ri_rail input) (adm_amountAtomic initial) idem = Inr ()"
    using 1(7) findRow_entry(1) [OF 1(2)]
    by (auto simp: same_identity_def fresh_row_def assertReplay_Inr dest: findRow_Some)
  have "load_entry P i (rid, r) = Inr r"
    using r row(1,2) stored_hash_id [OF r(1)] by (simp add: load_entry_def stored_ok_def)
  then have l: "rmap (load_entry P i) (s' b) = Inr (map snd (s' b))"
    using load_after_put [OF 1(2)] 1(6) by simp
  have "findRow rid (map snd (s' b)) = Some r"
    using assms(4) row(1) r(2) unfolding 1(6) by (auto simp: ledger_ok_def intro!: findRow_put)
  then show ?thesis
    unfolding reserve_locked_def bnd_load_eq [of P i b s', OF 1(1) l]
    using row r(2) by (simp add: assertReplay_def bnd_def split: if_splits)
qed

text \<open>
  The property C3: a reservation is idempotent: repeating a successful call with the same input on the ledger it
  left returns the same row and writes nothing, so a crash between reserving and recording the
  operation never charges twice.
\<close>

theorem reserve_replay:
  assumes "ledger_reachable P s" "reserveBound P E input mm s = (Inr r, s')"
  shows "reserveBound P E input mm s' = (Inr r, s')"
proof (cases "s' = s")
  case True
  with assms(2) show ?thesis by simp
next
  case False
  from assms(2) obtain registry at initial i idem rid where
    pre: "validateAssetPolicyRegistry P (ri_registry input) = Inr registry" "instant (ri_now input) = Inr at" and
    locked: "reserve_locked P E input mm registry at initial i idem rid s = (Inr r, s')" and
    eq: "reserveBound P E input mm = reserve_locked P E input mm registry at initial i idem rid"
    unfolding reserveBound_def Let_def
    by (auto simp: blocked_def bnd_def fun_eq_iff split: if_splits sum.splits)
  from pre have "registry = ri_registry input" "ri_now input = Some at"
    by (auto dest: registry_self simp: instant_def invalid_def split: option.splits)
  with locked show ?thesis
    unfolding eq using reserve_locked_replay [OF _ False _ reachable_ok [OF assms(1)]] by simp
qed

section \<open>A sample reservation runs\<close>

lemma sample_wrote: "(\<lambda>_. [])(aaa := [(aaa, sample_direct_hold)]) \<noteq> (\<lambda>_. [] :: (string \<times> usage_reservation) list)"
  by (simp add: fun_eq_iff)

theorem reserve_within_daily_cap_witness:
  "\<exists>(adm :: policy_admission) t. undec t + undec (res_amountAtomic sample_direct_hold) \<le> undec (dailyLimitAtomic (adm_caps adm))"
  using reserve_within_daily_cap [OF ledger_reachable.initial sample_reserve_run sample_wrote] by blast

theorem reserve_replay_witness:
  "reserveBound sample_prims sample_env sample_reserve None ((\<lambda>_. [])(aaa := [(aaa, sample_direct_hold)])) =
     (Inr sample_direct_hold, (\<lambda>_. [])(aaa := [(aaa, sample_direct_hold)]))"
  using reserve_replay [OF ledger_reachable.initial sample_reserve_run] .

section \<open>Usage between reservations\<close>

lemma allowed_open: "t \<in> set (allowed_transitions s) \<Longrightarrow> s \<in> {Reserved, Submitted, UnknownFinality}"
  by (cases s) auto

lemma read_usage_other:
  assumes "bucketDirectory P i = Inr c" "b \<noteq> c" "read_usage P E i (Some at) s = Inr t"
    "read_usage P E i (Some at) (s(b := es)) = Inr t'"
  shows "t' = t"
  using assms by (cases "rmap (load_entry P i) (s c)") (simp_all add: read_usage_def loadBucket_def bnd_def)

text \<open>
  The property C6: the usage read at one instant rises only by a write that leaves a fresh \<open>reserved\<close> row,
  and by at most that row's amount: settling, failing, releasing or reverting a hold never charges
  more than the hold did.
\<close>

theorem usage_rises_by_new_hold:
  assumes "ledger_reachable P s" "ledger_step P s s'" "read_usage P E i (Some at) s = Inr t"
    "read_usage P E i (Some at) s' = Inr t'" "undec t < undec t'"
  shows "\<exists>b n r. (n, r) \<in> set (s' b) \<and> (n, r) \<notin> set (s b) \<and> res_state r = Reserved \<and>
    undec t' \<le> undec t + undec (res_amountAtomic r)"
proof -
  note ok = reachable_ok [OF assms(1)]
  obtain c where c: "bucketDirectory P i = Inr c" using assms(3) by (rule read_usage_InrD)
  have by_write: ?thesis
    if s': "s' = s(b := put_entry n r (s b))" and n: "res_reservationId r = n" and r: "stored_ok P r"
      and new: "(n, r) \<notin> set (s b)"
      and kind: "res_state r = Reserved \<or> charge (day_of at) r = 0 \<or>
        (\<exists>old. map_of (s b) n = Some old \<and> charge (day_of at) r \<le> charge (day_of at) old)" for b n r
  proof -
    have b: "b = c"
      using read_usage_other [OF c _ assms(3), of b] assms(4,5) s' by (cases "b = c") auto
    from assms(3) c obtain retired where
      retired: "retirementsFor E i = Inr retired" "historicalRetirementUsage (map snd (s b)) retired (Some at) = Inr t"
      unfolding b by (elim read_usage_InrD) simp
    note after = usage_after_write [OF ok c [folded b] r n retired(2,1) assms(4) [unfolded s']]
    have d: "distinct (map fst (s b))" using ok by (simp add: ledger_ok_def)
    have "charge (day_of at) r \<le> undec (res_amountAtomic r)" using charge_cases(2) [OF r] .
    with after(1) have "undec t' \<le> undec t + undec (res_amountAtomic r)" by simp
    moreover have "(n, r) \<in> set (s' b)" using d by (simp add: s' set_put_entry)
    moreover have "res_state r = Reserved" using kind after assms(5) by fastforce
    ultimately show ?thesis using new by blast
  qed
  show ?thesis
    using assms(2)
  proof (cases rule: ledger_step.cases)
    case unchanged
    with assms(3-5) show ?thesis by simp
  next
    case (created r b)
    have "charge (day_of at) r = 0" if "res_state r = ReleasedUnsubmitted"
      using that by (simp add: charge_def charge_of_def)
    with created show ?thesis by (intro by_write [of b "res_reservationId r" r]) force+
  next
    case (moved old b new)
    have old: "stored_ok P old" "map_of (s b) (res_reservationId old) = Some old"
      using ok moved(2) by (auto simp: ledger_ok_def)
    have "charge (day_of at) new \<le> charge (day_of at) old"
      using charge_open [OF old(1)] open_not_settled [OF old(1)] allowed_open [OF moved(6)]
        charge_cases(2) [OF moved(3), of "day_of at"] moved(5)
      by (auto simp: same_hold_def)
    moreover have "new \<noteq> old" using moved(6) by (cases "res_state old") auto
    ultimately show ?thesis
      using moved old eq_key_imp_eq_value [of "s b" "res_reservationId old" new old] ok
      by (intro by_write [of b "res_reservationId old" new]) (auto simp: same_hold_def ledger_ok_def)
  next
    case (reopened old b new)
    then show ?thesis
      using eq_key_imp_eq_value [of "s b" "res_reservationId old" new old] ok
      by (intro by_write [of b "res_reservationId old" new]) (auto simp: same_hold_def ledger_ok_def)
  qed
qed

lemma sample_usages:
  "read_usage sample_prims sample_env (oc_identity sample_owner_input) (Some ''2026-05-05T10:00:00.000Z'') sample_held = Inr ''5''"
  "read_usage sample_prims sample_env (oc_identity sample_owner_input) (Some ''2026-05-05T10:00:00.000Z'') (\<lambda>_. []) = Inr ''0''"
  using sample_usage_empty sample_usage_held by (simp_all add: read_usage_def sample_load bnd_def)

theorem usage_rises_by_new_hold_witness:
  "\<exists>b n r. (n, r) \<in> set (sample_held b) \<and> res_state r = Reserved \<and> undec ''5'' \<le> undec ''0'' + undec (res_amountAtomic r)"
proof -
  have "ledger_step sample_prims (\<lambda>_. []) sample_held"
    using reserveWithinOwnerCap_step sample_owner_run by (metis runs_step_def snd_conv)
  then show ?thesis
    using usage_rises_by_new_hold [OF ledger_reachable.initial _ sample_usages(2) sample_usages(1)] by (auto simp: dec_zero)
qed



end
