(* ===== verification/RailPorts.thy ===== *)
theory RailPorts
  imports UsageRecord
begin

text \<open>
  The data of the direct payment rails (Solana and TRON): assets, accounts, prepared transfers,
  send bindings and final evidence of \<^verbatim>\<open>src/src/direct-rail-ports.ts\<close>, the resource records of
  \<^verbatim>\<open>src/src/tron/model.ts\<close>, the identity record of \<^verbatim>\<open>src/src/chain-account-store.ts\<close>, and the
  JSON each of them is hashed as.
\<close>

section \<open>Data\<close>

datatype direct_rail = SolanaRail | TronRail

datatype chain_provider = LocalProvider | CoinbaseAwal

datatype custody = LocalSoftware | ProviderManaged

datatype asset_alias = SolAlias | UsdcAlias | TrxAlias | UsdtAlias

record chain_asset =
  as_rail :: direct_rail
  as_alias :: asset_alias
  as_kind :: asset_kind
  as_identifier :: string
  as_symbol :: string
  as_decimals :: nat

record chain_account =
  ac_profile :: string
  ac_profileHash :: string
  ac_rail :: direct_rail
  ac_provider :: chain_provider
  ac_custody :: custody
  ac_address :: string
  ac_createdAt :: string
  ac_identityHash :: string

datatype fee_control = SignedMessage | ProviderGuarantee | TronGovernanceWindow

record rail_economics =
  ec_networkFeeMaximumAtomic :: string
  ec_recipientRentAtomic :: string
  ec_maximumNativeDebitAtomic :: string
  ec_networkFeePayer :: string
  ec_rentPayer :: "string option"
  ec_feeControl :: fee_control

record tron_parameters =
  tp_bandwidthPriceAtomic :: string
  tp_energyPriceAtomic :: string
  tp_systemCreateFeeAtomic :: string
  tp_fixedCreateBandwidthFeeAtomic :: string
  tp_createBandwidthRateAtomic :: string
  tp_maximumFeeLimitAtomic :: string
  tp_maximumCreateAccountBytesAtomic :: string
  tp_vmEnabled :: bool
  tp_consensusExpiryEnabled :: bool

datatype cost_rule = OrdinaryBandwidth | NativeActivationOrBandwidth | EnergyLimitPlusBandwidth

record tron_resources =
  tr_schemaVersion :: string
  tr_protocolVersion :: string
  tr_parameters :: tron_parameters
  tr_parameterHash :: string
  tr_referenceBlockId :: string
  tr_referenceBlockNumberAtomic :: string
  tr_referenceTimestampMsAtomic :: string
  tr_nextMaintenanceMsAtomic :: string
  tr_expirationMsAtomic :: string
  tr_rawDataBytesAtomic :: string
  tr_bandwidthBytesAtomic :: string
  tr_bandwidthMaximumAtomic :: string
  tr_energyFeeLimitAtomic :: string
  tr_energyEstimateAtomic :: string
  tr_accountActivationMaximumAtomic :: string
  tr_recipientActivatedAtSolidHead :: bool
  tr_recipientSolidHeadNumberAtomic :: string
  tr_recipientSolidHeadId :: string
  tr_totalFeeMaximumAtomic :: string
  tr_costRule :: cost_rule

record balance_observation =
  bo_scope :: string
  bo_atOrAfterBlockNumberAtomic :: string
  bo_senderBalanceAtomic :: string
  bo_recipientBalanceAtomic :: string

datatype contract_result = ContractSuccess | ContractRevert

record tron_final =
  tf_schemaVersion :: string
  tf_parentBlockId :: string
  tf_parentBlockNumberAtomic :: string
  tf_parentTimestampMsAtomic :: string
  tf_blockTimestampMsAtomic :: string
  tf_totalFeeAtomic :: string
  tf_bandwidthFeeAtomic :: string
  tf_bandwidthUsageAtomic :: string
  tf_energyFeeAtomic :: string
  tf_energyUsageAtomic :: string
  tf_originEnergyUsageAtomic :: string
  tf_totalEnergyUsageAtomic :: string
  tf_accountActivationFeeAtomic :: string
  tf_contractResult :: contract_result
  tf_balanceObservation :: balance_observation

text \<open>\<open>pt_resources\<close> is absent on Solana and present on TRON.\<close>

record prepared_transfer =
  pt_rail :: direct_rail
  pt_networkIdentity :: string
  pt_asset :: chain_asset
  pt_sender :: string
  pt_recipient :: string
  pt_amountAtomic :: string
  pt_maximumFeeAtomic :: string
  pt_economics :: rail_economics
  pt_preparedAt :: string
  pt_expiresAt :: string
  pt_blockReference :: string
  pt_lastValidBlockHeight :: "string option"
  pt_unsignedPayload :: "string option"
  pt_sourceTokenAccount :: "string option"
  pt_destinationTokenAccount :: "string option"
  pt_createsRecipientAccount :: bool
  pt_resources :: "tron_resources option"

record simulation_evidence =
  si_outcome :: string
  si_slotAtomic :: string
  si_unitsConsumedAtomic :: string
  si_signatureVerified :: bool
  si_payloadHash :: string

record send_binding =
  sb_blockReference :: string
  sb_lastValidBlockHeight :: string
  sb_observedBlockHeight :: string
  sb_acquiredAt :: string
  sb_simulation :: simulation_evidence

record signed_effect =
  se_operationId :: string
  se_fingerprint :: string
  se_transactionId :: string
  se_rawPayload :: string
  se_rawPayloadHash :: string

datatype chain_finality = FinalizedBlock | SolidifiedBlock

record final_evidence =
  fe_networkIdentity :: string
  fe_transactionId :: string
  fe_blockNumberAtomic :: string
  fe_blockId :: string
  fe_finality :: chain_finality
  fe_sender :: string
  fe_recipient :: string
  fe_assetIdentifier :: string
  fe_amountAtomic :: string
  fe_actualNetworkFeeAtomic :: string
  fe_actualRecipientRentAtomic :: string
  fe_networkFeePayer :: string
  fe_senderEffectVerified :: bool
  fe_recipientEffectVerified :: bool
  fe_transactionVerified :: bool
  fe_observedAt :: string
  fe_rpcOriginHash :: string
  fe_resources :: "tron_final option"

section \<open>As JSON\<close>

fun direct_rail_text :: "direct_rail \<Rightarrow> string" where
  "direct_rail_text SolanaRail = ''solana''"
| "direct_rail_text TronRail = ''tron''"

fun provider_text :: "chain_provider \<Rightarrow> string" where
  "provider_text LocalProvider = ''local''"
| "provider_text CoinbaseAwal = ''coinbase-awal''"

fun custody_text :: "custody \<Rightarrow> string" where
  "custody_text LocalSoftware = ''local_software''"
| "custody_text ProviderManaged = ''provider_managed''"

fun alias_text :: "asset_alias \<Rightarrow> string" where
  "alias_text SolAlias = ''sol''"
| "alias_text UsdcAlias = ''usdc''"
| "alias_text TrxAlias = ''trx''"
| "alias_text UsdtAlias = ''usdt''"

fun fee_control_text :: "fee_control \<Rightarrow> string" where
  "fee_control_text SignedMessage = ''signed_message''"
| "fee_control_text ProviderGuarantee = ''provider_guarantee''"
| "fee_control_text TronGovernanceWindow = ''tron_governance_window''"

fun cost_rule_text :: "cost_rule \<Rightarrow> string" where
  "cost_rule_text OrdinaryBandwidth = ''ordinary_bandwidth''"
| "cost_rule_text NativeActivationOrBandwidth = ''native_activation_or_bandwidth''"
| "cost_rule_text EnergyLimitPlusBandwidth = ''energy_limit_plus_bandwidth''"

fun finality_text :: "chain_finality \<Rightarrow> string" where
  "finality_text FinalizedBlock = ''finalized''"
| "finality_text SolidifiedBlock = ''solidified''"

fun contract_result_text :: "contract_result \<Rightarrow> string" where
  "contract_result_text ContractSuccess = ''SUCCESS''"
| "contract_result_text ContractRevert = ''REVERT''"

definition chain_asset_json :: "chain_asset \<Rightarrow> jval" where
  "chain_asset_json a = JObj [(''rail'', JStr (direct_rail_text (as_rail a))), (''network'', JStr ''mainnet''),
     (''alias'', JStr (alias_text (as_alias a))), (''kind'', JStr (kind_text (as_kind a))),
     (''identifier'', JStr (as_identifier a)), (''symbol'', JStr (as_symbol a)), (''decimals'', JNum (int (as_decimals a)))]"

definition account_body :: "chain_account \<Rightarrow> (string \<times> jval) list" where
  "account_body a = [(''schemaVersion'', JStr ''apn.chain-account.v1''), (''profile'', JStr (ac_profile a)),
     (''profileHash'', JStr (ac_profileHash a)), (''rail'', JStr (direct_rail_text (ac_rail a))), (''network'', JStr ''mainnet''),
     (''provider'', JStr (provider_text (ac_provider a))), (''custody'', JStr (custody_text (ac_custody a))),
     (''address'', JStr (ac_address a)), (''createdAt'', JStr (ac_createdAt a))]"

definition chain_account_json :: "chain_account \<Rightarrow> jval" where
  "chain_account_json a = JObj (account_body a @ [(''identityHash'', JStr (ac_identityHash a))])"

definition economics_json :: "rail_economics \<Rightarrow> jval" where
  "economics_json e = JObj [(''networkFeeMaximumAtomic'', JStr (ec_networkFeeMaximumAtomic e)),
     (''recipientRentAtomic'', JStr (ec_recipientRentAtomic e)),
     (''maximumNativeDebitAtomic'', JStr (ec_maximumNativeDebitAtomic e)),
     (''networkFeePayer'', JStr (ec_networkFeePayer e)), (''rentPayer'', nullable (ec_rentPayer e)),
     (''feeControl'', JStr (fee_control_text (ec_feeControl e)))]"

definition tron_parameters_json :: "tron_parameters \<Rightarrow> jval" where
  "tron_parameters_json p = JObj [(''bandwidthPriceAtomic'', JStr (tp_bandwidthPriceAtomic p)),
     (''energyPriceAtomic'', JStr (tp_energyPriceAtomic p)), (''systemCreateFeeAtomic'', JStr (tp_systemCreateFeeAtomic p)),
     (''fixedCreateBandwidthFeeAtomic'', JStr (tp_fixedCreateBandwidthFeeAtomic p)),
     (''createBandwidthRateAtomic'', JStr (tp_createBandwidthRateAtomic p)),
     (''maximumFeeLimitAtomic'', JStr (tp_maximumFeeLimitAtomic p)),
     (''maximumCreateAccountBytesAtomic'', JStr (tp_maximumCreateAccountBytesAtomic p)),
     (''vmEnabled'', JBool (tp_vmEnabled p)), (''consensusExpiryEnabled'', JBool (tp_consensusExpiryEnabled p))]"

definition tron_resources_json :: "tron_resources \<Rightarrow> jval" where
  "tron_resources_json r = JObj [(''schemaVersion'', JStr (tr_schemaVersion r)), (''protocolVersion'', JStr (tr_protocolVersion r)),
     (''parameters'', tron_parameters_json (tr_parameters r)), (''parameterHash'', JStr (tr_parameterHash r)),
     (''referenceBlockId'', JStr (tr_referenceBlockId r)),
     (''referenceBlockNumberAtomic'', JStr (tr_referenceBlockNumberAtomic r)),
     (''referenceTimestampMsAtomic'', JStr (tr_referenceTimestampMsAtomic r)),
     (''nextMaintenanceMsAtomic'', JStr (tr_nextMaintenanceMsAtomic r)),
     (''expirationMsAtomic'', JStr (tr_expirationMsAtomic r)), (''rawDataBytesAtomic'', JStr (tr_rawDataBytesAtomic r)),
     (''bandwidthBytesAtomic'', JStr (tr_bandwidthBytesAtomic r)), (''bandwidthMaximumAtomic'', JStr (tr_bandwidthMaximumAtomic r)),
     (''energyFeeLimitAtomic'', JStr (tr_energyFeeLimitAtomic r)), (''energyEstimateAtomic'', JStr (tr_energyEstimateAtomic r)),
     (''accountActivationMaximumAtomic'', JStr (tr_accountActivationMaximumAtomic r)),
     (''recipientActivatedAtSolidHead'', JBool (tr_recipientActivatedAtSolidHead r)),
     (''recipientSolidHeadNumberAtomic'', JStr (tr_recipientSolidHeadNumberAtomic r)),
     (''recipientSolidHeadId'', JStr (tr_recipientSolidHeadId r)), (''totalFeeMaximumAtomic'', JStr (tr_totalFeeMaximumAtomic r)),
     (''costRule'', JStr (cost_rule_text (tr_costRule r)))]"

definition tron_final_json :: "tron_final \<Rightarrow> jval" where
  "tron_final_json f = (let b = tf_balanceObservation f in
     JObj [(''schemaVersion'', JStr (tf_schemaVersion f)), (''parentBlockId'', JStr (tf_parentBlockId f)),
     (''parentBlockNumberAtomic'', JStr (tf_parentBlockNumberAtomic f)),
     (''parentTimestampMsAtomic'', JStr (tf_parentTimestampMsAtomic f)),
     (''blockTimestampMsAtomic'', JStr (tf_blockTimestampMsAtomic f)), (''totalFeeAtomic'', JStr (tf_totalFeeAtomic f)),
     (''bandwidthFeeAtomic'', JStr (tf_bandwidthFeeAtomic f)), (''bandwidthUsageAtomic'', JStr (tf_bandwidthUsageAtomic f)),
     (''energyFeeAtomic'', JStr (tf_energyFeeAtomic f)), (''energyUsageAtomic'', JStr (tf_energyUsageAtomic f)),
     (''originEnergyUsageAtomic'', JStr (tf_originEnergyUsageAtomic f)),
     (''totalEnergyUsageAtomic'', JStr (tf_totalEnergyUsageAtomic f)),
     (''accountActivationFeeAtomic'', JStr (tf_accountActivationFeeAtomic f)),
     (''contractResult'', JStr (contract_result_text (tf_contractResult f))),
     (''balanceObservation'', JObj [(''scope'', JStr (bo_scope b)),
        (''atOrAfterBlockNumberAtomic'', JStr (bo_atOrAfterBlockNumberAtomic b)),
        (''senderBalanceAtomic'', JStr (bo_senderBalanceAtomic b)),
        (''recipientBalanceAtomic'', JStr (bo_recipientBalanceAtomic b))])])"

definition prepared_json :: "prepared_transfer \<Rightarrow> jval" where
  "prepared_json p = JObj ([(''rail'', JStr (direct_rail_text (pt_rail p))), (''networkIdentity'', JStr (pt_networkIdentity p)),
     (''asset'', chain_asset_json (pt_asset p)), (''sender'', JStr (pt_sender p)), (''recipient'', JStr (pt_recipient p)),
     (''amountAtomic'', JStr (pt_amountAtomic p)), (''maximumFeeAtomic'', JStr (pt_maximumFeeAtomic p)),
     (''economics'', economics_json (pt_economics p)), (''preparedAt'', JStr (pt_preparedAt p)),
     (''expiresAt'', JStr (pt_expiresAt p)), (''blockReference'', JStr (pt_blockReference p)),
     (''lastValidBlockHeight'', nullable (pt_lastValidBlockHeight p)), (''unsignedPayload'', nullable (pt_unsignedPayload p)),
     (''sourceTokenAccount'', nullable (pt_sourceTokenAccount p)),
     (''destinationTokenAccount'', nullable (pt_destinationTokenAccount p)),
     (''createsRecipientAccount'', JBool (pt_createsRecipientAccount p))] @
     opt_member ''resources'' (map_option tron_resources_json (pt_resources p)))"

definition simulation_json :: "simulation_evidence \<Rightarrow> jval" where
  "simulation_json s = JObj [(''outcome'', JStr (si_outcome s)), (''slotAtomic'', JStr (si_slotAtomic s)),
     (''unitsConsumedAtomic'', JStr (si_unitsConsumedAtomic s)), (''signatureVerified'', JBool (si_signatureVerified s)),
     (''payloadHash'', JStr (si_payloadHash s))]"

definition send_json :: "send_binding \<Rightarrow> jval" where
  "send_json s = JObj [(''blockReference'', JStr (sb_blockReference s)),
     (''lastValidBlockHeight'', JStr (sb_lastValidBlockHeight s)), (''observedBlockHeight'', JStr (sb_observedBlockHeight s)),
     (''acquiredAt'', JStr (sb_acquiredAt s)), (''simulation'', simulation_json (sb_simulation s))]"

definition evidence_json :: "final_evidence \<Rightarrow> jval" where
  "evidence_json e = JObj ([(''networkIdentity'', JStr (fe_networkIdentity e)), (''transactionId'', JStr (fe_transactionId e)),
     (''blockNumberAtomic'', JStr (fe_blockNumberAtomic e)), (''blockId'', JStr (fe_blockId e)),
     (''finality'', JStr (finality_text (fe_finality e))), (''sender'', JStr (fe_sender e)), (''recipient'', JStr (fe_recipient e)),
     (''assetIdentifier'', JStr (fe_assetIdentifier e)), (''amountAtomic'', JStr (fe_amountAtomic e)),
     (''actualNetworkFeeAtomic'', JStr (fe_actualNetworkFeeAtomic e)),
     (''actualRecipientRentAtomic'', JStr (fe_actualRecipientRentAtomic e)), (''networkFeePayer'', JStr (fe_networkFeePayer e)),
     (''senderEffectVerified'', JBool (fe_senderEffectVerified e)),
     (''recipientEffectVerified'', JBool (fe_recipientEffectVerified e)),
     (''transactionVerified'', JBool (fe_transactionVerified e)), (''observedAt'', JStr (fe_observedAt e)),
     (''rpcOriginHash'', JStr (fe_rpcOriginHash e))] @
     opt_member ''resources'' (map_option tron_final_json (fe_resources e)))"

end
