(* ===== verification/ChainPolicy.thy ===== *)
theory ChainPolicy
  imports RailPorts
begin

text \<open>
  The chain policy of a direct rail, \<^verbatim>\<open>src/src/chain-policy.ts\<close> and
  \<^verbatim>\<open>src/src/chain-policy-store.ts\<close>: the admitted assets, unsigned 64-bit amounts, decimal input and
  display, the sealed per-transfer, daily and native-fee caps, and the validation of a chain
  account (\<^verbatim>\<open>src/src/chain-account-store.ts\<close>).
\<close>

section \<open>Amounts and instants\<close>

definition MAX_UINT64 :: nat where
  "MAX_UINT64 = 18446744073709551615"

text \<open>\<^verbatim>\<open>/^(0|[1-9][0-9]{0,19})$/\<close>, then the bound.\<close>

definition u64 :: "string \<Rightarrow> bool \<Rightarrow> nat result" where
  "u64 value positive =
     (if \<not> atomic_text value \<or> length value > 20 then corrupt
      else let amount = undec value in
        if amount > MAX_UINT64 \<or> (positive \<and> amount = 0) then corrupt else Inr amount)"

lemma u64_Inr: "u64 value p = Inr n \<longleftrightarrow> value = dec n \<and> n \<le> MAX_UINT64 \<and> (p \<longrightarrow> 0 < n)"
proof
  assume "value = dec n \<and> n \<le> MAX_UINT64 \<and> (p \<longrightarrow> 0 < n)"
  moreover from this have "length (dec n) \<le> 20" by (intro length_dec_le) (auto simp: MAX_UINT64_def)
  ultimately show "u64 value p = Inr n" by (auto simp: u64_def)
qed (auto simp: u64_def Let_def corrupt_def split: if_splits)

definition isoDate :: "string \<Rightarrow> string result" where
  "isoDate value = (if \<not> isIsoInstant value then corrupt else Inr value)"

definition invalidAmount :: "'a result" where
  "invalidAmount = Inl (ApnError APN_INVALID_INPUT None)"

text \<open>\<^verbatim>\<open>/^(0|[1-9][0-9]*)(\.[0-9]*[1-9])?$/\<close> is the decimal form of \<^verbatim>\<open>src/src/money.ts\<close>.\<close>

definition chain_decimal_text :: "string \<Rightarrow> bool" where
  "chain_decimal_text value = decimal_text value"

definition chainDecimal :: "string \<Rightarrow> nat \<Rightarrow> string result" where
  "chainDecimal value decimals =
     (if \<not> chain_decimal_text value then invalidAmount
      else let whole = fst (split_dot value); fraction = (case snd (split_dot value) of None \<Rightarrow> [] | Some f \<Rightarrow> f) in
        if length whole > 20 \<or> length fraction > decimals then invalidAmount
        else let amount = undec (whole @ pad_end decimals fraction) in
          if amount = 0 \<or> amount > MAX_UINT64 then invalidAmount else Inr (dec amount))"

text \<open>\<^verbatim>\<open>text.slice(-decimals)\<close> and \<^verbatim>\<open>text.slice(0, -decimals)\<close>; at zero these are the whole text and nothing.\<close>

definition slice_last :: "nat \<Rightarrow> string \<Rightarrow> string" where
  "slice_last d t = (if d = 0 then t else drop (length t - d) t)"

definition slice_init :: "nat \<Rightarrow> string \<Rightarrow> string" where
  "slice_init d t = (if d = 0 then [] else take (length t - d) t)"

definition chainDisplay :: "string \<Rightarrow> nat \<Rightarrow> string result" where
  "chainDisplay value decimals =
     rbind (u64 value False) (\<lambda>_.
       let text = pad_start (decimals + 1) value; fraction = strip_zeros (slice_last decimals text) in
       Inr (slice_init decimals text @ (if fraction = [] then [] else ''.'' @ fraction)))"

section \<open>Input and display\<close>

lemma dec_split:
  assumes "10 ^ d \<le> n" "0 < d"
  shows "dec n = dec (n div 10 ^ d) @ pad_start d (dec (n mod 10 ^ d))"
proof -
  let ?t = "dec (n div 10 ^ d) @ pad_start d (dec (n mod 10 ^ d))"
  have "0 < n div 10 ^ d" using assms(1) by (simp add: div_greater_zero_iff)
  then have "hd ?t \<noteq> CHR ''0''" by (simp add: hd_dec)
  moreover have "list_all digit ?t" by simp
  ultimately have "atomic_text ?t" by (simp add: atomic_text_def)
  moreover have "undec ?t = n"
    using assms(2) by (simp add: undec_append length_pad_dec div_mult_mod_eq)
  ultimately show ?thesis by (metis dec_undec)
qed

lemma display_text:
  assumes "0 < d"
  shows "pad_start (d + 1) (dec n) = dec (n div 10 ^ d) @ pad_start d (dec (n mod 10 ^ d))"
proof (cases "10 ^ d \<le> n")
  case True
  have "d < length (dec n)"
    unfolding dec_split [OF True assms] by (simp add: length_pad_dec assms)
  then have "pad_start (d + 1) (dec n) = dec n" by (simp add: pad_start_def)
  then show ?thesis by (simp only: dec_split [OF True assms, symmetric])
next
  case False
  then have "length (dec n) \<le> d" using assms by (intro length_dec_le) simp_all
  with False show ?thesis by (simp add: pad_start_def dec_0 Suc_diff_le)
qed

lemma chainDisplay_formatAtomic:
  assumes "n \<le> MAX_UINT64" "0 < d"
  shows "chainDisplay (dec n) d = formatAtomic (JStr (dec n)) d"
proof -
  have "u64 (dec n) False = Inr n" using assms(1) by (simp add: u64_Inr)
  then show ?thesis
    using assms(2) display_text [OF assms(2), of n]
    by (simp add: chainDisplay_def formatAtomic_def Let_def slice_last_def slice_init_def length_pad_dec)
qed

lemma chainDecimal_InrD:
  assumes "chainDecimal v d = Inr a"
  shows "parseDecimal (JStr v) d True = Inr (a, v) \<and> (\<exists>n. a = dec n \<and> 0 < n \<and> n \<le> MAX_UINT64)"
proof -
  define w f where wf: "w = fst (split_dot v)" "f = (case snd (split_dot v) of None \<Rightarrow> [] | Some g \<Rightarrow> g)"
  have ok: "decimal_text v" "length f \<le> d" and n: "0 < undec (w @ pad_end d f)" "undec (w @ pad_end d f) \<le> MAX_UINT64"
    "a = dec (undec (w @ pad_end d f))"
    using assms unfolding wf
    by (auto simp: chainDecimal_def chain_decimal_text_def invalidAmount_def Let_def split: if_splits)
  have "length (pad_end d f) = d" using ok(2) by (simp add: pad_end_def)
  then have "undec (w @ pad_end d f) = undec w * 10 ^ d + undec (pad_end d f)" by (simp add: undec_append)
  with ok n show ?thesis by (auto simp: parseDecimal_def Let_def wf)
qed

text \<open>
  An amount the owner types for a chain asset is a positive 64-bit number of
  atomic units, and displaying that number prints exactly what was typed.
\<close>

lemma chain_decimal_roundtrip:
  assumes "chainDecimal v d = Inr a" "0 < d"
  shows "chainDisplay a d = Inr v \<and> 0 < undec a \<and> undec a \<le> MAX_UINT64"
proof -
  obtain n where n: "a = dec n" "0 < n" "n \<le> MAX_UINT64" and p: "parseDecimal (JStr v) d True = Inr (a, v)"
    using chainDecimal_InrD [OF assms(1)] by blast
  with parse_format [OF p] chainDisplay_formatAtomic [OF n(3) assms(2)] show ?thesis by simp
qed

section \<open>Assets\<close>

definition SOLANA_GENESIS :: string where
  "SOLANA_GENESIS = ''5eykt4UsFv8P8NJdTREpY1vzqKqZKvdpKuc147dw2N9d''"

definition SOLANA_USDC :: string where
  "SOLANA_USDC = ''EPjFWdd5AufqSSqeM2qN1xzybapC8G4wEGGkZwyTDt1v''"

definition SOLANA_USDT :: string where
  "SOLANA_USDT = ''Es9vMFrzaCERmJfrF4H2FYD4KCoNkY11McCe8BenwNYB''"

definition TRON_GENESIS :: string where
  "TRON_GENESIS = ''00000000000000001ebf88508a03865c71d452e25f4d51194196a1d22b6653dc''"

definition ASSETS :: "chain_asset list" where
  "ASSETS =
    [\<lparr>as_rail = SolanaRail, as_alias = SolAlias, as_kind = Native, as_identifier = ''native:sol'', as_symbol = ''SOL'', as_decimals = 9\<rparr>,
     \<lparr>as_rail = SolanaRail, as_alias = UsdcAlias, as_kind = Token, as_identifier = SOLANA_USDC, as_symbol = ''USDC'', as_decimals = 6\<rparr>,
     \<lparr>as_rail = SolanaRail, as_alias = UsdtAlias, as_kind = Token, as_identifier = SOLANA_USDT, as_symbol = ''USDT'', as_decimals = 6\<rparr>,
     \<lparr>as_rail = TronRail, as_alias = TrxAlias, as_kind = Native, as_identifier = ''native:trx'', as_symbol = ''TRX'', as_decimals = 6\<rparr>,
     \<lparr>as_rail = TronRail, as_alias = UsdtAlias, as_kind = Token,
        as_identifier = ''TR7NHqjeKQxGTCi8q8ZY4pL8otSzgjLj6t'', as_symbol = ''USDT'', as_decimals = 6\<rparr>]"

definition chainAsset :: "direct_rail \<Rightarrow> asset_alias \<Rightarrow> chain_asset result" where
  "chainAsset rail alias =
     (case find (\<lambda>a. as_rail a = rail \<and> as_alias a = alias) ASSETS of
        None \<Rightarrow> invalid | Some a \<Rightarrow> Inr a)"

definition validateChainAsset :: "chain_asset \<Rightarrow> chain_asset result" where
  "validateChainAsset value =
     (case find (\<lambda>a. canonicalJson (chain_asset_json a) = canonicalJson (chain_asset_json value)) ASSETS of
        None \<Rightarrow> corrupt | Some a \<Rightarrow> Inr a)"

section \<open>Accounts\<close>

text \<open>\<^verbatim>\<open>PROFILE\<close> of \<^verbatim>\<open>src/src/wallet-policy.ts\<close> is the format of a version text.\<close>

definition canonicalProfile :: "string \<Rightarrow> string result" where
  "canonicalProfile value = rbind (assertInput (version_text value)) (\<lambda>_. Inr value)"

definition solana_address_text :: "string \<Rightarrow> bool" where
  "solana_address_text s \<longleftrightarrow> 32 \<le> length s \<and> length s \<le> 44 \<and> list_all base58 s"

definition rail_address_text :: "direct_rail \<Rightarrow> string \<Rightarrow> bool" where
  "rail_address_text rail s = (case rail of SolanaRail \<Rightarrow> solana_address_text s | TronRail \<Rightarrow> tron_base58_text s)"

definition validateChainAccount :: "prims \<Rightarrow> chain_account \<Rightarrow> chain_account result" where
  "validateChainAccount P value =
     rbind (canonicalProfile (ac_profile value)) (\<lambda>_.
     rbind (check (ac_profileHash value = sha256 (sha P) (''profile'' @ [CHR 0x00] @ ac_profile value))) (\<lambda>_.
     rbind (check (ac_custody value = (if ac_provider value = LocalProvider then LocalSoftware else ProviderManaged) \<and>
       (ac_provider value = CoinbaseAwal \<longrightarrow> ac_rail value = SolanaRail))) (\<lambda>_.
     rbind (check (rail_address_text (ac_rail value) (ac_address value) \<and> isIsoInstant (ac_createdAt value))) (\<lambda>_.
     rbind (check (hash_text (ac_identityHash value))) (\<lambda>_.
     rbind (hashObject (sha P) (JObj (account_body value))) (\<lambda>h.
     rbind (check (h = ac_identityHash value)) (\<lambda>_. Inr value)))))))"

definition sealChainAccount :: "prims \<Rightarrow> chain_account \<Rightarrow> chain_account result" where
  "sealChainAccount P value =
     rbind (hashObject (sha P) (JObj (account_body value))) (\<lambda>h. validateChainAccount P (value\<lparr>ac_identityHash := h\<rparr>))"

section \<open>Policies\<close>

record chain_policy =
  cp_account :: chain_account
  cp_asset :: chain_asset
  cp_networkIdentity :: string
  cp_maximumPerTransferAtomic :: string
  cp_dailyLimitAtomic :: string
  cp_maximumNativeFeeAtomic :: string
  cp_admittedAt :: string
  cp_policyHash :: string

definition policy_body :: "chain_policy \<Rightarrow> (string \<times> jval) list" where
  "policy_body v = [(''schemaVersion'', JStr ''apn.chain-policy.v1''), (''account'', chain_account_json (cp_account v)),
     (''asset'', chain_asset_json (cp_asset v)), (''networkIdentity'', JStr (cp_networkIdentity v)),
     (''maximumPerTransferAtomic'', JStr (cp_maximumPerTransferAtomic v)), (''dailyLimitAtomic'', JStr (cp_dailyLimitAtomic v)),
     (''maximumNativeFeeAtomic'', JStr (cp_maximumNativeFeeAtomic v)), (''admittedAt'', JStr (cp_admittedAt v))]"

definition rail_genesis :: "direct_rail \<Rightarrow> string" where
  "rail_genesis rail = (if rail = SolanaRail then SOLANA_GENESIS else TRON_GENESIS)"

definition validateChainPolicy :: "prims \<Rightarrow> chain_policy \<Rightarrow> chain_policy result" where
  "validateChainPolicy P value =
     rbind (validateChainAccount P (cp_account value)) (\<lambda>acct.
     rbind (validateChainAsset (cp_asset value)) (\<lambda>asset.
     rbind (check (ac_rail acct = as_rail asset \<and> cp_networkIdentity value = rail_genesis (ac_rail acct))) (\<lambda>_.
     rbind (u64 (cp_maximumPerTransferAtomic value) True) (\<lambda>maximum.
     rbind (u64 (cp_dailyLimitAtomic value) True) (\<lambda>daily.
     rbind (check (\<not> maximum > daily)) (\<lambda>_.
     rbind (u64 (cp_maximumNativeFeeAtomic value) True) (\<lambda>_.
     rbind (isoDate (cp_admittedAt value)) (\<lambda>_.
     rbind (hashObject (sha P) (JObj (policy_body value))) (\<lambda>h.
     rbind (check (h = cp_policyHash value)) (\<lambda>_. Inr value))))))))))"

definition sealChainPolicy :: "prims \<Rightarrow> chain_policy \<Rightarrow> chain_policy result" where
  "sealChainPolicy P value =
     rbind (hashObject (sha P) (JObj (policy_body value))) (\<lambda>h. validateChainPolicy P (value\<lparr>cp_policyHash := h\<rparr>))"

definition policy_denied :: "string option \<Rightarrow> 'a result" where
  "policy_denied reason = Inl (ApnError APN_OPERATION_BLOCKED reason)"

definition assertChainFeePolicy :: "prims \<Rightarrow> chain_policy \<Rightarrow> chain_account \<Rightarrow> chain_asset \<Rightarrow> string \<Rightarrow> unit result" where
  "assertChainFeePolicy P policy acct asset maximumFee =
     rbind (validateChainPolicy P policy) (\<lambda>_.
     if canonicalJson (chain_account_json (cp_account policy)) \<noteq> canonicalJson (chain_account_json acct) \<or>
        canonicalJson (chain_asset_json (cp_asset policy)) \<noteq> canonicalJson (chain_asset_json asset) then policy_denied None
     else rbind (u64 maximumFee True) (\<lambda>fee.
     rbind (u64 (cp_maximumNativeFeeAtomic policy) False) (\<lambda>maximum.
       if fee > maximum then policy_denied None else Inr ())))"

section \<open>The policy store\<close>

text \<open>One file per account and asset alias, under the account's rail and profile hash.\<close>

type_synonym policy_store = "(string \<times> string \<times> string) \<Rightarrow> chain_policy option"

definition policy_path :: "chain_account \<Rightarrow> chain_asset \<Rightarrow> (string \<times> string \<times> string) result" where
  "policy_path acct asset =
     (if ac_rail acct \<noteq> as_rail asset \<or> \<not> hash_text (ac_profileHash acct) then corrupt
      else Inr (direct_rail_text (ac_rail acct), ac_profileHash acct, alias_text (as_alias asset)))"

definition load_policy :: "prims \<Rightarrow> policy_store \<Rightarrow> chain_account \<Rightarrow> chain_asset \<Rightarrow> chain_policy option result" where
  "load_policy P store acct asset =
     rbind (policy_path acct asset) (\<lambda>path.
     case store path of None \<Rightarrow> Inr None
     | Some value \<Rightarrow>
         rbind (validateChainPolicy P value) (\<lambda>policy.
           if canonicalJson (chain_account_json (cp_account policy)) \<noteq> canonicalJson (chain_account_json acct) \<or>
              canonicalJson (chain_asset_json (cp_asset policy)) \<noteq> canonicalJson (chain_asset_json asset) then corrupt
           else Inr (Some policy)))"

definition write_policy :: "prims \<Rightarrow> chain_policy \<Rightarrow> (policy_store, unit) stm" where
  "write_policy P policy =
     bnd (lift (validateChainPolicy P policy)) (\<lambda>_.
     bnd (lift (policy_path (cp_account policy) (cp_asset policy))) (\<lambda>path store.
       (Inr (), store(path := Some policy))))"

definition requiredPolicy :: "prims \<Rightarrow> policy_store \<Rightarrow> chain_account \<Rightarrow> asset_alias \<Rightarrow> chain_policy result" where
  "requiredPolicy P store acct alias =
     rbind (chainAsset (ac_rail acct) alias) (\<lambda>asset.
     rbind (load_policy P store acct asset) (\<lambda>policy.
       case policy of None \<Rightarrow> Inl (ApnError APN_WALLET_POLICY_REQUIRED None) | Some p \<Rightarrow> Inr p))"

definition authorize :: "prims \<Rightarrow> policy_store \<Rightarrow> chain_account \<Rightarrow> asset_alias \<Rightarrow> string \<Rightarrow> chain_policy result" where
  "authorize P store acct alias maximumFee =
     rbind (requiredPolicy P store acct alias) (\<lambda>policy.
     rbind (chainAsset (ac_rail acct) alias) (\<lambda>asset.
     rbind (assertChainFeePolicy P policy acct asset maximumFee) (\<lambda>_. Inr policy)))"

end
