(* ===== verification/DirectGate.thy ===== *)
theory DirectGate
  imports UsageSafety ChainPolicy
begin

text \<open>
  The owner gate of a direct transfer, \<^verbatim>\<open>src/src/direct-allowlist-gate.ts\<close>, its lease of the common
  usage ledger, \<^verbatim>\<open>src/src/direct-asset-usage.ts\<close>, and the active owner policy it reads
  (\<^verbatim>\<open>src/src/allowlist-active-policy.ts\<close>).

  The state beside the ledger: \<open>gs_tick\<close> numbers the reads of the outside world (clock, policy files,
  ledger collaborators), each answered by the environment at its number; \<open>gs_life\<close> is the number
  of durable writes the process makes before it dies. A dead process writes nothing more, which
  is what a crash leaves behind, whatever code would still have run.
\<close>

section \<open>State and environment\<close>

record gate_state =
  gs_ledger :: ledger
  gs_tick :: nat
  gs_life :: nat

record listed_asset =
  la_chain :: string
  la_kind :: asset_kind
  la_identifier :: "string option"
  la_symbol :: string
  la_decimals :: nat

record inventory =
  iv_networks :: "string list"
  iv_assets :: "listed_asset list"

record policy_entry =
  pe_active :: bool
  pe_revision :: int
  pe_entryDigest :: string
  pe_decidedAt :: string

record policy_record =
  pr_revision :: int
  pr_registry :: policy_registry
  pr_accounts :: "family \<Rightarrow> string option"

record policy_state =
  ps_profile :: string
  ps_entries :: "policy_entry list"
  ps_records :: "policy_record list"

record active_policy =
  ap_profile :: string
  ap_registry :: policy_registry
  ap_digest :: string
  ap_revision :: int
  ap_accounts :: "family \<Rightarrow> string option"
  ap_activationDigest :: string
  ap_activatedAt :: string

text \<open>
  What the gate reads: the clock, the ledger's collaborators, the integrity-checked policy files
  of a profile (\<^verbatim>\<open>AllowlistPolicyStore.read\<close>) and the frozen inventory dataset.
\<close>

record gate_env =
  ge_clock :: "nat \<Rightarrow> jsdate"
  ge_ledger :: "nat \<Rightarrow> ledger_env"
  ge_policies :: "nat \<Rightarrow> string \<Rightarrow> policy_state result"
  ge_inventory :: inventory

definition crash :: js_error where
  "crash = OtherError ''crash''"

definition ask :: "(nat \<Rightarrow> 'a) \<Rightarrow> ('w gate_state_scheme, 'a) stm" where
  "ask f = (\<lambda>s. (Inr (f (gs_tick s)), s\<lparr>gs_tick := Suc (gs_tick s)\<rparr>))"

definition read_ledger :: "(ledger, 'a) stm \<Rightarrow> ('w gate_state_scheme, 'a) stm" where
  "read_ledger m = (\<lambda>s. (fst (m (gs_ledger s)), s))"

definition write_ledger :: "(ledger, 'a) stm \<Rightarrow> ('w gate_state_scheme, 'a) stm" where
  "write_ledger m = (\<lambda>s. if gs_life s = 0 then (Inl crash, s)
     else case m (gs_ledger s) of (r, l) \<Rightarrow> (r, s\<lparr>gs_ledger := l, gs_life := gs_life s - 1\<rparr>))"

section \<open>The active policy\<close>

definition activeAllowlistPolicy :: "policy_state \<Rightarrow> (policy_entry \<times> policy_record) option result" where
  "activeAllowlistPolicy state =
     (if ps_entries state = [] then Inr None
      else let entry = last (ps_entries state) in
        if \<not> pe_active entry then Inr None
        else case find (\<lambda>r. pr_revision r = pe_revision entry) (ps_records state) of
          None \<Rightarrow> corrupt | Some r \<Rightarrow> Inr (Some (entry, r)))"

definition activeAssetPolicyFromState :: "policy_state \<Rightarrow> string \<Rightarrow> active_policy option result" where
  "activeAssetPolicyFromState state at =
     rbind (activeAllowlistPolicy state) (\<lambda>active.
     case active of None \<Rightarrow> Inr None
     | Some (entry, r) \<Rightarrow>
         if (case reg_expiresAt (pr_registry r) of None \<Rightarrow> False | Some e \<Rightarrow> at \<ge> e)
         then Inl (ApnError APN_OPERATION_BLOCKED (Some ''allowlist_policy_expired''))
         else Inr (Some \<lparr>ap_profile = ps_profile state, ap_registry = pr_registry r,
           ap_digest = reg_policyDigest (pr_registry r), ap_revision = pr_revision r, ap_accounts = pr_accounts r,
           ap_activationDigest = pe_entryDigest entry, ap_activatedAt = pe_decidedAt entry\<rparr>))"

definition loadActiveAssetPolicyRegistry :: "gate_env \<Rightarrow> string \<Rightarrow> ('w gate_state_scheme, active_policy option) stm" where
  "loadActiveAssetPolicyRegistry G profile =
     bnd (ask (ge_clock G)) (\<lambda>now.
     case now of None \<Rightarrow> lift (Inl (ApnError APN_INVALID_INPUT (Some ''invalid_time'')))
     | Some at \<Rightarrow>
         bnd (ask (ge_policies G)) (\<lambda>files.
         bnd (lift (files profile)) (\<lambda>state. lift (activeAssetPolicyFromState state at))))"

section \<open>The subject of a transfer\<close>

record direct_subject =
  ds_identity :: usage_identity
  ds_profile :: string
  ds_operationId :: string
  ds_family :: family
  ds_amountAtomic :: string
  ds_recipient :: string

record direct_binding =
  db_policyDigest :: string
  db_policyRevision :: int

record direct_lease =
  dl_profile :: string
  dl_reservation :: usage_reservation
  dl_leaseDigest :: string

definition refuse :: "string \<Rightarrow> 'a result" where
  "refuse reason = Inl (ApnError APN_ALLOWLIST_REFUSED (Some reason))"

definition identity_of :: "usage_identity \<Rightarrow> usage_identity" where
  "identity_of i = \<lparr>id_account = id_account i, id_chain = id_chain i,
     id_asset = (if ref_kind (id_asset i) = Native then \<lparr>ref_kind = Native, ref_identifier = None\<rparr>
       else \<lparr>ref_kind = Token, ref_identifier = ref_identifier (id_asset i)\<rparr>)\<rparr>"

definition directUsageKey :: "string \<Rightarrow> string" where
  "directUsageKey operationId = ''apn.direct-usage:'' @ operationId"

definition subject_rid :: "prims \<Rightarrow> direct_subject \<Rightarrow> string result" where
  "subject_rid P subject = assetUsageReservationId P (identity_of (ds_identity subject)) (directUsageKey (ds_operationId subject))"

section \<open>Listed assets\<close>

text \<open>The EVM tokens outside the sealed inventory: WETH on Ethereum and Base, USDT0 on Arbitrum.\<close>

definition SUPPLEMENTAL :: "(string \<times> string \<times> string \<times> nat) list" where
  "SUPPLEMENTAL =
    [(''eip155:1'', ''WETH'', ''0xC02aaA39b223FE8D0A0e5C4F27eAD9083C756Cc2'', 18),
     (''eip155:8453'', ''WETH'', ''0x4200000000000000000000000000000000000006'', 18),
     (''eip155:42161'', ''USDT0'', ''0xFd086bC7CD5C481DCC9C85ebE478A1C0b69FCbb9'', 6)]"

definition supplemental_row :: "prims \<Rightarrow> string \<times> string \<times> string \<times> nat \<Rightarrow> listed_asset" where
  "supplemental_row P entry = (case entry of (chain, symbol, token, decimals) \<Rightarrow>
     \<lparr>la_chain = chain, la_kind = Token, la_identifier = getAddress P token, la_symbol = symbol, la_decimals = decimals\<rparr>)"

definition directEvmSupplementalAsset :: "prims \<Rightarrow> string \<Rightarrow> string option \<Rightarrow> listed_asset option" where
  "directEvmSupplementalAsset P chain identifier =
     find (\<lambda>row. la_chain row = chain \<and> la_identifier row = identifier) (map (supplemental_row P) SUPPLEMENTAL)"

definition requireListedDirectAsset :: "prims \<Rightarrow> inventory \<Rightarrow> string \<Rightarrow> asset_ref \<Rightarrow> listed_asset result" where
  "requireListedDirectAsset P listing chain asset =
     (if \<not> list_ex (\<lambda>n. n = chain) (iv_networks listing) then refuse ''allowlist_network_unlisted''
      else case (case find (\<lambda>e. la_chain e = chain \<and> la_kind e = ref_kind asset \<and> la_identifier e = ref_identifier asset)
          (iv_assets listing) of
            Some row \<Rightarrow> Some row
          | None \<Rightarrow> if ref_kind asset = Token then directEvmSupplementalAsset P chain (ref_identifier asset) else None) of
        None \<Rightarrow> refuse ''allowlist_asset_unlisted'' | Some row \<Rightarrow> Inr row)"

section \<open>Evaluation against the active policy\<close>

definition direct_caps :: "policy_registry \<Rightarrow> usage_identity \<Rightarrow> atomic_caps option" where
  "direct_caps registry i =
     (case find (\<lambda>c. chain_id c = id_chain i) (reg_chains registry) of None \<Rightarrow> None
      | Some c \<Rightarrow> (case find (\<lambda>a. row_kind a = ref_kind (id_asset i) \<and> row_identifier a = ref_identifier (id_asset i))
            (chain_assets c) of None \<Rightarrow> None
        | Some row \<Rightarrow> if \<not> direct (row_rails row) then None
            else if reg_schemaVersion registry = V2 then
              (case row_railCaps row of None \<Rightarrow> None | Some caps \<Rightarrow> map_of caps Direct)
            else row_caps row))"

definition evaluate_direct :: "prims \<Rightarrow> active_policy \<Rightarrow> direct_subject \<Rightarrow> string \<Rightarrow> jsdate \<Rightarrow> policy_admission result" where
  "evaluate_direct P active subject dailyUsageAtomic now =
     (case now of None \<Rightarrow> Inl (OtherError ''RangeError'')
      | Some at \<Rightarrow>
     let registry = ap_registry active; i = ds_identity subject in
     if (case reg_expiresAt registry of None \<Rightarrow> False | Some e \<Rightarrow> at \<ge> e) then refuse ''allowlist_policy_expired''
     else if (case reg_effectiveAt registry of None \<Rightarrow> False | Some e \<Rightarrow> at < e) then refuse ''allowlist_policy_not_effective''
     else case direct_caps registry i of None \<Rightarrow> refuse ''allowlist_direct_not_admitted''
     | Some caps \<Rightarrow>
     if undec (ds_amountAtomic subject) > undec (maximumPerTransferAtomic caps) then refuse ''allowlist_per_transfer_cap_exceeded''
     else if undec dailyUsageAtomic + undec (ds_amountAtomic subject) > undec (dailyLimitAtomic caps)
     then refuse ''allowlist_daily_cap_exceeded''
     else rbind (evaluateAssetPolicy P registry
         \<lparr>in_chain = id_chain i, in_asset = id_asset i, in_rail = Direct, in_mechanism = None,
          in_amountAtomic = ds_amountAtomic subject, in_dailyUsageAtomic = dailyUsageAtomic, in_asOfDate = day_of at,
          in_asOf = Some at\<rparr>) (\<lambda>admission.
       rbind (assertRecipientAdmitted P admission None (ds_recipient subject)) (\<lambda>_. Inr admission)))"

section \<open>Leases\<close>

definition validateDirectAllowlistBinding :: "direct_binding \<Rightarrow> direct_binding result" where
  "validateDirectAllowlistBinding value =
     (if \<not> hash_text (db_policyDigest value) \<or> \<not> \<bar>db_policyRevision value\<bar> \<le> MAX_SAFE_INTEGER \<or> db_policyRevision value < 1
      then corrupt else Inr value)"

definition lease_body_json :: "direct_lease \<Rightarrow> jval" where
  "lease_body_json v = JObj [(''schemaVersion'', JStr ''apn.direct-asset-usage-lease.v1''), (''profile'', JStr (dl_profile v)),
     (''rail'', JStr ''direct''), (''reservation'', reservation_json (dl_reservation v))]"

definition lease_digest :: "prims \<Rightarrow> direct_lease \<Rightarrow> string result" where
  "lease_digest P v =
     rbind (canonicalJson (lease_body_json v)) (\<lambda>t. Inr (domainHash (sha P) ''apn.direct-asset-usage-lease.v1'' t))"

definition validateDirectAssetUsageLease :: "prims \<Rightarrow> direct_lease \<Rightarrow> direct_lease result" where
  "validateDirectAssetUsageLease P value =
     (case canonicalProfile (dl_profile value) of Inl _ \<Rightarrow> corrupt
      | Inr _ \<Rightarrow>
     rbind (validateAssetUsageReservation P (dl_reservation value)) (\<lambda>r.
     if usage_rail r \<noteq> Direct then corrupt
     else rbind (lease_digest P value) (\<lambda>d. if d \<noteq> dl_leaseDigest value then corrupt else Inr value)))"

definition sealLease :: "prims \<Rightarrow> string \<Rightarrow> usage_reservation \<Rightarrow> direct_lease result" where
  "sealLease P profile reservation =
     (let body = \<lparr>dl_profile = profile, dl_reservation = reservation, dl_leaseDigest = []\<rparr> in
     rbind (lease_digest P body) (\<lambda>d. validateDirectAssetUsageLease P (body\<lparr>dl_leaseDigest := d\<rparr>)))"

definition validateDirectAllowlistLease :: "prims \<Rightarrow> direct_lease \<Rightarrow> direct_binding \<Rightarrow> direct_subject \<Rightarrow> direct_lease result" where
  "validateDirectAllowlistLease P value binding subject =
     rbind (validateDirectAssetUsageLease P value) (\<lambda>lease.
     let r = dl_reservation lease; i = identity_of (ds_identity subject) in
     if dl_profile lease \<noteq> ds_profile subject \<or> res_state r \<noteq> Reserved \<or> res_policyDigest r \<noteq> db_policyDigest binding \<or>
        res_amountAtomic r \<noteq> ds_amountAtomic subject \<or> \<not> same_identity (identity_of (res_identity r)) i then corrupt
     else rbind (subject_rid P subject) (\<lambda>rid. if res_reservationId r \<noteq> rid then corrupt else Inr lease))"

section \<open>The usage adapter\<close>

record adapter_input =
  ai_identity :: usage_identity
  ai_registry :: policy_registry
  ai_profile :: string
  ai_rail :: rail
  ai_amountAtomic :: string
  ai_idempotencyKey :: string
  ai_now :: jsdate

definition ledger_call :: "gate_env \<Rightarrow> (ledger_env \<Rightarrow> (ledger, 'a) stm) \<Rightarrow> ('w gate_state_scheme, 'a) stm" where
  "ledger_call G m = bnd (ask (ge_ledger G)) (\<lambda>E. write_ledger (m E))"

definition adapter_reserve :: "prims \<Rightarrow> gate_env \<Rightarrow> adapter_input \<Rightarrow> ('w gate_state_scheme, direct_lease) stm" where
  "adapter_reserve P G input =
     bnd (lift (canonicalProfile (ai_profile input))) (\<lambda>profile.
     if ai_rail input \<noteq> Direct then lift invalid else
     bnd (lift (validateAssetPolicyRegistry P (ai_registry input))) (\<lambda>registry.
     bnd (lift (instant (ai_now input))) (\<lambda>at.
     bnd (lift (evaluateAssetPolicy P registry
       \<lparr>in_chain = id_chain (ai_identity input), in_asset = id_asset (ai_identity input), in_rail = Direct, in_mechanism = None,
        in_amountAtomic = ai_amountAtomic input, in_dailyUsageAtomic = ''0'', in_asOfDate = day_of at, in_asOf = Some at\<rparr>)) (\<lambda>admission.
     bnd (ledger_call G (\<lambda>E. reserve P E
       \<lparr>ri_identity = ai_identity input, ri_registry = registry, ri_rail = Direct, ri_mechanism = None,
        ri_amountAtomic = ai_amountAtomic input, ri_idempotencyKey = ai_idempotencyKey input, ri_now = Some at,
        ri_retryFailedBeforeEffect = False\<rparr>)) (\<lambda>reservation.
     if res_policyDigest reservation \<noteq> adm_policyDigest admission \<or>
        res_registryVersion reservation \<noteq> adm_registryVersion admission \<or>
        id_chain (res_identity reservation) \<noteq> adm_chain admission \<or> usage_rail reservation \<noteq> adm_rail admission \<or>
        res_amountAtomic reservation \<noteq> adm_amountAtomic admission \<or>
        canonicalJson (asset_json (id_asset (res_identity reservation))) \<noteq> canonicalJson (asset_json (exactAsset (adm_asset admission)))
     then lift corrupt else lift (sealLease P profile reservation))))))"

definition withReservationBeforeEffect ::
  "prims \<Rightarrow> gate_env \<Rightarrow> adapter_input \<Rightarrow> (direct_lease \<Rightarrow> ('w gate_state_scheme, 'v) stm) \<Rightarrow>
   ('w gate_state_scheme, direct_lease \<times> 'v) stm" where
  "withReservationBeforeEffect P G input effect =
     bnd (adapter_reserve P G input) (\<lambda>lease.
     if res_state (dl_reservation lease) \<noteq> Reserved then lift blocked
     else bnd (effect lease) (\<lambda>v. ret (lease, v)))"

definition adapter_transition ::
  "prims \<Rightarrow> gate_env \<Rightarrow> direct_lease \<Rightarrow> usage_state \<Rightarrow> jsdate \<Rightarrow> string option \<Rightarrow> usage_state list option \<Rightarrow>
   ('w gate_state_scheme, direct_lease) stm" where
  "adapter_transition P G leaseValue state now outcomeDigest expectedCurrentStates =
     bnd (lift (validateDirectAssetUsageLease P leaseValue)) (\<lambda>lease.
     let r = dl_reservation lease in
     bnd (ledger_call G (\<lambda>E. transition P E
       \<lparr>ti_identity = res_identity r, ti_reservationId = res_reservationId r, ti_policyDigest = res_policyDigest r,
        ti_state = state, ti_now = now, ti_outcomeDigest = outcomeDigest, ti_consumedAtomic = None, ti_effectAt = None,
        ti_expectedCurrentStates = expectedCurrentStates\<rparr>)) (\<lambda>reservation.
     lift (sealLease P (dl_profile lease) reservation)))"

definition failedBeforeEffect :: "prims \<Rightarrow> gate_env \<Rightarrow> direct_lease \<Rightarrow> jsdate \<Rightarrow> string \<Rightarrow> ('w gate_state_scheme, direct_lease) stm" where
  "failedBeforeEffect P G leaseValue now outcomeDigest =
     bnd (lift (validateDirectAssetUsageLease P leaseValue)) (\<lambda>lease.
     if res_state (dl_reservation lease) \<notin> {Reserved, FailedBeforeEffect} then lift blocked
     else adapter_transition P G lease FailedBeforeEffect now (Some outcomeDigest) (Some [Reserved, FailedBeforeEffect]))"

definition adapter_submitted :: "prims \<Rightarrow> gate_env \<Rightarrow> direct_lease \<Rightarrow> jsdate \<Rightarrow> ('w gate_state_scheme, direct_lease) stm" where
  "adapter_submitted P G lease now = adapter_transition P G lease Submitted now None None"

definition unknownFinality :: "prims \<Rightarrow> gate_env \<Rightarrow> direct_lease \<Rightarrow> jsdate \<Rightarrow> ('w gate_state_scheme, direct_lease) stm" where
  "unknownFinality P G lease now = adapter_transition P G lease UnknownFinality now None None"

definition finalized :: "prims \<Rightarrow> gate_env \<Rightarrow> direct_lease \<Rightarrow> jsdate \<Rightarrow> string \<Rightarrow> ('w gate_state_scheme, direct_lease) stm" where
  "finalized P G lease now outcomeDigest = adapter_transition P G lease Finalized now (Some outcomeDigest) None"

section \<open>The gate\<close>

definition gate_active :: "prims \<Rightarrow> gate_env \<Rightarrow> direct_subject \<Rightarrow> ('w gate_state_scheme, active_policy) stm" where
  "gate_active P G subject =
     bnd (try_catch (loadActiveAssetPolicyRegistry G (ds_profile subject))
       (\<lambda>e. lift (case e of ApnError _ (Some reason) \<Rightarrow>
              if reason = ''allowlist_policy_expired'' then refuse ''allowlist_policy_expired'' else Inl e
            | _ \<Rightarrow> Inl e))) (\<lambda>active.
     case active of None \<Rightarrow> lift (refuse ''allowlist_policy_required'')
     | Some a \<Rightarrow>
         if ap_accounts a (ds_family subject) \<noteq> Some (id_account (ds_identity subject))
         then lift (refuse ''allowlist_account_mismatch'') else ret a)"

definition confirm :: "prims \<Rightarrow> gate_env \<Rightarrow> direct_subject \<Rightarrow> direct_binding \<Rightarrow> ('w gate_state_scheme, active_policy) stm" where
  "confirm P G subject bindingValue =
     bnd (lift (validateDirectAllowlistBinding bindingValue)) (\<lambda>binding.
     bnd (lift (requireListedDirectAsset P (ge_inventory G) (id_chain (ds_identity subject)) (id_asset (ds_identity subject)))) (\<lambda>_.
     bnd (gate_active P G subject) (\<lambda>active.
     if ap_digest active \<noteq> db_policyDigest binding \<or> ap_revision active \<noteq> db_policyRevision binding
     then lift (refuse ''allowlist_policy_changed'') else ret active)))"

definition gate_usage :: "prims \<Rightarrow> gate_env \<Rightarrow> usage_identity \<Rightarrow> jsdate \<Rightarrow> ('w gate_state_scheme, string) stm" where
  "gate_usage P G i now =
     bnd (ask (ge_ledger G)) (\<lambda>E. bnd (read_ledger (usage P E i now)) (\<lambda>u. ret (us_amountAtomic u)))"

definition admit :: "prims \<Rightarrow> gate_env \<Rightarrow> direct_subject \<Rightarrow> ('w gate_state_scheme, direct_binding) stm" where
  "admit P G subject =
     bnd (lift (requireListedDirectAsset P (ge_inventory G) (id_chain (ds_identity subject)) (id_asset (ds_identity subject)))) (\<lambda>_.
     bnd (gate_active P G subject) (\<lambda>active.
     bnd (ask (ge_clock G)) (\<lambda>now.
     bnd (gate_usage P G (identity_of (ds_identity subject)) now) (\<lambda>t.
     bnd (lift (evaluate_direct P active subject t now)) (\<lambda>_.
     ret \<lparr>db_policyDigest = ap_digest active, db_policyRevision = ap_revision active\<rparr>)))))"

definition gate_load :: "prims \<Rightarrow> usage_identity \<Rightarrow> string \<Rightarrow> ('w gate_state_scheme, usage_reservation option) stm" where
  "gate_load P i rid = read_ledger (load P i rid)"

definition gate_transition :: "prims \<Rightarrow> gate_env \<Rightarrow> transition_input \<Rightarrow> ('w gate_state_scheme, usage_reservation) stm" where
  "gate_transition P G input = ledger_call G (\<lambda>E. transition P E input)"

text \<open>\<^verbatim>\<open>existing\<close> and \<^verbatim>\<open>follow\<close> over the two ledger operations and the clock they call.\<close>

definition existing_with ::
  "prims \<Rightarrow> (usage_identity \<Rightarrow> string \<Rightarrow> ('s, usage_reservation option) stm) \<Rightarrow> direct_subject \<Rightarrow>
   ('s, usage_reservation option) stm" where
  "existing_with P loadRow subject =
     bnd (lift (subject_rid P subject)) (\<lambda>rid. loadRow (identity_of (ds_identity subject)) rid)"

definition outcome_of :: "prims \<Rightarrow> string \<Rightarrow> usage_state \<Rightarrow> string \<Rightarrow> string result" where
  "outcome_of P operationId target evidenceHash =
     rbind (canonicalJson (JObj [(''operationId'', JStr operationId), (''state'', JStr (usage_state_text target)),
       (''evidenceHash'', JStr evidenceHash)])) (\<lambda>t. Inr (domainHash (sha P) ''apn.direct-usage-outcome.v1'' t))"

definition follow_move ::
  "(transition_input \<Rightarrow> ('s, usage_reservation) stm) \<Rightarrow> ('s, jsdate) stm \<Rightarrow> direct_subject \<Rightarrow> usage_reservation \<Rightarrow>
   string option \<Rightarrow> usage_state \<Rightarrow> ('s, unit) stm" where
  "follow_move moveRow now subject current outcome state =
     bnd now (\<lambda>at. bnd (moveRow \<lparr>ti_identity = identity_of (ds_identity subject),
       ti_reservationId = res_reservationId current, ti_policyDigest = res_policyDigest current, ti_state = state, ti_now = at,
       ti_outcomeDigest = outcome, ti_consumedAtomic = None, ti_effectAt = None, ti_expectedCurrentStates = None\<rparr>) (\<lambda>_. ret ()))"

definition follow_with ::
  "prims \<Rightarrow> (usage_identity \<Rightarrow> string \<Rightarrow> ('s, usage_reservation option) stm) \<Rightarrow>
   (transition_input \<Rightarrow> ('s, usage_reservation) stm) \<Rightarrow> ('s, jsdate) stm \<Rightarrow> direct_subject \<Rightarrow> usage_state \<Rightarrow> string \<Rightarrow>
   ('s, unit) stm" where
  "follow_with P loadRow moveRow now subject target evidenceHash =
     (if target = Reserved then ret () else
     bnd (existing_with P loadRow subject) (\<lambda>found.
     case found of
       None \<Rightarrow> if target = FailedBeforeEffect then ret () else lift corrupt
     | Some current \<Rightarrow>
         if res_state current = target then ret ()
         else if res_state current \<in> {Finalized, FailedBeforeEffect, FailedConfirmedRevert} then lift corrupt else
         bnd (lift (outcome_of P (ds_operationId subject) target evidenceHash)) (\<lambda>outcome.
         let move = follow_move moveRow now subject current in
         if target = Submitted then (if res_state current = Reserved then move None Submitted else ret ())
         else if target = UnknownFinality then move None UnknownFinality
         else if target = FailedBeforeEffect then
           (if res_state current \<noteq> Reserved then lift corrupt else move (Some outcome) FailedBeforeEffect)
         else bnd (if target = FailedConfirmedRevert \<and> res_state current = Reserved then move None Submitted else ret ()) (\<lambda>_.
           move (Some outcome) target))))"

definition gate_existing :: "prims \<Rightarrow> direct_subject \<Rightarrow> ('w gate_state_scheme, usage_reservation option) stm" where
  "gate_existing P subject = existing_with P (gate_load P) subject"

definition gate_follow :: "prims \<Rightarrow> gate_env \<Rightarrow> direct_subject \<Rightarrow> usage_state \<Rightarrow> string \<Rightarrow> ('w gate_state_scheme, unit) stm" where
  "gate_follow P G = follow_with P (gate_load P) (gate_transition P G) (ask (ge_clock G))"

definition hasReservation :: "prims \<Rightarrow> direct_subject \<Rightarrow> ('w gate_state_scheme, bool) stm" where
  "hasReservation P subject = bnd (gate_existing P subject) (\<lambda>r. ret (r \<noteq> None))"

definition gate_reserve :: "prims \<Rightarrow> gate_env \<Rightarrow> direct_subject \<Rightarrow> direct_binding \<Rightarrow> ('w gate_state_scheme, direct_lease) stm" where
  "gate_reserve P G subject bindingValue =
     bnd (confirm P G subject bindingValue) (\<lambda>active.
     bnd (ask (ge_clock G)) (\<lambda>now.
     bnd (gate_existing P subject) (\<lambda>found.
     bnd (case found of
         None \<Rightarrow> bnd (gate_usage P G (identity_of (ds_identity subject)) now) (\<lambda>t.
           bnd (lift (evaluate_direct P active subject t now)) (\<lambda>_. ret ()))
       | Some r \<Rightarrow> if res_state r \<noteq> Reserved then lift blocked else ret ()) (\<lambda>_.
     bnd (adapter_reserve P G \<lparr>ai_identity = identity_of (ds_identity subject), ai_registry = ap_registry active,
       ai_profile = ds_profile subject, ai_rail = Direct, ai_amountAtomic = ds_amountAtomic subject,
       ai_idempotencyKey = directUsageKey (ds_operationId subject), ai_now = now\<rparr>) (\<lambda>lease.
     if res_state (dl_reservation lease) \<noteq> Reserved then lift blocked else ret lease)))))"

end
