(* ===== verification/Wp.thy ===== *)
theory Wp
  imports Prelude
begin

text \<open>
  A weakest-precondition calculus for the state-and-exception computations: \<open>wp m Q R s\<close> holds when
  \<open>m\<close>, started in \<open>s\<close>, either returns a value and a state that satisfy \<open>Q\<close> or throws in a state
  that satisfies \<open>R\<close>. The rules walk a computation from its start; each guard it passes becomes a
  hypothesis of what follows.
\<close>

named_theorems wp_rules \<open>rules that walk a computation\<close>

definition wp :: "('s, 'a) stm \<Rightarrow> ('a \<Rightarrow> 's \<Rightarrow> bool) \<Rightarrow> (js_error \<Rightarrow> 's \<Rightarrow> bool) \<Rightarrow> 's \<Rightarrow> bool" where
  "wp m Q R s = (case m s of (Inl e, s') \<Rightarrow> R e s' | (Inr x, s') \<Rightarrow> Q x s')"

lemma wpI: "(\<And>x s'. m s = (Inr x, s') \<Longrightarrow> Q x s') \<Longrightarrow> (\<And>e s'. m s = (Inl e, s') \<Longrightarrow> R e s') \<Longrightarrow> wp m Q R s"
  by (auto simp: wp_def split: prod.splits sum.splits)

lemma wp_Inr: "wp m Q R s \<Longrightarrow> m s = (Inr x, s') \<Longrightarrow> Q x s'"
  by (simp add: wp_def)

lemma wp_Inl: "wp m Q R s \<Longrightarrow> m s = (Inl e, s') \<Longrightarrow> R e s'"
  by (simp add: wp_def)

lemma wp_weaken: "wp m Q R s \<Longrightarrow> (\<And>x s'. Q x s' \<Longrightarrow> Q' x s') \<Longrightarrow> (\<And>e s'. R e s' \<Longrightarrow> R' e s') \<Longrightarrow> wp m Q' R' s"
  by (auto simp: wp_def split: prod.splits sum.splits)

lemma wp_ret [wp_rules]: "Q x s \<Longrightarrow> wp (ret x) Q R s"
  by (simp add: wp_def)

lemma wp_lift [wp_rules]: "(\<And>x. r = Inr x \<Longrightarrow> Q x s) \<Longrightarrow> (\<And>e. r = Inl e \<Longrightarrow> R e s) \<Longrightarrow> wp (lift r) Q R s"
  by (cases r) (simp_all add: wp_def)

lemma wp_bnd: "wp m (\<lambda>x. wp (f x) Q R) R s \<Longrightarrow> wp (bnd m f) Q R s"
  by (auto simp: wp_def bnd_def split: prod.splits sum.splits)

lemma wp_bnd_lift [wp_rules]:
  "(\<And>x. r = Inr x \<Longrightarrow> wp (f x) Q R s) \<Longrightarrow> (\<And>e. r = Inl e \<Longrightarrow> R e s) \<Longrightarrow> wp (bnd (lift r) f) Q R s"
  by (intro wp_bnd wp_lift)

lemma wp_try: "wp m Q (\<lambda>e. wp (h e) Q R) s \<Longrightarrow> wp (try_catch m h) Q R s"
  by (auto simp: wp_def try_catch_def split: prod.splits sum.splits)

lemma wp_if [wp_rules]: "(c \<Longrightarrow> wp m Q R s) \<Longrightarrow> (\<not> c \<Longrightarrow> wp m' Q R s) \<Longrightarrow> wp (if c then m else m') Q R s"
  by simp

lemma wp_option [wp_rules]:
  "(v = None \<Longrightarrow> wp m Q R s) \<Longrightarrow> (\<And>x. v = Some x \<Longrightarrow> wp (f x) Q R s) \<Longrightarrow>
   wp (case v of None \<Rightarrow> m | Some x \<Rightarrow> f x) Q R s"
  by (cases v) simp_all

lemma wp_pair [wp_rules]: "(\<And>a b. x = (a, b) \<Longrightarrow> wp (f a b) Q R s) \<Longrightarrow> wp (case x of (a, b) \<Rightarrow> f a b) Q R s"
  by (cases x) simp

lemma wp_let [wp_rules]: "wp (f x) Q R s \<Longrightarrow> wp (let y = x in f y) Q R s"
  by simp

end
