(* ===== verification/DirectGateLaws.thy ===== *)
theory DirectGateLaws
  imports DirectGate Wp
begin

text \<open>
  The contract between the gate and the ledger it drives, as a locale over the operations
  \<^verbatim>\<open>follow\<close> calls, its interpretation on the ledger of \<^verbatim>\<open>src/src/asset-usage-ledger.ts\<close>, and the
  properties of the gate.
\<close>

lemma bnd_run: "m s = (Inr x, s1) \<Longrightarrow> bnd m f s = f x s1"
  by (simp add: bnd_def)

lemma bnd_stop: "m s = (Inl e, s1) \<Longrightarrow> bnd m f s = (Inl e, s1)"
  by (simp add: bnd_def)

lemma outcome_total: "\<exists>t. outcome_of P operationId target evidence = Inr t"
  using canonicalJson_total [of "JObj [(''operationId'', JStr operationId), (''state'', JStr (usage_state_text target)),
    (''evidenceHash'', JStr evidence)]"]
  by (auto simp: outcome_of_def)

text \<open>What \<^verbatim>\<open>follow\<close> does with the row it found.\<close>

definition follow_found ::
  "(transition_input \<Rightarrow> ('s, usage_reservation) stm) \<Rightarrow> ('s, jsdate) stm \<Rightarrow> direct_subject \<Rightarrow> usage_reservation \<Rightarrow>
   string \<Rightarrow> usage_state \<Rightarrow> ('s, unit) stm" where
  "follow_found moveRow now subject current outcome target =
     (if target = Submitted then
        (if res_state current = Reserved then follow_move moveRow now subject current None Submitted else ret ())
      else if target = UnknownFinality then follow_move moveRow now subject current None UnknownFinality
      else if target = FailedBeforeEffect then
        (if res_state current \<noteq> Reserved then lift corrupt
         else follow_move moveRow now subject current (Some outcome) FailedBeforeEffect)
      else bnd (if target = FailedConfirmedRevert \<and> res_state current = Reserved
                then follow_move moveRow now subject current None Submitted else ret ())
        (\<lambda>_. follow_move moveRow now subject current (Some outcome) target))"

lemma follow_with_found:
  assumes "existing_with P loadRow subject s = (Inr (Some current), s)" "target \<noteq> Reserved"
    "outcome_of P (ds_operationId subject) target evidence = Inr t"
  shows "follow_with P loadRow moveRow now subject target evidence s =
    (if res_state current = target then (Inr (), s)
     else if res_state current \<in> {Finalized, FailedBeforeEffect, FailedConfirmedRevert} then (corrupt, s)
     else follow_found moveRow now subject current t target s)"
  using assms(2,3)
  by (simp add: follow_with_def bnd_run [of "existing_with P loadRow subject", OF assms(1)]
      bnd_run [of "lift (Inr t)", OF lift_app] follow_found_def Let_def)

section \<open>The rows a journal drives\<close>

locale usage_rows =
  fixes rows_ok :: "'s \<Rightarrow> bool"
    and loadRow :: "usage_identity \<Rightarrow> string \<Rightarrow> ('s, usage_reservation option) stm"
    and moveRow :: "transition_input \<Rightarrow> ('s, usage_reservation) stm"
    and now :: "('s, jsdate) stm"
  assumes load_pure: "loadRow i n s = (v, s') \<Longrightarrow> s' = s"
    and load_named: "loadRow i n s = (Inr (Some r), s') \<Longrightarrow> res_reservationId r = n"
    and move_ok: "rows_ok s \<Longrightarrow> rows_ok (snd (moveRow t s))"
    and move_result: "rows_ok s \<Longrightarrow> moveRow t s = (Inr r, s') \<Longrightarrow>
      res_state r = ti_state t \<and> loadRow (ti_identity t) (ti_reservationId t) s' = (Inr (Some r), s')"
    and now_ok: "\<exists>d s'. now s = (Inr d, s') \<and> (rows_ok s \<longrightarrow> rows_ok s') \<and> fst (loadRow i n s') = fst (loadRow i n s)"
begin

lemma now_cases:
  obtains d s' where "now s = (Inr d, s')" "rows_ok s \<Longrightarrow> rows_ok s'"
  using now_ok by blast

lemma move_keeps: "moveRow t s = (v, s') \<Longrightarrow> rows_ok s \<Longrightarrow> rows_ok s'"
  using move_ok [of s t] by simp

lemma follow_move_ok: "rows_ok s \<Longrightarrow> rows_ok (snd (follow_move moveRow now subject current out state s))"
  by (rule now_cases [of s]) (auto simp: follow_move_def bnd_run bnd_def dest: move_keeps split: prod.splits sum.splits)

lemma follow_move_result:
  assumes "rows_ok s" "follow_move moveRow now subject current out state s = (Inr u, s')"
    "res_reservationId current = rid"
  shows "\<exists>r. res_state r = state \<and> loadRow (identity_of (ds_identity subject)) rid s' = (Inr (Some r), s')"
proof -
  obtain d s1 where n: "now s = (Inr d, s1)" "rows_ok s1" using now_cases assms(1) by metis
  with assms(2) obtain r where
    "moveRow \<lparr>ti_identity = identity_of (ds_identity subject), ti_reservationId = rid,
       ti_policyDigest = res_policyDigest current, ti_state = state, ti_now = d, ti_outcomeDigest = out,
       ti_consumedAtomic = None, ti_effectAt = None, ti_expectedCurrentStates = None\<rparr> s1 = (Inr r, s')"
    using assms(3) by (auto simp: follow_move_def bnd_def split: prod.splits sum.splits)
  from move_result [OF n(2) this] show ?thesis by auto
qed

lemma existing_pure: "existing_with P loadRow subject s = (r, s') \<Longrightarrow> s' = s"
  by (cases "subject_rid P subject") (auto simp: existing_with_def bnd_def dest: load_pure)

lemma existing_named:
  assumes "existing_with P loadRow subject s = (Inr (Some r), s')"
  shows "subject_rid P subject = Inr (res_reservationId r)"
  using assms load_named by (cases "subject_rid P subject") (auto simp: existing_with_def bnd_def)

lemma existing_after_move:
  assumes "rows_ok s" "follow_move moveRow now subject current out state s = (Inr u, s')"
    "subject_rid P subject = Inr (res_reservationId current)"
  shows "\<exists>r. res_state r = state \<and> existing_with P loadRow subject s' = (Inr (Some r), s')"
  using follow_move_result [OF assms(1,2) refl] assms(3) by (simp add: existing_with_def bnd_def)

lemma follow_found_ok:
  assumes "rows_ok s"
  shows "rows_ok (snd (follow_found moveRow now subject current t target s))"
proof -
  have "rows_ok (snd (bnd (follow_move moveRow now subject current None Submitted)
      (\<lambda>_. follow_move moveRow now subject current out target) s))" for out
  proof (cases "follow_move moveRow now subject current None Submitted s")
    case (Pair r s1)
    with follow_move_ok [OF assms, of subject current None Submitted] have "rows_ok s1" by simp
    with Pair follow_move_ok show ?thesis by (cases r) (simp_all add: bnd_run bnd_stop)
  qed
  then show ?thesis using follow_move_ok [OF assms] assms by (auto simp: follow_found_def)
qed

lemma follow_found_result:
  assumes "rows_ok s" "follow_found moveRow now subject current t target s = (Inr u, s')" "res_state current \<noteq> target"
    "target \<noteq> Reserved"
  obtains (kept) "s' = s" "target = Submitted" "res_state current \<noteq> Reserved"
  | (moved) out s1 where "rows_ok s1" "follow_move moveRow now subject current out target s1 = (Inr u, s')"
proof (cases "target = FailedConfirmedRevert \<and> res_state current = Reserved")
  case True
  with assms(2) obtain x s1 where "follow_move moveRow now subject current None Submitted s = (Inr x, s1)"
    "follow_move moveRow now subject current (Some t) target s1 = (Inr u, s')"
    by (auto simp: follow_found_def dest: bnd_InrD)
  with follow_move_ok [OF assms(1), of subject current None Submitted] moved show thesis by force
next
  case False
  with assms show thesis
    by (auto simp: follow_found_def corrupt_def split: if_splits intro: kept moved [OF assms(1)])
qed

lemma follow_target:
  assumes "rows_ok s" "follow_with P loadRow moveRow now subject target evidence s = (Inr u, s')" "target \<noteq> Reserved"
  shows "\<exists>found. existing_with P loadRow subject s' = (Inr found, s') \<and>
    (case found of None \<Rightarrow> target = FailedBeforeEffect
     | Some r \<Rightarrow> res_state r = target \<or> target = Submitted \<and> res_state r \<in> {UnknownFinality, ReleasedUnsubmitted})"
proof -
  obtain found where e: "existing_with P loadRow subject s = (Inr found, s)"
    using assms(2,3) existing_pure by (fastforce simp: follow_with_def dest: bnd_InrD)
  obtain t where t: "outcome_of P (ds_operationId subject) target evidence = Inr t" using outcome_total by blast
  show ?thesis
  proof (cases found)
    case None
    with assms(2,3) e show ?thesis
      by (auto simp: follow_with_def bnd_run corrupt_def split: if_splits intro!: exI [of _ None])
  next
    case (Some current)
    with e existing_named have rid: "subject_rid P subject = Inr (res_reservationId current)" by blast
    note f = assms(2) [unfolded follow_with_found [OF e [unfolded Some] assms(3) t]]
    show ?thesis
    proof (cases "res_state current = target")
      case True
      with f e Some show ?thesis by auto
    next
      case False
      with f have open_state: "res_state current \<notin> {Finalized, FailedBeforeEffect, FailedConfirmedRevert}"
        and m: "follow_found moveRow now subject current t target s = (Inr u, s')"
        by (auto simp: corrupt_def split: if_splits)
      consider (kept) "s' = s" "target = Submitted" "res_state current \<noteq> Reserved"
        | (moved) out s1 where "rows_ok s1" "follow_move moveRow now subject current out target s1 = (Inr u, s')"
        by (rule follow_found_result [OF assms(1) m False assms(3)])
      then show ?thesis
      proof cases
        case kept
        with e Some open_state False show ?thesis by (cases "res_state current") auto
      next
        case moved
        from existing_after_move [OF this rid] show ?thesis by auto
      qed
    qed
  qed
qed

lemma follow_again:
  assumes "rows_ok s" "follow_with P loadRow moveRow now subject target evidence s = (Inr u, s')"
  shows "follow_with P loadRow moveRow now subject target evidence' s' = (Inr (), s')"
proof (cases "target = Reserved")
  case True
  with assms(2) show ?thesis by (auto simp: follow_with_def)
next
  case False
  obtain t where t: "outcome_of P (ds_operationId subject) target evidence' = Inr t" using outcome_total by blast
  from follow_target [OF assms False] obtain found where e: "existing_with P loadRow subject s' = (Inr found, s')"
    and k: "case found of None \<Rightarrow> target = FailedBeforeEffect
     | Some r \<Rightarrow> res_state r = target \<or> target = Submitted \<and> res_state r \<in> {UnknownFinality, ReleasedUnsubmitted}" by blast
  show ?thesis
  proof (cases found)
    case None
    with e k False show ?thesis by (simp add: follow_with_def bnd_run)
  next
    case (Some r)
    with k show ?thesis unfolding follow_with_found [OF e [unfolded Some] False t] by (auto simp: follow_found_def)
  qed
qed

lemma follow_ok:
  assumes "rows_ok s"
  shows "rows_ok (snd (follow_with P loadRow moveRow now subject target evidence s))"
proof (cases "existing_with P loadRow subject s")
  case (Pair r s1)
  with existing_pure have e: "existing_with P loadRow subject s = (r, s)" by blast
  obtain t where t: "outcome_of P (ds_operationId subject) target evidence = Inr t" using outcome_total by blast
  show ?thesis
  proof (cases "target = Reserved")
    case False
    show ?thesis
    proof (cases r)
      case (Inr found)
      with e t False follow_found_ok [OF assms] assms show ?thesis
        by (cases found) (simp_all add: follow_with_found, simp add: follow_with_def bnd_run)
    qed (use e False assms in \<open>simp add: follow_with_def bnd_stop\<close>)
  qed (use assms in \<open>simp add: follow_with_def\<close>)
qed

end

section \<open>The ledger keeps the contract\<close>

lemma bnd_read_Inr:
  "bnd (readRecord P i n) f s = (Inr y, s') \<Longrightarrow> \<exists>b. bucketDirectory P i = Inr b \<and> f (map_of (s b) n) s = (Inr y, s')"
  by (cases "bucketDirectory P i") (auto simp: readRecord_def bnd_def)

lemma load_Some:
  assumes "validateIdentity P i0 False = Inr i" "digest_of n False = Inr rid" "bucketDirectory P i = Inr b"
    "map_of (s b) rid = Some r" "validateAssetUsageReservation P r = Inr r'" "res_reservationId r' = rid"
    "same_identity (res_identity r') i"
  shows "load P i0 n s = (Inr (Some r'), s)"
  using assms by (auto simp: load_def readRecord_def bnd_def)

lemma load_InrD: "load P i rid s = (Inr (Some r), s') \<Longrightarrow> res_reservationId r = rid"
  by (auto simp: load_def digest_of_def dest!: bnd_read_Inr split: option.splits if_splits)

lemma load_pure: "load P i rid s = (v, s') \<Longrightarrow> s' = s"
proof -
  have "snd (load P i rid s) = s"
    by (cases "validateIdentity P i False"; cases "digest_of rid False"; cases "bucketDirectory P i")
      (auto simp: load_def readRecord_def bnd_def split: option.splits sum.splits prod.splits)
  then show "load P i rid s = (v, s') \<Longrightarrow> s' = s" by simp
qed

lemma map_of_put_entry: "map_of (put_entry n r es) n = Some r"
  by (induction es) auto

lemma wp_load:
  assumes "\<And>b rows. bucketDirectory P i = Inr b \<Longrightarrow> wp (f rows) Q (\<lambda>_ _. True) s"
  shows "wp (bnd (loadBucket P i) f) Q (\<lambda>_ _. True) s"
proof (intro wpI TrueI)
  fix x s'
  assume "bnd (loadBucket P i) f s = (Inr x, s')"
  then obtain b where "bucketDirectory P i = Inr b" "f (map snd (s b)) s = (Inr x, s')" by (blast dest: bnd_load_Inr)
  with wp_Inr [OF assms] show "Q x s'" by blast
qed

lemma wp_read:
  assumes "\<And>b. bucketDirectory P i = Inr b \<Longrightarrow> wp (f (map_of (s b) n)) Q (\<lambda>_ _. True) s"
  shows "wp (bnd (readRecord P i n) f) Q (\<lambda>_ _. True) s"
  using assms by (intro wpI) (auto dest!: bnd_read_Inr elim: wp_Inr)

lemma wp_write:
  assumes "\<And>b. bucketDirectory P i = Inr b \<Longrightarrow> Q x (s(b := put_entry n r (s b)))"
  shows "wp (bnd (writeRecord P i n r c) (\<lambda>_. ret x)) Q (\<lambda>_ _. True) s"
  using assms by (intro wpI) (auto dest!: bnd_write_Inr)

lemma load_written:
  assumes "seal P row = Inr r" "validateIdentity P i0 False = Inr i" "digest_of n False = Inr rid"
    "bucketDirectory P i = Inr b" "res_state row = st" "res_reservationId row = rid" "same_identity (res_identity row) i"
  shows "res_state r = st \<and>
    load P i0 n (s(b := put_entry rid r (s b))) = (Inr (Some r), s(b := put_entry rid r (s b)))"
proof -
  obtain d where r: "stored_ok P r" "r = row\<lparr>res_reservationDigest := d\<rparr>" using seal_stored_ok [OF assms(1)] by blast
  with assms have "load P i0 n (s(b := put_entry rid r (s b))) = (Inr (Some r), s(b := put_entry rid r (s b)))"
    by (intro load_Some [OF assms(2,3,4)]) (auto simp: map_of_put_entry stored_ok_def)
  with r assms(5) show ?thesis by simp
qed

lemma transition_result:
  assumes "transition P E t s = (Inr r, s')"
  shows "res_state r = ti_state t \<and> load P (ti_identity t) (ti_reservationId t) s' = (Inr (Some r), s')"
proof -
  let ?Q = "\<lambda>r s'. res_state r = ti_state t \<and> load P (ti_identity t) (ti_reservationId t) s' = (Inr (Some r), s')"
  have "wp (transition P E t) ?Q (\<lambda>_ _. True) s"
    unfolding transition_def Let_def
    by (intro wp_bnd_lift wp_load wp_read wp_write wp_if wp_option wp_ret wp_lift)
      (simp_all, (rule load_Some; (assumption | simp)), rule load_written, assumption+, simp_all)
  with assms show ?thesis by (rule wp_Inr [rotated])
qed

lemma write_ledger_cases:
  obtains (dead) "write_ledger m s = (Inl crash, s)"
  | (alive) r l where "m (gs_ledger s) = (r, l)" "write_ledger m s = (r, s\<lparr>gs_ledger := l, gs_life := gs_life s - 1\<rparr>)"
  by (cases "gs_life s = 0"; cases "m (gs_ledger s)") (auto simp: write_ledger_def)

lemma ledger_call_eq: "ledger_call G m s = write_ledger (m (ge_ledger G (gs_tick s))) (s\<lparr>gs_tick := Suc (gs_tick s)\<rparr>)"
  by (simp add: ledger_call_def ask_def bnd_def)

lemma ledger_call_InrD:
  "ledger_call G m s = (Inr r, s') \<Longrightarrow> m (ge_ledger G (gs_tick s)) (gs_ledger s) = (Inr r, gs_ledger s')"
  by (rule write_ledger_cases [of "m (ge_ledger G (gs_tick s))" "s\<lparr>gs_tick := Suc (gs_tick s)\<rparr>"])
    (auto simp: ledger_call_eq crash_def)

lemma gate_transition_ok:
  assumes "ledger_ok P (gs_ledger s)"
  shows "ledger_ok P (gs_ledger (snd (gate_transition P G t s)))"
proof -
  have "ledger_ok P (snd (transition P E t (gs_ledger s)))" for E
    using transition_step assms ledger_step_ok by (metis runs_step_def)
  then show ?thesis
    by (auto simp: gate_transition_def ledger_call_eq write_ledger_def assms split: prod.splits)
      (metis snd_conv)
qed

interpretation gate_rows: usage_rows "\<lambda>s. ledger_ok P (gs_ledger s)" "gate_load P" "gate_transition P G" "ask (ge_clock G)"
  for P G
proof unfold_locales
  show "s' = s" if "gate_load P i n s = (v, s')" for i n v and s s' :: "'a gate_state_scheme"
    using that by (simp add: gate_load_def read_ledger_def)
  show "res_reservationId r = n" if "gate_load P i n s = (Inr (Some r), s')" for i n r and s s' :: "'a gate_state_scheme"
    using that load_InrD [of P i n "gs_ledger s" r] by (cases "load P i n (gs_ledger s)") (auto simp: gate_load_def read_ledger_def)
  show "ledger_ok P (gs_ledger (snd (gate_transition P G t s)))" if "ledger_ok P (gs_ledger s)" for t
    and s :: "'a gate_state_scheme"
    using that by (rule gate_transition_ok)
  show "res_state r = ti_state t \<and> gate_load P (ti_identity t) (ti_reservationId t) s' = (Inr (Some r), s')"
    if "gate_transition P G t s = (Inr r, s')" for t r and s s' :: "'a gate_state_scheme"
    using that transition_result by (auto simp: gate_transition_def gate_load_def read_ledger_def dest!: ledger_call_InrD)
  show "\<exists>d s'. ask (ge_clock G) s = (Inr d, s') \<and> (ledger_ok P (gs_ledger s) \<longrightarrow> ledger_ok P (gs_ledger s')) \<and>
      fst (gate_load P i n s') = fst (gate_load P i n s)" for i n and s :: "'a gate_state_scheme"
    by (simp add: ask_def gate_load_def read_ledger_def)
qed

section \<open>Following the journal\<close>

text \<open>
  When \<^verbatim>\<open>follow\<close> returns, the shared ledger shows the operation's hold in the
  journal's state (or past it, for a submission the ledger already calls unknown), and only an
  operation that failed before any effect may have no hold; repeating the call changes nothing,
  whatever evidence hash it names, so a resume repairs a lagging ledger and never disturbs a
  current one.
\<close>

lemma follow_reaches_target:
  assumes "gate_follow P G subject target evidence s = (Inr u, s')" "target \<noteq> Reserved" "ledger_ok P (gs_ledger s)"
  shows "\<exists>found. gate_existing P subject s' = (Inr found, s') \<and>
    (case found of None \<Rightarrow> target = FailedBeforeEffect
     | Some r \<Rightarrow> res_state r = target \<or> target = Submitted \<and> res_state r \<in> {UnknownFinality, ReleasedUnsubmitted}) \<and>
    gate_follow P G subject target evidence' s' = (Inr (), s')"
  using gate_rows.follow_target [OF assms(3) assms(1) [unfolded gate_follow_def] assms(2)]
    gate_rows.follow_again [OF assms(3) assms(1) [unfolded gate_follow_def], of evidence']
  unfolding gate_follow_def gate_existing_def by blast

text \<open>A concrete gate: the clock of the sample reservation, one active policy and one listed token.\<close>

definition sample_gate :: gate_env where
  "sample_gate = \<lparr>ge_clock = (\<lambda>_. Some ''2026-05-05T10:00:00.000Z''), ge_ledger = (\<lambda>_. sample_env),
     ge_policies = (\<lambda>_ profile. Inr \<lparr>ps_profile = profile,
       ps_entries = [\<lparr>pe_active = True, pe_revision = 1, pe_entryDigest = replicate 64 CHR ''a'',
         pe_decidedAt = ''2026-05-01T00:00:00.000Z''\<rparr>],
       ps_records = [\<lparr>pr_revision = 1, pr_registry = sample_registry, pr_accounts = (\<lambda>_. Some sample_recipient)\<rparr>]\<rparr>),
     ge_inventory = \<lparr>iv_networks = [''eip155:8453''],
       iv_assets = [\<lparr>la_chain = ''eip155:8453'', la_kind = Token, la_identifier = Some sample_usdc, la_symbol = ''USDC'',
         la_decimals = 6\<rparr>]\<rparr>\<rparr>"

definition sample_subject :: direct_subject where
  "sample_subject = \<lparr>ds_identity = oc_identity sample_owner_input, ds_profile = ''main'', ds_operationId = ''op-1'', ds_family = Evm,
     ds_amountAtomic = ''5'', ds_recipient = sample_recipient\<rparr>"

definition sample_state :: gate_state where
  "sample_state = \<lparr>gs_ledger = sample_held, gs_tick = 0, gs_life = 9\<rparr>"

definition sample_moved :: usage_reservation where
  "sample_moved = sample_hold\<lparr>res_state := Submitted\<rparr>"

lemma sample_moved_ok: "validateAssetUsageReservation sample_prims sample_moved = Inr sample_moved"
proof -
  have "validateBody sample_prims sample_moved = Inr ()" "shape_ok sample_moved" by code_simp+
  then show ?thesis
    using sample_hold_body(3) by (simp add: validateAssetUsageReservation_def) (simp add: sample_moved_def sample_hold_def)
qed

lemma sample_checks:
  "validateIdentity sample_prims (oc_identity sample_owner_input) False = Inr (oc_identity sample_owner_input)"
  "identity_of (oc_identity sample_owner_input) = oc_identity sample_owner_input"
  "idempotency sample_prims (directUsageKey ''op-1'') = Inr aaa"
  using sample_identity_checks(1) by simp code_simp+

lemma sample_bucket_stamp: "bucketStamp [sample_hold] (Some ''2026-05-05T10:00:00.000Z'') = Inr ''2026-05-05T10:00:00.000Z''"
  by (simp add: bucketStamp_def sample_hold_def instant_def newest_def)

lemma sample_existing: "gate_existing sample_prims sample_subject sample_state = (Inr (Some sample_hold), sample_state)"
proof -
  have "load sample_prims (oc_identity sample_owner_input) aaa sample_held = (Inr (Some sample_hold), sample_held)"
    by (rule load_Some [OF sample_checks(1) _ sample_bucket _ sample_hold_ok])
      (simp_all add: digest_of_def sample_hold_body sample_held_def same_identity_def, simp_all add: sample_hold_def)
  moreover have "subject_rid sample_prims sample_subject = Inr aaa"
    by (simp add: subject_rid_def sample_subject_def assetUsageReservationId_def sample_checks)
  ultimately show ?thesis
    by (simp add: gate_existing_def existing_with_def bnd_run gate_load_def read_ledger_def sample_state_def
        sample_subject_def sample_checks)
qed

definition sample_move :: transition_input where
  "sample_move = \<lparr>ti_identity = oc_identity sample_owner_input, ti_reservationId = aaa, ti_policyDigest = aaa,
     ti_state = Submitted, ti_now = Some ''2026-05-05T10:00:00.000Z'', ti_outcomeDigest = None, ti_consumedAtomic = None,
     ti_effectAt = None, ti_expectedCurrentStates = None\<rparr>"

lemma sample_transition: "is_ok (fst (transition sample_prims sample_env sample_move sample_held))"
proof -
  have load: "loadBucket sample_prims (oc_identity sample_owner_input) sample_held = (Inr [sample_hold], sample_held)"
    using sample_hold_ok
    by (simp add: loadBucket_def bnd_def sample_held_def load_entry_def sample_hold_body same_identity_def)
      (simp add: sample_hold_def)
  have read: "readRecord sample_prims (oc_identity sample_owner_input) aaa sample_held = (Inr (Some sample_hold), sample_held)"
    by (simp add: readRecord_def bnd_def sample_held_def)
  have hold: "res_metamaskNativeReservation sample_hold = None" "res_reservationId sample_hold = aaa"
    "res_policyDigest sample_hold = aaa" "res_identity sample_hold = oc_identity sample_owner_input" "res_state sample_hold = Reserved"
    "res_consumedAtomic sample_hold = None" "sample_hold\<lparr>res_state := Submitted, res_updatedAt := ''2026-05-05T10:00:00.000Z'',
       res_effectAt := None, res_outcomeDigest := None, res_consumedAtomic := None\<rparr> = sample_moved"
    by (simp_all add: sample_hold_def sample_moved_def)
  have seal: "seal sample_prims sample_moved = Inr sample_moved"
  proof -
    have "sample_moved\<lparr>res_reservationDigest := aaa\<rparr> = sample_moved" by (simp add: sample_moved_def sample_hold_def)
    then show ?thesis using sample_moved_ok by (simp add: seal_def)
  qed
  show ?thesis
    by (simp add: transition_def sample_move_def sample_checks digest_of_def sample_hold_body instant_def load read bnd_lift_ok hold sample_hold_ok sample_env_def same_identity_def sample_bucket_stamp seal Let_def
        assertTransition_def writeRecord_def bnd_def)
qed

definition sample_followed :: "unit result \<times> gate_state" where
  "sample_followed = gate_follow sample_prims sample_gate sample_subject Submitted aaa sample_state"

lemma sample_follow_ok: "fst sample_followed = Inr ()"
proof -
  obtain t where t: "outcome_of sample_prims (ds_operationId sample_subject) Submitted aaa = Inr t" using outcome_total by blast
  have e: "existing_with sample_prims (gate_load sample_prims) sample_subject sample_state = (Inr (Some sample_hold), sample_state)"
    using sample_existing by (simp add: gate_existing_def)
  obtain r l where m: "transition sample_prims sample_env sample_move sample_held = (Inr r, l)"
    using sample_transition by (cases "transition sample_prims sample_env sample_move sample_held") (auto simp: is_ok_eq)
  have input: "\<lparr>ti_identity = identity_of (ds_identity sample_subject), ti_reservationId = res_reservationId sample_hold,
       ti_policyDigest = res_policyDigest sample_hold, ti_state = Submitted, ti_now = Some ''2026-05-05T10:00:00.000Z'',
       ti_outcomeDigest = None, ti_consumedAtomic = None, ti_effectAt = None, ti_expectedCurrentStates = None\<rparr> = sample_move"
    by (simp add: sample_move_def sample_subject_def sample_checks) (simp add: sample_hold_def)
  have hold: "res_state sample_hold = Reserved" by (simp add: sample_hold_def)
  have "sample_followed = follow_move (gate_transition sample_prims sample_gate) (ask (ge_clock sample_gate))
      sample_subject sample_hold None Submitted sample_state"
    using hold by (simp add: sample_followed_def gate_follow_def follow_with_found [OF e _ t] follow_found_def)
  also have "\<dots> = (Inr (), sample_state\<lparr>gs_ledger := l, gs_tick := 2, gs_life := 8\<rparr>)"
    using m by (simp add: follow_move_def bnd_def ask_def gate_transition_def ledger_call_def write_ledger_def sample_gate_def input
        sample_state_def)
  finally have "sample_followed = (Inr (), sample_state\<lparr>gs_ledger := l, gs_tick := 2, gs_life := 8\<rparr>)" .
  then show ?thesis by (rule ssubst) simp
qed

section \<open>Admission and reservation\<close>

lemma wp_ask [wp_rules]: "Q (f (gs_tick s)) (s\<lparr>gs_tick := Suc (gs_tick s)\<rparr>) \<Longrightarrow> wp (ask f) Q R s"
  by (simp add: wp_def ask_def)

lemma wp_bnd_ask [wp_rules]: "wp (g (f (gs_tick s))) Q R (s\<lparr>gs_tick := Suc (gs_tick s)\<rparr>) \<Longrightarrow> wp (bnd (ask f) g) Q R s"
  by (intro wp_bnd wp_ask)

lemma wp_read_ledger [wp_rules]:
  "(\<And>x. fst (m (gs_ledger s)) = Inr x \<Longrightarrow> Q x s) \<Longrightarrow> (\<And>e. fst (m (gs_ledger s)) = Inl e \<Longrightarrow> R e s) \<Longrightarrow>
   wp (read_ledger m) Q R s"
  by (cases "fst (m (gs_ledger s))") (simp_all add: wp_def read_ledger_def)

lemma activeAssetPolicy_InrD:
  assumes "activeAssetPolicyFromState st at = Inr (Some a)"
  shows "ap_digest a = reg_policyDigest (ap_registry a)"
proof (cases "activeAllowlistPolicy st")
  case (Inr found)
  with assms show ?thesis by (cases found) (auto simp: activeAssetPolicyFromState_def split: if_split_asm)
qed (use assms in \<open>simp add: activeAssetPolicyFromState_def\<close>)

lemma gate_active_wp:
  assumes "\<And>a s'. gs_ledger s' = gs_ledger s \<Longrightarrow> ap_accounts a (ds_family subject) = Some (id_account (ds_identity subject)) \<Longrightarrow>
    ap_digest a = reg_policyDigest (ap_registry a) \<Longrightarrow> Q a s'"
  shows "wp (gate_active P G subject) Q (\<lambda>_ _. True) s"
  unfolding gate_active_def loadActiveAssetPolicyRegistry_def
  by (intro wp_bnd wp_try wp_ask wp_lift wp_option wp_if wp_ret TrueI)
    (auto simp: refuse_def dest: activeAssetPolicy_InrD intro!: assms split: js_error.splits option.splits if_splits)

lemma evaluate_direct_InrD:
  assumes "evaluate_direct P active subject t now = Inr adm"
  obtains at caps where "now = Some at" "direct_caps (ap_registry active) (ds_identity subject) = Some caps"
    "undec (ds_amountAtomic subject) \<le> undec (maximumPerTransferAtomic caps)"
    "undec t + undec (ds_amountAtomic subject) \<le> undec (dailyLimitAtomic caps)"
    "evaluateAssetPolicy P (ap_registry active)
         \<lparr>in_chain = id_chain (ds_identity subject), in_asset = id_asset (ds_identity subject), in_rail = Direct, in_mechanism = None,
          in_amountAtomic = ds_amountAtomic subject, in_dailyUsageAtomic = t, in_asOfDate = day_of at, in_asOf = Some at\<rparr> = Inr adm"
    "assertRecipientAdmitted P adm None (ds_recipient subject) = Inr ()"
  using assms that
  by (auto simp: evaluate_direct_def refuse_def Let_def split: option.splits if_splits)

text \<open>At instant \<open>at\<close>, with \<open>used\<close> charged that day, the policy admits the transfer and its recipient.\<close>

definition admits_direct :: "prims \<Rightarrow> policy_registry \<Rightarrow> direct_subject \<Rightarrow> string \<Rightarrow> string \<Rightarrow> bool" where
  "admits_direct P registry subject used at \<longleftrightarrow>
     (\<exists>caps adm. direct_caps registry (ds_identity subject) = Some caps \<and>
       undec (ds_amountAtomic subject) \<le> undec (maximumPerTransferAtomic caps) \<and>
       undec used + undec (ds_amountAtomic subject) \<le> undec (dailyLimitAtomic caps) \<and>
       evaluateAssetPolicy P registry
         \<lparr>in_chain = id_chain (ds_identity subject), in_asset = id_asset (ds_identity subject), in_rail = Direct,
          in_mechanism = None, in_amountAtomic = ds_amountAtomic subject, in_dailyUsageAtomic = used,
          in_asOfDate = day_of at, in_asOf = Some at\<rparr> = Inr adm \<and>
       assertRecipientAdmitted P adm None (ds_recipient subject) = Inr ())"

lemma evaluate_direct_admits:
  "evaluate_direct P active subject t now = Inr adm \<Longrightarrow> \<exists>at. now = Some at \<and> admits_direct P (ap_registry active) subject t at"
  unfolding admits_direct_def by (erule evaluate_direct_InrD) metis


text \<open>Whatever the ledger answers.\<close>

lemma wp_ledger_call:
  "(\<And>x s'. wp (g x) Q R s') \<Longrightarrow> (\<And>e s'. R e s') \<Longrightarrow> wp (bnd (ledger_call G m) g) Q R s"
  by (rule wp_bnd, rule wpI) simp_all

lemma validateLease_self: "validateDirectAssetUsageLease P v = Inr w \<Longrightarrow> w = v"
  by (auto simp: validateDirectAssetUsageLease_def corrupt_def split: sum.splits if_splits)

lemma sealLease_InrD:
  "sealLease P profile r = Inr lease \<Longrightarrow>
   dl_profile lease = profile \<and> dl_reservation lease = r \<and> validateDirectAssetUsageLease P lease = Inr lease"
  using validateLease_self by (fastforce simp: sealLease_def Let_def)

text \<open>What the usage adapter returns is a sealed lease of a row that the evaluator admitted.\<close>

lemma adapter_reserve_wp:
  assumes "\<And>lease adm at s'. evaluateAssetPolicy P (ai_registry input)
       \<lparr>in_chain = id_chain (ai_identity input), in_asset = id_asset (ai_identity input), in_rail = Direct, in_mechanism = None,
        in_amountAtomic = ai_amountAtomic input, in_dailyUsageAtomic = ''0'', in_asOfDate = day_of at, in_asOf = Some at\<rparr> = Inr adm \<Longrightarrow>
     res_policyDigest (dl_reservation lease) = adm_policyDigest adm \<Longrightarrow> res_amountAtomic (dl_reservation lease) = adm_amountAtomic adm \<Longrightarrow>
     id_chain (res_identity (dl_reservation lease)) = adm_chain adm \<Longrightarrow>
     usage_rail (dl_reservation lease) = adm_rail adm \<Longrightarrow> validateDirectAssetUsageLease P lease = Inr lease \<Longrightarrow>
     dl_profile lease = ai_profile input \<Longrightarrow> Q lease s'"
  shows "wp (adapter_reserve P G input) Q (\<lambda>_ _. True) s"
  unfolding adapter_reserve_def
  by (intro wp_bnd_lift wp_if wp_ledger_call wp_lift TrueI)
    (auto simp: corrupt_def invalid_def canonicalProfile_def dest!: sealLease_InrD registry_self intro: assms)


section \<open>The samples run\<close>

definition sample_instant :: string where "sample_instant = ''2026-05-05T10:00:00.000Z''"

definition sample_active :: active_policy where
  "sample_active = \<lparr>ap_profile = ''main'', ap_registry = sample_registry, ap_digest = reg_policyDigest sample_registry,
     ap_revision = 1, ap_accounts = (\<lambda>_. Some sample_recipient), ap_activationDigest = aaa,
     ap_activatedAt = ''2026-05-01T00:00:00.000Z''\<rparr>"

lemma sample_gate_active:
  "gate_active sample_prims sample_gate sample_subject s = (Inr sample_active, s\<lparr>gs_tick := gs_tick s + 2\<rparr>)"
  by (simp add: gate_active_def loadActiveAssetPolicyRegistry_def activeAssetPolicyFromState_def activeAllowlistPolicy_def
      try_catch_def bnd_def ask_def sample_gate_def sample_subject_def sample_owner_input_def sample_active_def sample_registry_def)

lemma sample_listed:
  "is_ok (requireListedDirectAsset sample_prims (ge_inventory sample_gate) (id_chain (ds_identity sample_subject))
    (id_asset (ds_identity sample_subject)))"
  by code_simp

lemma sample_direct_admitted:
  "is_ok (rbind (evaluateAssetPolicy sample_prims sample_registry sample_direct_input)
     (\<lambda>adm. assertRecipientAdmitted sample_prims adm None sample_recipient))"
  unfolding sample_evaluation by code_simp

lemma sample_direct_caps:
  "direct_caps sample_registry (ds_identity sample_subject) = Some \<lparr>maximumPerTransferAtomic = ''5'', dailyLimitAtomic = ''9''\<rparr>"
  by (simp add: direct_caps_def sample_registry_def sample_subject_def sample_owner_input_def sample_row_def)

lemma sample_evaluate_direct:
  "is_ok (evaluate_direct sample_prims sample_active sample_subject ''0'' (Some ''2026-05-05T10:00:00.000Z''))"
proof -
  have input: "\<lparr>in_chain = id_chain (ds_identity sample_subject), in_asset = id_asset (ds_identity sample_subject), in_rail = Direct,
      in_mechanism = None, in_amountAtomic = ds_amountAtomic sample_subject, in_dailyUsageAtomic = ''0'',
      in_asOfDate = day_of ''2026-05-05T10:00:00.000Z'', in_asOf = Some ''2026-05-05T10:00:00.000Z''\<rparr> = sample_direct_input"
    by (simp add: sample_direct_input_def sample_subject_def sample_owner_input_def sample_input_def day_of_def)
  have fits: "undec (ds_amountAtomic sample_subject) \<le> undec ''5''" "undec ''0'' + undec (ds_amountAtomic sample_subject) \<le> undec ''9''"
    by code_simp+
  have "reg_expiresAt sample_registry = Some ''2026-12-01T00:00:00.000Z''" "reg_effectiveAt sample_registry = None"
    "ap_registry sample_active = sample_registry" "ds_recipient sample_subject = sample_recipient"
    by (simp_all add: sample_registry_def sample_active_def sample_subject_def)
  with sample_direct_caps fits sample_direct_admitted show ?thesis
    by (auto simp: evaluate_direct_def input is_ok_eq Let_def)
qed

definition sample_free :: gate_state where
  "sample_free = \<lparr>gs_ledger = (\<lambda>_. []), gs_tick = 0, gs_life = 9\<rparr>"

lemma sample_identity:
  "identity_of (ds_identity sample_subject) = oc_identity sample_owner_input"
  "ds_identity sample_subject = oc_identity sample_owner_input"
  by (simp_all add: sample_subject_def sample_checks)

lemma sample_gate_usage:
  "gate_usage sample_prims sample_gate (oc_identity sample_owner_input) (Some ''2026-05-05T10:00:00.000Z'') (sample_free\<lparr>gs_tick := n\<rparr>) =
    (Inr ''0'', sample_free\<lparr>gs_tick := Suc n\<rparr>)"
  using sample_usage_empty
  by (simp add: gate_usage_def bnd_def ask_def read_ledger_def usage_def sample_checks instant_def loadBucket_def sample_free_def sample_gate_def)

lemma sample_admitted: "is_ok (fst (admit sample_prims sample_gate sample_subject sample_free))"
proof -
  obtain row where row: "requireListedDirectAsset sample_prims (ge_inventory sample_gate) (id_chain (ds_identity sample_subject))
    (id_asset (ds_identity sample_subject)) = Inr row" using sample_listed by (auto simp: is_ok_eq)
  obtain adm where adm: "evaluate_direct sample_prims sample_active sample_subject ''0'' (Some ''2026-05-05T10:00:00.000Z'') = Inr adm"
    using sample_evaluate_direct by (auto simp: is_ok_eq)
  have "ge_clock sample_gate n = Some ''2026-05-05T10:00:00.000Z''" for n by (simp add: sample_gate_def)
  with row adm sample_gate_usage show ?thesis
    by (simp add: admit_def bnd_def sample_gate_active ask_def sample_identity sample_checks(2))
qed


text \<open>The same hold on the direct rail, already in the ledger: a replay of the reservation.\<close>

definition sample_direct_state :: gate_state where
  "sample_direct_state = \<lparr>gs_ledger = (\<lambda>_. [])(aaa := [(aaa, sample_direct_hold)]), gs_tick = 0, gs_life = 9\<rparr>"

lemma sample_direct_hold_ok: "validateAssetUsageReservation sample_prims sample_direct_hold = Inr sample_direct_hold"
  unfolding sample_direct_hold_def by (rule sample_seal) simp

lemma sample_direct_fields:
  "res_identity sample_direct_hold = oc_identity sample_owner_input" "res_state sample_direct_hold = Reserved"
  "res_policyDigest sample_direct_hold = aaa" "res_registryVersion sample_direct_hold = ''r1''"
  "usage_rail sample_direct_hold = Direct" "res_amountAtomic sample_direct_hold = ''5''"
  "res_reservationId sample_direct_hold = aaa" "res_idempotencyHash sample_direct_hold = aaa"
  "res_metamaskNativeReservation sample_direct_hold = None"
  by (simp_all add: sample_direct_hold_def sample_hold_def)

lemma sample_direct_existing:
  "gate_existing sample_prims sample_subject (sample_direct_state\<lparr>gs_tick := n\<rparr>) =
     (Inr (Some sample_direct_hold), sample_direct_state\<lparr>gs_tick := n\<rparr>)"
proof -
  have "load sample_prims (oc_identity sample_owner_input) aaa (gs_ledger sample_direct_state) = (Inr (Some sample_direct_hold), gs_ledger sample_direct_state)"
    by (rule load_Some [OF sample_checks(1) _ sample_bucket _ sample_direct_hold_ok])
      (simp_all add: digest_of_def sample_hold_body sample_direct_state_def same_identity_def sample_direct_fields)
  moreover have "subject_rid sample_prims sample_subject = Inr aaa"
    by (simp add: subject_rid_def sample_subject_def assetUsageReservationId_def sample_checks)
  ultimately show ?thesis
    by (simp add: gate_existing_def existing_with_def bnd_run gate_load_def read_ledger_def
        sample_subject_def sample_checks sample_direct_fields)
qed

lemma sample_replay_bucket:
  "loadBucket sample_prims (oc_identity sample_owner_input) (gs_ledger sample_direct_state) = (Inr [sample_direct_hold], gs_ledger sample_direct_state)"
  using sample_direct_hold_ok
  by (simp add: loadBucket_def bnd_def sample_direct_state_def load_entry_def sample_hold_body same_identity_def sample_direct_fields)

lemma sample_lease_digest: "lease_digest sample_prims v = Inr aaa"
  unfolding lease_digest_def by (rule sample_canonical) (simp add: lease_body_json_def reservation_plain)

lemma sample_adapter:
  "adapter_reserve sample_prims sample_gate
     \<lparr>ai_identity = oc_identity sample_owner_input, ai_registry = sample_registry,
       ai_profile = ''main'', ai_rail = Direct, ai_amountAtomic = ''5'',
       ai_idempotencyKey = directUsageKey ''op-1'', ai_now = Some ''2026-05-05T10:00:00.000Z''\<rparr> (sample_direct_state\<lparr>gs_tick := n\<rparr>) =
     (Inr \<lparr>dl_profile = ''main'', dl_reservation = sample_direct_hold, dl_leaseDigest = aaa\<rparr>,
      sample_direct_state\<lparr>gs_tick := Suc n, gs_life := 8\<rparr>)"
proof -
  obtain adm where adm: "evaluateAssetPolicy sample_prims sample_registry sample_direct_input = Inr adm"
    and adm_facts: "adm_policyDigest adm = aaa" "adm_registryVersion adm = ''r1''" "adm_chain adm = ''eip155:8453''" "adm_rail adm = Direct"
    "adm_amountAtomic adm = ''5''" "exactAsset (adm_asset adm) = id_asset (oc_identity sample_owner_input)"
    by (rule sample_admission)
  have input: "\<lparr>in_chain = ''eip155:8453'', in_asset = id_asset (oc_identity sample_owner_input), in_rail = Direct,
      in_mechanism = None, in_amountAtomic = ''5'', in_dailyUsageAtomic = ''0'',
      in_asOfDate = day_of ''2026-05-05T10:00:00.000Z'', in_asOf = Some ''2026-05-05T10:00:00.000Z''\<rparr> = sample_direct_input"
    by (simp add: sample_direct_input_def sample_owner_input_def sample_input_def day_of_def)
  have key: "\<not> starts_with ''apn.metamask-native:'' (directUsageKey ''op-1'')" "\<not> starts_with ''apn.cleanup85-native:'' (directUsageKey ''op-1'')"
    by code_simp+
  have identity: "\<lparr>id_account = id_account (oc_identity sample_owner_input), id_chain = ''eip155:8453'',
      id_asset = id_asset (oc_identity sample_owner_input)\<rparr> = oc_identity sample_owner_input"
    by (simp add: sample_identity_checks(3) [symmetric])
  have "canonicalProfile ''main'' = Inr ''main''" by code_simp
  have seal: "sealLease sample_prims ''main'' sample_direct_hold = Inr \<lparr>dl_profile = ''main'', dl_reservation = sample_direct_hold, dl_leaseDigest = aaa\<rparr>"
    using \<open>canonicalProfile _ = _\<close>
    by (simp add: sealLease_def sample_lease_digest Let_def validateDirectAssetUsageLease_def sample_direct_hold_ok sample_direct_fields)
  have life: "gs_life sample_direct_state = 9" by (simp add: sample_direct_state_def)
  have replay: "reserve sample_prims sample_env
     \<lparr>ri_identity = oc_identity sample_owner_input, ri_registry = sample_registry, ri_rail = Direct, ri_mechanism = None,
        ri_amountAtomic = ''5'', ri_idempotencyKey = directUsageKey ''op-1'', ri_now = Some ''2026-05-05T10:00:00.000Z'',
        ri_retryFailedBeforeEffect = False\<rparr> (gs_ledger sample_direct_state) = (Inr sample_direct_hold, gs_ledger sample_direct_state)"
    using key
    by (simp add: reserve_def reserveBound_def bnd_lift_ok sample_valid instant_def evaluation_def sample_identity_checks input adm adm_facts identity
        sample_checks Let_def reserve_locked_def bnd_def sample_replay_bucket findRow_def sample_direct_fields assertReplay_def)
  show ?thesis
    using \<open>canonicalProfile _ = _\<close> life
    by (simp add: adapter_reserve_def bnd_lift_ok sample_valid instant_def sample_identity_checks input adm adm_facts seal
        bnd_def ledger_call_def write_ledger_def ask_def sample_gate_def replay sample_direct_fields life)
qed

lemma sample_bound: "validateDirectAllowlistBinding \<lparr>db_policyDigest = aaa, db_policyRevision = 1\<rparr> =
    Inr \<lparr>db_policyDigest = aaa, db_policyRevision = 1\<rparr>"
  by code_simp

lemma sample_gate_reserved:
  "gate_reserve sample_prims sample_gate sample_subject \<lparr>db_policyDigest = aaa, db_policyRevision = 1\<rparr> sample_direct_state =
     (Inr \<lparr>dl_profile = ''main'', dl_reservation = sample_direct_hold, dl_leaseDigest = aaa\<rparr>,
      sample_direct_state\<lparr>gs_tick := Suc (Suc (Suc (Suc 0))), gs_life := 8\<rparr>)"
proof -
  obtain row where row: "requireListedDirectAsset sample_prims (ge_inventory sample_gate) (id_chain (oc_identity sample_owner_input))
    (id_asset (oc_identity sample_owner_input)) = Inr row" using sample_listed by (auto simp: is_ok_eq sample_identity)
  have active: "ap_digest sample_active = aaa" "ap_revision sample_active = 1" "ap_registry sample_active = sample_registry"
    by (simp_all add: sample_active_def sample_registry_def)
  have subject: "ds_profile sample_subject = ''main''" "ds_amountAtomic sample_subject = ''5''" "ds_operationId sample_subject = ''op-1''"
    by (simp_all add: sample_subject_def)
  have clock: "ge_clock sample_gate n = Some ''2026-05-05T10:00:00.000Z''" for n by (simp add: sample_gate_def)
  have tick: "gs_tick sample_direct_state = 0" by (simp add: sample_direct_state_def)
  show ?thesis
    using row
    by (simp add: gate_reserve_def confirm_def bnd_lift_ok sample_bound sample_identity sample_checks(2) active subject clock tick
        bnd_def sample_gate_active ask_def sample_direct_fields sample_adapter sample_direct_existing)
qed


end
