(* ===== verification/TronResources.thy ===== *)
theory TronResources
  imports ChainPolicy AssetPolicyLaws
begin

text \<open>
  The TRON charging contract, \<^verbatim>\<open>src/src/tron/resource-model.ts\<close>: the size of a one-signature
  transaction, the resource snapshot frozen into a prepared transfer, and the check of the final
  fees a solidified block reports against that snapshot.
\<close>

section \<open>Transaction size\<close>

text \<open>\<^verbatim>\<open>for (let n = rawBytes; n > 127n; n >>= 7n) size++\<close>: the extra bytes of a varint length.\<close>

fun varint_size :: "nat \<Rightarrow> nat" where
  "varint_size n = (if n > 127 then varint_size (n div 128) + 1 else 1)"

declare varint_size.simps [simp del]

definition tronBandwidthBytes :: "nat \<Rightarrow> nat result" where
  "tronBandwidthBytes rawBytes =
     (if rawBytes < 1 \<or> rawBytes > 2048 then corrupt else Inr (rawBytes + varint_size rawBytes + 132))"

text \<open>\<^verbatim>\<open>toString(16)\<close>.\<close>

fun hex_text :: "nat \<Rightarrow> string" where
  "hex_text n = (if n < 16 then [hexc n] else hex_text (n div 16) @ [hexc (n mod 16)])"

declare hex_text.simps [simp del]

text \<open>A TRON block id starts with its block number in sixteen hexadecimal digits.\<close>

definition block_id_of :: "string \<Rightarrow> nat \<Rightarrow> bool" where
  "block_id_of blockId number \<longleftrightarrow> hash_text blockId \<and> take 16 blockId = pad_start 16 (hex_text number)"

section \<open>Parameters\<close>

definition validateTronParameters :: "tron_parameters \<Rightarrow> tron_parameters result" where
  "validateTronParameters value =
     rbind (check (tp_vmEnabled value \<and> tp_consensusExpiryEnabled value)) (\<lambda>_.
     rbind (u64 (tp_bandwidthPriceAtomic value) False) (\<lambda>bandwidth.
     rbind (u64 (tp_energyPriceAtomic value) False) (\<lambda>energy.
     rbind (u64 (tp_systemCreateFeeAtomic value) False) (\<lambda>_.
     rbind (u64 (tp_fixedCreateBandwidthFeeAtomic value) False) (\<lambda>_.
     rbind (u64 (tp_createBandwidthRateAtomic value) False) (\<lambda>rate.
     rbind (u64 (tp_maximumFeeLimitAtomic value) False) (\<lambda>limit.
     rbind (u64 (tp_maximumCreateAccountBytesAtomic value) False) (\<lambda>bytes.
     rbind (check (bandwidth \<noteq> 0 \<and> energy \<noteq> 0 \<and> rate \<noteq> 0 \<and> limit \<noteq> 0 \<and> bytes \<noteq> 0)) (\<lambda>_.
     rbind (check (\<not> int limit > MAX_SAFE_INTEGER)) (\<lambda>_. Inr value))))))))))"

section \<open>The frozen snapshot\<close>

text \<open>The maximum total fee of a native transfer, to an activated or a new account.\<close>

definition tron_native_total :: "tron_resources \<Rightarrow> prepared_transfer \<Rightarrow> nat \<Rightarrow> nat \<Rightarrow> nat \<Rightarrow> nat \<Rightarrow> nat result" where
  "tron_native_total value prepared bytes bandwidth energy activation =
     (let p = tr_parameters value in
     rbind (check (energy = 0 \<and> tr_energyEstimateAtomic value = ''0'')) (\<lambda>_.
     if tr_recipientActivatedAtSolidHead value then
       rbind (check (tr_costRule value = OrdinaryBandwidth \<and> activation = 0 \<and> \<not> pt_createsRecipientAccount prepared)) (\<lambda>_.
         Inr bandwidth)
     else
       rbind (check (tr_costRule value = NativeActivationOrBandwidth)) (\<lambda>_.
       rbind (u64 (tp_systemCreateFeeAtomic p) False) (\<lambda>create.
       rbind (check (activation = create \<and> pt_createsRecipientAccount prepared)) (\<lambda>_.
       rbind (u64 (tp_fixedCreateBandwidthFeeAtomic p) False) (\<lambda>fixed.
       let activationPath = activation + fixed in
       rbind (u64 (tp_maximumCreateAccountBytesAtomic p) False) (\<lambda>maximum.
       rbind (check (\<not> int bytes - 129 > int maximum)) (\<lambda>_.
         Inr (if bandwidth > activationPath then bandwidth else activationPath)))))))))"

definition tron_token_total :: "tron_resources \<Rightarrow> prepared_transfer \<Rightarrow> nat \<Rightarrow> nat \<Rightarrow> nat \<Rightarrow> nat result" where
  "tron_token_total value prepared bandwidth energy activation =
     rbind (check (tr_costRule value = EnergyLimitPlusBandwidth \<and> energy \<noteq> 0 \<and> activation = 0 \<and>
       \<not> pt_createsRecipientAccount prepared)) (\<lambda>_. Inr (bandwidth + energy))"

definition validateTronResources :: "prims \<Rightarrow> tron_resources \<Rightarrow> prepared_transfer \<Rightarrow> tron_resources result" where
  "validateTronResources P value prepared =
     rbind (check (tr_schemaVersion value = ''apn.tron-resources.v1'' \<and> tr_protocolVersion value = ''4.8.2.1'')) (\<lambda>_.
     rbind (validateTronParameters (tr_parameters value)) (\<lambda>p.
     rbind (hashObject (sha P) (tron_parameters_json p)) (\<lambda>h.
     rbind (check (tr_parameterHash value = h \<and> tr_referenceBlockId value = pt_blockReference prepared \<and>
       hash_text (tr_referenceBlockId value))) (\<lambda>_.
     rbind (u64 (tr_referenceBlockNumberAtomic value) False) (\<lambda>referenceNumber.
     rbind (u64 (tr_recipientSolidHeadNumberAtomic value) False) (\<lambda>solidNumber.
     rbind (check (\<not> solidNumber > referenceNumber \<and> block_id_of (tr_referenceBlockId value) referenceNumber \<and>
       block_id_of (tr_recipientSolidHeadId value) solidNumber)) (\<lambda>_.
     rbind (u64 (tr_referenceTimestampMsAtomic value) True) (\<lambda>timestamp.
     rbind (u64 (tr_expirationMsAtomic value) True) (\<lambda>expiry.
     rbind (check (\<not> expiry \<le> timestamp \<and> \<not> expiry - timestamp > 120000)) (\<lambda>_.
     rbind (u64 (tr_nextMaintenanceMsAtomic value) True) (\<lambda>maintenance.
     rbind (check (\<not> expiry + 6000 \<ge> maintenance \<and> int expiry = dateParse (pt_expiresAt prepared))) (\<lambda>_.
     rbind (u64 (tr_rawDataBytesAtomic value) True) (\<lambda>rawSize.
     rbind (tronBandwidthBytes rawSize) (\<lambda>bytes.
     rbind (u64 (tr_bandwidthBytesAtomic value) False) (\<lambda>stored.
     rbind (check (stored = bytes)) (\<lambda>_.
     rbind (u64 (tr_bandwidthMaximumAtomic value) False) (\<lambda>bandwidth.
     rbind (u64 (tp_bandwidthPriceAtomic p) False) (\<lambda>price.
     rbind (check (bandwidth = bytes * price)) (\<lambda>_.
     rbind (u64 (tr_energyFeeLimitAtomic value) False) (\<lambda>energy.
     rbind (u64 (tr_energyEstimateAtomic value) False) (\<lambda>_.
     rbind (u64 (tp_maximumFeeLimitAtomic p) False) (\<lambda>limit.
     rbind (check (\<not> energy > limit)) (\<lambda>_.
     rbind (u64 (tr_accountActivationMaximumAtomic value) False) (\<lambda>activation.
     rbind (if as_kind (pt_asset prepared) = Native then tron_native_total value prepared bytes bandwidth energy activation
            else tron_token_total value prepared bandwidth energy activation) (\<lambda>total.
     rbind (u64 (tr_totalFeeMaximumAtomic value) False) (\<lambda>maximum.
     rbind (check (maximum = total \<and> ec_networkFeeMaximumAtomic (pt_economics prepared) = dec total \<and>
       ec_maximumNativeDebitAtomic (pt_economics prepared) = dec total)) (\<lambda>_.
     rbind (u64 (pt_maximumFeeAtomic prepared) False) (\<lambda>owner.
     rbind (check (\<not> total > owner)) (\<lambda>_. Inr value)))))))))))))))))))))))))))))"

section \<open>The final fees\<close>

text \<open>Energy and activation charges of a native or a token transfer; a native transfer cannot revert.\<close>

definition tron_energy_ok :: "tron_resources \<Rightarrow> prepared_transfer \<Rightarrow> bool \<Rightarrow> nat \<Rightarrow> nat \<Rightarrow> nat \<Rightarrow> nat \<Rightarrow> nat \<Rightarrow> unit result" where
  "tron_energy_ok snapshot prepared success energyFee energyUsage origin energyTotal activation =
     (let p = tr_parameters snapshot in
     if as_kind (pt_asset prepared) = Native then
       rbind (check (success \<and> energyFee = 0 \<and> energyUsage = 0 \<and> origin = 0 \<and> energyTotal = 0)) (\<lambda>_.
       rbind (if activation \<noteq> 0 then u64 (tp_systemCreateFeeAtomic p) False else Inr 0) (\<lambda>create.
         check (activation = 0 \<or> activation = create)))
     else
       rbind (check (activation = 0 \<and> energyTotal \<noteq> 0 \<and> \<not> energyTotal < energyUsage + origin)) (\<lambda>_.
       rbind (u64 (tp_energyPriceAtomic p) False) (\<lambda>price.
       rbind (check (energyFee = (energyTotal - energyUsage - origin) * price)) (\<lambda>_.
       rbind (u64 (tr_energyFeeLimitAtomic snapshot) False) (\<lambda>limit.
         check (\<not> (energyTotal - origin) * price > limit))))))"

text \<open>Bandwidth is paid in staked units or in the native coin, at the ordinary or the account-creation rate.\<close>

definition tron_bandwidth_ok :: "tron_resources \<Rightarrow> nat \<Rightarrow> nat \<Rightarrow> nat \<Rightarrow> nat \<Rightarrow> unit result" where
  "tron_bandwidth_ok snapshot bytes netFee netUsage activation =
     (let p = tr_parameters snapshot in
     rbind (u64 (tp_bandwidthPriceAtomic p) False) (\<lambda>price.
     rbind (u64 (tp_createBandwidthRateAtomic p) False) (\<lambda>rate.
     rbind (u64 (tp_fixedCreateBandwidthFeeAtomic p) False) (\<lambda>fixed.
     rbind (u64 (tp_systemCreateFeeAtomic p) False) (\<lambda>create.
     let ordinary = (netFee = 0 \<and> netUsage = bytes \<or> netUsage = 0 \<and> netFee = bytes * price);
         creation = (netFee = 0 \<and> netUsage = bytes * rate \<or> netUsage = 0 \<and> netFee = fixed) in
     check (\<not> (if activation > 0 then \<not> creation
       else \<not> ordinary \<and> \<not> (tr_costRule snapshot = NativeActivationOrBandwidth \<and> create = 0 \<and> creation))))))))"

definition validateTronFinalResources :: "prims \<Rightarrow> tron_final \<Rightarrow> prepared_transfer \<Rightarrow> nat \<Rightarrow> bool \<Rightarrow> tron_final result" where
  "validateTronFinalResources P value prepared blockNumber success =
     rbind (check (tf_schemaVersion value = ''apn.tron-resource-evidence.v1'' \<and>
       tf_contractResult value = (if success then ContractSuccess else ContractRevert))) (\<lambda>_.
     rbind (case pt_resources prepared of None \<Rightarrow> corrupt | Some r \<Rightarrow> validateTronResources P r prepared) (\<lambda>snapshot.
     rbind (u64 (tf_parentBlockNumberAtomic value) False) (\<lambda>parentNumber.
     rbind (u64 (tf_parentTimestampMsAtomic value) True) (\<lambda>parentTime.
     rbind (u64 (tf_blockTimestampMsAtomic value) True) (\<lambda>blockTime.
     rbind (u64 (tr_referenceBlockNumberAtomic snapshot) False) (\<lambda>referenceNumber.
     rbind (u64 (tr_referenceTimestampMsAtomic snapshot) False) (\<lambda>referenceTime.
     rbind (u64 (tr_expirationMsAtomic snapshot) False) (\<lambda>expiry.
     rbind (check (parentNumber + 1 = blockNumber \<and> \<not> blockNumber \<le> referenceNumber \<and>
       block_id_of (tf_parentBlockId value) parentNumber \<and> \<not> parentTime < referenceTime \<and>
       \<not> parentTime + 3000 > blockTime \<and> \<not> parentTime + 3000 > expiry \<and>
       \<not> (parentNumber = referenceNumber \<and> tf_parentBlockId value \<noteq> tr_referenceBlockId snapshot))) (\<lambda>_.
     rbind (u64 (tf_totalFeeAtomic value) False) (\<lambda>total.
     rbind (u64 (tf_bandwidthFeeAtomic value) False) (\<lambda>netFee.
     rbind (u64 (tf_bandwidthUsageAtomic value) False) (\<lambda>netUsage.
     rbind (u64 (tf_energyFeeAtomic value) False) (\<lambda>energyFee.
     rbind (u64 (tf_energyUsageAtomic value) False) (\<lambda>energyUsage.
     rbind (u64 (tf_originEnergyUsageAtomic value) False) (\<lambda>origin.
     rbind (u64 (tf_totalEnergyUsageAtomic value) False) (\<lambda>energyTotal.
     rbind (u64 (tf_accountActivationFeeAtomic value) False) (\<lambda>activation.
     rbind (u64 (tr_bandwidthBytesAtomic snapshot) False) (\<lambda>bytes.
     rbind (u64 (tr_totalFeeMaximumAtomic snapshot) False) (\<lambda>totalMaximum.
     rbind (u64 (tr_energyFeeLimitAtomic snapshot) False) (\<lambda>energyLimit.
     rbind (u64 (tr_accountActivationMaximumAtomic snapshot) False) (\<lambda>activationMaximum.
     rbind (check (total = netFee + energyFee + activation \<and> \<not> total > totalMaximum \<and> \<not> energyFee > energyLimit \<and>
       \<not> activation > activationMaximum)) (\<lambda>_.
     rbind (tron_energy_ok snapshot prepared success energyFee energyUsage origin energyTotal activation) (\<lambda>_.
     rbind (tron_bandwidth_ok snapshot bytes netFee netUsage activation) (\<lambda>_.
     rbind (check (bo_scope (tf_balanceObservation value) = ''current_solidified_state'')) (\<lambda>_.
     rbind (u64 (bo_atOrAfterBlockNumberAtomic (tf_balanceObservation value)) False) (\<lambda>observed.
     rbind (check (\<not> observed < blockNumber)) (\<lambda>_.
     rbind (u64 (bo_senderBalanceAtomic (tf_balanceObservation value)) False) (\<lambda>_.
     rbind (u64 (bo_recipientBalanceAtomic (tf_balanceObservation value)) False) (\<lambda>_. Inr value)))))))))))))))))))))))))))))"

section \<open>Bounds\<close>

text \<open>
  The byte count of a transaction is its raw size plus 133 bytes up to 127 raw
  bytes and plus 134 above, and no raw size outside 1 to 2048 has one.
\<close>

lemma tron_bandwidth_exact:
  "tronBandwidthBytes raw =
    (if raw = 0 \<or> 2048 < raw then corrupt else Inr (raw + (if raw \<le> 127 then 133 else 134)))"
proof -
  have "varint_size raw = (if raw \<le> 127 then 1 else 2)" if "raw \<le> 2048"
    using that by (subst varint_size.simps) (auto simp: varint_size.simps [of "raw div 128"] div_le_mono)
  then show ?thesis by (auto simp: tronBandwidthBytes_def)
qed

lemma validateTronResources_InrD:
  assumes "validateTronResources P r prepared = Inr s"
  shows "s = r \<and> undec (tr_totalFeeMaximumAtomic r) \<le> undec (pt_maximumFeeAtomic prepared) \<and>
    tr_totalFeeMaximumAtomic r = ec_networkFeeMaximumAtomic (pt_economics prepared) \<and>
    undec (tr_expirationMsAtomic r) \<le> undec (tr_referenceTimestampMsAtomic r) + 120000"
  using assms by (auto simp: validateTronResources_def u64_Inr)


text \<open>A sample TRX payment: 1 TRX for at most 0.5 TRX of fees, found in the block after its reference.\<close>

definition sample_tron_address :: string where
  "sample_tron_address = ''T9yD14Nj9j7xAB4dbGeiX9h8unkKHxuWwb''"

definition sample_tron_parameters :: tron_parameters where
  "sample_tron_parameters = \<lparr>tp_bandwidthPriceAtomic = ''1000'', tp_energyPriceAtomic = ''420'', tp_systemCreateFeeAtomic = ''1000000'',
     tp_fixedCreateBandwidthFeeAtomic = ''100000'', tp_createBandwidthRateAtomic = ''1'', tp_maximumFeeLimitAtomic = ''15000000000'',
     tp_maximumCreateAccountBytesAtomic = ''1000'', tp_vmEnabled = True, tp_consensusExpiryEnabled = True\<rparr>"

definition sample_block :: "char \<Rightarrow> string" where
  "sample_block c = replicate 15 CHR ''0'' @ [c] @ replicate 48 CHR ''b''"

definition sample_tron_resources :: tron_resources where
  "sample_tron_resources = \<lparr>tr_schemaVersion = ''apn.tron-resources.v1'', tr_protocolVersion = ''4.8.2.1'',
     tr_parameters = sample_tron_parameters, tr_parameterHash = replicate 64 CHR ''a'', tr_referenceBlockId = sample_block CHR ''8'',
     tr_referenceBlockNumberAtomic = ''8'', tr_referenceTimestampMsAtomic = ''1789646340000'',
     tr_nextMaintenanceMsAtomic = ''1789650000000'', tr_expirationMsAtomic = ''1789646400250'', tr_rawDataBytesAtomic = ''130'',
     tr_bandwidthBytesAtomic = ''264'', tr_bandwidthMaximumAtomic = ''264000'', tr_energyFeeLimitAtomic = ''0'',
     tr_energyEstimateAtomic = ''0'', tr_accountActivationMaximumAtomic = ''0'', tr_recipientActivatedAtSolidHead = True,
     tr_recipientSolidHeadNumberAtomic = ''7'', tr_recipientSolidHeadId = sample_block CHR ''7'',
     tr_totalFeeMaximumAtomic = ''264000'', tr_costRule = OrdinaryBandwidth\<rparr>"

definition sample_tron_transfer :: prepared_transfer where
  "sample_tron_transfer = \<lparr>pt_rail = TronRail, pt_networkIdentity = TRON_GENESIS,
     pt_asset = \<lparr>as_rail = TronRail, as_alias = TrxAlias, as_kind = Native, as_identifier = ''native:trx'', as_symbol = ''TRX'',
       as_decimals = 6\<rparr>,
     pt_sender = sample_tron_address, pt_recipient = ''TR7NHqjeKQxGTCi8q8ZY4pL8otSzgjLj6t'', pt_amountAtomic = ''1000000'',
     pt_maximumFeeAtomic = ''500000'',
     pt_economics = \<lparr>ec_networkFeeMaximumAtomic = ''264000'', ec_recipientRentAtomic = ''0'', ec_maximumNativeDebitAtomic = ''264000'',
       ec_networkFeePayer = sample_tron_address, ec_rentPayer = None, ec_feeControl = TronGovernanceWindow\<rparr>,
     pt_preparedAt = ''2026-09-17T11:59:00.000Z'', pt_expiresAt = ''2026-09-17T12:00:00.250Z'',
     pt_blockReference = sample_block CHR ''8'', pt_lastValidBlockHeight = None, pt_unsignedPayload = Some ''payload'',
     pt_sourceTokenAccount = None, pt_destinationTokenAccount = None, pt_createsRecipientAccount = False,
     pt_resources = Some sample_tron_resources\<rparr>"

definition sample_tron_final :: tron_final where
  "sample_tron_final = \<lparr>tf_schemaVersion = ''apn.tron-resource-evidence.v1'', tf_parentBlockId = sample_block CHR ''8'',
     tf_parentBlockNumberAtomic = ''8'', tf_parentTimestampMsAtomic = ''1789646340000'', tf_blockTimestampMsAtomic = ''1789646343000'',
     tf_totalFeeAtomic = ''264000'', tf_bandwidthFeeAtomic = ''264000'', tf_bandwidthUsageAtomic = ''0'', tf_energyFeeAtomic = ''0'',
     tf_energyUsageAtomic = ''0'', tf_originEnergyUsageAtomic = ''0'', tf_totalEnergyUsageAtomic = ''0'',
     tf_accountActivationFeeAtomic = ''0'', tf_contractResult = ContractSuccess,
     tf_balanceObservation = \<lparr>bo_scope = ''current_solidified_state'', bo_atOrAfterBlockNumberAtomic = ''9'',
       bo_senderBalanceAtomic = ''5'', bo_recipientBalanceAtomic = ''6''\<rparr>\<rparr>"

lemma sample_tron_accepted:
  "is_ok (validateTronFinalResources sample_prims sample_tron_final sample_tron_transfer 9 True)"
  by code_simp


end
