(* ===== verification/RailRecord.thy ===== *)
theory RailRecord
  imports TronResources DirectGate
begin

text \<open>
  The durable record of a direct rail transfer (Solana and TRON): the state machine and the
  journal of \<^verbatim>\<open>src/src/rail-operation-model.ts\<close>, the send window of
  \<^verbatim>\<open>src/src/rail-send-binding.ts\<close>, the allowlist binding of \<^verbatim>\<open>src/src/rail-direct-allowlist.ts\<close>
  and the usage sums of \<^verbatim>\<open>src/src/chain-policy.ts\<close>. Every validator follows the order of the
  checks of the source; the members a type already fixes (schema names, key sets) are not
  repeated.
\<close>

section \<open>States\<close>

datatype rail_state = AwaitingApproval | SigningStarted | SignedNotSubmitted | Submitting | SubmittedPending
  | RailUnknownFinality | Completed | RailFailedBeforeEffect | RailFailedConfirmedRevert | AbandonedUnknown

fun rail_state_text :: "rail_state \<Rightarrow> string" where
  "rail_state_text AwaitingApproval = ''awaiting_approval''"
| "rail_state_text SigningStarted = ''signing_started''"
| "rail_state_text SignedNotSubmitted = ''signed_not_submitted''"
| "rail_state_text Submitting = ''submitting''"
| "rail_state_text SubmittedPending = ''submitted_pending''"
| "rail_state_text RailUnknownFinality = ''unknown_finality''"
| "rail_state_text Completed = ''completed''"
| "rail_state_text RailFailedBeforeEffect = ''failed_before_effect''"
| "rail_state_text RailFailedConfirmedRevert = ''failed_confirmed_revert''"
| "rail_state_text AbandonedUnknown = ''abandoned_unknown''"

definition RAIL_TERMINAL_STATES :: "rail_state list" where
  "RAIL_TERMINAL_STATES = [Completed, RailFailedBeforeEffect, RailFailedConfirmedRevert, AbandonedUnknown]"

fun EDGES :: "rail_state \<Rightarrow> rail_state list" where
  "EDGES AwaitingApproval = [SigningStarted, Submitting, RailFailedBeforeEffect]"
| "EDGES SigningStarted = [SignedNotSubmitted, RailFailedBeforeEffect]"
| "EDGES SignedNotSubmitted = [Submitting, RailFailedBeforeEffect]"
| "EDGES Submitting = [SubmittedPending, RailUnknownFinality, Completed, RailFailedConfirmedRevert]"
| "EDGES SubmittedPending = [RailUnknownFinality, Completed, RailFailedConfirmedRevert, AbandonedUnknown]"
| "EDGES RailUnknownFinality = [Completed, RailFailedConfirmedRevert, AbandonedUnknown]"
| "EDGES Completed = []"
| "EDGES RailFailedBeforeEffect = []"
| "EDGES RailFailedConfirmedRevert = []"
| "EDGES AbandonedUnknown = []"

section \<open>The record\<close>

record rail_transition =
  rt_state :: rail_state
  rt_at :: string
  rt_reason :: string
  rt_proofClass :: string
  rt_transactionId :: "string option"
  rt_rawPayloadHash :: "string option"
  rt_evidence :: "final_evidence option"
  rt_previousHash :: string
  rt_transitionHash :: string

record rail_intent =
  ro_operationId :: string
  ro_profile :: string
  ro_profileHash :: string
  ro_idempotencyHash :: string
  ro_requestHash :: string
  ro_account :: chain_account
  ro_prepared :: prepared_transfer
  ro_policyHash :: string
  ro_allowlist :: "direct_binding option"

record rail_operation = rail_intent +
  ro_fingerprint :: string
  ro_send :: "send_binding option"
  ro_allowlistLease :: "direct_lease option"
  ro_state :: rail_state
  ro_terminal :: bool
  ro_reason :: string
  ro_proofClass :: string
  ro_transactionId :: "string option"
  ro_rawPayloadHash :: "string option"
  ro_evidence :: "final_evidence option"
  ro_createdAt :: string
  ro_updatedAt :: string
  ro_transitions :: "rail_transition list"
  ro_integrityHash :: string

definition binding_json :: "direct_binding \<Rightarrow> jval" where
  "binding_json b = JObj [(''schemaVersion'', JStr ''apn.direct-allowlist.v1''), (''policyDigest'', JStr (db_policyDigest b)),
     (''policyRevision'', JNum (db_policyRevision b))]"

definition lease_json :: "direct_lease \<Rightarrow> jval" where
  "lease_json l = JObj [(''schemaVersion'', JStr ''apn.direct-asset-usage-lease.v1''), (''profile'', JStr (dl_profile l)),
     (''rail'', JStr ''direct''), (''reservation'', reservation_json (dl_reservation l)), (''leaseDigest'', JStr (dl_leaseDigest l))]"

text \<open>The fields an entry shares with the head of its record, \<^verbatim>\<open>latest\<close>.\<close>

definition latest_members :: "rail_state \<Rightarrow> string \<Rightarrow> string \<Rightarrow> string option \<Rightarrow> string option \<Rightarrow> final_evidence option \<Rightarrow>
    string \<times> string \<Rightarrow> (string \<times> jval) list" where
  "latest_members state reason proofClass transactionId rawPayloadHash evidence at =
     [(''state'', JStr (rail_state_text state)), (''reason'', JStr reason), (''proofClass'', JStr proofClass),
      (''transactionId'', nullable transactionId), (''rawPayloadHash'', nullable rawPayloadHash),
      (''evidence'', case evidence of None \<Rightarrow> JNull | Some e \<Rightarrow> evidence_json e), (fst at, JStr (snd at))]"

definition transition_body :: "rail_transition \<Rightarrow> (string \<times> jval) list" where
  "transition_body e = latest_members (rt_state e) (rt_reason e) (rt_proofClass e) (rt_transactionId e) (rt_rawPayloadHash e)
     (rt_evidence e) (''at'', rt_at e) @ [(''previousHash'', JStr (rt_previousHash e))]"

definition transition_json :: "rail_transition \<Rightarrow> jval" where
  "transition_json e = JObj (transition_body e @ [(''transitionHash'', JStr (rt_transitionHash e))])"

definition transitions_json :: "rail_transition list \<Rightarrow> jval" where
  "transitions_json es = JArr (map transition_json es)"

definition intent_members :: "'a rail_intent_scheme \<Rightarrow> (string \<times> jval) list" where
  "intent_members v = [(''schemaVersion'', JStr ''apn.rail-operation.v1''), (''kind'', JStr ''rail_transfer''),
     (''operationId'', JStr (ro_operationId v)), (''profile'', JStr (ro_profile v)), (''profileHash'', JStr (ro_profileHash v)),
     (''idempotencyHash'', JStr (ro_idempotencyHash v)), (''requestHash'', JStr (ro_requestHash v)),
     (''account'', chain_account_json (ro_account v)), (''prepared'', prepared_json (ro_prepared v)),
     (''policyHash'', JStr (ro_policyHash v))] @ opt_member ''allowlist'' (map_option binding_json (ro_allowlist v))"

definition operation_body :: "rail_operation \<Rightarrow> (string \<times> jval) list" where
  "operation_body v = intent_members v @ [(''fingerprint'', JStr (ro_fingerprint v))] @
     opt_member ''send'' (map_option send_json (ro_send v)) @
     opt_member ''allowlistLease'' (map_option lease_json (ro_allowlistLease v)) @
     latest_members (ro_state v) (ro_reason v) (ro_proofClass v) (ro_transactionId v) (ro_rawPayloadHash v) (ro_evidence v)
       (''updatedAt'', ro_updatedAt v) @
     [(''terminal'', JBool (ro_terminal v)), (''createdAt'', JStr (ro_createdAt v)),
      (''transitions'', transitions_json (ro_transitions v))]"

definition operation_json :: "rail_operation \<Rightarrow> jval" where
  "operation_json v = JObj (operation_body v @ [(''integrityHash'', JStr (ro_integrityHash v))])"

section \<open>Prepared transfers\<close>

definition block_reference_text :: "string \<Rightarrow> bool" where
  "block_reference_text s \<longleftrightarrow> 32 \<le> length s \<and> length s \<le> 128 \<and> list_all alnum s"

definition addressShape :: "string \<Rightarrow> direct_rail \<Rightarrow> unit result" where
  "addressShape value rail = check (rail_address_text rail value)"

definition nullable_check :: "('a \<Rightarrow> unit result) \<Rightarrow> 'a option \<Rightarrow> unit result" where
  "nullable_check f v = (case v of None \<Rightarrow> Inr () | Some x \<Rightarrow> f x)"

definition validateRailEconomics :: "prepared_transfer \<Rightarrow> chain_account \<Rightarrow> unit result" where
  "validateRailEconomics value acct =
     (let cost = pt_economics value in
     rbind (u64 (ec_networkFeeMaximumAtomic cost) False) (\<lambda>fee.
     rbind (u64 (ec_recipientRentAtomic cost) False) (\<lambda>rent.
     rbind (u64 (ec_maximumNativeDebitAtomic cost) False) (\<lambda>debit.
     rbind (addressShape (ec_networkFeePayer cost) (ac_rail acct)) (\<lambda>_.
     rbind (nullable_check (\<lambda>a. addressShape a (ac_rail acct)) (ec_rentPayer cost)) (\<lambda>_.
     rbind (check (\<not> (rent > 0 \<and> ec_rentPayer cost = None))) (\<lambda>_.
     rbind (check (debit = (if ec_networkFeePayer cost = ac_address acct then fee else 0) +
       (if ec_rentPayer cost = Some (ac_address acct) then rent else 0))) (\<lambda>_.
     rbind (u64 (pt_maximumFeeAtomic value) False) (\<lambda>maximum.
     rbind (check (\<not> debit > maximum)) (\<lambda>_.
     rbind (check (if ac_provider acct = LocalProvider
       then ec_feeControl cost = (if ac_rail acct = SolanaRail then SignedMessage else TronGovernanceWindow) \<and>
         ec_networkFeePayer cost = ac_address acct
       else ec_feeControl cost = ProviderGuarantee)) (\<lambda>_.
       check (ac_rail acct = TronRail \<longrightarrow> ac_provider acct = LocalProvider \<and> rent = 0 \<and> ec_rentPayer cost = None \<and>
         pt_lastValidBlockHeight value = None \<and> pt_sourceTokenAccount value = None \<and>
         pt_destinationTokenAccount value = None))))))))))))"

definition validateRailPrepared :: "prims \<Rightarrow> prepared_transfer \<Rightarrow> chain_account \<Rightarrow> prepared_transfer result" where
  "validateRailPrepared P value acct =
     rbind (check ((pt_resources value \<noteq> None) = (ac_rail acct = TronRail))) (\<lambda>_.
     rbind (validateChainAsset (pt_asset value)) (\<lambda>asset.
     rbind (check (as_rail asset = ac_rail acct \<and> pt_rail value = ac_rail acct \<and> pt_sender value = ac_address acct \<and>
       pt_recipient value \<noteq> pt_sender value)) (\<lambda>_.
     rbind (addressShape (pt_recipient value) (ac_rail acct)) (\<lambda>_.
     rbind (check (pt_networkIdentity value = rail_genesis (ac_rail acct) \<and> block_reference_text (pt_blockReference value))) (\<lambda>_.
     rbind (u64 (pt_amountAtomic value) True) (\<lambda>_.
     rbind (u64 (pt_maximumFeeAtomic value) True) (\<lambda>_.
     rbind (isoDate (pt_preparedAt value)) (\<lambda>_.
     rbind (isoDate (pt_expiresAt value)) (\<lambda>_.
     rbind (check (\<not> pt_expiresAt value \<le> pt_preparedAt value \<and>
       \<not> dateParse (pt_expiresAt value) - dateParse (pt_preparedAt value) > 300000)) (\<lambda>_.
     rbind (nullable_check (\<lambda>h. rbind (u64 h False) (\<lambda>_. Inr ())) (pt_lastValidBlockHeight value)) (\<lambda>_.
     rbind (check (if ac_provider acct = LocalProvider
       then (case pt_unsignedPayload value of None \<Rightarrow> False | Some p \<Rightarrow> 1 \<le> length p \<and> length p \<le> 16384)
       else pt_unsignedPayload value = None)) (\<lambda>_.
     rbind (nullable_check (\<lambda>a. addressShape a (ac_rail acct)) (pt_sourceTokenAccount value)) (\<lambda>_.
     rbind (nullable_check (\<lambda>a. addressShape a (ac_rail acct)) (pt_destinationTokenAccount value)) (\<lambda>_.
     rbind (check (\<not> (as_rail asset = SolanaRail \<and> as_kind asset = Token \<and>
       (pt_sourceTokenAccount value = None \<or> pt_destinationTokenAccount value = None)))) (\<lambda>_.
     rbind (check (\<not> (as_kind asset = Native \<and> (pt_sourceTokenAccount value \<noteq> None \<or> pt_destinationTokenAccount value \<noteq> None \<or>
       as_rail asset = SolanaRail \<and> pt_createsRecipientAccount value)))) (\<lambda>_.
     rbind (validateRailEconomics value acct) (\<lambda>_.
     rbind (if ac_rail acct = TronRail
            then (case pt_resources value of None \<Rightarrow> corrupt | Some r \<Rightarrow> rbind (validateTronResources P r value) (\<lambda>_. Inr ()))
            else Inr ()) (\<lambda>_. Inr value))))))))))))))))))"

section \<open>The send window\<close>

definition SOLANA_MIN_SEND_BLOCKS :: int where
  "SOLANA_MIN_SEND_BLOCKS = 38"

definition validateRailSimulation :: "simulation_evidence \<Rightarrow> unit result" where
  "validateRailSimulation value =
     rbind (check (si_outcome value = ''would_succeed'' \<and> \<not> si_signatureVerified value)) (\<lambda>_.
     rbind (u64 (si_slotAtomic value) True) (\<lambda>_.
     rbind (u64 (si_unitsConsumedAtomic value) False) (\<lambda>_. check (hash_text (si_payloadHash value)))))"

definition validateRailSendBinding :: "send_binding \<Rightarrow> prepared_transfer \<Rightarrow> send_binding result" where
  "validateRailSendBinding value prepared =
     (case pt_lastValidBlockHeight prepared of
        None \<Rightarrow> corrupt
      | Some frozen \<Rightarrow>
          rbind (check (pt_rail prepared = SolanaRail \<and> block_reference_text (sb_blockReference value))) (\<lambda>_.
          rbind (u64 (sb_lastValidBlockHeight value) True) (\<lambda>lastValid.
          rbind (u64 (sb_observedBlockHeight value) True) (\<lambda>observed.
          rbind (u64 frozen False) (\<lambda>earlier.
          rbind (check (\<not> lastValid < earlier \<and> \<not> int lastValid - int observed < SOLANA_MIN_SEND_BLOCKS)) (\<lambda>_.
          rbind (isoDate (sb_acquiredAt value)) (\<lambda>_.
          rbind (check (\<not> sb_acquiredAt value < pt_preparedAt prepared \<and> \<not> sb_acquiredAt value > pt_expiresAt prepared)) (\<lambda>_.
          rbind (validateRailSimulation (sb_simulation value)) (\<lambda>_. Inr value)))))))))"

text \<open>The lifetime the signed bytes carry: block reference and last valid height.\<close>

definition railSendLifetime :: "prepared_transfer \<Rightarrow> send_binding option \<Rightarrow> string \<times> string option" where
  "railSendLifetime prepared send = (case send of
      None \<Rightarrow> (pt_blockReference prepared, pt_lastValidBlockHeight prepared)
    | Some b \<Rightarrow> (sb_blockReference b, Some (sb_lastValidBlockHeight b)))"

definition railSendReason :: "js_error \<Rightarrow> string \<Rightarrow> string" where
  "railSendReason e fallback = (case e of
      ApnError _ (Some reason) \<Rightarrow> if token_text reason then reason else fallback
    | _ \<Rightarrow> fallback)"

definition railSendTransient :: "js_error \<Rightarrow> bool" where
  "railSendTransient e \<longleftrightarrow> railSendReason e [] = ''solana_simulation_unavailable''"

section \<open>The allowlist binding\<close>

definition RAIL_LEASE_STATES :: "rail_state list" where
  "RAIL_LEASE_STATES = [SigningStarted, Submitting]"

definition railAllowlistChain :: "direct_rail \<Rightarrow> string" where
  "railAllowlistChain rail = (if rail = SolanaRail then ''solana:'' @ SOLANA_GENESIS else ''tron:'' @ TRON_GENESIS)"

definition railUsageAsset :: "chain_asset \<Rightarrow> asset_ref" where
  "railUsageAsset asset = (if as_kind asset = Native then \<lparr>ref_kind = Native, ref_identifier = None\<rparr>
     else \<lparr>ref_kind = Token, ref_identifier = Some (as_identifier asset)\<rparr>)"

definition requireListedRailAsset :: "prims \<Rightarrow> inventory \<Rightarrow> chain_asset \<Rightarrow> unit result" where
  "requireListedRailAsset P inventory asset =
     rbind (requireListedDirectAsset P inventory (railAllowlistChain (as_rail asset)) (railUsageAsset asset)) (\<lambda>_. Inr ())"

definition railAllowlistSubject :: "string \<Rightarrow> string \<Rightarrow> chain_account \<Rightarrow> chain_asset \<Rightarrow> string \<Rightarrow> string \<Rightarrow> direct_subject" where
  "railAllowlistSubject profile operationId acct asset amountAtomic recipient =
     \<lparr>ds_identity = \<lparr>id_account = ac_address acct, id_chain = railAllowlistChain (ac_rail acct), id_asset = railUsageAsset asset\<rparr>,
      ds_profile = profile, ds_operationId = operationId,
      ds_family = (if ac_rail acct = SolanaRail then Solana else Tron),
      ds_amountAtomic = amountAtomic, ds_recipient = recipient\<rparr>"

definition operation_subject :: "'a rail_intent_scheme \<Rightarrow> direct_subject" where
  "operation_subject v = railAllowlistSubject (ro_profile v) (ro_operationId v) (ro_account v)
     (pt_asset (ro_prepared v)) (pt_amountAtomic (ro_prepared v)) (pt_recipient (ro_prepared v))"

definition validateRailAllowlist :: "prims \<Rightarrow> rail_operation \<Rightarrow> direct_subject \<Rightarrow> unit result" where
  "validateRailAllowlist P value subject =
     (let crossed = list_ex (\<lambda>e. rt_state e \<in> set RAIL_LEASE_STATES) (ro_transitions value) in
     case ro_allowlist value of
       None \<Rightarrow> check (ro_allowlistLease value = None)
     | Some b \<Rightarrow>
         rbind (validateDirectAllowlistBinding b) (\<lambda>binding.
         case ro_allowlistLease value of
           None \<Rightarrow> check (\<not> crossed)
         | Some l \<Rightarrow>
             rbind (check crossed) (\<lambda>_.
             rbind (validateDirectAllowlistLease P l binding subject) (\<lambda>_. Inr ()))))"

fun railUsageTarget :: "rail_state \<Rightarrow> usage_state" where
  "railUsageTarget AwaitingApproval = Reserved"
| "railUsageTarget SigningStarted = Reserved"
| "railUsageTarget SignedNotSubmitted = Reserved"
| "railUsageTarget Submitting = Submitted"
| "railUsageTarget SubmittedPending = Submitted"
| "railUsageTarget RailUnknownFinality = UnknownFinality"
| "railUsageTarget AbandonedUnknown = UnknownFinality"
| "railUsageTarget Completed = Finalized"
| "railUsageTarget RailFailedBeforeEffect = FailedBeforeEffect"
| "railUsageTarget RailFailedConfirmedRevert = FailedConfirmedRevert"

section \<open>Final evidence\<close>

definition transaction_id_text :: "direct_rail \<Rightarrow> string \<Rightarrow> bool" where
  "transaction_id_text rail s = (if rail = SolanaRail then 64 \<le> length s \<and> length s \<le> 88 \<and> list_all base58 s else hash_text s)"

definition validateRailTransactionId :: "string \<Rightarrow> direct_rail \<Rightarrow> unit result" where
  "validateRailTransactionId value rail = check (transaction_id_text rail value)"

definition validateRailEvidence :: "prims \<Rightarrow> final_evidence \<Rightarrow> prepared_transfer \<Rightarrow> string \<Rightarrow> bool \<Rightarrow> unit result" where
  "validateRailEvidence P value prepared transactionId success =
     rbind (check ((fe_resources value \<noteq> None) = (pt_rail prepared = TronRail))) (\<lambda>_.
     rbind (check (fe_networkIdentity value = pt_networkIdentity prepared \<and> fe_transactionId value = transactionId \<and>
       fe_sender value = pt_sender prepared \<and> fe_recipient value = pt_recipient prepared \<and>
       fe_assetIdentifier value = as_identifier (pt_asset prepared) \<and> fe_amountAtomic value = pt_amountAtomic prepared \<and>
       fe_networkFeePayer value = ec_networkFeePayer (pt_economics prepared) \<and>
       fe_finality value = (if pt_rail prepared = SolanaRail then FinalizedBlock else SolidifiedBlock) \<and>
       fe_transactionVerified value)) (\<lambda>_.
     rbind (check (fe_senderEffectVerified value = success \<and> fe_recipientEffectVerified value = success)) (\<lambda>_.
     rbind (u64 (fe_blockNumberAtomic value) False) (\<lambda>blockNumber.
     rbind (u64 (fe_actualNetworkFeeAtomic value) False) (\<lambda>fee.
     rbind (u64 (ec_networkFeeMaximumAtomic (pt_economics prepared)) False) (\<lambda>feeMaximum.
     rbind (u64 (fe_actualRecipientRentAtomic value) False) (\<lambda>rent.
     rbind (u64 (ec_recipientRentAtomic (pt_economics prepared)) False) (\<lambda>rentMaximum.
     rbind (check (\<not> fee > feeMaximum \<and> \<not> rent > rentMaximum)) (\<lambda>_.
     rbind (check (\<not> (\<not> success \<and> fe_actualRecipientRentAtomic value \<noteq> ''0''))) (\<lambda>_.
     rbind (check (block_reference_text (fe_blockId value) \<and> hash_text (fe_rpcOriginHash value))) (\<lambda>_.
     rbind (isoDate (fe_observedAt value)) (\<lambda>_.
       if pt_rail prepared = TronRail then
         (case fe_resources value of None \<Rightarrow> corrupt
          | Some r \<Rightarrow> rbind (validateTronFinalResources P r prepared blockNumber success) (\<lambda>resources.
              check (tf_totalFeeAtomic resources = fe_actualNetworkFeeAtomic value \<and> fe_actualRecipientRentAtomic value = ''0'')))
       else Inr ()))))))))))))"

section \<open>The journal\<close>

definition bound_states :: "rail_state list" where
  "bound_states = [SignedNotSubmitted, Submitting, SubmittedPending, RailUnknownFinality, Completed, RailFailedConfirmedRevert,
     AbandonedUnknown]"

text \<open>An entry against the one before it.\<close>

definition validateEntryLink :: "rail_operation \<Rightarrow> rail_transition option \<Rightarrow> rail_transition \<Rightarrow> unit result" where
  "validateEntryLink value previous entry =
     (case previous of
        None \<Rightarrow> check (rt_state entry = AwaitingApproval \<and> rt_at entry = ro_createdAt value \<and> rt_transactionId entry = None \<and>
          rt_rawPayloadHash entry = None \<and> rt_evidence entry = None)
      | Some p \<Rightarrow>
          rbind (check (rt_state entry \<in> set (EDGES (rt_state p)) \<and> \<not> rt_at entry < rt_at p)) (\<lambda>_.
          rbind (check (rt_transactionId p \<noteq> None \<longrightarrow> rt_transactionId entry = rt_transactionId p)) (\<lambda>_.
            check (rt_rawPayloadHash p \<noteq> None \<longrightarrow> rt_rawPayloadHash entry = rt_rawPayloadHash p))))"

text \<open>What a local rail and a provider rail may record.\<close>

definition validateEntryRail :: "chain_account \<Rightarrow> rail_transition option \<Rightarrow> rail_transition \<Rightarrow> unit result" where
  "validateEntryRail acct previous entry =
     (if ac_provider acct = LocalProvider then
        rbind (check (\<not> (rt_state entry \<in> set bound_states \<and> (rt_transactionId entry = None \<or> rt_rawPayloadHash entry = None)))) (\<lambda>_.
          check (\<not> ((case previous of None \<Rightarrow> False | Some p \<Rightarrow> rt_state p = AwaitingApproval) \<and> rt_state entry = Submitting)))
      else check (rt_state entry \<noteq> SigningStarted \<and> rt_state entry \<noteq> SignedNotSubmitted \<and> rt_rawPayloadHash entry = None))"

definition validateEntryEvidence :: "prims \<Rightarrow> prepared_transfer \<Rightarrow> rail_transition \<Rightarrow> unit result" where
  "validateEntryEvidence P prepared entry =
     (if rt_state entry \<in> {Completed, RailFailedConfirmedRevert} then
        (case (rt_evidence entry, rt_transactionId entry) of
           (Some proof, Some t) \<Rightarrow>
             rbind (validateRailEvidence P proof prepared t (rt_state entry = Completed)) (\<lambda>_.
               check (\<not> fe_observedAt proof > rt_at entry))
         | _ \<Rightarrow> corrupt)
      else check (rt_evidence entry = None))"

definition validateEntry :: "prims \<Rightarrow> rail_operation \<Rightarrow> chain_account \<Rightarrow> prepared_transfer \<Rightarrow> rail_transition option \<Rightarrow>
    rail_transition \<Rightarrow> unit result" where
  "validateEntry P value acct prepared previous entry =
     rbind (check (token_text (rt_reason entry) \<and> token_text (rt_proofClass entry))) (\<lambda>_.
     rbind (isoDate (rt_at entry)) (\<lambda>_.
     rbind (hashObject (sha P) (JObj (transition_body entry))) (\<lambda>h.
     rbind (check (h = rt_transitionHash entry \<and>
       rt_previousHash entry = (case previous of None \<Rightarrow> ro_fingerprint value | Some p \<Rightarrow> rt_transitionHash p))) (\<lambda>_.
     rbind (validateEntryLink value previous entry) (\<lambda>_.
     rbind (nullable_check (\<lambda>t. validateRailTransactionId t (ac_rail acct)) (rt_transactionId entry)) (\<lambda>_.
     rbind (nullable_check (\<lambda>r. check (hash_text r)) (rt_rawPayloadHash entry)) (\<lambda>_.
     rbind (validateEntryRail acct previous entry) (\<lambda>_.
       validateEntryEvidence P prepared entry))))))))"

fun validateEntries :: "prims \<Rightarrow> rail_operation \<Rightarrow> chain_account \<Rightarrow> prepared_transfer \<Rightarrow> rail_transition option \<Rightarrow>
    rail_transition list \<Rightarrow> rail_transition option result" where
  "validateEntries P value acct prepared previous [] = Inr previous"
| "validateEntries P value acct prepared previous (entry # entries) =
     rbind (validateEntry P value acct prepared previous entry) (\<lambda>_.
       validateEntries P value acct prepared (Some entry) entries)"

definition entry_latest :: "rail_transition \<Rightarrow> jval" where
  "entry_latest e = JObj (latest_members (rt_state e) (rt_reason e) (rt_proofClass e) (rt_transactionId e) (rt_rawPayloadHash e)
     (rt_evidence e) (''updatedAt'', rt_at e))"

definition record_latest :: "rail_operation \<Rightarrow> jval" where
  "record_latest v = JObj (latest_members (ro_state v) (ro_reason v) (ro_proofClass v) (ro_transactionId v) (ro_rawPayloadHash v)
     (ro_evidence v) (''updatedAt'', ro_updatedAt v))"

definition rail_hashes :: "rail_operation \<Rightarrow> string list" where
  "rail_hashes v = [ro_operationId v, ro_profileHash v, ro_idempotencyHash v, ro_requestHash v, ro_policyHash v, ro_fingerprint v,
     ro_integrityHash v]"

definition validateRailOperation :: "prims \<Rightarrow> rail_operation \<Rightarrow> rail_operation result" where
  "validateRailOperation P value =
     rbind (check (list_all hash_text (rail_hashes value))) (\<lambda>_.
     rbind (validateChainAccount P (ro_account value)) (\<lambda>acct.
     rbind (validateRailPrepared P (ro_prepared value) acct) (\<lambda>prepared.
     rbind (check (ro_profile value = ac_profile acct \<and> ro_profileHash value = ac_profileHash acct)) (\<lambda>_.
     rbind (validateRailAllowlist P value (railAllowlistSubject (ac_profile acct) (ro_operationId value) acct (pt_asset prepared)
       (pt_amountAtomic prepared) (pt_recipient prepared))) (\<lambda>_.
     rbind (case ro_send value of None \<Rightarrow> Inr ()
       | Some s \<Rightarrow> rbind (check (ac_provider acct = LocalProvider \<and> list_ex (\<lambda>e. rt_state e = SigningStarted) (ro_transitions value))) (\<lambda>_.
           rbind (validateRailSendBinding s prepared) (\<lambda>_. Inr ()))) (\<lambda>_.
     rbind (hashObject (sha P) (JObj (intent_members value))) (\<lambda>f.
     rbind (check (f = ro_fingerprint value)) (\<lambda>_.
     rbind (isoDate (ro_createdAt value)) (\<lambda>_.
     rbind (isoDate (ro_updatedAt value)) (\<lambda>_.
     rbind (check (ro_createdAt value = pt_preparedAt prepared \<and> 1 \<le> length (ro_transitions value) \<and>
       length (ro_transitions value) \<le> 32)) (\<lambda>_.
     rbind (validateEntries P value acct prepared None (ro_transitions value)) (\<lambda>previous.
     case previous of
       None \<Rightarrow> corrupt
     | Some newest_entry \<Rightarrow>
         rbind (check (canonicalJson (entry_latest newest_entry) = canonicalJson (record_latest value))) (\<lambda>_.
         rbind (check (ro_terminal value = (rt_state newest_entry \<in> set RAIL_TERMINAL_STATES))) (\<lambda>_.
         rbind (hashObject (sha P) (JObj (operation_body value))) (\<lambda>h.
         rbind (check (h = ro_integrityHash value)) (\<lambda>_. Inr value))))))))))))))))"

definition sealRail :: "prims \<Rightarrow> rail_operation \<Rightarrow> rail_operation result" where
  "sealRail P body =
     rbind (hashObject (sha P) (JObj (operation_body body))) (\<lambda>h. validateRailOperation P (body\<lparr>ro_integrityHash := h\<rparr>))"

section \<open>New records and transitions\<close>

definition sealEntry :: "prims \<Rightarrow> rail_transition \<Rightarrow> rail_transition result" where
  "sealEntry P entry =
     rbind (hashObject (sha P) (JObj (transition_body entry))) (\<lambda>h. Inr (entry\<lparr>rt_transitionHash := h\<rparr>))"

definition newRailOperation :: "prims \<Rightarrow> rail_intent \<Rightarrow> rail_operation result" where
  "newRailOperation P intent =
     rbind (hashObject (sha P) (JObj (intent_members intent))) (\<lambda>fingerprint.
     rbind (sealEntry P \<lparr>rt_state = AwaitingApproval, rt_at = pt_preparedAt (ro_prepared intent), rt_reason = ''prepared_and_frozen'',
       rt_proofClass = ''durable_pre_effect'', rt_transactionId = None, rt_rawPayloadHash = None, rt_evidence = None,
       rt_previousHash = fingerprint, rt_transitionHash = []\<rparr>) (\<lambda>entry.
       sealRail P (rail_intent.extend intent
         \<lparr>ro_fingerprint = fingerprint, ro_send = None, ro_allowlistLease = None, ro_state = rt_state entry, ro_terminal = False,
          ro_reason = rt_reason entry, ro_proofClass = rt_proofClass entry, ro_transactionId = rt_transactionId entry,
          ro_rawPayloadHash = rt_rawPayloadHash entry, ro_evidence = rt_evidence entry, ro_createdAt = rt_at entry,
          ro_updatedAt = rt_at entry, ro_transitions = [entry], ro_integrityHash = []\<rparr>)))"

record rail_move =
  mv_state :: rail_state
  mv_at :: string
  mv_reason :: string
  mv_proofClass :: string
  mv_transactionId :: "string option"
  mv_rawPayloadHash :: "string option"
  mv_evidence :: "final_evidence option"
  mv_send :: "send_binding option"
  mv_allowlistLease :: "direct_lease option"

text \<open>JavaScript's \<^verbatim>\<open>a ?? b\<close>.\<close>

definition or_else :: "'a option \<Rightarrow> 'a option \<Rightarrow> 'a option" where
  "or_else a b = (case a of None \<Rightarrow> b | Some x \<Rightarrow> Some x)"

definition validateRailContinuity :: "prims \<Rightarrow> rail_operation \<Rightarrow> rail_operation \<Rightarrow> unit result" where
  "validateRailContinuity P previous later =
     rbind (validateRailOperation P previous) (\<lambda>_.
     rbind (validateRailOperation P later) (\<lambda>_.
     if canonicalJson (operation_json previous) = canonicalJson (operation_json later) then Inr ()
     else
       rbind (check (\<not> ro_terminal previous \<and> ro_fingerprint previous = ro_fingerprint later \<and>
         length (ro_transitions later) = length (ro_transitions previous) + 1 \<and>
         canonicalJson (transitions_json (butlast (ro_transitions later))) =
           canonicalJson (transitions_json (ro_transitions previous)))) (\<lambda>_.
       rbind (case ro_send previous of None \<Rightarrow> Inr ()
         | Some s \<Rightarrow> check (case ro_send later of None \<Rightarrow> False
             | Some s' \<Rightarrow> canonicalJson (send_json s) = canonicalJson (send_json s'))) (\<lambda>_.
         case ro_allowlistLease previous of None \<Rightarrow> Inr ()
         | Some l \<Rightarrow> check (case ro_allowlistLease later of None \<Rightarrow> False
             | Some l' \<Rightarrow> canonicalJson (lease_json l) = canonicalJson (lease_json l'))))))"

definition transitionRail :: "prims \<Rightarrow> rail_operation \<Rightarrow> rail_move \<Rightarrow> rail_operation result" where
  "transitionRail P operation move =
     rbind (validateRailOperation P operation) (\<lambda>_.
     rbind (sealEntry P \<lparr>rt_state = mv_state move, rt_at = mv_at move, rt_reason = mv_reason move, rt_proofClass = mv_proofClass move,
       rt_transactionId = or_else (mv_transactionId move) (ro_transactionId operation),
       rt_rawPayloadHash = or_else (mv_rawPayloadHash move) (ro_rawPayloadHash operation),
       rt_evidence = or_else (mv_evidence move) (ro_evidence operation),
       rt_previousHash = rt_transitionHash (last (ro_transitions operation)), rt_transitionHash = []\<rparr>) (\<lambda>entry.
     rbind (sealRail P (operation\<lparr>ro_send := or_else (mv_send move) (ro_send operation),
       ro_allowlistLease := or_else (mv_allowlistLease move) (ro_allowlistLease operation),
       ro_state := rt_state entry, ro_reason := rt_reason entry, ro_proofClass := rt_proofClass entry,
       ro_transactionId := rt_transactionId entry, ro_rawPayloadHash := rt_rawPayloadHash entry, ro_evidence := rt_evidence entry,
       ro_updatedAt := rt_at entry, ro_terminal := rt_state entry \<in> set RAIL_TERMINAL_STATES,
       ro_transitions := ro_transitions operation @ [entry]\<rparr>)) (\<lambda>later.
     rbind (validateRailContinuity P operation later) (\<lambda>_. Inr later))))"

section \<open>Projections and receipts\<close>

definition railNextActions :: "rail_operation \<Rightarrow> string list" where
  "railNextActions operation =
     (if ro_terminal operation then []
      else if ro_state operation = AwaitingApproval then [''apn pay transfer approve --operation '' @ ro_operationId operation]
      else if ro_state operation = RailUnknownFinality \<and> ro_transactionId operation = None
      then [''Manual provider reconciliation is required; do not repeat the send.'']
      else [''apn operation resume --operation '' @ ro_operationId operation])"

definition publicDirectAllowlist :: "direct_binding \<Rightarrow> direct_lease option \<Rightarrow> jval" where
  "publicDirectAllowlist b lease = JObj [(''schema_version'', JStr ''apn.direct-allowlist.v1''), (''rail'', JStr ''direct''),
     (''policy_digest'', JStr (db_policyDigest b)), (''policy_revision'', JNum (db_policyRevision b)),
     (''reservation_id'', nullable (map_option (\<lambda>l. res_reservationId (dl_reservation l)) lease))]"

text \<open>A prepared transfer without its unsigned protocol bytes.\<close>

definition public_transfer :: "prepared_transfer \<Rightarrow> jval" where
  "public_transfer p = (case prepared_json p of
      JObj ms \<Rightarrow> JObj (filter (\<lambda>m. fst m \<noteq> ''unsignedPayload'') ms) | v \<Rightarrow> v)"

definition public_members :: "string \<Rightarrow> rail_operation \<Rightarrow> (string \<times> jval) list" where
  "public_members schema v = [(''kind'', JStr ''rail_transfer''), (''schema_version'', JStr schema),
     (''operation_id'', JStr (ro_operationId v)), (''profile'', JStr (ro_profile v)),
     (''provider'', JStr (provider_text (ac_provider (ro_account v)))), (''custody'', JStr (custody_text (ac_custody (ro_account v)))),
     (''account'', JStr (ac_address (ro_account v))), (''fingerprint'', JStr (ro_fingerprint v)),
     (''policy_hash'', JStr (ro_policyHash v))] @
     opt_member ''allowlist'' (map_option (\<lambda>b. publicDirectAllowlist b (ro_allowlistLease v)) (ro_allowlist v)) @
     [(''transfer'', public_transfer (ro_prepared v))] @ opt_member ''send_binding'' (map_option send_json (ro_send v)) @
     [(''state'', JStr (rail_state_text (ro_state v))), (''terminal'', JBool (ro_terminal v)),
      (''proof_class'', JStr (ro_proofClass v)), (''reason'', JStr (ro_reason v)), (''transaction_id'', nullable (ro_transactionId v)),
      (''evidence'', case ro_evidence v of None \<Rightarrow> JNull | Some e \<Rightarrow> evidence_json e), (''created_at'', JStr (ro_createdAt v)),
      (''updated_at'', JStr (ro_updatedAt v)), (''next_actions'', JArr (map JStr (railNextActions v)))]"

definition publicRailOperation :: "prims \<Rightarrow> rail_operation \<Rightarrow> jval result" where
  "publicRailOperation P v =
     rbind (validateRailOperation P v) (\<lambda>_. Inr (JObj (public_members ''apn.rail-operation.v1'' v)))"

definition railReceipt :: "prims \<Rightarrow> rail_operation \<Rightarrow> jval result" where
  "railReceipt P v =
     rbind (validateRailOperation P v) (\<lambda>_.
     let body = public_members ''apn.rail-receipt.v1'' v @ [(''operation_binding_hash'', JStr (ro_integrityHash v))] in
     rbind (hashObject (sha P) (JObj body)) (\<lambda>h. Inr (JObj (body @ [(''receipt_hash'', JStr h)]))))"

text \<open>The receipt of an earlier transition is that of the record as it stood then.\<close>

definition historical_record :: "rail_operation \<Rightarrow> nat \<Rightarrow> rail_operation" where
  "historical_record v index =
     (let entry = ro_transitions v ! index; entries = take (index + 1) (ro_transitions v) in
     v\<lparr>ro_send := (if list_ex (\<lambda>e. rt_state e = SigningStarted) entries then ro_send v else None),
       ro_allowlistLease := (if list_ex (\<lambda>e. rt_state e \<in> set RAIL_LEASE_STATES) entries then ro_allowlistLease v else None),
       ro_state := rt_state entry, ro_reason := rt_reason entry, ro_proofClass := rt_proofClass entry,
       ro_transactionId := rt_transactionId entry, ro_rawPayloadHash := rt_rawPayloadHash entry, ro_evidence := rt_evidence entry,
       ro_updatedAt := rt_at entry, ro_terminal := rt_state entry \<in> set RAIL_TERMINAL_STATES, ro_transitions := entries\<rparr>)"

definition railHistoricalReceipt :: "prims \<Rightarrow> rail_operation \<Rightarrow> nat \<Rightarrow> jval result" where
  "railHistoricalReceipt P v index =
     (if index \<ge> length (ro_transitions v) then corrupt
      else rbind (sealRail P (historical_record v index)) (railReceipt P))"

section \<open>Usage of the per-chain policy\<close>

definition usage_charges :: "chain_policy \<Rightarrow> jsdate \<Rightarrow> rail_operation \<Rightarrow> (nat \<times> nat) result" where
  "usage_charges policy now operation =
     (let sameAsset = (as_identifier (pt_asset (ro_prepared operation)) = as_identifier (cp_asset policy)) in
     if \<not> ro_terminal operation then
       rbind (if sameAsset then u64 (pt_amountAtomic (ro_prepared operation)) False else Inr 0) (\<lambda>principal.
       rbind (u64 (ec_maximumNativeDebitAtomic (pt_economics (ro_prepared operation))) False) (\<lambda>fees. Inr (principal, fees)))
     else case now of None \<Rightarrow> Inl (OtherError ''RangeError'') | Some at \<Rightarrow>
     if take 10 (ro_updatedAt operation) = take 10 at then
       rbind (if sameAsset \<and> ro_state operation = Completed then u64 (pt_amountAtomic (ro_prepared operation)) False else Inr 0) (\<lambda>principal.
       case ro_evidence operation of
         None \<Rightarrow> Inr (principal, 0)
       | Some proof \<Rightarrow>
           rbind (if fe_networkFeePayer proof = ac_address (ro_account operation) then u64 (fe_actualNetworkFeeAtomic proof) False
             else Inr 0) (\<lambda>fee.
           rbind (if ec_rentPayer (pt_economics (ro_prepared operation)) = Some (ac_address (ro_account operation))
             then u64 (fe_actualRecipientRentAtomic proof) False else Inr 0) (\<lambda>rent. Inr (principal, fee + rent))))
     else Inr (0, 0))"

definition usage_counts :: "chain_policy \<Rightarrow> string option \<Rightarrow> rail_operation \<Rightarrow> bool" where
  "usage_counts policy excluding operation \<longleftrightarrow>
     \<not> (Some (ro_operationId operation) = excluding \<or> ro_profileHash operation \<noteq> ac_profileHash (cp_account policy) \<or>
        ac_rail (ro_account operation) \<noteq> ac_rail (cp_account policy))"

fun chainUsage :: "chain_policy \<Rightarrow> rail_operation list \<Rightarrow> jsdate \<Rightarrow> string option \<Rightarrow> (nat \<times> nat) result" where
  "chainUsage policy [] now excluding = Inr (0, 0)"
| "chainUsage policy (operation # operations) now excluding =
     (if \<not> usage_counts policy excluding operation then chainUsage policy operations now excluding
      else rbind (usage_charges policy now operation) (\<lambda>(p, f).
        rbind (chainUsage policy operations now excluding) (\<lambda>(p', f'). Inr (p + p', f + f'))))"

definition assertChainPrincipal :: "prims \<Rightarrow> chain_policy \<Rightarrow> string \<Rightarrow> rail_operation list \<Rightarrow> jsdate \<Rightarrow> string option \<Rightarrow> unit result" where
  "assertChainPrincipal P policy amount operations now excluding =
     rbind (validateChainPolicy P policy) (\<lambda>_.
     rbind (u64 amount True) (\<lambda>a.
     rbind (u64 (cp_maximumPerTransferAtomic policy) False) (\<lambda>maximum.
     if a > maximum then policy_denied (Some ''chain_policy_per_transfer_cap_exceeded'')
     else rbind (chainUsage policy operations now excluding) (\<lambda>(principal, fees).
       rbind (u64 (cp_dailyLimitAtomic policy) False) (\<lambda>daily.
       if principal + a > daily then policy_denied (Some ''chain_policy_daily_limit_exceeded'') else Inr ())))))"

end
