(* ===== verification/RailStore.thy ===== *)
theory RailStore
  imports RailRecord "HOL-Library.AList"
begin

text \<open>
  The world a direct rail transfer runs in: the operation store of
  \<^verbatim>\<open>src/src/rail-operation-repository.ts\<close>, the claims of \<^verbatim>\<open>src/src/rail-operation-claims.ts\<close>, the
  accounts and policies of \<^verbatim>\<open>src/src/chain-policy-service.ts\<close>, the locks of
  \<^verbatim>\<open>src/src/secure-state-store.ts\<close> and the ports of \<^verbatim>\<open>src/src/direct-rail-ports.ts\<close>.

  The state extends the state of the owner gate: a durable write spends one of the \<open>gs_life\<close> writes
  the process makes before it dies, and a dead process neither writes nor sends. \<open>rw_log\<close> is the
  history of this process (journal entries it made durable, provider submissions it called) and
  \<open>rw_others\<close> that of every other process; no code reads either. Whenever the process acquires locks,
  the environment first lets other processes run.
\<close>

section \<open>Claims\<close>

record prepare_claim =
  pc_profileHash :: string
  pc_operationId :: string
  pc_idempotencyHash :: string
  pc_inputHash :: string
  pc_requestHash :: string
  pc_accountIdentityHash :: string
  pc_policyHash :: string
  pc_allowlist :: direct_binding
  pc_integrityHash :: string

record approval_claim =
  ac_claim_profileHash :: string
  ac_claim_operationId :: string
  ac_claim_operationIntegrityHash :: string
  ac_claim_fingerprint :: string
  ac_claim_accountIdentityHash :: string
  ac_claim_policyHash :: string
  ac_claim_allowlist :: direct_binding
  ac_claim_integrityHash :: string

definition prepare_claim_body :: "prepare_claim \<Rightarrow> (string \<times> jval) list" where
  "prepare_claim_body c = [(''schemaVersion'', JStr ''apn.rail-prepare-claim.v1''), (''profileHash'', JStr (pc_profileHash c)),
     (''operationId'', JStr (pc_operationId c)), (''idempotencyHash'', JStr (pc_idempotencyHash c)),
     (''inputHash'', JStr (pc_inputHash c)), (''requestHash'', JStr (pc_requestHash c)),
     (''accountIdentityHash'', JStr (pc_accountIdentityHash c)), (''policyHash'', JStr (pc_policyHash c)),
     (''allowlist'', binding_json (pc_allowlist c))]"

definition approval_claim_body :: "approval_claim \<Rightarrow> (string \<times> jval) list" where
  "approval_claim_body c = [(''schemaVersion'', JStr ''apn.rail-approval-claim.v1''), (''profileHash'', JStr (ac_claim_profileHash c)),
     (''operationId'', JStr (ac_claim_operationId c)), (''operationIntegrityHash'', JStr (ac_claim_operationIntegrityHash c)),
     (''fingerprint'', JStr (ac_claim_fingerprint c)), (''accountIdentityHash'', JStr (ac_claim_accountIdentityHash c)),
     (''policyHash'', JStr (ac_claim_policyHash c)), (''allowlist'', binding_json (ac_claim_allowlist c))]"

definition validatePrepareClaim :: "prims \<Rightarrow> prepare_claim \<Rightarrow> prepare_claim result" where
  "validatePrepareClaim P c =
     rbind (check (list_all hash_text [pc_profileHash c, pc_operationId c, pc_idempotencyHash c, pc_inputHash c, pc_requestHash c,
       pc_accountIdentityHash c, pc_policyHash c, pc_integrityHash c])) (\<lambda>_.
     rbind (validateDirectAllowlistBinding (pc_allowlist c)) (\<lambda>_.
     rbind (hashObject (sha P) (JObj (prepare_claim_body c))) (\<lambda>h.
     rbind (check (h = pc_integrityHash c)) (\<lambda>_. Inr c))))"

definition sealPrepareClaim :: "prims \<Rightarrow> prepare_claim \<Rightarrow> prepare_claim result" where
  "sealPrepareClaim P body =
     rbind (hashObject (sha P) (JObj (prepare_claim_body body))) (\<lambda>h. validatePrepareClaim P (body\<lparr>pc_integrityHash := h\<rparr>))"

definition validateApprovalClaim :: "prims \<Rightarrow> approval_claim \<Rightarrow> approval_claim result" where
  "validateApprovalClaim P c =
     rbind (check (list_all hash_text [ac_claim_profileHash c, ac_claim_operationId c, ac_claim_operationIntegrityHash c,
       ac_claim_fingerprint c, ac_claim_accountIdentityHash c, ac_claim_policyHash c, ac_claim_integrityHash c])) (\<lambda>_.
     rbind (validateDirectAllowlistBinding (ac_claim_allowlist c)) (\<lambda>_.
     rbind (hashObject (sha P) (JObj (approval_claim_body c))) (\<lambda>h.
     rbind (check (h = ac_claim_integrityHash c)) (\<lambda>_. Inr c))))"

definition sealApprovalClaim :: "prims \<Rightarrow> approval_claim \<Rightarrow> approval_claim result" where
  "sealApprovalClaim P body =
     rbind (hashObject (sha P) (JObj (approval_claim_body body))) (\<lambda>h. validateApprovalClaim P (body\<lparr>ac_claim_integrityHash := h\<rparr>))"

section \<open>The ports of a rail\<close>

datatype execution = LocalSigned | ProviderAtomic

datatype rail_inspection = Inconclusive string | Concluded bool string string final_evidence

record effect_binding =
  eb_account :: chain_account
  eb_operationId :: string
  eb_fingerprint :: string
  eb_prepared :: prepared_transfer
  eb_send :: "send_binding option"

record prepare_request =
  pq_account :: chain_account
  pq_asset :: chain_asset
  pq_recipient :: string
  pq_amountAtomic :: string
  pq_maximumFeeAtomic :: string
  pq_now :: jsdate

text \<open>Each call of a port is numbered, so that the same question may be answered differently later.\<close>

record rail_port =
  rp_rail :: direct_rail
  rp_provider :: chain_provider
  rp_execution :: execution
  rp_canonicalAddress :: "string \<Rightarrow> string result"
  rp_assertNetwork :: "nat \<Rightarrow> string result"
  rp_prepare :: "nat \<Rightarrow> prepare_request \<Rightarrow> prepared_transfer result"
  rp_revalidate :: "nat \<Rightarrow> chain_account \<Rightarrow> prepared_transfer \<Rightarrow> send_binding option \<Rightarrow> unit result"
  rp_bindSend :: "(nat \<Rightarrow> chain_account \<Rightarrow> prepared_transfer \<Rightarrow> send_binding result) option"
  rp_sign :: "nat \<Rightarrow> effect_binding \<Rightarrow> signed_effect result"
  rp_sealRevalidated :: "(nat \<Rightarrow> effect_binding \<Rightarrow> signed_effect result) option"
  rp_recoverEffect :: "nat \<Rightarrow> effect_binding \<Rightarrow> signed_effect option result"
  rp_submit :: "nat \<Rightarrow> effect_binding \<Rightarrow> signed_effect option \<Rightarrow> string result"
  rp_inspect :: "nat \<Rightarrow> chain_account \<Rightarrow> prepared_transfer \<Rightarrow> string \<Rightarrow> string option \<Rightarrow> send_binding option \<Rightarrow> rail_inspection result"

record approval_request =
  aq_account :: chain_account
  aq_operationId :: string
  aq_fingerprint :: string
  aq_policyHash :: string
  aq_prepared :: prepared_transfer
  aq_allowlist :: direct_binding

text \<open>Chain custody files: the account file and the account named by the header of the wallet envelope.\<close>

record chain_files =
  cf_account :: "nat \<Rightarrow> string \<Rightarrow> direct_rail \<Rightarrow> chain_account option result"
  cf_envelope :: "nat \<Rightarrow> string \<Rightarrow> direct_rail \<Rightarrow> chain_account option result"

record index_entry =
  ie_family :: string
  ie_profileHash :: string
  ie_operationId :: string
  ie_duplicate :: bool

record prepare_identity =
  pi_profileHash :: string
  pi_operationId :: string
  pi_idempotencyHash :: string
  pi_requestHash :: string

datatype stored_operation = RailStored rail_operation | ForeignStored string prepare_identity

section \<open>World and environment\<close>

datatype rail_event = Wrote "string \<times> string" rail_state | Sent "string \<times> string"

type_synonym op_key = "string \<times> string"

record rail_world = gate_state +
  rw_ops :: "(op_key \<times> rail_operation) list"
  rw_receipts :: "op_key \<Rightarrow> jval option"
  rw_policies :: policy_store
  rw_approvals :: "string \<Rightarrow> approval_claim option"
  rw_prepares :: "string \<Rightarrow> prepare_claim option"
  rw_log :: "rail_event list"
  rw_others :: "rail_event list"

record rail_env =
  re_gate :: gate_env
  re_ready :: "nat \<Rightarrow> unit result"
  re_lock :: "nat \<Rightarrow> string list \<Rightarrow> unit result"
  re_others :: "nat \<Rightarrow> rail_world \<Rightarrow> rail_world"
  re_ports :: "rail_port list"
  re_chain :: "chain_files option"
  re_profileProvider :: "nat \<Rightarrow> string \<Rightarrow> string option result"
  re_wallet :: "nat \<Rightarrow> string \<Rightarrow> bool result"
  re_find :: "nat \<Rightarrow> string \<Rightarrow> index_entry option result"
  re_findByIdempotency :: "nat \<Rightarrow> string \<Rightarrow> index_entry option result"
  re_foreign :: "nat \<Rightarrow> index_entry \<Rightarrow> prepare_identity option result"
  re_admit :: "nat \<Rightarrow> prepare_identity \<Rightarrow> string list \<Rightarrow> unit result"
  re_settled :: "nat \<Rightarrow> string \<Rightarrow> unit result"
  re_available :: "nat \<Rightarrow> string \<Rightarrow> string list \<Rightarrow> unit result"
  re_approval :: "(nat \<Rightarrow> approval_request \<Rightarrow> unit result) option"
  re_wait :: "nat \<Rightarrow> int \<Rightarrow> bool"

definition call :: "(nat \<Rightarrow> 'a result) \<Rightarrow> ('w gate_state_scheme, 'a) stm" where
  "call f = bnd (ask f) lift"

definition reads :: "(rail_world \<Rightarrow> 'a result) \<Rightarrow> (rail_world, 'a) stm" where
  "reads f = (\<lambda>s. (f s, s))"

definition durable :: "(rail_world \<Rightarrow> rail_world) \<Rightarrow> (rail_world, unit) stm" where
  "durable f = (\<lambda>s. if gs_life s = 0 then (Inl crash, s) else (Inr (), f (s\<lparr>gs_life := gs_life s - 1\<rparr>)))"

definition interleave :: "rail_env \<Rightarrow> (rail_world, unit) stm" where
  "interleave E = (\<lambda>s. (Inr (), re_others E (gs_tick s) s))"

definition withLocks :: "rail_env \<Rightarrow> string list \<Rightarrow> (rail_world, 'a) stm \<Rightarrow> (rail_world, 'a) stm" where
  "withLocks E keys action = bnd (call (\<lambda>n. re_lock E n keys)) (\<lambda>_. bnd (interleave E) (\<lambda>_. action))"

definition isoNow :: "rail_env \<Rightarrow> (rail_world, string) stm" where
  "isoNow E = bnd (ask (ge_clock (re_gate E))) (\<lambda>now. lift (case now of None \<Rightarrow> Inl (OtherError ''RangeError'') | Some at \<Rightarrow> Inr at))"

text \<open>\<^verbatim>\<open>clock.now().getTime() + delay >= instant\<close>; an invalid date compares false.\<close>

definition reached :: "jsdate \<Rightarrow> int \<Rightarrow> int \<Rightarrow> bool" where
  "reached now delay at = (case now of None \<Rightarrow> False | Some t \<Rightarrow> dateParse t + delay \<ge> at)"

section \<open>Identities\<close>

definition profileHash :: "prims \<Rightarrow> string \<Rightarrow> string" where
  "profileHash P profile = sha256 (sha P) (''profile'' @ [CHR 0x00] @ profile)"

definition state_operationId :: "prims \<Rightarrow> string \<Rightarrow> string \<Rightarrow> string" where
  "state_operationId P profile key = sha256 (sha P) (''operation'' @ [CHR 0x00] @ profile @ [CHR 0x00] @ key)"

definition state_idempotencyHash :: "prims \<Rightarrow> string \<Rightarrow> string" where
  "state_idempotencyHash P key = sha256 (sha P) (''idempotency'' @ [CHR 0x00] @ key)"

definition canonicalOperationId :: "string \<Rightarrow> string result" where
  "canonicalOperationId value = rbind (assertInput (hash_text value)) (\<lambda>_. Inr value)"

definition idempotency_key_text :: "nat \<Rightarrow> string \<Rightarrow> bool" where
  "idempotency_key_text maximum s \<longleftrightarrow> 8 \<le> length s \<and> length s \<le> maximum \<and> alnum (hd s) \<and>
     list_all (\<lambda>c. alnum c \<or> c \<in> set ''._:-'') s"

definition canonicalIdempotencyKey :: "string \<Rightarrow> string result" where
  "canonicalIdempotencyKey value = rbind (assertInput (idempotency_key_text 200 value)) (\<lambda>_. Inr value)"

definition stateIdentifier :: "string \<Rightarrow> unit result" where
  "stateIdentifier value = (if hash_text value then Inr () else Inl (ApnError APN_STATE_SECURITY None))"

section \<open>The operation store\<close>

definition op_path :: "string \<Rightarrow> string \<Rightarrow> op_key result" where
  "op_path profile_hash operationId =
     rbind (stateIdentifier profile_hash) (\<lambda>_. rbind (stateIdentifier operationId) (\<lambda>_. Inr (profile_hash, operationId)))"

definition load_operation :: "prims \<Rightarrow> rail_world \<Rightarrow> string \<Rightarrow> string \<Rightarrow> rail_operation option result" where
  "load_operation P s profile_hash operationId =
     rbind (op_path profile_hash operationId) (\<lambda>path.
     case map_of (rw_ops s) path of None \<Rightarrow> Inr None
     | Some value \<Rightarrow>
         rbind (validateRailOperation P value) (\<lambda>operation.
         rbind (check (ro_profileHash operation = profile_hash \<and> ro_operationId operation = operationId)) (\<lambda>_.
           Inr (Some operation))))"

definition loadOperation :: "prims \<Rightarrow> string \<Rightarrow> string \<Rightarrow> (rail_world, rail_operation option) stm" where
  "loadOperation P profile_hash operationId = reads (\<lambda>s. load_operation P s profile_hash operationId)"

definition listOperations :: "prims \<Rightarrow> string \<Rightarrow> (rail_world, rail_operation list) stm" where
  "listOperations P profile_hash = reads (\<lambda>s.
     rbind (stateIdentifier profile_hash) (\<lambda>_.
     rmap (\<lambda>name. rbind (check (hash_text name)) (\<lambda>_.
       rbind (load_operation P s profile_hash name) (\<lambda>value. case value of None \<Rightarrow> corrupt | Some operation \<Rightarrow> Inr operation)))
       (map (snd \<circ> fst) (filter (\<lambda>file. fst (fst file) = profile_hash) (rw_ops s)))))"

text \<open>What a write makes durable: the journal entries the stored record did not have.\<close>

definition op_key_of :: "rail_operation \<Rightarrow> op_key" where
  "op_key_of operation = (ro_profileHash operation, ro_operationId operation)"

definition new_entries :: "rail_world \<Rightarrow> rail_operation \<Rightarrow> rail_event list" where
  "new_entries s operation =
     (let stored = (case map_of (rw_ops s) (op_key_of operation) of None \<Rightarrow> 0 | Some v \<Rightarrow> length (ro_transitions v)) in
     map (\<lambda>e. Wrote (op_key_of operation) (rt_state e)) (drop stored (ro_transitions operation)))"

definition store_operation :: "rail_operation \<Rightarrow> rail_world \<Rightarrow> rail_world" where
  "store_operation operation s =
     s\<lparr>rw_ops := AList.update (op_key_of operation) operation (rw_ops s), rw_log := rw_log s @ new_entries s operation\<rparr>"

definition writeOperation :: "prims \<Rightarrow> rail_operation \<Rightarrow> (rail_world, unit) stm" where
  "writeOperation P operation =
     bnd (lift (validateRailOperation P operation)) (\<lambda>_.
     bnd (loadOperation P (ro_profileHash operation) (ro_operationId operation)) (\<lambda>previous.
     bnd (lift (case previous of
         Some p \<Rightarrow> validateRailContinuity P p operation
       | None \<Rightarrow> check (\<not> (ro_state operation \<noteq> AwaitingApproval \<or> length (ro_transitions operation) \<noteq> 1)))) (\<lambda>_.
     durable (store_operation operation))))"

definition persist :: "prims \<Rightarrow> rail_operation \<Rightarrow> (rail_world, unit) stm" where
  "persist P operation = writeOperation P operation"


text \<open>The transition a receipt file belongs to; a file that is no exact receipt of one is corrupt.\<close>

definition object_keys :: "jval \<Rightarrow> string list" where
  "object_keys v = (case v of JObj members \<Rightarrow> sort (map fst members) | _ \<Rightarrow> [])"

definition find_index :: "('a \<Rightarrow> bool) \<Rightarrow> 'a list \<Rightarrow> nat option" where
  "find_index Q xs = (let n = length (takeWhile (\<lambda>x. \<not> Q x) xs) in if n < length xs then Some n else None)"

definition receiptTransition :: "prims \<Rightarrow> jval \<Rightarrow> rail_operation \<Rightarrow> nat result" where
  "receiptTransition P value operation =
     (case value of
        JObj members \<Rightarrow>
          (case find_index (\<lambda>entry. map_of members ''state'' = Some (JStr (rail_state_text (rt_state entry))) \<and>
              map_of members ''updated_at'' = Some (JStr (rt_at entry))) (ro_transitions operation) of
             None \<Rightarrow> corrupt
           | Some index \<Rightarrow>
               rbind (railHistoricalReceipt P operation index) (\<lambda>expected.
               rbind (check (object_keys value = object_keys expected \<and>
                 map_of members ''schema_version'' = Some (JStr ''apn.rail-receipt.v1'') \<and>
                 map_of members ''operation_id'' = Some (JStr (ro_operationId operation)) \<and>
                 map_of members ''fingerprint'' = Some (JStr (ro_fingerprint operation)))) (\<lambda>_.
               rbind (hashObject (sha P) (JObj (filter (\<lambda>m. fst m \<noteq> ''receipt_hash'') members))) (\<lambda>h.
               rbind (check (map_of members ''receipt_hash'' = Some (JStr h))) (\<lambda>_.
               rbind (check (canonicalJson value = canonicalJson expected)) (\<lambda>_. Inr index))))))
      | _ \<Rightarrow> corrupt)"

definition loadReceipt :: "prims \<Rightarrow> string \<Rightarrow> string \<Rightarrow> (rail_world, jval) stm" where
  "loadReceipt P profile_hash operationId =
     bnd (loadOperation P profile_hash operationId) (\<lambda>found.
     case found of None \<Rightarrow> lift (Inl (ApnError APN_OPERATION_NOT_FOUND None))
     | Some operation \<Rightarrow> reads (\<lambda>s.
         rbind (op_path profile_hash operationId) (\<lambda>path.
         case rw_receipts s path of None \<Rightarrow> railReceipt P operation
         | Some value \<Rightarrow> rbind (receiptTransition P value operation) (\<lambda>index.
             if index = length (ro_transitions operation) - 1 then Inr value else railReceipt P operation))))"

section \<open>The claim stores\<close>

definition claim_path :: "string \<Rightarrow> string result" where
  "claim_path key = rbind (check (hash_text key)) (\<lambda>_. Inr key)"

definition load_prepare_claim :: "prims \<Rightarrow> string \<Rightarrow> (rail_world, prepare_claim option) stm" where
  "load_prepare_claim P idempotencyHash = reads (\<lambda>s.
     rbind (claim_path idempotencyHash) (\<lambda>path.
     case rw_prepares s path of None \<Rightarrow> Inr None
     | Some value \<Rightarrow> rbind (validatePrepareClaim P value) (\<lambda>claim.
         rbind (check (pc_idempotencyHash claim = idempotencyHash)) (\<lambda>_. Inr (Some claim)))))"

text \<open>A create-only write refuses a file that is already there.\<close>

definition create_only :: "bool \<Rightarrow> (rail_world \<Rightarrow> rail_world) \<Rightarrow> (rail_world, unit) stm" where
  "create_only occupied f = (if occupied then lift (Inl (ApnError APN_STATE_SECURITY None)) else durable f)"

definition create_prepare_claim :: "prims \<Rightarrow> prepare_claim \<Rightarrow> (rail_world, unit) stm" where
  "create_prepare_claim P claim =
     bnd (lift (validatePrepareClaim P claim)) (\<lambda>_.
     bnd (lift (claim_path (pc_idempotencyHash claim))) (\<lambda>path.
     bnd (reads (\<lambda>s. Inr (rw_prepares s path \<noteq> None))) (\<lambda>occupied.
     create_only occupied (\<lambda>s. s\<lparr>rw_prepares := (rw_prepares s)(path \<mapsto> claim)\<rparr>))))"

definition remove_prepare_claim :: "prims \<Rightarrow> prepare_claim \<Rightarrow> (rail_world, unit) stm" where
  "remove_prepare_claim P claim =
     bnd (load_prepare_claim P (pc_idempotencyHash claim)) (\<lambda>saved.
     if map_option pc_integrityHash saved = Some (pc_integrityHash claim)
     then durable (\<lambda>s. s\<lparr>rw_prepares := (rw_prepares s)(pc_idempotencyHash claim := None)\<rparr>) else ret ())"

definition load_approval_claim :: "prims \<Rightarrow> string \<Rightarrow> (rail_world, approval_claim option) stm" where
  "load_approval_claim P operationId = reads (\<lambda>s.
     rbind (claim_path operationId) (\<lambda>path.
     case rw_approvals s path of None \<Rightarrow> Inr None
     | Some value \<Rightarrow> rbind (validateApprovalClaim P value) (\<lambda>claim.
         rbind (check (ac_claim_operationId claim = operationId)) (\<lambda>_. Inr (Some claim)))))"

definition create_approval_claim :: "prims \<Rightarrow> approval_claim \<Rightarrow> (rail_world, unit) stm" where
  "create_approval_claim P claim =
     bnd (lift (validateApprovalClaim P claim)) (\<lambda>_.
     bnd (lift (claim_path (ac_claim_operationId claim))) (\<lambda>path.
     bnd (reads (\<lambda>s. Inr (rw_approvals s path \<noteq> None))) (\<lambda>occupied.
     create_only occupied (\<lambda>s. s\<lparr>rw_approvals := (rw_approvals s)(path \<mapsto> claim)\<rparr>))))"

definition remove_approval_claim :: "prims \<Rightarrow> approval_claim \<Rightarrow> (rail_world, unit) stm" where
  "remove_approval_claim P claim =
     bnd (load_approval_claim P (ac_claim_operationId claim)) (\<lambda>saved.
     if map_option ac_claim_integrityHash saved = Some (ac_claim_integrityHash claim)
     then durable (\<lambda>s. s\<lparr>rw_approvals := (rw_approvals s)(ac_claim_operationId claim := None)\<rparr>) else ret ())"

section \<open>Accounts and policies\<close>

definition rail_port_of :: "rail_env \<Rightarrow> direct_rail \<Rightarrow> chain_provider \<Rightarrow> rail_port result" where
  "rail_port_of E rail owner =
     (case filter (\<lambda>port. rp_rail port = rail \<and> rp_provider port = owner) (re_ports E) of
        [port] \<Rightarrow> Inr port | _ \<Rightarrow> Inl (ApnError APN_PROVIDER_UNAVAILABLE None))"

definition chain_account_file :: "prims \<Rightarrow> chain_files \<Rightarrow> string \<Rightarrow> direct_rail \<Rightarrow> (rail_world, chain_account option) stm" where
  "chain_account_file P C profileInput rail =
     bnd (lift (canonicalProfile profileInput)) (\<lambda>profile.
     bnd (call (\<lambda>n. cf_account C n profile rail)) (\<lambda>value.
     case value of None \<Rightarrow> ret None
     | Some v \<Rightarrow> bnd (lift (validateChainAccount P v)) (\<lambda>acct.
         if ac_profile acct \<noteq> profile \<or> ac_rail acct \<noteq> rail \<or> ac_profileHash acct \<noteq> profileHash P profile
         then lift corrupt else ret (Some acct))))"

definition ownerBinding :: "prims \<Rightarrow> chain_files \<Rightarrow> string \<Rightarrow> direct_rail \<Rightarrow> (rail_world, chain_account option) stm" where
  "ownerBinding P C profileInput rail =
     bnd (lift (canonicalProfile profileInput)) (\<lambda>profile.
     bnd (chain_account_file P C profile rail) (\<lambda>acct.
     bnd (call (\<lambda>n. cf_envelope C n profile rail)) (\<lambda>stored.
     case stored of None \<Rightarrow> ret acct
     | Some sealed \<Rightarrow>
         if ac_profile sealed \<noteq> profile \<or> ac_rail sealed \<noteq> rail \<or>
            (case acct of None \<Rightarrow> False | Some a \<Rightarrow> canonicalJson (chain_account_json a) \<noteq> canonicalJson (chain_account_json sealed))
         then lift corrupt else ret (Some sealed))))"

definition provider_id :: "chain_provider \<Rightarrow> string" where
  "provider_id owner = (if owner = CoinbaseAwal then ''coinbase-agentic-wallet'' else provider_text owner)"

definition drift :: "'a result" where
  "drift = Inl (ApnError APN_PROFILE_DRIFT None)"

fun assert_rail_owners :: "prims \<Rightarrow> chain_files \<Rightarrow> string \<Rightarrow> chain_provider \<Rightarrow> direct_rail list \<Rightarrow> (rail_world, unit) stm" where
  "assert_rail_owners P C profile owner [] = ret ()"
| "assert_rail_owners P C profile owner (rail # rails) =
     bnd (ownerBinding P C profile rail) (\<lambda>acct.
     if (case acct of None \<Rightarrow> False | Some a \<Rightarrow> ac_provider a \<noteq> owner) then lift drift
     else assert_rail_owners P C profile owner rails)"

definition assertProfileOwner :: "prims \<Rightarrow> rail_env \<Rightarrow> string \<Rightarrow> chain_provider \<Rightarrow> (rail_world, unit) stm" where
  "assertProfileOwner P E profile owner =
     (let hash = profileHash P profile in
     bnd (call (\<lambda>n. re_profileProvider E n hash)) (\<lambda>stored.
     if (case stored of None \<Rightarrow> False | Some p \<Rightarrow> p \<noteq> provider_id owner) then lift drift
     else bnd (if stored = None \<and> owner \<noteq> LocalProvider
           then bnd (call (\<lambda>n. re_wallet E n hash)) (\<lambda>exists. if exists then lift drift else ret ()) else ret ()) (\<lambda>_.
       case re_chain E of None \<Rightarrow> ret () | Some C \<Rightarrow> assert_rail_owners P C profile owner [SolanaRail, TronRail])))"

definition account_of :: "prims \<Rightarrow> rail_env \<Rightarrow> string \<Rightarrow> direct_rail \<Rightarrow> (rail_world, chain_account) stm" where
  "account_of P E profileInput rail =
     bnd (lift (canonicalProfile profileInput)) (\<lambda>profile.
     case re_chain E of None \<Rightarrow> lift (Inl (ApnError APN_PROVIDER_UNAVAILABLE None))
     | Some C \<Rightarrow>
         bnd (chain_account_file P C profile rail) (\<lambda>found.
         case found of None \<Rightarrow> lift (Inl (ApnError APN_OPERATION_BLOCKED None))
         | Some acct \<Rightarrow>
             bnd (assertProfileOwner P E profile (ac_provider acct)) (\<lambda>_.
             bnd (lift (rail_port_of E rail (ac_provider acct))) (\<lambda>port.
             bnd (lift (rp_canonicalAddress port (ac_address acct))) (\<lambda>address.
             if address \<noteq> ac_address acct then lift (Inl (ApnError APN_WALLET_MISMATCH None)) else ret acct)))))"

definition required_policy :: "prims \<Rightarrow> chain_account \<Rightarrow> asset_alias \<Rightarrow> (rail_world, chain_policy) stm" where
  "required_policy P acct alias = reads (\<lambda>s. requiredPolicy P (rw_policies s) acct alias)"

definition authorized_policy :: "prims \<Rightarrow> chain_account \<Rightarrow> asset_alias \<Rightarrow> string \<Rightarrow> (rail_world, chain_policy) stm" where
  "authorized_policy P acct alias maximumFee = reads (\<lambda>s. authorize P (rw_policies s) acct alias maximumFee)"

text \<open>The clock is read after the operations are listed.\<close>

definition assertPrincipal :: "prims \<Rightarrow> rail_env \<Rightarrow> chain_policy \<Rightarrow> string \<Rightarrow> string \<Rightarrow> (rail_world, unit) stm" where
  "assertPrincipal P E policy operationId amountAtomic =
     bnd (listOperations P (ac_profileHash (cp_account policy))) (\<lambda>operations.
     bnd (ask (ge_clock (re_gate E))) (\<lambda>now. lift (assertChainPrincipal P policy amountAtomic operations now (Some operationId))))"

section \<open>Looking an operation up\<close>

definition FACADE_KINDS :: "string list" where
  "FACADE_KINDS = [''sei_gaszip'', ''circle_route'', ''mega_gaszip'', ''merchant_x402'', ''permit2_production'', ''relay_unsigned'',
     ''facilitator_gasless_transfer'', ''smart_account_gasless_transfer'', ''metamask_gasless_transfer'', ''gasless_transfer'',
     ''bridge_route'', ''rail_transfer'', ''direct_transfer'', ''x402_fetch'']"

definition stored :: "prims \<Rightarrow> rail_env \<Rightarrow> index_entry \<Rightarrow> (rail_world, stored_operation option) stm" where
  "stored P E entry =
     (if ie_duplicate entry then lift corrupt
      else if ie_family entry = ''rail_transfer''
      then bnd (loadOperation P (ie_profileHash entry) (ie_operationId entry)) (\<lambda>r. ret (map_option RailStored r))
      else bnd (call (\<lambda>n. re_foreign E n entry)) (\<lambda>i. ret (map_option (ForeignStored (ie_family entry)) i)))"

definition not_found :: "'a result" where
  "not_found = Inl (ApnError APN_OPERATION_NOT_FOUND None)"

definition required_stored :: "prims \<Rightarrow> rail_env \<Rightarrow> string \<Rightarrow> (rail_world, stored_operation) stm" where
  "required_stored P E operationId =
     bnd (lift (canonicalOperationId operationId)) (\<lambda>oid.
     bnd (call (\<lambda>n. re_find E n oid)) (\<lambda>entry.
     case entry of None \<Rightarrow> lift not_found
     | Some e \<Rightarrow> if ie_family e \<notin> set FACADE_KINDS then lift not_found
         else bnd (stored P E e) (\<lambda>found. case found of None \<Rightarrow> lift not_found | Some f \<Rightarrow> ret f)))"

definition required :: "prims \<Rightarrow> rail_env \<Rightarrow> string \<Rightarrow> (rail_world, rail_operation) stm" where
  "required P E operationId =
     bnd (required_stored P E operationId) (\<lambda>found.
     case found of RailStored r \<Rightarrow> ret r | ForeignStored _ _ \<Rightarrow> lift (Inl (ApnError APN_OPERATION_BLOCKED None)))"

definition stored_identity :: "stored_operation \<Rightarrow> string \<times> prepare_identity" where
  "stored_identity found = (case found of
      RailStored r \<Rightarrow> (''rail_transfer'', \<lparr>pi_profileHash = ro_profileHash r, pi_operationId = ro_operationId r,
        pi_idempotencyHash = ro_idempotencyHash r, pi_requestHash = ro_requestHash r\<rparr>)
    | ForeignStored kind i \<Rightarrow> (kind, i))"

definition idempotency_conflict :: "'a result" where
  "idempotency_conflict = Inl (ApnError APN_IDEMPOTENCY_CONFLICT None)"

definition findIdempotency :: "prims \<Rightarrow> rail_env \<Rightarrow> string \<Rightarrow> (rail_world, stored_operation option) stm" where
  "findIdempotency P E idempotencyHash =
     bnd (call (\<lambda>n. re_findByIdempotency E n idempotencyHash)) (\<lambda>entry.
     case entry of None \<Rightarrow> ret None
     | Some e \<Rightarrow> if ie_family e \<notin> set FACADE_KINDS then lift idempotency_conflict else stored P E e)"

definition resolvePrepare :: "prims \<Rightarrow> rail_env \<Rightarrow> prepare_identity \<Rightarrow> (rail_world, stored_operation option) stm" where
  "resolvePrepare P E input =
     bnd (findIdempotency P E (pi_idempotencyHash input)) (\<lambda>existing.
     case existing of None \<Rightarrow> ret None
     | Some found \<Rightarrow>
         (case stored_identity found of (kind, i) \<Rightarrow>
           if kind \<noteq> ''rail_transfer'' \<or> pi_profileHash i \<noteq> pi_profileHash input \<or> pi_operationId i \<noteq> pi_operationId input \<or>
              pi_requestHash i \<noteq> pi_requestHash input
           then lift idempotency_conflict else ret (Some found)))"

section \<open>Admission\<close>

definition conflict_domain_key :: "direct_rail \<Rightarrow> string \<Rightarrow> string result" where
  "conflict_domain_key rail acct =
     (if 32 \<le> length acct \<and> length acct \<le> 64 \<and> list_all alnum acct
      then Inr (direct_rail_text rail @ '':'' @ rail_genesis rail @ '':'' @ acct) else Inl (OtherError ''Error''))"

text \<open>An account that cannot be read claims the whole profile.\<close>

definition domainClaims :: "string \<Rightarrow> direct_rail \<Rightarrow> string \<Rightarrow> string list" where
  "domainClaims profile_hash rail acct =
     (case conflict_domain_key rail acct of Inl _ \<Rightarrow> [''profile:'' @ profile_hash] | Inr key \<Rightarrow> [key])"

definition admit_operation :: "rail_env \<Rightarrow> prepare_identity \<Rightarrow> string list \<Rightarrow> (rail_world, 'a) stm \<Rightarrow> (rail_world, 'a) stm" where
  "admit_operation E identity claims work =
     bnd (call (\<lambda>n. re_admit E n identity claims)) (\<lambda>_.
     bnd (try_catch work (\<lambda>e. bnd (call (\<lambda>n. re_settled E n (pi_operationId identity))) (\<lambda>_. lift (Inl e)))) (\<lambda>value.
     bnd (call (\<lambda>n. re_settled E n (pi_operationId identity))) (\<lambda>_. ret value)))"

end
