(* ===== verification/RailLifecycle.thy ===== *)
theory RailLifecycle
  imports RailStore
begin

text \<open>
  The lifecycle of one direct rail transfer, \<^verbatim>\<open>src/src/rail-operation-lifecycle.ts\<close>: journal moves and
  the usage hold that follows them, the checks before a signature, the single provider submission,
  and the observation that concludes it.
\<close>

definition binding :: "rail_operation \<Rightarrow> effect_binding" where
  "binding operation = \<lparr>eb_account = ro_account operation, eb_operationId = ro_operationId operation,
     eb_fingerprint = ro_fingerprint operation, eb_prepared = ro_prepared operation, eb_send = ro_send operation\<rparr>"

section \<open>Moves\<close>

definition followUsage :: "prims \<Rightarrow> rail_env \<Rightarrow> rail_operation \<Rightarrow> (rail_world, rail_operation) stm" where
  "followUsage P E operation =
     (case ro_allowlist operation of None \<Rightarrow> ret operation
      | Some _ \<Rightarrow> bnd (gate_follow P (re_gate E) (operation_subject operation) (railUsageTarget (ro_state operation))
          (rt_transitionHash (last (ro_transitions operation)))) (\<lambda>_. ret operation))"

text \<open>What a move may bind besides its state and reasons.\<close>

record move_extra =
  me_transactionId :: "string option"
  me_rawPayloadHash :: "string option"
  me_send :: "send_binding option"
  me_lease :: "direct_lease option"

definition plain_move :: move_extra where
  "plain_move = \<lparr>me_transactionId = None, me_rawPayloadHash = None, me_send = None, me_lease = None\<rparr>"

definition effect_move :: "signed_effect \<Rightarrow> move_extra" where
  "effect_move effect = plain_move\<lparr>me_transactionId := Some (se_transactionId effect), me_rawPayloadHash := Some (se_rawPayloadHash effect)\<rparr>"

definition move :: "prims \<Rightarrow> rail_env \<Rightarrow> rail_operation \<Rightarrow> rail_state \<Rightarrow> string \<Rightarrow> string \<Rightarrow> move_extra \<Rightarrow>
    (rail_world, rail_operation) stm" where
  "move P E operation state reason proofClass extra =
     bnd (isoNow E) (\<lambda>at.
     bnd (lift (transitionRail P operation \<lparr>mv_state = state, mv_at = at, mv_reason = reason, mv_proofClass = proofClass,
       mv_transactionId = me_transactionId extra, mv_rawPayloadHash = me_rawPayloadHash extra, mv_evidence = None,
       mv_send = me_send extra, mv_allowlistLease = me_lease extra\<rparr>)) (\<lambda>later.
     bnd (persist P later) (\<lambda>_. followUsage P E later)))"

definition fail_before_effect :: "prims \<Rightarrow> rail_env \<Rightarrow> rail_operation \<Rightarrow> string \<Rightarrow> (rail_world, rail_operation) stm" where
  "fail_before_effect P E operation reason = move P E operation RailFailedBeforeEffect reason ''durable_pre_effect'' plain_move"

section \<open>Checks before a signature\<close>

definition assertCurrentRailPolicy :: "prims \<Rightarrow> rail_env \<Rightarrow> rail_operation \<Rightarrow> (rail_world, chain_account) stm" where
  "assertCurrentRailPolicy P E operation =
     bnd (ask (ge_clock (re_gate E))) (\<lambda>now.
     if reached now 0 (dateParse (pt_expiresAt (ro_prepared operation))) then lift (Inl (ApnError APN_REPREPARE_REQUIRED None))
     else bnd (account_of P E (ro_profile operation) (ac_rail (ro_account operation))) (\<lambda>current.
     if canonicalJson (chain_account_json current) \<noteq> canonicalJson (chain_account_json (ro_account operation)) then lift drift
     else bnd (authorized_policy P current (as_alias (pt_asset (ro_prepared operation))) (pt_maximumFeeAtomic (ro_prepared operation)))
       (\<lambda>policy.
     if cp_policyHash policy \<noteq> ro_policyHash operation then lift drift
     else bnd (case ro_allowlist operation of None \<Rightarrow> ret ()
         | Some b \<Rightarrow> bnd (confirm P (re_gate E) (operation_subject operation) b) (\<lambda>_. ret ())) (\<lambda>_.
       ret current))))"

definition revalidate :: "prims \<Rightarrow> rail_env \<Rightarrow> rail_operation \<Rightarrow> rail_port \<Rightarrow> (rail_world, unit) stm" where
  "revalidate P E operation port =
     bnd (assertCurrentRailPolicy P E operation) (\<lambda>current.
       call (\<lambda>n. rp_revalidate port n current (ro_prepared operation) (ro_send operation)))"

definition reserveUsage :: "prims \<Rightarrow> rail_env \<Rightarrow> rail_operation \<Rightarrow> (rail_world, direct_lease) stm" where
  "reserveUsage P E operation =
     bnd (try_catch
       (bnd (required_policy P (ro_account operation) (as_alias (pt_asset (ro_prepared operation)))) (\<lambda>policy.
        if cp_policyHash policy \<noteq> ro_policyHash operation then lift drift
        else assertPrincipal P E policy (ro_operationId operation) (pt_amountAtomic (ro_prepared operation))))
       (\<lambda>e. bnd (fail_before_effect P E operation ''chain_policy_refused_at_approval'') (\<lambda>_. lift (Inl e)))) (\<lambda>_.
     try_catch
       (case ro_allowlist operation of None \<Rightarrow> lift (refuse ''allowlist_binding_missing'')
        | Some b \<Rightarrow> gate_reserve P (re_gate E) (operation_subject operation) b)
       (\<lambda>e. bnd (fail_before_effect P E operation ''allowlist_refused_at_approval'') (\<lambda>_. lift (Inl e))))"

definition RAIL_PRESEND_ATTEMPTS :: nat where
  "RAIL_PRESEND_ATTEMPTS = 4"

definition RAIL_PRESEND_RETRY_MS :: int where
  "RAIL_PRESEND_RETRY_MS = 5000"

definition RAIL_PRESEND_MIN_REMAINING_MS :: int where
  "RAIL_PRESEND_MIN_REMAINING_MS = 15000"

text \<open>The send guard with the number of retries left; a wait that is interrupted ends the retries.\<close>

fun bind_attempts :: "rail_env \<Rightarrow> rail_operation \<Rightarrow> (nat \<Rightarrow> chain_account \<Rightarrow> prepared_transfer \<Rightarrow> send_binding result) \<Rightarrow> nat \<Rightarrow>
    (rail_world, send_binding) stm" where
  "bind_attempts E operation bind 0 = call (\<lambda>n. bind n (ro_account operation) (ro_prepared operation))"
| "bind_attempts E operation bind (Suc retries) =
     try_catch (call (\<lambda>n. bind n (ro_account operation) (ro_prepared operation))) (\<lambda>e.
       if \<not> railSendTransient e then lift (Inl e)
       else bnd (ask (ge_clock (re_gate E))) (\<lambda>now.
         if reached now RAIL_PRESEND_RETRY_MS (dateParse (pt_expiresAt (ro_prepared operation)) - RAIL_PRESEND_MIN_REMAINING_MS)
         then lift (Inl e)
         else bnd (ask (\<lambda>n. re_wait E n RAIL_PRESEND_RETRY_MS)) (\<lambda>interrupted.
           if interrupted then lift (Inl e) else bind_attempts E operation bind retries)))"

definition patientBind :: "rail_env \<Rightarrow> rail_operation \<Rightarrow> (nat \<Rightarrow> chain_account \<Rightarrow> prepared_transfer \<Rightarrow> send_binding result) \<Rightarrow>
    (rail_world, send_binding) stm" where
  "patientBind E operation bind = bind_attempts E operation bind (RAIL_PRESEND_ATTEMPTS - 1)"

definition assertEffect :: "prims \<Rightarrow> rail_operation \<Rightarrow> signed_effect \<Rightarrow> unit result" where
  "assertEffect P operation effect =
     rbind (validateRailTransactionId (se_transactionId effect) (ac_rail (ro_account operation))) (\<lambda>_.
     check (\<not> (se_operationId effect \<noteq> ro_operationId operation \<or> se_fingerprint effect \<noteq> ro_fingerprint operation \<or>
       sha256 (sha P) (se_rawPayload effect) \<noteq> se_rawPayloadHash effect \<or>
       (ro_transactionId operation \<noteq> None \<and> Some (se_transactionId effect) \<noteq> ro_transactionId operation) \<or>
       (ro_rawPayloadHash operation \<noteq> None \<and> Some (se_rawPayloadHash effect) \<noteq> ro_rawPayloadHash operation))))"

section \<open>Observation\<close>

definition inspectEvidence :: "rail_operation \<Rightarrow> rail_port \<Rightarrow> (rail_world, rail_inspection option) stm" where
  "inspectEvidence operation port =
     (case ro_transactionId operation of None \<Rightarrow> ret None
      | Some transactionId \<Rightarrow>
          try_catch
            (bnd (call (rp_assertNetwork port)) (\<lambda>network.
             if network \<noteq> pt_networkIdentity (ro_prepared operation) then ret None
             else bnd (call (\<lambda>n. rp_inspect port n (ro_account operation) (ro_prepared operation) transactionId
               (ro_rawPayloadHash operation) (ro_send operation))) (\<lambda>r. ret (Some r))))
            (\<lambda>_. ret None))"

definition conclude :: "prims \<Rightarrow> rail_env \<Rightarrow> rail_operation \<Rightarrow> bool \<Rightarrow> string \<Rightarrow> final_evidence \<Rightarrow> (rail_world, rail_operation) stm" where
  "conclude P E operation completed proofClass proof_evidence =
     bnd (isoNow E) (\<lambda>at.
     bnd (lift (transitionRail P operation
       \<lparr>mv_state = (if completed then Completed else RailFailedConfirmedRevert), mv_at = at,
        mv_reason = (if completed then ''exact_finalized_transfer_verified'' else ''exact_finalized_revert_verified''),
        mv_proofClass = proofClass, mv_transactionId = None, mv_rawPayloadHash = None, mv_evidence = Some proof_evidence,
        mv_send = None, mv_allowlistLease = None\<rparr>)) (\<lambda>later.
     bnd (persist P later) (\<lambda>_. followUsage P E later)))"

definition final_proof_class :: "direct_rail \<Rightarrow> string" where
  "final_proof_class rail =
     (if rail = SolanaRail then ''solana_finalized_transaction_effect'' else ''tron_solidified_transaction_effect'')"

definition inspect :: "prims \<Rightarrow> rail_env \<Rightarrow> rail_operation \<Rightarrow> rail_port \<Rightarrow> (rail_world, rail_operation) stm" where
  "inspect P E operation port =
     (if ro_transactionId operation = None then ret operation
      else bnd (inspectEvidence operation port) (\<lambda>result.
        case result of
          Some (Concluded completed _ _ proof_evidence) \<Rightarrow>
            conclude P E operation completed (final_proof_class (ac_rail (ro_account operation))) proof_evidence
        | _ \<Rightarrow> ret operation))"

section \<open>The submission\<close>

text \<open>The one call that reaches the network; a dead process makes none.\<close>

definition send :: "rail_port \<Rightarrow> rail_operation \<Rightarrow> signed_effect option \<Rightarrow> (rail_world, string) stm" where
  "send port operation effect = (\<lambda>s.
     if gs_life s = 0 then (Inl crash, s)
     else call (\<lambda>n. rp_submit port n (binding operation) effect)
       (s\<lparr>gs_life := gs_life s - 1, rw_log := rw_log s @ [Sent (op_key_of operation)]\<rparr>))"

definition attempt :: "('s, 'a) stm \<Rightarrow> ('s, 'a option) stm" where
  "attempt m = try_catch (bnd m (\<lambda>x. ret (Some x))) (\<lambda>_. ret None)"

definition submit :: "prims \<Rightarrow> rail_env \<Rightarrow> rail_operation \<Rightarrow> rail_port \<Rightarrow> signed_effect option \<Rightarrow> direct_lease option \<Rightarrow>
    (rail_world, rail_operation) stm" where
  "submit P E operation port effect lease =
     bnd (move P E operation Submitting ''submission_intent_persisted'' ''effect_outcome_unknown'' (plain_move\<lparr>me_lease := lease\<rparr>))
       (\<lambda>submitting.
     bnd (attempt (bnd (send port submitting effect) (\<lambda>transactionId.
       bnd (lift (validateRailTransactionId transactionId (ac_rail (ro_account submitting)))) (\<lambda>_.
       if ro_transactionId submitting \<noteq> None \<and> Some transactionId \<noteq> ro_transactionId submitting
       then lift (Inl (OtherError ''Error'')) else ret transactionId)))) (\<lambda>outcome.
     case outcome of
       None \<Rightarrow> move P E submitting RailUnknownFinality ''submission_outcome_unknown'' ''effect_outcome_unknown'' plain_move
     | Some transactionId \<Rightarrow>
         bnd (move P E submitting SubmittedPending ''submission_identifier_bound'' ''submission_acknowledged''
           (plain_move\<lparr>me_transactionId := Some transactionId\<rparr>)) (\<lambda>pending. inspect P E pending port)))"

definition railEffectProvenUnsendable :: "js_error \<Rightarrow> bool" where
  "railEffectProvenUnsendable e = (case e of
      ApnError code _ \<Rightarrow> code \<in> {APN_REPREPARE_REQUIRED, APN_FEE_BUDGET_EXCEEDED, APN_INSUFFICIENT_GAS, APN_INSUFFICIENT_ASSET,
        APN_PROFILE_DRIFT, APN_WALLET_MISMATCH, APN_ALLOWLIST_REFUSED, APN_OPERATION_BLOCKED}
    | OtherError _ \<Rightarrow> False)"

text \<open>The value of a check, or its error as a value.\<close>

definition outcome :: "('s, 'a) stm \<Rightarrow> ('s, 'a result) stm" where
  "outcome m = try_catch (bnd m (\<lambda>x. ret (Inr x))) (\<lambda>e. ret (Inl e))"

definition firstLocalSubmit :: "prims \<Rightarrow> rail_env \<Rightarrow> rail_operation \<Rightarrow> rail_port \<Rightarrow> signed_effect \<Rightarrow> bool \<Rightarrow>
    (rail_world, rail_operation) stm" where
  "firstLocalSubmit P E operation port effect sealedNow =
     bnd (outcome (if sealedNow then bnd (assertCurrentRailPolicy P E operation) (\<lambda>_. ret ()) else revalidate P E operation port))
       (\<lambda>checked.
     case checked of
       Inl e \<Rightarrow> if \<not> railEffectProvenUnsendable e then lift (Inl e)
         else fail_before_effect P E operation ''never_submitted_frozen_effect_no_longer_valid''
     | Inr _ \<Rightarrow> submit P E operation port (Some effect) None)"

definition finishLocalApproval :: "prims \<Rightarrow> rail_env \<Rightarrow> rail_operation \<Rightarrow> rail_port \<Rightarrow> (rail_world, rail_operation) stm" where
  "finishLocalApproval P E operation port =
     bnd (try_catch (call (\<lambda>n. rp_sign port n (binding operation))) (\<lambda>e.
       bnd (call (\<lambda>n. rp_recoverEffect port n (binding operation))) (\<lambda>recovered.
       bnd (if recovered = None then bnd (fail_before_effect P E operation ''custody_proved_no_sealed_effect'') (\<lambda>_. ret ()) else ret ())
         (\<lambda>_. lift (Inl e))))) (\<lambda>effect.
     bnd (lift (assertEffect P operation effect)) (\<lambda>_.
     bnd (move P E operation SignedNotSubmitted ''encrypted_effect_bound'' ''durable_signed_effect'' (effect_move effect)) (\<lambda>signed.
       firstLocalSubmit P E signed port effect True)))"


section \<open>Local Solana transfers\<close>

definition operation_locks :: "string \<Rightarrow> string \<Rightarrow> string list" where
  "operation_locks profile_hash operationId = [''profile:'' @ profile_hash, ''operation:'' @ operationId]"

definition locks_of :: "rail_operation \<Rightarrow> string list" where
  "locks_of operation = operation_locks (ro_profileHash operation) (ro_operationId operation)"

text \<open>What a locked step hands to the next: a final answer, a signature to send, or an operation still to be signed.\<close>

datatype solana_step = StepDone rail_operation | StepSigned rail_operation signed_effect | StepPending rail_operation

definition recover_signing :: "prims \<Rightarrow> rail_env \<Rightarrow> rail_operation \<Rightarrow> rail_port \<Rightarrow> bool \<Rightarrow> (rail_world, solana_step) stm" where
  "recover_signing P E initial port mayStartSigning =
     withLocks E (locks_of initial)
       (bnd (required P E (ro_operationId initial)) (\<lambda>latest.
        if ro_integrityHash latest \<noteq> ro_integrityHash initial then ret (StepDone latest)
        else bnd (call (\<lambda>n. rp_recoverEffect port n (binding latest))) (\<lambda>sealed.
          case sealed of
            None \<Rightarrow> if mayStartSigning then ret (StepPending latest)
              else bnd (fail_before_effect P E latest ''custody_proved_no_sealed_effect'') (\<lambda>failed. ret (StepDone failed))
          | Some effect \<Rightarrow>
              bnd (lift (assertEffect P latest effect)) (\<lambda>_.
              bnd (move P E latest SignedNotSubmitted ''encrypted_effect_recovered'' ''durable_signed_effect'' (effect_move effect))
                (\<lambda>signed. ret (StepSigned signed effect))))))"

text \<open>When no effect is sealed the operation ends before it.\<close>

definition end_unsealed :: "prims \<Rightarrow> rail_env \<Rightarrow> rail_operation \<Rightarrow> rail_port \<Rightarrow> (rail_world, unit) stm" where
  "end_unsealed P E latest port =
     bnd (call (\<lambda>n. rp_recoverEffect port n (binding latest))) (\<lambda>recovered.
     if recovered = None then bnd (fail_before_effect P E latest ''custody_proved_no_sealed_effect'') (\<lambda>_. ret ()) else ret ())"

definition seal_pending :: "prims \<Rightarrow> rail_env \<Rightarrow> rail_operation \<Rightarrow> rail_operation \<Rightarrow> rail_port \<Rightarrow> (rail_world, solana_step) stm" where
  "seal_pending P E initial pending port =
     withLocks E (locks_of initial)
       (bnd (required P E (ro_operationId initial)) (\<lambda>latest.
        if ro_integrityHash latest \<noteq> ro_integrityHash pending then ret (StepDone latest)
        else bnd (try_catch (assertCurrentRailPolicy P E latest) (\<lambda>e.
            bnd (fail_before_effect P E latest ''pre_sign_owner_or_policy_changed'') (\<lambda>_. lift (Inl e)))) (\<lambda>_.
          case rp_sealRevalidated port of None \<Rightarrow> lift corrupt
          | Some seal_effect \<Rightarrow>
              bnd (try_catch (call (\<lambda>n. seal_effect n (binding latest))) (\<lambda>e.
                bnd (end_unsealed P E latest port) (\<lambda>_. lift (Inl e)))) (\<lambda>effect.
              bnd (lift (assertEffect P latest effect)) (\<lambda>_.
              bnd (move P E latest SignedNotSubmitted ''encrypted_effect_bound'' ''durable_signed_effect'' (effect_move effect))
                (\<lambda>signed. ret (StepSigned signed effect)))))))"

definition seal_revalidated :: "prims \<Rightarrow> rail_env \<Rightarrow> rail_operation \<Rightarrow> rail_operation \<Rightarrow> rail_port \<Rightarrow> (rail_world, solana_step) stm" where
  "seal_revalidated P E initial pending port =
     bnd (try_catch (revalidate P E pending port) (\<lambda>e.
       bnd (withLocks E (locks_of initial)
         (bnd (required P E (ro_operationId initial)) (\<lambda>latest.
          if ro_integrityHash latest = ro_integrityHash pending then end_unsealed P E latest port else ret ()))) (\<lambda>_.
       lift (Inl e)))) (\<lambda>_.
     seal_pending P E initial pending port)"

definition recover_signed :: "prims \<Rightarrow> rail_env \<Rightarrow> rail_operation \<Rightarrow> rail_port \<Rightarrow> (rail_world, solana_step) stm" where
  "recover_signed P E initial port =
     withLocks E (locks_of initial)
       (bnd (required P E (ro_operationId initial)) (\<lambda>latest.
        if ro_integrityHash latest \<noteq> ro_integrityHash initial then ret (StepDone latest)
        else bnd (call (\<lambda>n. rp_recoverEffect port n (binding latest))) (\<lambda>sealed.
          case sealed of None \<Rightarrow> lift corrupt
          | Some effect \<Rightarrow> bnd (lift (assertEffect P latest effect)) (\<lambda>_. ret (StepSigned latest effect)))))"

text \<open>The signature to send and whether the chain was revalidated just before it was sealed.\<close>

definition solana_signature :: "prims \<Rightarrow> rail_env \<Rightarrow> rail_operation \<Rightarrow> rail_port \<Rightarrow> bool \<Rightarrow> (rail_world, solana_step \<times> bool) stm" where
  "solana_signature P E initial port mayStartSigning =
     (if ro_state initial = SigningStarted then
        bnd (recover_signing P E initial port mayStartSigning) (\<lambda>step.
        case step of StepPending pending \<Rightarrow> bnd (seal_revalidated P E initial pending port) (\<lambda>sealed. ret (sealed, True))
        | _ \<Rightarrow> ret (step, False))
      else if ro_state initial = SignedNotSubmitted then bnd (recover_signed P E initial port) (\<lambda>step. ret (step, False))
      else ret (StepDone initial, False))"

definition still_sendable :: "prims \<Rightarrow> rail_env \<Rightarrow> rail_operation \<Rightarrow> rail_operation \<Rightarrow> rail_port \<Rightarrow> bool \<Rightarrow>
    (rail_world, rail_operation option) stm" where
  "still_sendable P E initial signed port revalidatedBeforeSeal =
     (if revalidatedBeforeSeal then ret None
      else bnd (outcome (revalidate P E signed port)) (\<lambda>checked.
        case checked of Inr _ \<Rightarrow> ret None
        | Inl e \<Rightarrow>
            if \<not> railEffectProvenUnsendable e then lift (Inl e)
            else withLocks E (locks_of initial)
              (bnd (required P E (ro_operationId initial)) (\<lambda>latest.
               if ro_integrityHash latest = ro_integrityHash signed
               then bnd (fail_before_effect P E latest ''never_submitted_frozen_effect_no_longer_valid'') (\<lambda>failed. ret (Some failed))
               else ret (Some latest)))))"

definition commit_submission :: "prims \<Rightarrow> rail_env \<Rightarrow> rail_operation \<Rightarrow> rail_operation \<Rightarrow> (rail_world, rail_operation \<times> bool) stm" where
  "commit_submission P E initial signed =
     withLocks E (locks_of initial)
       (bnd (required P E (ro_operationId initial)) (\<lambda>latest.
        if ro_integrityHash latest \<noteq> ro_integrityHash signed then ret (latest, False)
        else bnd (outcome (assertCurrentRailPolicy P E latest)) (\<lambda>checked.
          case checked of
            Inl _ \<Rightarrow> bnd (fail_before_effect P E latest ''never_submitted_frozen_effect_no_longer_valid'') (\<lambda>failed. ret (failed, False))
          | Inr _ \<Rightarrow> bnd (move P E latest Submitting ''submission_intent_persisted'' ''effect_outcome_unknown'' plain_move)
              (\<lambda>submitting. ret (submitting, True)))))"

definition acknowledge :: "prims \<Rightarrow> rail_env \<Rightarrow> rail_operation \<Rightarrow> rail_operation \<Rightarrow> string option \<Rightarrow> (rail_world, rail_operation) stm" where
  "acknowledge P E initial submitting transactionId =
     withLocks E (locks_of initial)
       (bnd (required P E (ro_operationId initial)) (\<lambda>latest.
        if ro_integrityHash latest \<noteq> ro_integrityHash submitting then ret latest
        else case transactionId of
          None \<Rightarrow> move P E latest RailUnknownFinality ''submission_outcome_unknown'' ''effect_outcome_unknown'' plain_move
        | Some t \<Rightarrow> move P E latest SubmittedPending ''submission_identifier_bound'' ''submission_acknowledged''
            (plain_move\<lparr>me_transactionId := Some t\<rparr>)))"

definition send_signed :: "prims \<Rightarrow> rail_env \<Rightarrow> (string \<Rightarrow> string \<Rightarrow> (rail_world, rail_operation) stm) \<Rightarrow> rail_operation \<Rightarrow>
    rail_operation \<Rightarrow> rail_port \<Rightarrow> signed_effect \<Rightarrow> (rail_world, rail_operation) stm" where
  "send_signed P E observe initial signed port effect =
     bnd (commit_submission P E initial signed) (\<lambda>(operation, committed).
     if \<not> committed then ret operation
     else bnd (attempt (bnd (send port operation (Some effect)) (\<lambda>transactionId.
         bnd (lift (validateRailTransactionId transactionId (ac_rail (ro_account operation)))) (\<lambda>_.
         if transactionId \<noteq> se_transactionId effect then lift (Inl (OtherError ''Error'')) else ret transactionId)))) (\<lambda>answer.
       bnd (acknowledge P E initial operation answer) (\<lambda>acknowledged.
       if ro_state acknowledged \<noteq> SubmittedPending then ret acknowledged
       else observe (ro_operationId acknowledged) (ro_profileHash acknowledged))))"

text \<open>\<open>observe\<close> is the resumption that follows an acknowledged submission.\<close>

definition executeLocalSolanaClaimed :: "prims \<Rightarrow> rail_env \<Rightarrow> (string \<Rightarrow> string \<Rightarrow> (rail_world, rail_operation) stm) \<Rightarrow> rail_operation \<Rightarrow>
    rail_port \<Rightarrow> bool \<Rightarrow> (rail_world, rail_operation) stm" where
  "executeLocalSolanaClaimed P E observe initial port mayStartSigning =
     bnd (solana_signature P E initial port mayStartSigning) (\<lambda>(step, revalidatedBeforeSeal).
     case step of
       StepDone operation \<Rightarrow> ret operation
     | StepPending operation \<Rightarrow> ret operation
     | StepSigned signed effect \<Rightarrow>
         bnd (still_sendable P E initial signed port revalidatedBeforeSeal) (\<lambda>ended.
         case ended of Some operation \<Rightarrow> ret operation
         | None \<Rightarrow> send_signed P E observe initial signed port effect))"

datatype resume_mode = ModeDone | ModeClaim | ModeExecute | ModeObserve

definition resume_snapshot :: "prims \<Rightarrow> rail_env \<Rightarrow> string \<Rightarrow> string \<Rightarrow> bool \<Rightarrow> (rail_world, rail_operation \<times> resume_mode) stm" where
  "resume_snapshot P E operationId profile_hash hasClaim =
     withLocks E (operation_locks profile_hash operationId)
       (bnd (required P E operationId) (\<lambda>operation.
        bnd (followUsage P E operation) (\<lambda>_.
        if ro_terminal operation \<or> ro_state operation = AwaitingApproval then ret (operation, ModeDone)
        else if \<not> hasClaim \<and> ro_state operation \<in> {SigningStarted, SignedNotSubmitted, Submitting} then ret (operation, ModeClaim)
        else if ro_state operation \<in> {SigningStarted, SignedNotSubmitted} then ret (operation, ModeExecute)
        else if ro_state operation = Submitting
        then bnd (move P E operation RailUnknownFinality ''interrupted_submission_observation_only'' ''effect_outcome_unknown'' plain_move)
          (\<lambda>observed. ret (observed, ModeObserve))
        else ret (operation, ModeObserve))))"

text \<open>The owner, the policies and the list once more, as the answer yes or no.\<close>

definition still_authorized :: "prims \<Rightarrow> rail_env \<Rightarrow> rail_operation \<Rightarrow> (rail_world, bool) stm" where
  "still_authorized P E latest =
     try_catch
       (bnd (account_of P E (ro_profile latest) (ac_rail (ro_account latest))) (\<lambda>acct.
        if canonicalJson (chain_account_json acct) \<noteq> canonicalJson (chain_account_json (ro_account latest)) then ret False
        else bnd (authorized_policy P acct (as_alias (pt_asset (ro_prepared latest))) (pt_maximumFeeAtomic (ro_prepared latest)))
          (\<lambda>policy.
        if cp_policyHash policy \<noteq> ro_policyHash latest then ret False
        else case ro_allowlist latest of None \<Rightarrow> ret True
          | Some b \<Rightarrow> bnd (confirm P (re_gate E) (operation_subject latest) b) (\<lambda>_. ret True))))
       (\<lambda>_. ret False)"

definition observed_unchanged :: "rail_operation \<Rightarrow> rail_operation \<Rightarrow> string \<Rightarrow> bool" where
  "observed_unchanged frozen latest profile_hash \<longleftrightarrow>
     \<not> (ro_integrityHash latest \<noteq> ro_integrityHash frozen \<or> ro_profileHash latest \<noteq> profile_hash \<or>
       ro_fingerprint latest \<noteq> ro_fingerprint frozen \<or> ro_transactionId latest \<noteq> ro_transactionId frozen \<or>
       ro_rawPayloadHash latest \<noteq> ro_rawPayloadHash frozen \<or>
       canonicalJson (case ro_send latest of None \<Rightarrow> JNull | Some s \<Rightarrow> send_json s) \<noteq>
       canonicalJson (case ro_send frozen of None \<Rightarrow> JNull | Some s \<Rightarrow> send_json s))"

definition conclude_observed :: "prims \<Rightarrow> rail_env \<Rightarrow> string \<Rightarrow> string \<Rightarrow> rail_operation \<Rightarrow> rail_inspection option \<Rightarrow>
    (rail_world, rail_operation) stm" where
  "conclude_observed P E operationId profile_hash frozen inspection =
     withLocks E (operation_locks profile_hash operationId)
       (bnd (required P E operationId) (\<lambda>latest.
        bnd (followUsage P E latest) (\<lambda>_.
        if \<not> observed_unchanged frozen latest profile_hash then ret latest
        else case inspection of
          Some (Concluded completed _ _ proof_evidence) \<Rightarrow>
            bnd (still_authorized P E latest) (\<lambda>allowed.
            if \<not> allowed then ret latest
            else conclude P E latest completed ''solana_finalized_transaction_effect'' proof_evidence)
        | _ \<Rightarrow> ret latest)))"

text \<open>
  The resumption calls itself once to take the approval claim and once after a submission; the
  number bounds that depth, and the result is the error \<open>fuel\<close> where it would be passed.
\<close>

definition out_of_fuel :: js_error where
  "out_of_fuel = OtherError ''fuel''"

fun resumeLocalSolanaPhase :: "prims \<Rightarrow> rail_env \<Rightarrow> nat \<Rightarrow> string \<Rightarrow> string \<Rightarrow> bool \<Rightarrow> (rail_world, rail_operation) stm" where
  "resumeLocalSolanaPhase P E 0 operationId profile_hash hasClaim = lift (Inl out_of_fuel)"
| "resumeLocalSolanaPhase P E (Suc depth) operationId profile_hash hasClaim =
     bnd (resume_snapshot P E operationId profile_hash hasClaim) (\<lambda>(operation, mode).
     case mode of
       ModeDone \<Rightarrow> ret operation
     | ModeClaim \<Rightarrow> withLocks E [''rail:approval-claim:'' @ operationId] (resumeLocalSolanaPhase P E depth operationId profile_hash True)
     | ModeExecute \<Rightarrow>
         bnd (lift (rail_port_of E (ac_rail (ro_account operation)) (ac_provider (ro_account operation)))) (\<lambda>port.
         executeLocalSolanaClaimed P E (\<lambda>oid ph. resumeLocalSolanaPhase P E depth oid ph True) operation port False)
     | ModeObserve \<Rightarrow>
         bnd (lift (rail_port_of E (ac_rail (ro_account operation)) (ac_provider (ro_account operation)))) (\<lambda>port.
         bnd (inspectEvidence operation port) (\<lambda>inspection.
         conclude_observed P E operationId profile_hash operation inspection)))"

end
