(* ===== verification/RailService.thy ===== *)
theory RailService
  imports RailLifecycle
begin

text \<open>
  The commands of the direct rails, \<^verbatim>\<open>src/src/rail-operation-service.ts\<close>: preparing a transfer,
  approving it, resuming it and reading its receipt.
\<close>

section \<open>Approval\<close>

definition locked :: "prims \<Rightarrow> rail_env \<Rightarrow> string \<Rightarrow> (rail_operation \<Rightarrow> (rail_world, rail_operation) stm) \<Rightarrow> (rail_world, rail_operation) stm" where
  "locked P E operationIdInput action =
     bnd (lift (canonicalOperationId operationIdInput)) (\<lambda>operationId.
     bnd (required P E operationId) (\<lambda>found.
     withLocks E (operation_locks (ro_profileHash found) operationId)
       (bnd (required P E operationId) (\<lambda>operation.
        bnd (followUsage P E operation) (\<lambda>_. action operation)))))"

definition port_of :: "rail_env \<Rightarrow> rail_operation \<Rightarrow> (rail_world, rail_port) stm" where
  "port_of E operation = lift (rail_port_of E (ac_rail (ro_account operation)) (ac_provider (ro_account operation)))"

definition approval_request_of :: "rail_operation \<Rightarrow> direct_binding \<Rightarrow> approval_request" where
  "approval_request_of operation b = \<lparr>aq_account = ro_account operation, aq_operationId = ro_operationId operation,
     aq_fingerprint = ro_fingerprint operation, aq_policyHash = ro_policyHash operation, aq_prepared = ro_prepared operation,
     aq_allowlist = b\<rparr>"

definition foreground_checks :: "prims \<Rightarrow> rail_env \<Rightarrow> rail_operation \<Rightarrow> rail_port \<Rightarrow> (nat \<Rightarrow> approval_request \<Rightarrow> unit result) \<Rightarrow>
    (rail_world, unit) stm" where
  "foreground_checks P E operation port approve_port =
     (case ro_allowlist operation of None \<Rightarrow> lift (refuse ''allowlist_binding_missing'')
      | Some b \<Rightarrow>
          bnd (revalidate P E operation port) (\<lambda>_.
          bnd (call (\<lambda>n. approve_port n (approval_request_of operation b))) (\<lambda>_.
            revalidate P E operation port)))"

definition bind_window :: "rail_env \<Rightarrow> rail_operation \<Rightarrow> rail_port \<Rightarrow> (rail_world, send_binding option) stm" where
  "bind_window E operation port =
     (case rp_bindSend port of None \<Rightarrow> ret None
      | Some bind \<Rightarrow> bnd (patientBind E operation bind) (\<lambda>s. ret (Some s)))"

definition start_signing :: "prims \<Rightarrow> rail_env \<Rightarrow> rail_operation \<Rightarrow> send_binding option \<Rightarrow> (rail_world, rail_operation) stm" where
  "start_signing P E operation window =
     bnd (reserveUsage P E operation) (\<lambda>lease.
     move P E operation SigningStarted ''foreground_signing_started'' ''durable_pre_effect''
       (plain_move\<lparr>me_send := window, me_lease := Some lease\<rparr>))"

definition approve_held :: "prims \<Rightarrow> rail_env \<Rightarrow> rail_operation \<Rightarrow> (rail_world, rail_operation) stm" where
  "approve_held P E operation =
     (if ro_terminal operation then ret operation
      else if ro_state operation \<noteq> AwaitingApproval then lift (Inl (ApnError APN_OPERATION_BLOCKED None))
      else case re_approval E of None \<Rightarrow> lift (Inl (ApnError APN_FOREGROUND_APPROVAL_REQUIRED None))
      | Some approve_port \<Rightarrow>
          bnd (port_of E operation) (\<lambda>port.
          bnd (try_catch (foreground_checks P E operation port approve_port) (\<lambda>e.
            bnd (fail_before_effect P E operation ''approval_or_pre_effect_validation_refused'') (\<lambda>_. lift (Inl e)))) (\<lambda>_.
          if rp_execution port = ProviderAtomic
          then bnd (reserveUsage P E operation) (\<lambda>lease. submit P E operation port None (Some lease))
          else
            bnd (try_catch (bind_window E operation port) (\<lambda>e.
              bnd (fail_before_effect P E operation (railSendReason e ''pre_send_guard_refused'')) (\<lambda>_. lift (Inl e)))) (\<lambda>window.
            bnd (start_signing P E operation window) (\<lambda>started.
            finishLocalApproval P E started port)))))"

section \<open>Approval of a local Solana transfer\<close>

definition failApprovalClaim :: "prims \<Rightarrow> rail_env \<Rightarrow> rail_operation \<Rightarrow> approval_claim \<Rightarrow> string \<Rightarrow> (rail_world, unit) stm" where
  "failApprovalClaim P E operation claim reason =
     withLocks E (locks_of operation)
       (bnd (required P E (ro_operationId operation)) (\<lambda>latest.
        bnd (load_approval_claim P (ro_operationId operation)) (\<lambda>saved.
        if map_option ac_claim_integrityHash saved \<noteq> Some (ac_claim_integrityHash claim) then ret ()
        else bnd (if ro_integrityHash latest = ro_integrityHash operation \<and> ro_state latest = AwaitingApproval
            then bnd (fail_before_effect P E latest reason) (\<lambda>_. ret ()) else ret ()) (\<lambda>_.
          remove_approval_claim P claim))))"

text \<open>A claim the caller's profile left behind is dropped.\<close>

definition drop_own_claim :: "prims \<Rightarrow> string \<Rightarrow> approval_claim option \<Rightarrow> (rail_world, unit) stm" where
  "drop_own_claim P profile_hash saved =
     (case saved of Some claim \<Rightarrow> if ac_claim_profileHash claim = profile_hash then remove_approval_claim P claim else ret ()
      | None \<Rightarrow> ret ())"

definition approval_claim_for :: "rail_operation \<Rightarrow> string \<Rightarrow> direct_binding \<Rightarrow> approval_claim" where
  "approval_claim_for operation profile_hash b =
     \<lparr>ac_claim_profileHash = profile_hash, ac_claim_operationId = ro_operationId operation,
      ac_claim_operationIntegrityHash = ro_integrityHash operation, ac_claim_fingerprint = ro_fingerprint operation,
      ac_claim_accountIdentityHash = ac_identityHash (ro_account operation), ac_claim_policyHash = ro_policyHash operation,
      ac_claim_allowlist = b, ac_claim_integrityHash = []\<rparr>"

definition claim_matches :: "approval_claim \<Rightarrow> approval_claim \<Rightarrow> bool" where
  "claim_matches saved expected \<longleftrightarrow>
     \<not> (ac_claim_profileHash saved \<noteq> ac_claim_profileHash expected \<or>
       ac_claim_operationIntegrityHash saved \<noteq> ac_claim_operationIntegrityHash expected \<or>
       ac_claim_fingerprint saved \<noteq> ac_claim_fingerprint expected \<or>
       ac_claim_accountIdentityHash saved \<noteq> ac_claim_accountIdentityHash expected \<or>
       ac_claim_policyHash saved \<noteq> ac_claim_policyHash expected \<or>
       canonicalJson (binding_json (ac_claim_allowlist saved)) \<noteq> canonicalJson (binding_json (ac_claim_allowlist expected)))"

text \<open>The claimed operation, or an operation that needs no approval any more.\<close>

definition stage_approval :: "prims \<Rightarrow> rail_env \<Rightarrow> string \<Rightarrow> string \<Rightarrow> (rail_world, rail_operation \<times> approval_claim option) stm" where
  "stage_approval P E operationId profile_hash =
     withLocks E (operation_locks profile_hash operationId)
       (bnd (required P E operationId) (\<lambda>operation.
        bnd (followUsage P E operation) (\<lambda>_.
        bnd (load_approval_claim P operationId) (\<lambda>saved.
        if ro_terminal operation then bnd (drop_own_claim P profile_hash saved) (\<lambda>_. ret (operation, None))
        else if ro_state operation \<noteq> AwaitingApproval
        then bnd (drop_own_claim P profile_hash saved) (\<lambda>_. lift (Inl (ApnError APN_OPERATION_BLOCKED None)))
        else if re_approval E = None then lift (Inl (ApnError APN_FOREGROUND_APPROVAL_REQUIRED None))
        else case ro_allowlist operation of None \<Rightarrow> lift corrupt
        | Some b \<Rightarrow>
            let expected = approval_claim_for operation profile_hash b in
            case saved of
              Some claim \<Rightarrow>
                if \<not> claim_matches claim expected then bnd (drop_own_claim P profile_hash saved) (\<lambda>_. lift drift)
                else ret (operation, Some claim)
            | None \<Rightarrow>
                bnd (lift (sealApprovalClaim P expected)) (\<lambda>claim.
                bnd (create_approval_claim P claim) (\<lambda>_. ret (operation, Some claim)))))))"

text \<open>Under the locks again: nothing may have changed since the owner was asked.\<close>

definition commit_approval :: "prims \<Rightarrow> rail_env \<Rightarrow> rail_operation \<Rightarrow> approval_claim \<Rightarrow> send_binding option \<Rightarrow>
    (rail_world, rail_operation \<times> bool) stm" where
  "commit_approval P E operation claim window =
     withLocks E (locks_of operation)
       (bnd (required P E (ro_operationId operation)) (\<lambda>latest.
        bnd (followUsage P E latest) (\<lambda>_.
        bnd (load_approval_claim P (ro_operationId operation)) (\<lambda>saved.
        let owned = (map_option ac_claim_integrityHash saved = Some (ac_claim_integrityHash claim)) in
        if ro_integrityHash latest \<noteq> ro_integrityHash operation \<or> \<not> owned
        then bnd (if owned then remove_approval_claim P claim else ret ()) (\<lambda>_. ret (latest, False))
        else
          bnd (account_of P E (ro_profile latest) (ac_rail (ro_account latest))) (\<lambda>current.
          if canonicalJson (chain_account_json current) \<noteq> canonicalJson (chain_account_json (ro_account latest)) then lift drift
          else bnd (authorized_policy P current (as_alias (pt_asset (ro_prepared latest))) (pt_maximumFeeAtomic (ro_prepared latest)))
            (\<lambda>policy.
          if cp_policyHash policy \<noteq> ro_policyHash latest then lift drift
          else bnd (confirm P (re_gate E) (operation_subject latest) (ac_claim_allowlist claim)) (\<lambda>_.
          bnd (ask (ge_clock (re_gate E))) (\<lambda>now.
          if reached now 0 (dateParse (pt_expiresAt (ro_prepared latest))) then lift (Inl (ApnError APN_REPREPARE_REQUIRED None))
          else bnd (start_signing P E latest window) (\<lambda>started.
            bnd (remove_approval_claim P claim) (\<lambda>_. ret (started, True)))))))))))"

definition foreground_solana :: "prims \<Rightarrow> rail_env \<Rightarrow> rail_operation \<Rightarrow> rail_port \<Rightarrow> approval_claim \<Rightarrow>
    (nat \<Rightarrow> approval_request \<Rightarrow> unit result) \<Rightarrow> (rail_world, unit) stm" where
  "foreground_solana P E operation port claim approve_port =
     bnd (revalidate P E operation port) (\<lambda>_.
     bnd (call (\<lambda>n. approve_port n (approval_request_of operation (ac_claim_allowlist claim)))) (\<lambda>_.
     bnd (assertCurrentRailPolicy P E operation) (\<lambda>_. ret ())))"

text \<open>The depth of the resumption that follows the submission.\<close>

definition RESUME_DEPTH :: nat where
  "RESUME_DEPTH = 3"

definition approveLocalSolana :: "prims \<Rightarrow> rail_env \<Rightarrow> string \<Rightarrow> string \<Rightarrow> (rail_world, rail_operation) stm" where
  "approveLocalSolana P E operationId profile_hash =
     withLocks E [''rail:approval-claim:'' @ operationId]
       (bnd (stage_approval P E operationId profile_hash) (\<lambda>(operation, claimed).
        case (claimed, re_approval E) of
          (Some claim, Some approve_port) \<Rightarrow>
            bnd (port_of E operation) (\<lambda>port.
            bnd (try_catch (foreground_solana P E operation port claim approve_port) (\<lambda>e.
              bnd (failApprovalClaim P E operation claim ''approval_or_pre_effect_validation_refused'') (\<lambda>_. lift (Inl e)))) (\<lambda>_.
            bnd (try_catch (bind_window E operation port) (\<lambda>e.
              bnd (failApprovalClaim P E operation claim (railSendReason e ''pre_send_guard_refused'')) (\<lambda>_. lift (Inl e)))) (\<lambda>window.
            try_catch
              (bnd (commit_approval P E operation claim window) (\<lambda>(started, committed).
               if \<not> committed then ret started
               else executeLocalSolanaClaimed P E (\<lambda>oid ph. resumeLocalSolanaPhase P E RESUME_DEPTH oid ph True) started port True))
              (\<lambda>e. bnd (withLocks E (operation_locks profile_hash operationId) (remove_approval_claim P claim)) (\<lambda>_. lift (Inl e))))))
        | _ \<Rightarrow> ret operation))"

definition local_solana :: "rail_operation \<Rightarrow> bool" where
  "local_solana operation \<longleftrightarrow> ac_rail (ro_account operation) = SolanaRail \<and> ac_provider (ro_account operation) = LocalProvider"

definition approve_operation :: "prims \<Rightarrow> rail_env \<Rightarrow> string \<Rightarrow> (rail_world, rail_operation) stm" where
  "approve_operation P E operationId =
     bnd (lift (canonicalOperationId operationId)) (\<lambda>oid.
     bnd (required P E oid) (\<lambda>found.
     if local_solana found \<and> ro_allowlist found \<noteq> None
     then approveLocalSolana P E (ro_operationId found) (ro_profileHash found)
     else locked P E operationId (approve_held P E)))"

definition projected :: "prims \<Rightarrow> (rail_world, rail_operation) stm \<Rightarrow> (rail_world, jval) stm" where
  "projected P m = bnd m (\<lambda>operation. lift (publicRailOperation P operation))"

definition approve :: "prims \<Rightarrow> rail_env \<Rightarrow> string \<Rightarrow> (rail_world, jval) stm" where
  "approve P E operationId = projected P (approve_operation P E operationId)"

section \<open>Resumption and receipts\<close>

definition resume_held :: "prims \<Rightarrow> rail_env \<Rightarrow> rail_operation \<Rightarrow> (rail_world, rail_operation) stm" where
  "resume_held P E operation =
     (if ro_terminal operation \<or> ro_state operation = AwaitingApproval then ret operation
      else bnd (port_of E operation) (\<lambda>port.
        if ro_state operation = SigningStarted \<or> ro_state operation = SignedNotSubmitted then
          bnd (call (\<lambda>n. rp_recoverEffect port n (binding operation))) (\<lambda>recovered.
          case recovered of
            None \<Rightarrow> if ro_state operation \<noteq> SigningStarted then lift corrupt
              else fail_before_effect P E operation ''custody_proved_no_sealed_effect''
          | Some effect \<Rightarrow>
              bnd (lift (assertEffect P operation effect)) (\<lambda>_.
              bnd (if ro_state operation = SigningStarted
                then move P E operation SignedNotSubmitted ''encrypted_effect_recovered'' ''durable_signed_effect'' (effect_move effect)
                else ret operation) (\<lambda>signed.
              firstLocalSubmit P E signed port effect False)))
        else
          bnd (if ro_state operation = Submitting
            then move P E operation RailUnknownFinality ''interrupted_submission_observation_only'' ''effect_outcome_unknown'' plain_move
            else ret operation) (\<lambda>observed. inspect P E observed port)))"

definition resume_operation :: "prims \<Rightarrow> rail_env \<Rightarrow> string \<Rightarrow> (rail_world, rail_operation) stm" where
  "resume_operation P E operationId =
     bnd (lift (canonicalOperationId operationId)) (\<lambda>oid.
     bnd (required P E oid) (\<lambda>found.
     if local_solana found
     then resumeLocalSolanaPhase P E RESUME_DEPTH (ro_operationId found) (ro_profileHash found) False
     else locked P E operationId (resume_held P E)))"

definition resume :: "prims \<Rightarrow> rail_env \<Rightarrow> string \<Rightarrow> (rail_world, jval) stm" where
  "resume P E operationId = projected P (resume_operation P E operationId)"

definition receipt :: "prims \<Rightarrow> rail_env \<Rightarrow> string \<Rightarrow> (rail_world, jval) stm" where
  "receipt P E operationId =
     bnd (required P E operationId) (\<lambda>found. loadReceipt P (ro_profileHash found) (ro_operationId found))"


section \<open>Preparation\<close>

record rail_prepare_input =
  in_profile :: string
  in_rail_name :: direct_rail
  in_asset_alias :: asset_alias
  in_recipient :: string
  in_amount :: string
  in_maximumFee :: string
  in_idempotencyKey :: string

text \<open>The checked request: its identity, asset and amounts.\<close>

record prepare_values =
  pv_profile :: string
  pv_asset :: chain_asset
  pv_amountAtomic :: string
  pv_maximumFeeAtomic :: string
  pv_profileHash :: string
  pv_operationId :: string
  pv_idempotencyHash :: string

definition native_decimals :: "direct_rail \<Rightarrow> nat" where
  "native_decimals rail = (if rail = SolanaRail then 9 else 6)"

definition prepare_values_of :: "prims \<Rightarrow> inventory \<Rightarrow> rail_prepare_input \<Rightarrow> prepare_values result" where
  "prepare_values_of P inventory input =
     rbind (canonicalProfile (in_profile input)) (\<lambda>profile.
     rbind (chainAsset (in_rail_name input) (in_asset_alias input)) (\<lambda>asset.
     rbind (requireListedRailAsset P inventory asset) (\<lambda>_.
     rbind (chainDecimal (in_amount input) (as_decimals asset)) (\<lambda>amount.
     rbind (chainDecimal (in_maximumFee input) (native_decimals (in_rail_name input))) (\<lambda>fee.
     rbind (canonicalIdempotencyKey (in_idempotencyKey input)) (\<lambda>key.
       Inr \<lparr>pv_profile = profile, pv_asset = asset, pv_amountAtomic = amount, pv_maximumFeeAtomic = fee,
         pv_profileHash = profileHash P profile, pv_operationId = state_operationId P profile key,
         pv_idempotencyHash = state_idempotencyHash P key\<rparr>))))))"

definition prepare_locks :: "prepare_values \<Rightarrow> string list" where
  "prepare_locks v = [''profile:'' @ pv_profileHash v, ''operation:'' @ pv_operationId v,
     ''operation:idempotency:'' @ pv_idempotencyHash v]"

definition request_hash :: "prims \<Rightarrow> chain_account \<Rightarrow> prepare_values \<Rightarrow> string \<Rightarrow> string result" where
  "request_hash P acct v recipient = hashObject (sha P) (JObj [(''kind'', JStr ''rail_transfer''), (''account'', chain_account_json acct),
     (''asset'', chain_asset_json (pv_asset v)), (''recipient'', JStr recipient), (''amountAtomic'', JStr (pv_amountAtomic v)),
     (''maximumFeeAtomic'', JStr (pv_maximumFeeAtomic v))])"

definition input_hash :: "prims \<Rightarrow> prepare_values \<Rightarrow> string \<Rightarrow> string result" where
  "input_hash P v recipient = hashObject (sha P) (JObj [(''kind'', JStr ''rail_transfer''), (''profile'', JStr (pv_profile v)),
     (''rail'', JStr ''solana''), (''asset'', chain_asset_json (pv_asset v)), (''recipient'', JStr recipient),
     (''amountAtomic'', JStr (pv_amountAtomic v)), (''maximumFeeAtomic'', JStr (pv_maximumFeeAtomic v))])"

definition identity_for :: "prepare_values \<Rightarrow> string \<Rightarrow> prepare_identity" where
  "identity_for v requestHash = \<lparr>pi_profileHash = pv_profileHash v, pi_operationId = pv_operationId v,
     pi_idempotencyHash = pv_idempotencyHash v, pi_requestHash = requestHash\<rparr>"

definition prepare_subject :: "prepare_values \<Rightarrow> chain_account \<Rightarrow> string \<Rightarrow> direct_subject" where
  "prepare_subject v acct recipient =
     railAllowlistSubject (pv_profile v) (pv_operationId v) acct (pv_asset v) (pv_amountAtomic v) recipient"

definition recipient_of :: "rail_port \<Rightarrow> chain_account \<Rightarrow> string \<Rightarrow> string result" where
  "recipient_of port acct value =
     rbind (rp_canonicalAddress port value) (\<lambda>recipient.
     if recipient = ac_address acct then Inl (ApnError APN_INVALID_INPUT None) else Inr recipient)"

definition rail_record_of :: "stored_operation \<Rightarrow> rail_operation result" where
  "rail_record_of found = (case found of RailStored r \<Rightarrow> Inr r | ForeignStored _ _ \<Rightarrow> corrupt)"

text \<open>What the rail prepares must be exactly the request under the admitted policy.\<close>

definition prepared_transfer_for :: "prims \<Rightarrow> rail_env \<Rightarrow> rail_port \<Rightarrow> chain_account \<Rightarrow> prepare_values \<Rightarrow> string \<Rightarrow> chain_policy \<Rightarrow>
    (rail_world, prepared_transfer) stm" where
  "prepared_transfer_for P E port acct v recipient policy =
     bnd (ask (ge_clock (re_gate E))) (\<lambda>now.
     bnd (call (\<lambda>n. rp_prepare port n \<lparr>pq_account = acct, pq_asset = pv_asset v, pq_recipient = recipient,
       pq_amountAtomic = pv_amountAtomic v, pq_maximumFeeAtomic = pv_maximumFeeAtomic v, pq_now = now\<rparr>)) (\<lambda>prepared.
     bnd (lift (validateRailPrepared P prepared acct)) (\<lambda>_.
     if pt_recipient prepared \<noteq> recipient \<or> pt_amountAtomic prepared \<noteq> pv_amountAtomic v \<or>
        pt_maximumFeeAtomic prepared \<noteq> pv_maximumFeeAtomic v \<or>
        canonicalJson (chain_asset_json (pt_asset prepared)) \<noteq> canonicalJson (chain_asset_json (pv_asset v)) \<or>
        pt_networkIdentity prepared \<noteq> cp_networkIdentity policy
     then lift corrupt else ret prepared)))"

definition intent_for :: "prepare_values \<Rightarrow> string \<Rightarrow> chain_account \<Rightarrow> prepared_transfer \<Rightarrow> chain_policy \<Rightarrow> direct_binding \<Rightarrow> rail_intent" where
  "intent_for v requestHash acct prepared policy b =
     \<lparr>ro_operationId = pv_operationId v, ro_profile = pv_profile v, ro_profileHash = pv_profileHash v,
      ro_idempotencyHash = pv_idempotencyHash v, ro_requestHash = requestHash, ro_account = acct, ro_prepared = prepared,
      ro_policyHash = cp_policyHash policy, ro_allowlist = Some b\<rparr>"

text \<open>The owner's caps in order: chain policy fee cap, allowlist caps, chain policy principal caps.\<close>

definition authorize_request :: "prims \<Rightarrow> rail_env \<Rightarrow> chain_account \<Rightarrow> prepare_values \<Rightarrow> string \<Rightarrow> (rail_world, chain_policy \<times> direct_binding) stm" where
  "authorize_request P E acct v recipient =
     bnd (authorized_policy P acct (as_alias (pv_asset v)) (pv_maximumFeeAtomic v)) (\<lambda>policy.
     bnd (admit P (re_gate E) (prepare_subject v acct recipient)) (\<lambda>b.
     bnd (assertPrincipal P E policy (pv_operationId v) (pv_amountAtomic v)) (\<lambda>_. ret (policy, b))))"

definition prepare_new :: "prims \<Rightarrow> rail_env \<Rightarrow> rail_port \<Rightarrow> chain_account \<Rightarrow> prepare_values \<Rightarrow> string \<Rightarrow> string \<Rightarrow>
    (rail_world, rail_operation) stm" where
  "prepare_new P E port acct v recipient requestHash =
     admit_operation E (identity_for v requestHash) (domainClaims (pv_profileHash v) (ac_rail acct) (ac_address acct))
       (bnd (authorize_request P E acct v recipient) (\<lambda>(policy, b).
        bnd (prepared_transfer_for P E port acct v recipient policy) (\<lambda>prepared.
        bnd (lift (newRailOperation P (intent_for v requestHash acct prepared policy b))) (\<lambda>operation.
        bnd (persist P operation) (\<lambda>_. ret operation)))))"

definition prepare_held :: "prims \<Rightarrow> rail_env \<Rightarrow> rail_prepare_input \<Rightarrow> prepare_values \<Rightarrow> (rail_world, rail_operation) stm" where
  "prepare_held P E input v =
     withLocks E (prepare_locks v)
       (bnd (account_of P E (pv_profile v) (in_rail_name input)) (\<lambda>acct.
        bnd (lift (rail_port_of E (in_rail_name input) (ac_provider acct))) (\<lambda>port.
        bnd (lift (recipient_of port acct (in_recipient input))) (\<lambda>recipient.
        bnd (lift (request_hash P acct v recipient)) (\<lambda>requestHash.
        bnd (resolvePrepare P E (identity_for v requestHash)) (\<lambda>existing.
        case existing of
          Some found \<Rightarrow> lift (rail_record_of found)
        | None \<Rightarrow> prepare_new P E port acct v recipient requestHash))))))"

section \<open>Preparation of a local Solana transfer\<close>

definition prepare_claim_for :: "prepare_values \<Rightarrow> string \<Rightarrow> string \<Rightarrow> chain_account \<Rightarrow> chain_policy \<Rightarrow> direct_binding \<Rightarrow> prepare_claim" where
  "prepare_claim_for v inputHash requestHash acct policy b =
     \<lparr>pc_profileHash = pv_profileHash v, pc_operationId = pv_operationId v, pc_idempotencyHash = pv_idempotencyHash v,
      pc_inputHash = inputHash, pc_requestHash = requestHash, pc_accountIdentityHash = ac_identityHash acct,
      pc_policyHash = cp_policyHash policy, pc_allowlist = b, pc_integrityHash = []\<rparr>"

record solana_stage =
  ss_account :: chain_account
  ss_port :: rail_port
  ss_recipient :: string
  ss_requestHash :: string
  ss_policy :: chain_policy
  ss_allowlist :: direct_binding
  ss_claim :: prepare_claim

definition drop_prepare_claim :: "prims \<Rightarrow> prepare_claim option \<Rightarrow> (rail_world, unit) stm" where
  "drop_prepare_claim P saved = (case saved of None \<Rightarrow> ret () | Some claim \<Rightarrow> remove_prepare_claim P claim)"

text \<open>A replay answers with the stored operation and drops the claim that led to it.\<close>

definition solana_replay :: "prims \<Rightarrow> rail_env \<Rightarrow> prepare_values \<Rightarrow> string \<Rightarrow> stored_operation \<Rightarrow> (rail_world, rail_operation) stm" where
  "solana_replay P E v requestHash persisted =
     bnd (load_prepare_claim P (pv_idempotencyHash v)) (\<lambda>stale.
     bnd (case stale of None \<Rightarrow> ret ()
       | Some claim \<Rightarrow>
           if pc_profileHash claim = pv_profileHash v \<and> pc_operationId claim = pv_operationId v \<and>
              pi_idempotencyHash (snd (stored_identity persisted)) = pc_idempotencyHash claim
           then remove_prepare_claim P claim else ret ()) (\<lambda>_.
     bnd (resolvePrepare P E (identity_for v requestHash)) (\<lambda>existing.
     case existing of None \<Rightarrow> lift corrupt | Some found \<Rightarrow> lift (rail_record_of found))))"

definition solana_claim :: "prims \<Rightarrow> rail_env \<Rightarrow> chain_account \<Rightarrow> rail_port \<Rightarrow> prepare_values \<Rightarrow> string \<Rightarrow> string \<Rightarrow> string \<Rightarrow>
    (rail_world, solana_stage) stm" where
  "solana_claim P E acct port v recipient inputHash requestHash =
     bnd (load_prepare_claim P (pv_idempotencyHash v)) (\<lambda>saved.
     if (case saved of None \<Rightarrow> False | Some c \<Rightarrow> pc_profileHash c \<noteq> pv_profileHash v \<or> pc_operationId c \<noteq> pv_operationId v)
     then lift idempotency_conflict
     else if (case saved of None \<Rightarrow> False | Some c \<Rightarrow> pc_inputHash c \<noteq> inputHash) then lift idempotency_conflict
     else if (case saved of None \<Rightarrow> False | Some c \<Rightarrow> pc_accountIdentityHash c \<noteq> ac_identityHash acct \<or> pc_requestHash c \<noteq> requestHash)
     then bnd (drop_prepare_claim P saved) (\<lambda>_. lift drift)
     else bnd (try_catch
         (bnd (call (\<lambda>n. re_available E n (pv_profileHash v) (domainClaims (pv_profileHash v) (ac_rail acct) (ac_address acct)))) (\<lambda>_.
          authorize_request P E acct v recipient))
         (\<lambda>e. bnd (drop_prepare_claim P saved) (\<lambda>_. lift (Inl e)))) (\<lambda>(policy, b).
       let candidate = prepare_claim_for v inputHash requestHash acct policy b;
         stage = \<lambda>claim. \<lparr>ss_account = acct, ss_port = port, ss_recipient = recipient, ss_requestHash = requestHash,
           ss_policy = policy, ss_allowlist = b, ss_claim = claim\<rparr> in
       case saved of
         Some c \<Rightarrow>
           if pc_policyHash c \<noteq> cp_policyHash policy \<or> canonicalJson (binding_json (pc_allowlist c)) \<noteq> canonicalJson (binding_json b)
           then bnd (drop_prepare_claim P saved) (\<lambda>_. lift drift) else ret (stage c)
       | None \<Rightarrow>
           bnd (lift (sealPrepareClaim P candidate)) (\<lambda>claim.
           bnd (create_prepare_claim P claim) (\<lambda>_. ret (stage claim)))))"

definition stage_solana :: "prims \<Rightarrow> rail_env \<Rightarrow> rail_prepare_input \<Rightarrow> prepare_values \<Rightarrow> (rail_world, rail_operation + solana_stage) stm" where
  "stage_solana P E input v =
     withLocks E (prepare_locks v)
       (bnd (account_of P E (pv_profile v) SolanaRail) (\<lambda>acct.
        if ac_provider acct \<noteq> LocalProvider then lift drift
        else bnd (lift (rail_port_of E SolanaRail (ac_provider acct))) (\<lambda>port.
        bnd (lift (recipient_of port acct (in_recipient input))) (\<lambda>recipient.
        bnd (lift (input_hash P v recipient)) (\<lambda>inputHash.
        bnd (lift (request_hash P acct v recipient)) (\<lambda>requestHash.
        bnd (findIdempotency P E (pv_idempotencyHash v)) (\<lambda>persisted.
        case persisted of
          Some found \<Rightarrow> bnd (solana_replay P E v requestHash found) (\<lambda>r. ret (Inl r))
        | None \<Rightarrow> bnd (solana_claim P E acct port v recipient inputHash requestHash) (\<lambda>stage. ret (Inr stage)))))))))"

definition commit_solana :: "prims \<Rightarrow> rail_env \<Rightarrow> prepare_values \<Rightarrow> solana_stage \<Rightarrow> prepared_transfer \<Rightarrow> (rail_world, rail_operation) stm" where
  "commit_solana P E v stage prepared =
     withLocks E (prepare_locks v)
       (bnd (resolvePrepare P E (identity_for v (ss_requestHash stage))) (\<lambda>existing.
        case existing of
          Some found \<Rightarrow>
            bnd (lift (rail_record_of found)) (\<lambda>r. bnd (remove_prepare_claim P (ss_claim stage)) (\<lambda>_. ret r))
        | None \<Rightarrow>
            bnd (load_prepare_claim P (pv_idempotencyHash v)) (\<lambda>currentClaim.
            if map_option pc_integrityHash currentClaim \<noteq> Some (pc_integrityHash (ss_claim stage)) then lift corrupt
            else bnd (account_of P E (pv_profile v) SolanaRail) (\<lambda>currentAccount.
            if canonicalJson (chain_account_json currentAccount) \<noteq> canonicalJson (chain_account_json (ss_account stage)) then lift drift
            else bnd (authorized_policy P currentAccount (as_alias (pv_asset v)) (pv_maximumFeeAtomic v)) (\<lambda>currentPolicy.
            if cp_policyHash currentPolicy \<noteq> cp_policyHash (ss_policy stage) then lift drift
            else bnd (admit P (re_gate E) (prepare_subject v currentAccount (ss_recipient stage))) (\<lambda>currentAllowlist.
            if canonicalJson (binding_json currentAllowlist) \<noteq> canonicalJson (binding_json (ss_allowlist stage)) then lift drift
            else bnd (loadOperation P (pv_profileHash v) (pv_operationId v)) (\<lambda>occupied.
            if occupied \<noteq> None then lift corrupt
            else bnd (lift (newRailOperation P (intent_for v (ss_requestHash stage) (ss_account stage) prepared (ss_policy stage)
                (ss_allowlist stage)))) (\<lambda>operation.
              bnd (persist P operation) (\<lambda>_.
              bnd (remove_prepare_claim P (ss_claim stage)) (\<lambda>_. ret operation))))))))))"

definition prepareLocalSolana :: "prims \<Rightarrow> rail_env \<Rightarrow> rail_prepare_input \<Rightarrow> prepare_values \<Rightarrow> (rail_world, rail_operation) stm" where
  "prepareLocalSolana P E input v =
     withLocks E [''rail:prepare-claim:'' @ pv_idempotencyHash v]
       (bnd (stage_solana P E input v) (\<lambda>staged.
        case staged of
          Inl existing \<Rightarrow> ret existing
        | Inr stage \<Rightarrow>
            admit_operation E (identity_for v (ss_requestHash stage))
              (domainClaims (pv_profileHash v) (ac_rail (ss_account stage)) (ac_address (ss_account stage)))
              (try_catch
                (bnd (prepared_transfer_for P E (ss_port stage) (ss_account stage) v (ss_recipient stage) (ss_policy stage))
                  (\<lambda>prepared. commit_solana P E v stage prepared))
                (\<lambda>e. bnd (withLocks E (prepare_locks v) (remove_prepare_claim P (ss_claim stage))) (\<lambda>_. lift (Inl e))))))"

definition prepare_operation :: "prims \<Rightarrow> rail_env \<Rightarrow> rail_prepare_input \<Rightarrow> (rail_world, rail_operation) stm" where
  "prepare_operation P E input =
     bnd (lift (prepare_values_of P (ge_inventory (re_gate E)) input)) (\<lambda>v.
     bnd (call (re_ready E)) (\<lambda>_.
     bnd (if in_rail_name input = SolanaRail
       then bnd (account_of P E (pv_profile v) SolanaRail) (\<lambda>acct. ret (ac_provider acct = LocalProvider)) else ret False) (\<lambda>local.
     if local then prepareLocalSolana P E input v else prepare_held P E input v)))"

definition prepare :: "prims \<Rightarrow> rail_env \<Rightarrow> rail_prepare_input \<Rightarrow> (rail_world, jval) stm" where
  "prepare P E input = projected P (prepare_operation P E input)"

end
