(* ===== verification/RailRecordLaws.thy ===== *)
theory RailRecordLaws
  imports RailRecord
begin

text \<open>
  Laws of the direct rail record: the order its state machine puts on the states, the legality of
  every journal that passes validation, what a transition keeps, and the bounds that evidence and
  the per-chain usage keep.
\<close>

section \<open>The order of the states\<close>

text \<open>One state is below another when the machine can move from the first to the second.\<close>

definition rail_edges :: "(rail_state \<times> rail_state) set" where
  "rail_edges = {(s, t). t \<in> set (EDGES s)}"

text \<open>Every edge climbs.\<close>

fun rail_rank :: "rail_state \<Rightarrow> nat" where
  "rail_rank AwaitingApproval = 0"
| "rail_rank SigningStarted = 1"
| "rail_rank SignedNotSubmitted = 2"
| "rail_rank Submitting = 3"
| "rail_rank SubmittedPending = 4"
| "rail_rank RailUnknownFinality = 5"
| "rail_rank Completed = 6"
| "rail_rank RailFailedBeforeEffect = 6"
| "rail_rank RailFailedConfirmedRevert = 6"
| "rail_rank AbandonedUnknown = 6"

lemma edge_rank: "t \<in> set (EDGES s) \<Longrightarrow> rail_rank s < rail_rank t"
  by (cases s) auto

lemma rail_rank_bound: "rail_rank s \<le> 6"
  by (cases s) simp_all

lemma path_rank: "(s, t) \<in> rail_edges\<^sup>+ \<Longrightarrow> rail_rank s < rail_rank t"
  by (induction rule: trancl_induct) (auto simp: rail_edges_def dest: edge_rank)

instantiation rail_state :: order
begin

definition less_rail_state :: "rail_state \<Rightarrow> rail_state \<Rightarrow> bool" where
  "less_rail_state s t \<longleftrightarrow> (s, t) \<in> rail_edges\<^sup>+"

definition less_eq_rail_state :: "rail_state \<Rightarrow> rail_state \<Rightarrow> bool" where
  "less_eq_rail_state s t \<longleftrightarrow> s = t \<or> (s, t) \<in> rail_edges\<^sup>+"

instance
proof
  show "(x < y) = (x \<le> y \<and> \<not> y \<le> x)" for x y :: rail_state
    using path_rank [of x y] path_rank [of y x] by (auto simp: less_rail_state_def less_eq_rail_state_def)
  show "x \<le> x" for x :: rail_state
    by (simp add: less_eq_rail_state_def)
  show "x \<le> y \<Longrightarrow> y \<le> z \<Longrightarrow> x \<le> z" for x y z :: rail_state
    by (auto simp: less_eq_rail_state_def dest: trancl_trans)
  show "x \<le> y \<Longrightarrow> y \<le> x \<Longrightarrow> x = y" for x y :: rail_state
    using path_rank [of x y] path_rank [of y x] by (auto simp: less_eq_rail_state_def)
qed

end

lemma edge_less: "t \<in> set (EDGES s) \<Longrightarrow> s < t"
  by (auto simp: less_rail_state_def rail_edges_def)

lemma less_rank: "s < t \<Longrightarrow> rail_rank s < rail_rank (t :: rail_state)"
  by (auto simp: less_rail_state_def dest: path_rank)

lemma terminal_edges: "s \<in> set RAIL_TERMINAL_STATES \<longleftrightarrow> EDGES s = []"
  by (cases s) (simp_all add: RAIL_TERMINAL_STATES_def)

section \<open>Legal journals\<close>

text \<open>An entry that may stand right after another.\<close>

definition entry_follows :: "rail_transition \<Rightarrow> rail_transition \<Rightarrow> bool" where
  "entry_follows p e \<longleftrightarrow> rt_state e \<in> set (EDGES (rt_state p)) \<and> rt_at p \<le> rt_at e \<and>
     (rt_transactionId p \<noteq> None \<longrightarrow> rt_transactionId e = rt_transactionId p) \<and>
     (rt_rawPayloadHash p \<noteq> None \<longrightarrow> rt_rawPayloadHash e = rt_rawPayloadHash p) \<and>
     rt_previousHash e = rt_transitionHash p"

definition legal_journal :: "rail_transition list \<Rightarrow> bool" where
  "legal_journal es \<longleftrightarrow> es \<noteq> [] \<and> rt_state (hd es) = AwaitingApproval \<and> rt_transactionId (hd es) = None \<and>
     successively entry_follows es"

lemma validateEntry_follows:
  "validateEntry P v acct prepared (Some p) e = Inr u \<Longrightarrow> entry_follows p e"
  by (auto simp: validateEntry_def validateEntryLink_def entry_follows_def)

lemma validateEntry_first:
  "validateEntry P v acct prepared None e = Inr u \<Longrightarrow>
   rt_state e = AwaitingApproval \<and> rt_transactionId e = None \<and> rt_at e = ro_createdAt v"
  by (auto simp: validateEntry_def validateEntryLink_def)

lemma validateEntries_follow:
  "validateEntries P v acct prepared (Some p) es = Inr r \<Longrightarrow> successively entry_follows (p # es) \<and> r = Some (last (p # es))"
  by (induction es arbitrary: p) (auto dest: validateEntry_follows)

lemma validateEntries_legal:
  assumes "validateEntries P v acct prepared None es = Inr (Some e)"
  shows "legal_journal es \<and> e = last es \<and> rt_at (hd es) = ro_createdAt v"
proof (cases es)
  case (Cons a as)
  with assms have "validateEntry P v acct prepared None a = Inr ()" "validateEntries P v acct prepared (Some a) as = Inr (Some e)"
    by auto
  with Cons show ?thesis
    by (auto simp: legal_journal_def dest: validateEntry_first validateEntries_follow)
qed (use assms in simp)

lemma legal_sorted:
  assumes "legal_journal es"
  shows "sorted_wrt (<) (map rt_state es)"
proof -
  from assms have "successively (\<lambda>p e. rt_state p < rt_state e) es"
    by (auto simp: legal_journal_def entry_follows_def elim!: successively_mono intro: edge_less)
  then have "sorted_wrt (\<lambda>p e. rt_state p < rt_state e) es"
    by (subst (asm) successively_conv_sorted_wrt) (auto intro: transpI)
  then show ?thesis by (simp add: sorted_wrt_map)
qed

lemma legal_distinct:
  assumes "legal_journal es"
  shows "distinct (map rt_state es)"
  using legal_sorted [OF assms] by (simp add: strict_sorted_iff sorted_wrt_iff_nth_less distinct_conv_nth) (metis linorder_neqE_nat order_less_irrefl)

lemma distinct_filter_eq: "distinct (map f xs) \<Longrightarrow> length (filter (\<lambda>x. f x = a) xs) \<le> 1"
proof (induction xs)
  case (Cons x xs)
  then show ?case by (cases "f x = a") (auto simp: filter_empty_conv image_iff)
qed simp

text \<open>Seven states in a row is the longest climb.\<close>

lemma legal_length:
  assumes "legal_journal es"
  shows "length es \<le> 7"
proof -
  have "sorted_wrt (\<lambda>s t. rail_rank s < rail_rank t) (map rt_state es)"
    by (rule sorted_wrt_mono_rel [OF _ legal_sorted [OF assms]]) (rule less_rank)
  then have "sorted_wrt (<) (map (rail_rank \<circ> rt_state) es)"
    by (simp only: sorted_wrt_map comp_def)
  then have d: "distinct (map (rail_rank \<circ> rt_state) es)"
    by (simp add: strict_sorted_iff)
  have "length es = card (set (map (rail_rank \<circ> rt_state) es))"
    using distinct_card [OF d] by simp
  also have "\<dots> \<le> card {..6 :: nat}"
    by (rule card_mono) (auto simp: rail_rank_bound)
  finally show ?thesis by simp
qed

section \<open>Valid records\<close>

lemma validateChainAccount_self: "validateChainAccount P a = Inr b \<Longrightarrow> b = a"
  by (auto simp: validateChainAccount_def)

lemma validateRailPrepared_self: "validateRailPrepared P v a = Inr w \<Longrightarrow> w = v"
  by (auto simp: validateRailPrepared_def)

text \<open>What every accepted record satisfies.\<close>

lemma validateRailOperation_InrD:
  assumes "validateRailOperation P v = Inr w"
  shows "w = v" "legal_journal (ro_transitions v)" "validateRailPrepared P (ro_prepared v) (ro_account v) = Inr (ro_prepared v)"
    "validateEntries P v (ro_account v) (ro_prepared v) None (ro_transitions v) = Inr (Some (last (ro_transitions v)))"
    "canonicalJson (entry_latest (last (ro_transitions v))) = canonicalJson (record_latest v)"
    "ro_terminal v = (rt_state (last (ro_transitions v)) \<in> set RAIL_TERMINAL_STATES)"
    "ro_profile v = ac_profile (ro_account v)" "ro_createdAt v = rt_at (hd (ro_transitions v))"
proof -
  from assms obtain acct prepared previous where acct: "validateChainAccount P (ro_account v) = Inr acct"
    and prepared: "validateRailPrepared P (ro_prepared v) acct = Inr prepared" "ro_profile v = ac_profile acct"
    and entries: "validateEntries P v acct prepared None (ro_transitions v) = Inr previous"
    and rest: "(case previous of None \<Rightarrow> corrupt
     | Some newest_entry \<Rightarrow>
         rbind (check (canonicalJson (entry_latest newest_entry) = canonicalJson (record_latest v))) (\<lambda>_.
         rbind (check (ro_terminal v = (rt_state newest_entry \<in> set RAIL_TERMINAL_STATES))) (\<lambda>_.
         rbind (hashObject (sha P) (JObj (operation_body v))) (\<lambda>h.
         rbind (check (h = ro_integrityHash v)) (\<lambda>_. Inr v))))) = Inr w"
    unfolding validateRailOperation_def rbind_eq_Inr check_Inr by blast
  from rest obtain e where e: "previous = Some e" "w = v" "canonicalJson (entry_latest e) = canonicalJson (record_latest v)"
    "ro_terminal v = (rt_state e \<in> set RAIL_TERMINAL_STATES)"
    by (cases previous) (auto simp: corrupt_def)
  have self: "acct = ro_account v" "prepared = ro_prepared v"
    using validateChainAccount_self [OF acct] validateRailPrepared_self [OF prepared(1)] by auto
  have legal: "legal_journal (ro_transitions v)" "e = last (ro_transitions v)" "rt_at (hd (ro_transitions v)) = ro_createdAt v"
    using validateEntries_legal entries [unfolded e] by blast+
  show "w = v" "legal_journal (ro_transitions v)" "validateRailPrepared P (ro_prepared v) (ro_account v) = Inr (ro_prepared v)"
    "validateEntries P v (ro_account v) (ro_prepared v) None (ro_transitions v) = Inr (Some (last (ro_transitions v)))"
    "canonicalJson (entry_latest (last (ro_transitions v))) = canonicalJson (record_latest v)"
    "ro_terminal v = (rt_state (last (ro_transitions v)) \<in> set RAIL_TERMINAL_STATES)"
    "ro_profile v = ac_profile (ro_account v)" "ro_createdAt v = rt_at (hd (ro_transitions v))"
    using e entries prepared legal unfolding self by simp_all
qed

lemmas rail_valid = validateRailOperation_InrD

text \<open>The encodings of evidence and of an entry always have a canonical text.\<close>

lemma resources_plain:
  "plain_json (tron_final_json f)" "plain_json (evidence_json e)"
  by (auto simp: tron_final_json_def evidence_json_def Let_def intro!: plain_opt_member)

lemma floats_ok_resources [simp]: "floats_ok (tron_final_json f)" "floats_ok (evidence_json e)" "floats_ok (nullable x)"
  by (auto simp: tron_final_json_def evidence_json_def Let_def opt_member_def nullable_def split: option.splits)

lemma latest_plain: "plain_json (JObj (latest_members s r p t h e at))" "floats_ok (JObj (latest_members s r p t h e at))"
  by (auto simp: latest_members_def resources_plain split: option.splits)

lemma rail_state_text_inj: "rail_state_text a = rail_state_text b \<Longrightarrow> a = b"
  by (cases a; cases b) simp_all

lemma latest_state:
  assumes eq: "canonicalJson (entry_latest e) = canonicalJson (record_latest v)"
  shows "rt_state e = ro_state v" "rt_transactionId e = ro_transactionId v" "rt_at e = ro_updatedAt v"
proof -
  obtain t where t: "canonicalJson (entry_latest e) = Inr t"
    unfolding entry_latest_def using canonicalJson_total latest_plain(1) by blast
  with eq have t': "canonicalJson (record_latest v) = Inr t" by simp
  note member = canonicalJson_member [OF t [unfolded entry_latest_def] t' [unfolded record_latest_def] latest_plain(2) latest_plain(2)]
    canonicalJson_member [OF t' [unfolded record_latest_def] t [unfolded entry_latest_def] latest_plain(2) latest_plain(2)]
  have "rail_state_text (rt_state e) = rail_state_text (ro_state v)"
    using member(1) [of "''state''" "rail_state_text (rt_state e)"] by (auto simp: latest_members_def nullable_def split: option.splits)
  then show "rt_state e = ro_state v" by (rule rail_state_text_inj)
  show "rt_transactionId e = ro_transactionId v"
    using member(1) [of "''transactionId''"] member(2) [of "''transactionId''"]
    by (cases "rt_transactionId e"; cases "ro_transactionId v") (auto simp: latest_members_def nullable_def split: option.splits)
  show "rt_at e = ro_updatedAt v"
    using member(1) [of "''updatedAt''" "rt_at e"] by (auto simp: latest_members_def nullable_def split: option.splits)
qed

lemma legal_times:
  assumes "legal_journal es"
  shows "rt_at (hd es) \<le> rt_at (last es)"
proof -
  from assms have "successively (\<lambda>p e. rt_at p \<le> rt_at e) es"
    by (auto simp: legal_journal_def entry_follows_def elim!: successively_mono)
  then have "sorted_wrt (\<lambda>p e. rt_at p \<le> rt_at e) es"
    by (subst (asm) successively_conv_sorted_wrt) (auto intro: transpI)
  moreover have "es \<noteq> []" using assms by (simp add: legal_journal_def)
  ultimately show ?thesis by (cases es) auto
qed

text \<open>
  The property C16: in every record the validator accepts, the journal starts awaiting approval and climbs
  the edges of the state machine, its times never go back, a transaction id once bound never
  changes, each entry names the digest of the one before it, and the head of the record (state,
  terminal flag, transaction id, time) is that of the last entry.
\<close>

theorem rail_journal_legal:
  assumes "validateRailOperation P v = Inr w"
  shows "w = v \<and> legal_journal (ro_transitions v) \<and> ro_state v = rt_state (last (ro_transitions v)) \<and>
    (ro_terminal v \<longleftrightarrow> EDGES (ro_state v) = []) \<and> ro_transactionId v = rt_transactionId (last (ro_transitions v)) \<and>
    ro_updatedAt v = rt_at (last (ro_transitions v)) \<and> ro_createdAt v \<le> ro_updatedAt v"
  using rail_valid [OF assms] latest_state [OF rail_valid(5) [OF assms]] legal_times [OF rail_valid(2) [OF assms]]
  by (auto simp: terminal_edges)

text \<open>
  A valid journal visits no state twice, so it records at most one submission and at most
  seven entries: the bound of 32 entries the validator checks is never what stops a transfer.
\<close>

lemma rail_submits_once:
  assumes "validateRailOperation P v = Inr w"
  shows "distinct (map rt_state (ro_transitions v)) \<and>
    length (filter (\<lambda>e. rt_state e = Submitting) (ro_transitions v)) \<le> 1 \<and> length (ro_transitions v) \<le> 7"
proof -
  note legal = rail_valid(2) [OF assms]
  show ?thesis using legal_distinct [OF legal] legal_length [OF legal] distinct_filter_eq [OF legal_distinct [OF legal]] by blast
qed

section \<open>Transitions\<close>

lemma sealEntry_InrD:
  "sealEntry P entry = Inr e \<Longrightarrow> \<exists>h. e = entry\<lparr>rt_transitionHash := h\<rparr>"
  by (auto simp: sealEntry_def)

lemma sealRail_InrD:
  "sealRail P body = Inr v \<Longrightarrow> (\<exists>h. v = body\<lparr>ro_integrityHash := h\<rparr>) \<and> validateRailOperation P v = Inr v"
  by (auto simp: sealRail_def dest: rail_valid(1))

text \<open>What a transition appends and what it keeps.\<close>

definition rail_extends :: "rail_operation \<Rightarrow> rail_move \<Rightarrow> rail_operation \<Rightarrow> bool" where
  "rail_extends operation move later \<longleftrightarrow>
     rail_intent.truncate later = rail_intent.truncate operation \<and> ro_fingerprint later = ro_fingerprint operation \<and>
     ro_createdAt later = ro_createdAt operation \<and>
     ro_send later = or_else (mv_send move) (ro_send operation) \<and>
     ro_allowlistLease later = or_else (mv_allowlistLease move) (ro_allowlistLease operation) \<and>
     ro_state later = mv_state move \<and> ro_updatedAt later = mv_at move \<and>
     (\<exists>e. ro_transitions later = ro_transitions operation @ [e] \<and> rt_state e = mv_state move \<and> rt_at e = mv_at move)"

lemma transitionRail_InrD:
  assumes "transitionRail P operation move = Inr later"
  shows "validateRailOperation P operation = Inr operation" "validateRailOperation P later = Inr later"
    "rail_extends operation move later" "validateRailContinuity P operation later = Inr ()"
proof -
  from assms obtain x e where x: "validateRailOperation P operation = Inr x"
    and e: "sealEntry P \<lparr>rt_state = mv_state move, rt_at = mv_at move, rt_reason = mv_reason move, rt_proofClass = mv_proofClass move,
       rt_transactionId = or_else (mv_transactionId move) (ro_transactionId operation),
       rt_rawPayloadHash = or_else (mv_rawPayloadHash move) (ro_rawPayloadHash operation),
       rt_evidence = or_else (mv_evidence move) (ro_evidence operation),
       rt_previousHash = rt_transitionHash (last (ro_transitions operation)), rt_transitionHash = []\<rparr> = Inr e"
    and seal: "sealRail P (operation\<lparr>ro_send := or_else (mv_send move) (ro_send operation),
       ro_allowlistLease := or_else (mv_allowlistLease move) (ro_allowlistLease operation),
       ro_state := rt_state e, ro_reason := rt_reason e, ro_proofClass := rt_proofClass e,
       ro_transactionId := rt_transactionId e, ro_rawPayloadHash := rt_rawPayloadHash e, ro_evidence := rt_evidence e,
       ro_updatedAt := rt_at e, ro_terminal := rt_state e \<in> set RAIL_TERMINAL_STATES,
       ro_transitions := ro_transitions operation @ [e]\<rparr>) = Inr later"
    and continuity: "validateRailContinuity P operation later = Inr ()"
    unfolding transitionRail_def by auto
  have valid: "validateRailOperation P operation = Inr operation" using rail_valid(1) [OF x] x by simp
  have e: "rt_state e = mv_state move" "rt_at e = mv_at move" using sealEntry_InrD [OF e] by auto
  show "validateRailOperation P operation = Inr operation" "validateRailContinuity P operation later = Inr ()"
    by (rule valid continuity)+
  show "validateRailOperation P later = Inr later" using sealRail_InrD [OF seal] by blast
  show "rail_extends operation move later"
    using sealRail_InrD [OF seal] e by (auto simp: rail_extends_def rail_intent.defs)
qed

lemma transition_edge:
  assumes "transitionRail P operation move = Inr later"
  shows "mv_state move \<in> set (EDGES (ro_state operation))" "ro_updatedAt operation \<le> mv_at move"
proof -
  note t = transitionRail_InrD [OF assms]
  from t(3) obtain e where e: "ro_transitions later = ro_transitions operation @ [e]" "rt_state e = mv_state move" "rt_at e = mv_at move"
    by (auto simp: rail_extends_def)
  have "ro_transitions operation \<noteq> []" using rail_valid(2) [OF t(1)] by (simp add: legal_journal_def)
  then have "entry_follows (last (ro_transitions operation)) e"
    using rail_valid(2) [OF t(2)] e(1) by (simp add: legal_journal_def successively_append_iff)
  with e latest_state [OF rail_valid(5) [OF t(1)]]
  show "mv_state move \<in> set (EDGES (ro_state operation))" "ro_updatedAt operation \<le> mv_at move"
    by (auto simp: entry_follows_def)
qed

text \<open>A later record with a different state has a different canonical text.\<close>

lemma prepared_floats [simp]: "floats_ok (prepared_json p)"
  by (auto simp: prepared_json_def chain_asset_json_def economics_json_def tron_resources_json_def tron_parameters_json_def
      opt_member_def split: option.splits)

lemma binding_floats [simp]: "floats_ok (chain_account_json a)" "floats_ok (binding_json b)" "floats_ok (send_json s)" "floats_ok (lease_json l)"
  by (simp_all add: chain_account_json_def account_body_def binding_json_def send_json_def simulation_json_def lease_json_def
      reservation_floats)

lemma transition_floats [simp]: "floats_ok (transition_json e)"
  using latest_plain(2) [of "rt_state e"] by (simp add: transition_json_def transition_body_def)

lemma rail_json_floats: "floats_ok (operation_json v)"
  using latest_plain(2) [of "ro_state v" "ro_reason v" "ro_proofClass v" "ro_transactionId v" "ro_rawPayloadHash v" "ro_evidence v"
    "(''updatedAt'', ro_updatedAt v)"]
  by (auto simp: operation_json_def operation_body_def intent_members_def transitions_json_def opt_member_def list_all_iff
      split: option.splits)

lemma canonicalJson_snoc:
  assumes "canonicalJson (JObj kvs) = Inr t"
  shows "\<exists>t'. canonicalJson (JObj (kvs @ [(k, JStr s)])) = Inr t'"
  using assms by (auto simp: canonicalJson_def rmap_append)

lemma operation_json_canonical:
  assumes "validateRailOperation P v = Inr w"
  shows "\<exists>t. canonicalJson (operation_json v) = Inr t"
proof -
  from assms have "\<exists>h. hashObject (sha P) (JObj (operation_body v)) = Inr h"
    by (auto simp: validateRailOperation_def corrupt_def split: option.splits)
  then obtain t where "canonicalJson (JObj (operation_body v)) = Inr t" by (auto simp: hashObject_def)
  then show ?thesis unfolding operation_json_def by (rule canonicalJson_snoc)
qed

lemma operation_json_state:
  assumes "validateRailOperation P v = Inr v'" "canonicalJson (operation_json v) = canonicalJson (operation_json w)"
  shows "ro_state v = ro_state w"
proof -
  obtain t where t: "canonicalJson (operation_json v) = Inr t" using operation_json_canonical [OF assms(1)] by blast
  with assms(2) have t': "canonicalJson (operation_json w) = Inr t" by simp
  have "(''state'', JStr (rail_state_text (ro_state v))) \<in> set (operation_body w @ [(''integrityHash'', JStr (ro_integrityHash w))])"
    by (rule canonicalJson_member [OF t [unfolded operation_json_def] t' [unfolded operation_json_def]
          rail_json_floats [unfolded operation_json_def] rail_json_floats [unfolded operation_json_def]])
      (simp add: operation_body_def latest_members_def)
  then have "rail_state_text (ro_state v) = rail_state_text (ro_state w)"
    by (auto simp: operation_body_def intent_members_def latest_members_def opt_member_def nullable_def split: option.splits)
  then show ?thesis by (rule rail_state_text_inj)
qed

text \<open>
  A transition that succeeds appends exactly the asked entry along an edge of the
  state machine, never earlier than the last one; the approved intent, its fingerprint and the
  creation time stay as they were, a send window or a usage lease once written stays, and the
  result is a valid record.
\<close>

lemma rail_transition_extends:
  assumes "transitionRail P operation move = Inr later"
  shows "rail_extends operation move later \<and> mv_state move \<in> set (EDGES (ro_state operation)) \<and>
    ro_updatedAt operation \<le> ro_updatedAt later \<and> validateRailOperation P later = Inr later \<and>
    (\<forall>s. ro_send operation = Some s \<longrightarrow> (\<exists>s'. ro_send later = Some s' \<and> canonicalJson (send_json s') = canonicalJson (send_json s))) \<and>
    (\<forall>l. ro_allowlistLease operation = Some l \<longrightarrow>
      (\<exists>l'. ro_allowlistLease later = Some l' \<and> canonicalJson (lease_json l') = canonicalJson (lease_json l)))"
proof -
  note t = transitionRail_InrD [OF assms] transition_edge [OF assms]
  have "ro_state later \<noteq> ro_state operation" using t(3) edge_less [OF t(5)] by (auto simp: rail_extends_def)
  then have "canonicalJson (operation_json operation) \<noteq> canonicalJson (operation_json later)"
    using operation_json_state [OF t(1)] by metis
  with t show ?thesis
    by (auto simp: validateRailContinuity_def rail_extends_def split: option.splits)
qed

text \<open>
  No transition is ever recorded on a record whose terminal flag is set.
\<close>

lemma rail_terminal_refused:
  assumes "ro_terminal operation"
  shows "\<not> is_ok (transitionRail P operation move)"
proof
  assume "is_ok (transitionRail P operation move)"
  then obtain later where later: "transitionRail P operation move = Inr later" by (auto simp: is_ok_eq)
  have "EDGES (ro_state operation) = []"
    using rail_valid(6) [OF transitionRail_InrD(1) [OF later]] assms latest_state(1) [OF rail_valid(5) [OF transitionRail_InrD(1) [OF later]]]
    by (simp add: terminal_edges)
  with transition_edge(1) [OF later] show False by simp
qed

section \<open>Evidence\<close>

lemma validateEntries_each:
  "validateEntries P v acct prepared previous es = Inr r \<Longrightarrow> e \<in> set es \<Longrightarrow>
   \<exists>p. validateEntry P v acct prepared p e = Inr ()"
  by (induction es arbitrary: previous) auto

text \<open>The native amount a proof says the sender paid.\<close>

definition native_paid :: "rail_operation \<Rightarrow> final_evidence \<Rightarrow> nat" where
  "native_paid v ev =
     (if ec_networkFeePayer (pt_economics (ro_prepared v)) = ac_address (ro_account v) then undec (fe_actualNetworkFeeAtomic ev) else 0) +
     (if ec_rentPayer (pt_economics (ro_prepared v)) = Some (ac_address (ro_account v)) then undec (fe_actualRecipientRentAtomic ev) else 0)"

lemma prepared_debit:
  assumes "validateRailPrepared P v acct = Inr w"
  shows "(if ec_networkFeePayer (pt_economics v) = ac_address acct then undec (ec_networkFeeMaximumAtomic (pt_economics v)) else 0) +
     (if ec_rentPayer (pt_economics v) = Some (ac_address acct) then undec (ec_recipientRentAtomic (pt_economics v)) else 0)
     \<le> undec (pt_maximumFeeAtomic v)"
proof -
  have "validateRailEconomics v acct = Inr ()"
    using assms unfolding validateRailPrepared_def rbind_eq_Inr by fastforce
  then obtain fee rent debit maximum where
    "u64 (ec_networkFeeMaximumAtomic (pt_economics v)) False = Inr fee" "u64 (ec_recipientRentAtomic (pt_economics v)) False = Inr rent"
    "debit = (if ec_networkFeePayer (pt_economics v) = ac_address acct then fee else 0) +
       (if ec_rentPayer (pt_economics v) = Some (ac_address acct) then rent else 0)"
    "u64 (pt_maximumFeeAtomic v) False = Inr maximum" "\<not> debit > maximum"
    unfolding validateRailEconomics_def Let_def rbind_eq_Inr check_Inr by blast
  then show ?thesis by (auto simp: u64_Inr)
qed

text \<open>
  The property C17: a finished transfer (completed, or reverted on chain) carries final evidence of exactly
  the frozen transfer (same recipient, asset and amount, under the bound transaction id), of a
  success exactly when it is completed, and the native fees and rent it proves the sender paid
  never exceed the maximum fee the owner approved.
\<close>

theorem rail_evidence_bounded:
  assumes "validateRailOperation P v = Inr w" "ro_state v \<in> {Completed, RailFailedConfirmedRevert}"
  shows "\<exists>ev. rt_evidence (last (ro_transitions v)) = Some ev \<and> ro_transactionId v = Some (fe_transactionId ev) \<and>
    fe_recipient ev = pt_recipient (ro_prepared v) \<and> fe_amountAtomic ev = pt_amountAtomic (ro_prepared v) \<and>
    fe_assetIdentifier ev = as_identifier (pt_asset (ro_prepared v)) \<and>
    (fe_recipientEffectVerified ev \<longleftrightarrow> ro_state v = Completed) \<and>
    native_paid v ev \<le> undec (pt_maximumFeeAtomic (ro_prepared v))"
proof -
  note v = rail_valid [OF assms(1)]
  let ?e = "last (ro_transitions v)"
  have state: "rt_state ?e = ro_state v" "rt_transactionId ?e = ro_transactionId v" using latest_state [OF v(5)] by blast+
  have "?e \<in> set (ro_transitions v)" using v(2) by (simp add: legal_journal_def)
  with validateEntries_each [OF v(4)] obtain p where "validateEntry P v (ro_account v) (ro_prepared v) p ?e = Inr ()" by blast
  then have "validateEntryEvidence P (ro_prepared v) ?e = Inr ()" by (simp add: validateEntry_def)
  with assms(2) state obtain ev t where ev: "rt_evidence ?e = Some ev" "ro_transactionId v = Some t"
    "validateRailEvidence P ev (ro_prepared v) t (ro_state v = Completed) = Inr ()"
    by (auto simp: validateEntryEvidence_def corrupt_def split: option.splits if_splits)
  then show ?thesis
    using prepared_debit [OF v(3)]
    by (auto simp: validateRailEvidence_def u64_Inr native_paid_def split: if_splits)
qed

section \<open>Usage\<close>

text \<open>The principal an operation holds of a policy's daily limit.\<close>

definition charged_principal :: "chain_policy \<Rightarrow> jsdate \<Rightarrow> rail_operation \<Rightarrow> nat" where
  "charged_principal policy now operation =
     (if as_identifier (pt_asset (ro_prepared operation)) = as_identifier (cp_asset policy) \<and>
         (\<not> ro_terminal operation \<or> map_option (take 10) now = Some (take 10 (ro_updatedAt operation)) \<and> ro_state operation = Completed)
      then undec (pt_amountAtomic (ro_prepared operation)) else 0)"

lemma usage_charges_principal:
  "usage_charges policy now operation = Inr (p, f) \<Longrightarrow> p = charged_principal policy now operation"
  by (auto simp: usage_charges_def charged_principal_def u64_Inr Let_def split: if_splits option.splits)

lemma chainUsage_principal:
  "chainUsage policy operations now excluding = Inr (p, f) \<Longrightarrow>
   p = sum_list (map (charged_principal policy now) (filter (usage_counts policy excluding) operations))"
  by (induction operations arbitrary: p f) (auto split: if_splits dest: usage_charges_principal)

text \<open>
  The property C18: when the per-chain policy admits an amount, the amount fits the per-transfer
  cap, and together with every unresolved transfer of the account in that asset (whatever day it
  was XX it fits the daily limit.
\<close>

theorem chain_principal_within_cap:
  assumes "assertChainPrincipal P policy amount operations now excluding = Inr ()"
  shows "0 < undec amount \<and> undec amount \<le> undec (cp_maximumPerTransferAtomic policy) \<and>
    undec amount + sum_list (map (charged_principal policy now) (filter (usage_counts policy excluding) operations))
      \<le> undec (cp_dailyLimitAtomic policy)"
proof -
  from assms obtain p f where "chainUsage policy operations now excluding = Inr (p, f)" "0 < undec amount"
    "undec amount \<le> undec (cp_maximumPerTransferAtomic policy)" "p + undec amount \<le> undec (cp_dailyLimitAtomic policy)"
    by (auto simp: assertChainPrincipal_def u64_Inr policy_denied_def split: if_splits)
  with chainUsage_principal show ?thesis by (metis add.commute)
qed

text \<open>
  The property C19: every edge of the rail state machine moves the target of the usage ledger along the
  ledger's own transitions, so following a legal journal never asks the ledger for a forbidden
  move, and only states before the send release the hold.
\<close>

theorem rail_usage_follows:
  assumes "t \<in> set (EDGES s)"
  shows "(railUsageTarget s, railUsageTarget t) \<in> {(a, b). b \<in> set (allowed_transitions a)}\<^sup>* \<and>
    (railUsageTarget t = FailedBeforeEffect \<longrightarrow> railUsageTarget s = Reserved)"
  using assms by (cases s) (auto intro: r_into_rtrancl converse_rtrancl_into_rtrancl)

section \<open>New records\<close>

lemma toCanonical_members:
  assumes "\<And>k v. (k, v) \<in> set kvs \<Longrightarrow> \<exists>c. toCanonical v = Inr c"
  shows "\<exists>c. toCanonical (JObj kvs) = Inr c"
proof -
  have "\<exists>ws. rmap (\<lambda>(k, v). rbind (toCanonical v) (\<lambda>w. Inr (k, w))) (filter (\<lambda>(k, v). v \<noteq> JUndefined) kvs) = Inr ws"
    by (rule rmap_total) (use assms in fastforce)
  then show ?thesis by auto
qed

lemma hashObject_total: "\<exists>c. toCanonical v = Inr c \<Longrightarrow> \<exists>t. hashObject h v = Inr (h t)"
  by (auto simp: hashObject_def canonicalJson_def sha256_def)

lemma ASSETS_plain: "list_all (\<lambda>a. plain_json (chain_asset_json a)) ASSETS"
  by code_simp

lemma asset_total:
  assumes "validateChainAsset a = Inr b"
  shows "\<exists>c. toCanonical (chain_asset_json a) = Inr c"
proof -
  from assms have "find (\<lambda>x. canonicalJson (chain_asset_json x) = canonicalJson (chain_asset_json a)) ASSETS = Some b"
    by (auto simp: validateChainAsset_def corrupt_def split: option.splits)
  then have "b \<in> set ASSETS" "canonicalJson (chain_asset_json b) = canonicalJson (chain_asset_json a)"
    by (auto simp: find_Some_iff)
  moreover from this(1) have "\<exists>t. canonicalJson (chain_asset_json b) = Inr t"
    using ASSETS_plain by (auto simp: list_all_iff intro: canonicalJson_total)
  ultimately have "\<exists>t. canonicalJson (chain_asset_json a) = Inr t" by simp
  then show ?thesis by (auto simp: canonicalJson_def)
qed

lemma prepared_total:
  assumes "validateRailPrepared P p acct = Inr q"
  shows "\<exists>c. toCanonical (prepared_json p) = Inr c"
  unfolding prepared_json_def
proof (rule toCanonical_members)
  fix k v
  assume m: "(k, v) \<in> set ([(''rail'', JStr (direct_rail_text (pt_rail p))), (''networkIdentity'', JStr (pt_networkIdentity p)),
     (''asset'', chain_asset_json (pt_asset p)), (''sender'', JStr (pt_sender p)), (''recipient'', JStr (pt_recipient p)),
     (''amountAtomic'', JStr (pt_amountAtomic p)), (''maximumFeeAtomic'', JStr (pt_maximumFeeAtomic p)),
     (''economics'', economics_json (pt_economics p)), (''preparedAt'', JStr (pt_preparedAt p)),
     (''expiresAt'', JStr (pt_expiresAt p)), (''blockReference'', JStr (pt_blockReference p)),
     (''lastValidBlockHeight'', nullable (pt_lastValidBlockHeight p)), (''unsignedPayload'', nullable (pt_unsignedPayload p)),
     (''sourceTokenAccount'', nullable (pt_sourceTokenAccount p)),
     (''destinationTokenAccount'', nullable (pt_destinationTokenAccount p)),
     (''createsRecipientAccount'', JBool (pt_createsRecipientAccount p))] @
     opt_member ''resources'' (map_option tron_resources_json (pt_resources p)))"
  from assms have "\<exists>b. validateChainAsset (pt_asset p) = Inr b"
    unfolding validateRailPrepared_def rbind_eq_Inr by blast
  then have "\<exists>c. toCanonical (chain_asset_json (pt_asset p)) = Inr c" using asset_total by blast
  moreover have "v \<noteq> chain_asset_json (pt_asset p) \<Longrightarrow> plain_json v"
    using m by (auto simp: economics_json_def tron_resources_json_def tron_parameters_json_def opt_member_def split: option.splits)
  ultimately show "\<exists>c. toCanonical v = Inr c" using toCanonical_total by blast
qed

definition intent_ok :: "prims \<Rightarrow> rail_intent \<Rightarrow> bool" where
  "intent_ok P intent \<longleftrightarrow>
     list_all hash_text [ro_operationId intent, ro_profileHash intent, ro_idempotencyHash intent, ro_requestHash intent, ro_policyHash intent] \<and>
     is_ok (validateChainAccount P (ro_account intent)) \<and> is_ok (validateRailPrepared P (ro_prepared intent) (ro_account intent)) \<and>
     ro_profile intent = ac_profile (ro_account intent) \<and> ro_profileHash intent = ac_profileHash (ro_account intent) \<and>
     (case ro_allowlist intent of None \<Rightarrow> True | Some b \<Rightarrow> is_ok (validateDirectAllowlistBinding b))"

lemma intent_total:
  assumes "intent_ok P intent"
  shows "\<forall>(k, v) \<in> set (intent_members intent). \<exists>c. toCanonical v = Inr c"
proof -
  from assms have "\<exists>c. toCanonical (prepared_json (ro_prepared intent)) = Inr c"
    by (auto simp: intent_ok_def is_ok_eq intro: prepared_total)
  moreover have "plain_json (chain_account_json (ro_account intent))" by (simp add: chain_account_json_def account_body_def)
  moreover have "plain_json (binding_json b)" if "ro_allowlist intent = Some b" for b
    using assms that by (auto simp: intent_ok_def is_ok_eq binding_json_def validateDirectAllowlistBinding_def corrupt_def split: if_splits)
  ultimately show ?thesis
    using toCanonical_total by (fastforce simp: intent_members_def opt_member_def split: option.splits)
qed

lemma first_reason: "token_text ''prepared_and_frozen''" "token_text ''durable_pre_effect''"
  by code_simp+

lemma prepared_times:
  assumes "validateRailPrepared P p acct = Inr q"
  shows "isoDate (pt_preparedAt p) = Inr (pt_preparedAt p)"
proof -
  from assms have "\<exists>d. isoDate (pt_preparedAt p) = Inr d" unfolding validateRailPrepared_def rbind_eq_Inr by blast
  then show ?thesis by (auto simp: isoDate_def corrupt_def split: if_splits)
qed

text \<open>The first entry and the record around it, with their digests as parameters.\<close>

definition first_entry :: "rail_intent \<Rightarrow> string \<Rightarrow> string \<Rightarrow> rail_transition" where
  "first_entry intent f h = \<lparr>rt_state = AwaitingApproval, rt_at = pt_preparedAt (ro_prepared intent), rt_reason = ''prepared_and_frozen'',
     rt_proofClass = ''durable_pre_effect'', rt_transactionId = None, rt_rawPayloadHash = None, rt_evidence = None,
     rt_previousHash = f, rt_transitionHash = h\<rparr>"

definition first_record :: "rail_intent \<Rightarrow> string \<Rightarrow> string \<Rightarrow> string \<Rightarrow> rail_operation" where
  "first_record intent f h d = rail_intent.extend intent
     \<lparr>ro_fingerprint = f, ro_send = None, ro_allowlistLease = None, ro_state = AwaitingApproval, ro_terminal = False,
      ro_reason = ''prepared_and_frozen'', ro_proofClass = ''durable_pre_effect'', ro_transactionId = None,
      ro_rawPayloadHash = None, ro_evidence = None, ro_createdAt = pt_preparedAt (ro_prepared intent),
      ro_updatedAt = pt_preparedAt (ro_prepared intent), ro_transitions = [first_entry intent f h], ro_integrityHash = d\<rparr>"

lemma first_record_fields [simp]:
  "ro_operationId (first_record i f h d) = ro_operationId i" "ro_profile (first_record i f h d) = ro_profile i"
  "ro_profileHash (first_record i f h d) = ro_profileHash i" "ro_idempotencyHash (first_record i f h d) = ro_idempotencyHash i"
  "ro_requestHash (first_record i f h d) = ro_requestHash i" "ro_account (first_record i f h d) = ro_account i"
  "ro_prepared (first_record i f h d) = ro_prepared i" "ro_policyHash (first_record i f h d) = ro_policyHash i"
  "ro_allowlist (first_record i f h d) = ro_allowlist i" "ro_fingerprint (first_record i f h d) = f"
  "ro_send (first_record i f h d) = None" "ro_allowlistLease (first_record i f h d) = None"
  "ro_state (first_record i f h d) = AwaitingApproval" "ro_terminal (first_record i f h d) = False"
  "ro_createdAt (first_record i f h d) = pt_preparedAt (ro_prepared i)" "ro_updatedAt (first_record i f h d) = pt_preparedAt (ro_prepared i)"
  "ro_reason (first_record i f h d) = ''prepared_and_frozen''" "ro_proofClass (first_record i f h d) = ''durable_pre_effect''"
  "ro_transactionId (first_record i f h d) = None" "ro_rawPayloadHash (first_record i f h d) = None"
  "ro_evidence (first_record i f h d) = None"
  "ro_transitions (first_record i f h d) = [first_entry i f h]" "ro_integrityHash (first_record i f h d) = d"
  "rail_intent.truncate (first_record i f h d) = i"
  "first_record i f h d\<lparr>ro_integrityHash := d'\<rparr> = first_record i f h d'"
  by (simp_all add: first_record_def rail_intent.defs)

lemma first_record_json:
  "intent_members (first_record i f h d) = intent_members i"
  "operation_body (first_record i f h d) = operation_body (first_record i f h [])"
  "entry_latest (first_entry i f h) = record_latest (first_record i f h d)"
  "transition_body (first_entry i f h) = transition_body (first_entry i f [])"
  "first_entry i f []\<lparr>rt_transitionHash := h\<rparr> = first_entry i f h"
  by (simp_all add: intent_members_def operation_body_def entry_latest_def record_latest_def transition_body_def first_entry_def
      first_record_def rail_intent.defs)

lemma newRailOperation_first:
  assumes "hashObject (sha P) (JObj (intent_members i)) = Inr f" "hashObject (sha P) (JObj (transition_body (first_entry i f []))) = Inr h"
    "hashObject (sha P) (JObj (operation_body (first_record i f h []))) = Inr d"
  shows "newRailOperation P i = validateRailOperation P (first_record i f h d)"
proof -
  have entry: "sealEntry P (first_entry i f []) = Inr (first_entry i f h)"
    by (simp add: sealEntry_def assms first_record_json(5))
  have whole: "rail_intent.extend i
      \<lparr>ro_fingerprint = f, ro_send = None, ro_allowlistLease = None, ro_state = rt_state (first_entry i f h), ro_terminal = False,
       ro_reason = rt_reason (first_entry i f h), ro_proofClass = rt_proofClass (first_entry i f h),
       ro_transactionId = rt_transactionId (first_entry i f h), ro_rawPayloadHash = rt_rawPayloadHash (first_entry i f h),
       ro_evidence = rt_evidence (first_entry i f h), ro_createdAt = rt_at (first_entry i f h), ro_updatedAt = rt_at (first_entry i f h),
       ro_transitions = [first_entry i f h], ro_integrityHash = []\<rparr> = first_record i f h []"
    by (simp add: first_record_def) (simp add: first_entry_def)
  show ?thesis
    unfolding newRailOperation_def first_entry_def [of i _ "[]", symmetric]
    by (simp add: assms(1) entry whole sealRail_def assms(3))
qed

lemma first_entry_total: "\<exists>t. hashObject H (JObj (transition_body (first_entry i f h))) = Inr (H t)"
  by (rule hashObject_total, rule toCanonical_total) (simp add: first_entry_def transition_body_def latest_members_def)

lemma first_record_total:
  assumes "intent_ok P i"
  shows "\<exists>t. hashObject H (JObj (operation_body (first_record i f h d))) = Inr (H t)"
proof (rule hashObject_total, rule toCanonical_members)
  fix k v
  assume "(k, v) \<in> set (operation_body (first_record i f h d))"
  then have "(k, v) \<in> set (intent_members i) \<or> plain_json v"
    by (auto simp: operation_body_def first_record_json(1) latest_members_def transitions_json_def
        transition_json_def transition_body_def first_entry_def opt_member_def nullable_def)
  then show "\<exists>c. toCanonical v = Inr c" using intent_total [OF assms] toCanonical_total by auto
qed

text \<open>
  Freezing an intent whose account, prepared transfer, digests and allowlist binding are
  valid always succeeds: it yields a valid record of exactly that intent, awaiting approval, with
  one journal entry and neither send window nor lease.
\<close>

lemma new_rail_accepted:
  assumes "intent_ok P intent" "\<forall>t. hash_text (sha P t)"
  shows "\<exists>v. newRailOperation P intent = Inr v \<and> validateRailOperation P v = Inr v \<and> rail_intent.truncate v = intent \<and>
    ro_state v = AwaitingApproval \<and> length (ro_transitions v) = 1 \<and> ro_send v = None \<and> ro_allowlistLease v = None"
proof -
  obtain a where a: "hashObject (sha P) (JObj (intent_members intent)) = Inr (sha P a)"
    using hashObject_total [OF toCanonical_members] intent_total [OF assms(1)] by fast
  obtain b where b: "hashObject (sha P) (JObj (transition_body (first_entry intent (sha P a) []))) = Inr (sha P b)"
    using first_entry_total by blast
  obtain c where c: "hashObject (sha P) (JObj (operation_body (first_record intent (sha P a) (sha P b) []))) = Inr (sha P c)"
    using first_record_total [OF assms(1)] by blast
  define f h d where "f = sha P a" and "h = sha P b" and "d = sha P c"
  with a b c assms(2) have digests: "hashObject (sha P) (JObj (intent_members intent)) = Inr f"
      "hashObject (sha P) (JObj (transition_body (first_entry intent f []))) = Inr h"
      "hashObject (sha P) (JObj (operation_body (first_record intent f h []))) = Inr d" "hash_text f" "hash_text h" "hash_text d"
    by simp_all
  let ?v = "first_record intent f h d"
  have acct: "validateChainAccount P (ro_account intent) = Inr (ro_account intent)"
    "validateRailPrepared P (ro_prepared intent) (ro_account intent) = Inr (ro_prepared intent)"
    using assms(1) by (auto simp: intent_ok_def is_ok_eq dest: validateChainAccount_self validateRailPrepared_self)
  have allowed: "validateRailAllowlist P ?v subject = Inr ()" for subject
    using assms(1) by (auto simp: intent_ok_def validateRailAllowlist_def is_ok_eq RAIL_LEASE_STATES_def first_entry_def check_def
        split: option.splits)
  have entry: "validateEntry P ?v (ro_account intent) (ro_prepared intent) None (first_entry intent f h) = Inr ()"
    using digests prepared_times [OF acct(2)] first_reason
    by (simp add: validateEntry_def first_record_json(4) [of intent f h] validateEntryLink_def validateEntryRail_def validateEntryEvidence_def
        nullable_check_def bound_states_def check_def) (simp add: first_entry_def check_def)
  have state: "rt_state (first_entry intent f h) \<notin> set RAIL_TERMINAL_STATES" by (simp add: first_entry_def RAIL_TERMINAL_STATES_def)
  have "list_all hash_text [ro_operationId intent, ro_profileHash intent, ro_idempotencyHash intent, ro_requestHash intent, ro_policyHash intent]"
    using assms(1) unfolding intent_ok_def by (rule conjunct1)
  with digests(4-6) have heads: "list_all hash_text (rail_hashes ?v)" by (simp add: rail_hashes_def)
  have owner: "ro_profile intent = ac_profile (ro_account intent)" "ro_profileHash intent = ac_profileHash (ro_account intent)"
    using assms(1) by (auto simp: intent_ok_def)
  have hashed: "hashObject (sha P) (JObj (intent_members ?v)) = Inr f" "hashObject (sha P) (JObj (operation_body ?v)) = Inr d"
    using digests(1,3) by (simp_all add: first_record_json(1) first_record_json(2) [of intent f h d])
  have entries: "validateEntries P ?v (ro_account intent) (ro_prepared intent) None [first_entry intent f h] = Inr (Some (first_entry intent f h))"
    by (simp add: entry)
  have "validateRailOperation P ?v = Inr ?v"
    unfolding validateRailOperation_def
    by (simp add: heads owner hashed entries allowed acct prepared_times [OF acct(2)] first_record_json(3) [of intent f h d] state
        del: validateEntries.simps)
  then show ?thesis
    using newRailOperation_first [OF digests(1-3)] by (intro exI [of _ ?v]) simp
qed

section \<open>A sample transfer\<close>

text \<open>One TRX, followed from its approval to its final evidence.\<close>

definition sample_rail_account :: chain_account where
  "sample_rail_account = \<lparr>ac_profile = ''main'', ac_profileHash = aaa, ac_rail = TronRail, ac_provider = LocalProvider,
     ac_custody = LocalSoftware, ac_address = sample_tron_address, ac_createdAt = ''2026-05-05T10:00:00.000Z'', ac_identityHash = aaa\<rparr>"

definition sample_intent :: rail_intent where
  "sample_intent = \<lparr>ro_operationId = aaa, ro_profile = ''main'', ro_profileHash = aaa, ro_idempotencyHash = aaa, ro_requestHash = aaa,
     ro_account = sample_rail_account, ro_prepared = sample_tron_transfer, ro_policyHash = aaa, ro_allowlist = None\<rparr>"

definition sample_rail_evidence :: final_evidence where
  "sample_rail_evidence = \<lparr>fe_networkIdentity = TRON_GENESIS, fe_transactionId = aaa, fe_blockNumberAtomic = ''9'',
     fe_blockId = sample_block CHR ''9'', fe_finality = SolidifiedBlock, fe_sender = sample_tron_address,
     fe_recipient = pt_recipient sample_tron_transfer, fe_assetIdentifier = ''native:trx'', fe_amountAtomic = ''1000000'',
     fe_actualNetworkFeeAtomic = ''264000'', fe_actualRecipientRentAtomic = ''0'', fe_networkFeePayer = sample_tron_address,
     fe_senderEffectVerified = True, fe_recipientEffectVerified = True, fe_transactionVerified = True,
     fe_observedAt = ''2026-09-17T12:00:00.000Z'', fe_rpcOriginHash = aaa, fe_resources = Some sample_tron_final\<rparr>"

text \<open>An entry of the sample journal: its state decides what it binds.\<close>

definition sample_entry :: "rail_state \<Rightarrow> rail_transition" where
  "sample_entry s = \<lparr>rt_state = s,
     rt_at = (if s = AwaitingApproval then pt_preparedAt sample_tron_transfer else ''2026-09-17T12:00:00.000Z''),
     rt_reason = (if s = AwaitingApproval then ''prepared_and_frozen'' else ''sample_step''), rt_proofClass = ''durable_pre_effect'',
     rt_transactionId = (if s \<in> set bound_states then Some aaa else None),
     rt_rawPayloadHash = (if s \<in> set bound_states then Some aaa else None),
     rt_evidence = (if s = Completed then Some sample_rail_evidence else None), rt_previousHash = aaa, rt_transitionHash = aaa\<rparr>"

definition sample_rail :: "rail_state list \<Rightarrow> rail_operation" where
  "sample_rail ss = (let e = sample_entry (last ss) in rail_intent.extend sample_intent
     \<lparr>ro_fingerprint = aaa, ro_send = None, ro_allowlistLease = None, ro_state = rt_state e, ro_terminal = rt_state e \<in> set RAIL_TERMINAL_STATES,
      ro_reason = rt_reason e, ro_proofClass = rt_proofClass e, ro_transactionId = rt_transactionId e,
      ro_rawPayloadHash = rt_rawPayloadHash e, ro_evidence = rt_evidence e, ro_createdAt = pt_preparedAt sample_tron_transfer,
      ro_updatedAt = rt_at e, ro_transitions = map sample_entry ss, ro_integrityHash = aaa\<rparr>)"

abbreviation sample_signed :: "rail_state list" where
  "sample_signed \<equiv> [AwaitingApproval, SigningStarted, SignedNotSubmitted]"

abbreviation sample_sent :: "rail_state list" where
  "sample_sent \<equiv> [AwaitingApproval, SigningStarted, SignedNotSubmitted, Submitting]"

abbreviation sample_done :: "rail_state list" where
  "sample_done \<equiv> [AwaitingApproval, SigningStarted, SignedNotSubmitted, Submitting, Completed]"

lemma sample_intent_ok: "intent_ok sample_prims sample_intent"
proof -
  have "canonicalProfile ''main'' = Inr ''main''" "isIsoInstant ''2026-05-05T10:00:00.000Z''" "hash_text aaa"
    "tron_base58_text sample_tron_address"
    by code_simp+
  then have "is_ok (validateChainAccount sample_prims sample_rail_account)"
    by (simp add: validateChainAccount_def sample_rail_account_def is_ok_eq check_def sha256_def rail_address_text_def account_body_def)
  moreover have "is_ok (validateRailPrepared sample_prims sample_tron_transfer sample_rail_account)" by code_simp
  ultimately show ?thesis
    by (simp add: intent_ok_def sample_intent_def) (simp add: sample_rail_account_def \<open>hash_text aaa\<close>)
qed

lemma sample_evidence_ok: "validateRailEvidence sample_prims sample_rail_evidence sample_tron_transfer aaa True = Inr ()"
  by code_simp

lemma sample_texts: "token_text ''prepared_and_frozen''" "token_text ''durable_pre_effect''" "token_text ''sample_step''"
  "isIsoInstant ''2026-09-17T12:00:00.000Z''" "isIsoInstant (pt_preparedAt sample_tron_transfer)" "hash_text aaa"
  "pt_preparedAt sample_tron_transfer < ''2026-09-17T12:00:00.000Z''" "ac_rail sample_rail_account = TronRail"
  "ac_provider sample_rail_account = LocalProvider" "fe_observedAt sample_rail_evidence = ''2026-09-17T12:00:00.000Z''"
  by code_simp+

lemma transition_hashed: "hashObject (sha sample_prims) (JObj (transition_body e)) = Inr aaa"
  by (rule sample_hash) (simp add: transition_body_def latest_plain [simplified])

lemma sample_rail_fields [simp]:
  "ro_fingerprint (sample_rail ss) = aaa" "ro_createdAt (sample_rail ss) = pt_preparedAt sample_tron_transfer"
  "ro_transitions (sample_rail ss) = map sample_entry ss" "ro_account (sample_rail ss) = sample_rail_account"
  "ro_prepared (sample_rail ss) = sample_tron_transfer" "rail_intent.truncate (sample_rail ss) = sample_intent"
  "intent_members (sample_rail ss) = intent_members sample_intent" "ro_integrityHash (sample_rail ss) = aaa"
  "ro_send (sample_rail ss) = None" "ro_allowlistLease (sample_rail ss) = None" "ro_allowlist (sample_rail ss) = None"
  "ro_state (sample_rail ss) = last ss" "ro_terminal (sample_rail ss) = (last ss \<in> set RAIL_TERMINAL_STATES)"
  by (simp_all add: sample_rail_def Let_def rail_intent.defs sample_intent_def intent_members_def sample_entry_def)

lemma sample_entry_ok:
  fixes previous :: "rail_state option" and s :: rail_state
  assumes "case previous of None \<Rightarrow> s = AwaitingApproval | Some (p :: rail_state) \<Rightarrow> (p, s) \<in> set (zip sample_done (tl sample_done))"
  shows "validateEntry sample_prims (sample_rail zs) sample_rail_account sample_tron_transfer (map_option sample_entry previous) (sample_entry s) = Inr ()"
  using assms sample_texts sample_evidence_ok
  by (cases previous)
    (auto simp: validateEntry_def transition_hashed validateEntryLink_def validateEntryRail_def validateEntryEvidence_def nullable_check_def
      validateRailTransactionId_def transaction_id_text_def sample_entry_def bound_states_def isoDate_def check_def)

lemma sample_entries_ok:
  "set (zip (p # ss) ss) \<subseteq> set (zip sample_done (tl sample_done)) \<Longrightarrow>
   validateEntries sample_prims (sample_rail zs) sample_rail_account sample_tron_transfer (Some (sample_entry p)) (map sample_entry ss) =
     Inr (Some (sample_entry (last (p # ss))))"
proof (induction ss arbitrary: p)
  case (Cons s ss)
  then show ?case using sample_entry_ok [of s "Some p" zs] by simp
qed simp

lemma sample_body_plain: "plain_json (JObj (intent_members sample_intent))"
  by code_simp

lemma sample_operation_hash: "hashObject (sha sample_prims) (JObj (operation_body (sample_rail ss))) = Inr aaa"
  by (rule sample_hash, insert sample_body_plain)
    (auto simp: operation_body_def latest_members_def transitions_json_def transition_json_def transition_body_def
      opt_member_def nullable_def resources_plain list_all_iff split: option.splits)

lemma sample_rail_accepted:
  assumes "ss \<in> {[AwaitingApproval], sample_signed, sample_sent, sample_done}"
  shows "validateRailOperation sample_prims (sample_rail ss) = Inr (sample_rail ss)"
proof -
  let ?v = "sample_rail ss"
  from assms obtain ss' where ss: "ss = AwaitingApproval # ss'" "set (zip (AwaitingApproval # ss') ss') \<subseteq> set (zip sample_done (tl sample_done))"
      "length ss \<le> 32"
    by auto
  have nonempty: "ss \<noteq> []" using ss(1) by simp
  have entries: "validateEntries sample_prims ?v sample_rail_account sample_tron_transfer None (map sample_entry ss) = Inr (Some (sample_entry (last ss)))"
    using sample_entry_ok [of AwaitingApproval None ss] sample_entries_ok [OF ss(2), of ss] by (simp add: ss(1))
  have latest: "entry_latest (sample_entry (last ss)) = record_latest ?v" "rt_state (sample_entry (last ss)) = last ss"
    by (simp_all add: entry_latest_def record_latest_def sample_rail_def Let_def rail_intent.defs sample_entry_def)
  have account: "validateChainAccount sample_prims sample_rail_account = Inr sample_rail_account"
    "validateRailPrepared sample_prims sample_tron_transfer sample_rail_account = Inr sample_tron_transfer"
    using sample_intent_ok by (auto simp: intent_ok_def sample_intent_def is_ok_eq dest: validateChainAccount_self validateRailPrepared_self)
  have hashes: "list_all hash_text (rail_hashes ?v)"
    using sample_texts(6) by (simp add: rail_hashes_def sample_rail_def Let_def rail_intent.defs sample_intent_def)
  have owner: "ro_profile ?v = ac_profile sample_rail_account" "ro_profileHash ?v = ac_profileHash sample_rail_account"
    by (simp_all add: sample_rail_def Let_def rail_intent.defs sample_intent_def sample_rail_account_def)
  have times: "isoDate (pt_preparedAt sample_tron_transfer) = Inr (pt_preparedAt sample_tron_transfer)" "isoDate (ro_updatedAt ?v) = Inr (ro_updatedAt ?v)"
    using sample_texts by (simp_all add: isoDate_def sample_rail_def Let_def rail_intent.defs sample_entry_def)
  have allowed: "validateRailAllowlist sample_prims ?v subject = Inr ()" for subject
    by (simp add: validateRailAllowlist_def check_def)
  show ?thesis
    unfolding validateRailOperation_def
    using ss(3) nonempty by (simp add: hashes account owner times allowed sample_hash [OF sample_body_plain] sample_operation_hash entries latest
        Suc_le_eq del: validateEntries.simps plain_json.simps) 
qed

lemma sample_integrity: "sample_rail ss\<lparr>ro_integrityHash := aaa\<rparr> = sample_rail ss"
  by (simp add: sample_rail_def Let_def rail_intent.defs)

lemma sample_sign: "transitionRail sample_prims (sample_rail sample_signed)
    \<lparr>mv_state = Submitting, mv_at = ''2026-09-17T12:00:00.000Z'', mv_reason = ''sample_step'', mv_proofClass = ''durable_pre_effect'',
     mv_transactionId = None, mv_rawPayloadHash = None, mv_evidence = None, mv_send = None, mv_allowlistLease = None\<rparr>
  = Inr (sample_rail (sample_sent))"
proof -
  have signed: "validateRailOperation sample_prims (sample_rail ss) = Inr (sample_rail ss)"
    if "ss \<in> {sample_signed, sample_sent}" for ss
    using that sample_rail_accepted by auto
  let ?e = "sample_entry Submitting"
  have entry: "sealEntry sample_prims \<lparr>rt_state = Submitting, rt_at = ''2026-09-17T12:00:00.000Z'', rt_reason = ''sample_step'',
      rt_proofClass = ''durable_pre_effect'', rt_transactionId = Some aaa, rt_rawPayloadHash = Some aaa, rt_evidence = None,
      rt_previousHash = aaa, rt_transitionHash = []\<rparr> = Inr ?e"
    by (simp add: sealEntry_def transition_hashed) (simp add: sample_entry_def bound_states_def)
  have bound: "ro_transactionId (sample_rail sample_signed) = Some aaa" "ro_rawPayloadHash (sample_rail sample_signed) = Some aaa"
    "ro_evidence (sample_rail sample_signed) = None" "rt_transitionHash (sample_entry SignedNotSubmitted) = aaa"
    by (simp_all add: sample_rail_def Let_def rail_intent.defs sample_entry_def bound_states_def)
  have grown: "sample_rail sample_signed\<lparr>ro_send := None, ro_allowlistLease := None,
       ro_state := rt_state ?e, ro_reason := rt_reason ?e, ro_proofClass := rt_proofClass ?e,
       ro_transactionId := rt_transactionId ?e, ro_rawPayloadHash := rt_rawPayloadHash ?e, ro_evidence := rt_evidence ?e,
       ro_updatedAt := rt_at ?e, ro_terminal := rt_state ?e \<in> set RAIL_TERMINAL_STATES,
       ro_transitions := [sample_entry AwaitingApproval, sample_entry SigningStarted, sample_entry SignedNotSubmitted, ?e]\<rparr> = sample_rail (sample_sent)"
    by (simp add: sample_rail_def Let_def rail_intent.defs)
  have "canonicalJson (operation_json (sample_rail sample_signed)) \<noteq> canonicalJson (operation_json (sample_rail (sample_sent)))"
    using operation_json_state [OF signed [of sample_signed], of "sample_rail (sample_sent)"] by auto
  then have continuity: "validateRailContinuity sample_prims (sample_rail sample_signed) (sample_rail (sample_sent)) = Inr ()"
    using signed by (simp add: validateRailContinuity_def RAIL_TERMINAL_STATES_def check_def)
  have sealed: "sealRail sample_prims (sample_rail (sample_sent)) = Inr (sample_rail (sample_sent))"
    using signed by (simp add: sealRail_def sample_operation_hash sample_integrity)
  show ?thesis
    unfolding transitionRail_def
    using signed [of sample_signed] by (simp add: bound or_else_def entry grown sealed continuity)
qed


lemma sample_fee: "undec (pt_maximumFeeAtomic sample_tron_transfer) = 500000"
  by code_simp

definition sample_chain_policy :: chain_policy where
  "sample_chain_policy = \<lparr>cp_account = sample_rail_account, cp_asset = pt_asset sample_tron_transfer, cp_networkIdentity = TRON_GENESIS,
     cp_maximumPerTransferAtomic = ''1000000'', cp_dailyLimitAtomic = ''2000000'', cp_maximumNativeFeeAtomic = ''500000'',
     cp_admittedAt = ''2026-05-05T10:00:00.000Z'', cp_policyHash = aaa\<rparr>"

lemma sample_daily: "undec (cp_dailyLimitAtomic sample_chain_policy) = 2000000" "undec ''1000000'' = 1000000"
  by code_simp+

theorem rail_journal_legal_witness:
  "legal_journal (ro_transitions (sample_rail sample_done)) \<and> ro_terminal (sample_rail sample_done)"
  using rail_journal_legal [OF sample_rail_accepted [of sample_done]] by (simp add: RAIL_TERMINAL_STATES_def)

lemma rail_terminal_refused_sample:
  "\<forall>move. \<not> is_ok (transitionRail sample_prims (sample_rail sample_done) move)"
  using rail_terminal_refused [of "sample_rail sample_done"] by (simp add: RAIL_TERMINAL_STATES_def)

theorem rail_evidence_bounded_witness:
  "\<exists>ev. native_paid (sample_rail sample_done) ev \<le> 500000 \<and> fe_recipientEffectVerified ev"
  using rail_evidence_bounded [OF sample_rail_accepted [of sample_done]] by (auto simp: sample_fee)

theorem rail_usage_follows_witness:
  "(railUsageTarget Submitting, railUsageTarget Completed) \<in> {(a, b). b \<in> set (allowed_transitions a)}\<^sup>*"
  using rail_usage_follows [of Completed Submitting] by simp

lemma sample_chain_policy_admits:
  "assertChainPrincipal sample_prims sample_chain_policy ''1000000'' [sample_rail sample_signed] (Some ''2026-09-17T12:00:00.000Z'') None = Inr ()"
proof -
  have account: "validateChainAccount sample_prims sample_rail_account = Inr sample_rail_account"
    using sample_intent_ok by (auto simp: intent_ok_def sample_intent_def is_ok_eq dest: validateChainAccount_self)
  have asset: "validateChainAsset (pt_asset sample_tron_transfer) = Inr (pt_asset sample_tron_transfer)" by code_simp
  have amounts: "u64 ''1000000'' True = Inr 1000000" "u64 ''1000000'' False = Inr 1000000" "u64 ''2000000'' True = Inr 2000000"
    "u64 ''2000000'' False = Inr 2000000" "u64 ''500000'' True = Inr 500000"
    "isoDate ''2026-05-05T10:00:00.000Z'' = Inr ''2026-05-05T10:00:00.000Z''" "as_rail (pt_asset sample_tron_transfer) = TronRail"
    "plain_json (JObj (policy_body sample_chain_policy))"
    by code_simp+
  have "validateChainPolicy sample_prims sample_chain_policy = Inr sample_chain_policy"
    unfolding validateChainPolicy_def using sample_texts(8)
    by (simp add: sample_hash [OF amounts(8)] del: plain_json.simps) (simp add: sample_chain_policy_def account asset amounts rail_genesis_def)
  moreover have "chainUsage sample_chain_policy [sample_rail sample_signed] (Some ''2026-09-17T12:00:00.000Z'') None = Inr (1000000, 264000)" by code_simp
  moreover have "cp_maximumPerTransferAtomic sample_chain_policy = ''1000000''" "cp_dailyLimitAtomic sample_chain_policy = ''2000000''"
    by (simp_all add: sample_chain_policy_def)
  ultimately show ?thesis by (simp add: assertChainPrincipal_def amounts del: chainUsage.simps)
qed

theorem chain_principal_within_cap_witness:
  "sum_list (map (charged_principal sample_chain_policy (Some ''2026-09-17T12:00:00.000Z'')) (filter (usage_counts sample_chain_policy None) [sample_rail sample_signed]))
    \<le> 2000000"
  using chain_principal_within_cap [OF sample_chain_policy_admits] by (simp add: sample_daily)

end
