(* ===== verification/Runs.thy ===== *)
theory Runs
  imports Wp
begin

text \<open>
  Computations that move the state along a relation. \<open>keeps I R m\<close> holds when \<open>m\<close>, started where the
  invariant \<open>I\<close> holds, ends (returning or throwing) in a state that \<open>R\<close> relates to its start. The
  locale collects, for any relation that is transitive and carries the invariant, the rules that
  build such runs from their parts.
\<close>

definition keeps :: "('s \<Rightarrow> bool) \<Rightarrow> ('s \<Rightarrow> 's \<Rightarrow> bool) \<Rightarrow> ('s, 'a) stm \<Rightarrow> bool" where
  "keeps I R m \<longleftrightarrow> (\<forall>s. I s \<longrightarrow> R s (snd (m s)))"

lemma keepsD: "keeps I R m \<Longrightarrow> I s \<Longrightarrow> m s = (r, s') \<Longrightarrow> R s s'"
  by (force simp: keeps_def)

lemma keepsI: "(\<And>s r s'. I s \<Longrightarrow> m s = (r, s') \<Longrightarrow> R s s') \<Longrightarrow> keeps I R m"
  unfolding keeps_def by (metis prod.collapse)

text \<open>A run that returns went through each of its steps.\<close>

lemma bnd_Inr: "bnd m f s = (Inr x, t) \<longleftrightarrow> (\<exists>y u. m s = (Inr y, u) \<and> f y u = (Inr x, t))"
  by (auto simp: bnd_def split: prod.splits sum.splits)

lemma keeps_mono: "keeps I R m \<Longrightarrow> (\<And>s t. R s t \<Longrightarrow> R' s t) \<Longrightarrow> keeps I R' m"
  by (auto simp: keeps_def)

lemma keeps_if: "(c \<Longrightarrow> keeps I R m) \<Longrightarrow> (\<not> c \<Longrightarrow> keeps I R m') \<Longrightarrow> keeps I R (if c then m else m')"
  by simp

lemma keeps_option:
  "(v = None \<Longrightarrow> keeps I R m) \<Longrightarrow> (\<And>x. v = Some x \<Longrightarrow> keeps I R (f x)) \<Longrightarrow>
   keeps I R (case v of None \<Rightarrow> m | Some x \<Rightarrow> f x)"
  by (cases v) simp_all

lemma keeps_sum:
  "(\<And>x. v = Inl x \<Longrightarrow> keeps I R (f x)) \<Longrightarrow> (\<And>x. v = Inr x \<Longrightarrow> keeps I R (g x)) \<Longrightarrow>
   keeps I R (case v of Inl x \<Rightarrow> f x | Inr x \<Rightarrow> g x)"
  by (cases v) simp_all

lemma keeps_pair: "(\<And>a b. keeps I R (f a b)) \<Longrightarrow> keeps I R (case x of (a, b) \<Rightarrow> f a b)"
  by (cases x) simp

lemma keeps_let: "keeps I R (f x) \<Longrightarrow> keeps I R (let y = x in f y)"
  by simp

locale stable_runs =
  fixes I :: "'s \<Rightarrow> bool" and R :: "'s \<Rightarrow> 's \<Rightarrow> bool"
  assumes R_refl: "I s \<Longrightarrow> R s s"
    and R_trans: "R s t \<Longrightarrow> R t u \<Longrightarrow> R s u"
    and R_inv: "I s \<Longrightarrow> R s t \<Longrightarrow> I t"
begin

lemma keeps_same: "(\<And>s. snd (m s) = s) \<Longrightarrow> keeps I R m"
  by (simp add: keeps_def R_refl)

lemma keeps_ret: "keeps I R (ret x)"
  by (simp add: keeps_same)

lemma keeps_lift: "keeps I R (lift r)"
  by (simp add: keeps_same)

lemma keeps_bnd:
  assumes "keeps I R m" "\<And>x. keeps I R (f x)"
  shows "keeps I R (bnd m f)"
proof (rule keepsI)
  fix s r s' assume s: "I s" and run: "bnd m f s = (r, s')"
  obtain a t where a: "m s = (a, t)" by (cases "m s")
  with assms(1) s have t: "R s t" by (auto dest: keepsD)
  then have "I t" using s R_inv by blast
  with a run t show "R s s'"
    by (cases a) (auto simp: bnd_def intro: R_trans keepsD [OF assms(2)])
qed

lemma keeps_try:
  assumes "keeps I R m" "\<And>e. keeps I R (h e)"
  shows "keeps I R (try_catch m h)"
proof (rule keepsI)
  fix s r s' assume s: "I s" and run: "try_catch m h s = (r, s')"
  obtain a t where a: "m s = (a, t)" by (cases "m s")
  with assms(1) s have t: "R s t" by (auto dest: keepsD)
  then have "I t" using s R_inv by blast
  with a run t show "R s s'"
    by (cases a) (auto simp: try_catch_def intro: R_trans keepsD [OF assms(2)])
qed

lemmas keeps_rules = keeps_ret keeps_lift keeps_bnd keeps_try keeps_if keeps_option keeps_sum keeps_pair keeps_let

text \<open>A run up to a point where more is known.\<close>

lemma keeps_wp:
  assumes "wp m (\<lambda>x t. R s t \<and> R t (snd (f x t))) (\<lambda>e t. R s t) s"
  shows "R s (snd (bnd m f s))"
  using assms by (auto simp: wp_def bnd_def split: prod.splits sum.splits intro: R_trans)

end

end
