(* ===== verification/RailSafety.thy ===== *)
theory RailSafety
  imports RailService RailRecordLaws DirectGateLaws Runs "HOL-Library.Sublist"
begin

text \<open>
  The safety of the direct rail commands against crashes and against other processes: journals
  only grow, and no transfer is submitted twice. The argument is one invariant over the store and
  the two histories, kept by every step of the code, under the assumption that the other processes
  keep it too.
\<close>

section \<open>The invariant\<close>

definition submissions_of :: "rail_operation \<Rightarrow> nat" where
  "submissions_of v = length (filter (\<lambda>e. rt_state e = Submitting) (ro_transitions v))"

definition submissions :: "rail_world \<Rightarrow> op_key \<Rightarrow> nat" where
  "submissions s k = (case map_of (rw_ops s) k of None \<Rightarrow> 0 | Some v \<Rightarrow> submissions_of v)"

definition wrote :: "op_key \<Rightarrow> rail_event list \<Rightarrow> nat" where
  "wrote k log = count_list log (Wrote k Submitting)"

definition sent :: "op_key \<Rightarrow> rail_event list \<Rightarrow> nat" where
  "sent k log = count_list log (Sent k)"

text \<open>
  Every stored record is valid under its own key; every submission in a journal was written by this
  process or by another; and no process sent more often than it wrote a submission first.
\<close>

definition rail_inv :: "prims \<Rightarrow> rail_world \<Rightarrow> bool" where
  "rail_inv P s \<longleftrightarrow>
     (\<forall>k v. map_of (rw_ops s) k = Some v \<longrightarrow> validateRailOperation P v = Inr v \<and> k = op_key_of v) \<and>
     (\<forall>k. wrote k (rw_log s) + wrote k (rw_others s) = submissions s k) \<and>
     (\<forall>k. sent k (rw_log s) \<le> wrote k (rw_log s) \<and> sent k (rw_others s) \<le> wrote k (rw_others s))"

text \<open>A stored operation keeps its fingerprint, and its journal only grows.\<close>

definition journals_grow :: "rail_world \<Rightarrow> rail_world \<Rightarrow> bool" where
  "journals_grow s t \<longleftrightarrow> (\<forall>k v. map_of (rw_ops s) k = Some v \<longrightarrow>
     (\<exists>w. map_of (rw_ops t) k = Some w \<and> ro_fingerprint w = ro_fingerprint v \<and>
       prefix (map rt_state (ro_transitions v)) (map rt_state (ro_transitions w))))"

definition rail_step :: "prims \<Rightarrow> rail_world \<Rightarrow> rail_world \<Rightarrow> bool" where
  "rail_step P s t \<longleftrightarrow> rail_inv P t \<and> journals_grow s t \<and> prefix (rw_log s) (rw_log t) \<and> prefix (rw_others s) (rw_others t)"

text \<open>A step that sends nothing.\<close>

definition quiet_step :: "prims \<Rightarrow> rail_world \<Rightarrow> rail_world \<Rightarrow> bool" where
  "quiet_step P s t \<longleftrightarrow> rail_step P s t \<and> (\<forall>k. sent k (rw_log t) = sent k (rw_log s))"

text \<open>Other processes run the same code: they keep the invariant and never touch this process's history.\<close>

definition others_behave :: "prims \<Rightarrow> rail_env \<Rightarrow> bool" where
  "others_behave P E \<longleftrightarrow> (\<forall>n s. rail_inv P s \<longrightarrow> rail_step P s (re_others E n s) \<and> rw_log (re_others E n s) = rw_log s)"

lemma journals_grow_refl: "journals_grow s s"
  by (auto simp: journals_grow_def)

lemma journals_grow_trans:
  assumes "journals_grow s t" "journals_grow t u"
  shows "journals_grow s u"
  unfolding journals_grow_def
proof (intro allI impI)
  fix k v assume "map_of (rw_ops s) k = Some v"
  with assms(1) obtain w where w: "map_of (rw_ops t) k = Some w" "ro_fingerprint w = ro_fingerprint v"
    "prefix (map rt_state (ro_transitions v)) (map rt_state (ro_transitions w))"
    unfolding journals_grow_def by blast
  with assms(2) obtain x where "map_of (rw_ops u) k = Some x" "ro_fingerprint x = ro_fingerprint w"
    "prefix (map rt_state (ro_transitions w)) (map rt_state (ro_transitions x))"
    unfolding journals_grow_def by blast
  with w show "\<exists>x. map_of (rw_ops u) k = Some x \<and> ro_fingerprint x = ro_fingerprint v \<and>
      prefix (map rt_state (ro_transitions v)) (map rt_state (ro_transitions x))"
    using prefix_order.trans by auto
qed

interpretation steps: stable_runs "rail_inv P" "rail_step P" for P
proof unfold_locales
  show "rail_inv P s \<Longrightarrow> rail_step P s s" for s by (simp add: rail_step_def journals_grow_refl)
  show "rail_step P s t \<Longrightarrow> rail_step P t u \<Longrightarrow> rail_step P s u" for s t u
    unfolding rail_step_def using journals_grow_trans prefix_order.trans by blast
  show "rail_inv P s \<Longrightarrow> rail_step P s t \<Longrightarrow> rail_inv P t" for s t by (simp add: rail_step_def)
qed

interpretation quiet: stable_runs "rail_inv P" "quiet_step P" for P
proof unfold_locales
  show "rail_inv P s \<Longrightarrow> quiet_step P s s" for s by (simp add: quiet_step_def steps.R_refl)
  show "quiet_step P s t \<Longrightarrow> quiet_step P t u \<Longrightarrow> quiet_step P s u" for s t u
    unfolding quiet_step_def using steps.R_trans by metis
  show "rail_inv P s \<Longrightarrow> quiet_step P s t \<Longrightarrow> rail_inv P t" for s t by (simp add: quiet_step_def rail_step_def)
qed

lemma quiet_steps: "keeps (rail_inv P) (quiet_step P) m \<Longrightarrow> keeps (rail_inv P) (rail_step P) m"
  by (erule keeps_mono) (simp add: quiet_step_def)

section \<open>The gate leaves the rail store alone\<close>

abbreviation frame :: "'w gate_state_scheme \<Rightarrow> 'w gate_state_scheme \<Rightarrow> bool" where
  "frame s t \<equiv> gate_state.more t = gate_state.more s"

interpretation framed: stable_runs "\<lambda>_. True" frame
  by unfold_locales auto

lemma framed_ask: "keeps (\<lambda>_. True) frame (ask f)"
  by (simp add: keeps_def ask_def)

lemma framed_call: "keeps (\<lambda>_. True) frame (call f)"
  unfolding call_def by (intro framed.keeps_rules framed_ask)

lemma framed_read: "keeps (\<lambda>_. True) frame (read_ledger m)"
  by (simp add: keeps_def read_ledger_def)

lemma framed_write: "keeps (\<lambda>_. True) frame (write_ledger m)"
  by (auto simp: keeps_def write_ledger_def split: prod.splits)

lemmas framed_rules = framed.keeps_rules framed_ask framed_call framed_read framed_write

lemma framed_active: "keeps (\<lambda>_. True) frame (gate_active P G subject)"
  unfolding gate_active_def loadActiveAssetPolicyRegistry_def by (intro framed_rules)

lemma framed_confirm: "keeps (\<lambda>_. True) frame (confirm P G subject b)"
  unfolding confirm_def by (intro framed_rules framed_active)

lemma framed_admit: "keeps (\<lambda>_. True) frame (admit P G subject)"
  unfolding admit_def gate_usage_def by (intro framed_rules framed_active)

lemma framed_adapter: "keeps (\<lambda>_. True) frame (adapter_reserve P G input)"
  unfolding adapter_reserve_def ledger_call_def by (intro framed_rules)

lemma framed_reserve: "keeps (\<lambda>_. True) frame (gate_reserve P G subject b)"
  unfolding gate_reserve_def gate_existing_def existing_with_def gate_load_def gate_usage_def
  by (intro framed_rules framed_confirm framed_adapter)

lemma framed_follow: "keeps (\<lambda>_. True) frame (gate_follow P G subject target h)"
  unfolding gate_follow_def follow_with_def existing_with_def gate_load_def follow_move_def gate_transition_def ledger_call_def
  by (intro framed_rules)

lemma frame_fields:
  assumes "frame s (t :: rail_world)"
  shows "rw_ops t = rw_ops s" "rw_log t = rw_log s" "rw_others t = rw_others s"
proof -
  have "t = s\<lparr>gs_ledger := gs_ledger t, gs_tick := gs_tick t, gs_life := gs_life t\<rparr>"
    by (rule gate_state.equality) (simp_all add: assms)
  then obtain l n c where t: "t = s\<lparr>gs_ledger := l, gs_tick := n, gs_life := c\<rparr>" by blast
  show "rw_ops t = rw_ops s" "rw_log t = rw_log s" "rw_others t = rw_others s"
    unfolding t by simp_all
qed

lemma frame_quiet:
  assumes "rail_inv P s" "frame s t"
  shows "quiet_step P s t"
proof -
  note f = frame_fields [OF assms(2)]
  have "rail_inv P t" using assms(1) by (simp add: rail_inv_def submissions_def f)
  moreover have "journals_grow s t" by (simp add: journals_grow_def f)
  ultimately show ?thesis by (simp add: quiet_step_def rail_step_def f)
qed

lemma framed_quiet: "keeps (\<lambda>_. True) frame m \<Longrightarrow> keeps (rail_inv P) (quiet_step P) m"
  by (auto simp: keeps_def frame_quiet)

section \<open>Writing an operation\<close>

lemma transition_plain: "plain_json (transition_json e)"
  by (simp add: transition_json_def transition_body_def latest_plain [simplified])

lemma transition_json_state:
  assumes "toCanonical (transition_json e) = toCanonical (transition_json f)"
  shows "rt_state e = rt_state f"
proof -
  obtain t where "canonicalJson (transition_json e) = Inr t" using canonicalJson_total [OF transition_plain] by blast
  moreover from this have "canonicalJson (transition_json f) = Inr t" using assms by (simp add: canonicalJson_def)
  ultimately have "(''state'', JStr (rail_state_text (rt_state e))) \<in> set (transition_body f @ [(''transitionHash'', JStr (rt_transitionHash f))])"
    using canonicalJson_member [of "transition_body e @ [(''transitionHash'', JStr (rt_transitionHash e))]" t
      "transition_body f @ [(''transitionHash'', JStr (rt_transitionHash f))]" "''state''" "rail_state_text (rt_state e)"]
      transition_floats [of e] transition_floats [of f]
    by (simp add: transition_json_def) (simp add: transition_body_def latest_members_def)
  then have "rail_state_text (rt_state e) = rail_state_text (rt_state f)"
    by (auto simp: transition_body_def latest_members_def nullable_def split: option.splits)
  then show ?thesis by (rule rail_state_text_inj)
qed

lemma transitions_states:
  assumes "canonicalJson (transitions_json es) = canonicalJson (transitions_json fs)"
  shows "map rt_state es = map rt_state fs"
proof -
  have plain: "plain_json (transitions_json xs)" for xs
    by (simp add: transitions_json_def list_all_iff transition_plain)
  have floats: "floats_ok (transitions_json xs)" for xs by (auto simp: transitions_json_def list_all_iff)
  obtain t where "canonicalJson (transitions_json es) = Inr t" using canonicalJson_total [OF plain] by blast
  then have "toCanonical (transitions_json es) = toCanonical (transitions_json fs)"
    using assms canonicalJson_eqD floats by metis
  then obtain ws where ws: "rmap toCanonical (map transition_json es) = Inr ws" "rmap toCanonical (map transition_json fs) = Inr ws"
    using toCanonical_total [OF plain [of es]] by (auto simp: transitions_json_def rbind_def split: sum.splits)
  from ws show ?thesis
  proof (induction es arbitrary: fs ws)
    case (Cons e es)
    then show ?case by (cases fs) (auto intro: transition_json_state)
  next
    case Nil
    then show ?case by (cases fs) auto
  qed
qed

text \<open>Two objects with one canonical text have, under each name, values with one canonical form.\<close>

lemma canonicalJson_value:
  assumes "canonicalJson (JObj kvs) = Inr t" "canonicalJson (JObj kvs') = Inr t"
    "floats_ok (JObj kvs)" "floats_ok (JObj kvs')" "(k, v) \<in> set kvs" "v \<noteq> JUndefined"
  shows "\<exists>v'. (k, v') \<in> set kvs' \<and> toCanonical v' = toCanonical v"
proof -
  let ?f = "\<lambda>(k, v). rbind (toCanonical v) (\<lambda>w. Inr (k, w))"
  have "toCanonical (JObj kvs) = toCanonical (JObj kvs')" using canonicalJson_eqD assms by blast
  moreover from assms(1) obtain ws where ws: "toCanonical (JObj kvs) = Inr (JObj ws)" by (auto simp: canonicalJson_def)
  ultimately have ws': "toCanonical (JObj kvs') = Inr (JObj ws)" by simp
  from ws obtain us where us: "rmap ?f (filter (\<lambda>(k, v). v \<noteq> JUndefined) kvs) = Inr us" "set ws = set us" by auto
  from ws' obtain us' where us': "rmap ?f (filter (\<lambda>(k, v). v \<noteq> JUndefined) kvs') = Inr us'" "set ws = set us'" by auto
  from rmap_set [OF us(1), of "(k, v)"] assms(5,6) us(2) obtain w where w: "(k, w) \<in> set ws" "toCanonical v = Inr w" by auto
  with rmap_InrD [OF us'(1), of "(k, w)"] us'(2) show ?thesis by fastforce
qed

lemma operation_json_eq:
  assumes "validateRailOperation P v = Inr v'" "canonicalJson (operation_json v) = canonicalJson (operation_json w)"
  shows "ro_fingerprint w = ro_fingerprint v" "map rt_state (ro_transitions w) = map rt_state (ro_transitions v)"
proof -
  let ?m = "\<lambda>v. operation_body v @ [(''integrityHash'', JStr (ro_integrityHash v))]"
  obtain t where t: "canonicalJson (JObj (?m v)) = Inr t" using operation_json_canonical [OF assms(1)] by (auto simp: operation_json_def)
  with assms(2) have t': "canonicalJson (JObj (?m w)) = Inr t" by (simp add: operation_json_def)
  note floats = rail_json_floats [of v, unfolded operation_json_def] rail_json_floats [of w, unfolded operation_json_def]
  have "(''fingerprint'', JStr (ro_fingerprint v)) \<in> set (?m w)"
    by (rule canonicalJson_member [OF t t' floats]) (simp add: operation_body_def)
  then show "ro_fingerprint w = ro_fingerprint v"
    by (auto simp: operation_body_def intent_members_def latest_members_def opt_member_def nullable_def split: option.splits)
  have "\<exists>x. (''transitions'', x) \<in> set (?m w) \<and> toCanonical x = toCanonical (transitions_json (ro_transitions v))"
    by (rule canonicalJson_value [OF t t' floats]) (simp_all add: operation_body_def transitions_json_def)
  then have "toCanonical (transitions_json (ro_transitions w)) = toCanonical (transitions_json (ro_transitions v))"
    by (auto simp: operation_body_def intent_members_def latest_members_def opt_member_def nullable_def split: option.splits)
  then show "map rt_state (ro_transitions w) = map rt_state (ro_transitions v)"
    by (intro transitions_states) (simp add: canonicalJson_def)
qed

text \<open>A record that may follow another has its fingerprint and its journal, with at most one entry more.\<close>

definition extends_by :: "rail_operation \<Rightarrow> rail_operation \<Rightarrow> rail_state list \<Rightarrow> bool" where
  "extends_by p v ss \<longleftrightarrow> ro_fingerprint v = ro_fingerprint p \<and>
     map rt_state (ro_transitions v) = map rt_state (ro_transitions p) @ ss"

lemma continuity_extends:
  assumes "validateRailContinuity P p v = Inr ()"
  shows "\<exists>ss. extends_by p v ss"
proof (cases "canonicalJson (operation_json p) = canonicalJson (operation_json v)")
  case True
  obtain p' where "validateRailOperation P p = Inr p'" using assms by (auto simp: validateRailContinuity_def)
  from operation_json_eq [OF this True] show ?thesis by (auto simp: extends_by_def intro: exI [of _ "[]"])
next
  case False
  with assms have c: "ro_fingerprint p = ro_fingerprint v" "length (ro_transitions v) = length (ro_transitions p) + 1"
    "canonicalJson (transitions_json (butlast (ro_transitions v))) = canonicalJson (transitions_json (ro_transitions p))"
    by (auto simp: validateRailContinuity_def)
  then have "ro_transitions v \<noteq> []" by auto
  then have "ro_transitions v = butlast (ro_transitions v) @ [last (ro_transitions v)]" by simp
  then have "map rt_state (ro_transitions v) = map rt_state (butlast (ro_transitions v)) @ [rt_state (last (ro_transitions v))]"
    by (metis list.simps(8) list.simps(9) map_append)
  with c(1) transitions_states [OF c(3)] show ?thesis by (auto simp: extends_by_def)
qed

lemma extends_drop:
  assumes "extends_by p v ss"
  shows "map rt_state (drop (length (ro_transitions p)) (ro_transitions v)) = ss"
proof -
  have "drop (length (map rt_state (ro_transitions p))) (map rt_state (ro_transitions v)) = ss"
    using assms by (simp add: extends_by_def)
  then show ?thesis by (simp add: drop_map)
qed

lemma submissions_of_count: "submissions_of v = count_list (map rt_state (ro_transitions v)) Submitting"
  by (simp add: submissions_of_def count_list_eq_length_filter filter_map comp_def eq_commute)

lemma wrote_entries: "wrote k (map (\<lambda>e. Wrote k' (rt_state e)) es) = (if k = k' then count_list (map rt_state es) Submitting else 0)"
  by (induction es) (auto simp: wrote_def)

lemma sent_entries: "sent k (map (\<lambda>e. Wrote k' (rt_state e)) es) = 0"
  by (induction es) (auto simp: sent_def)

lemma counts_append [simp]:
  "wrote k (xs @ ys) = wrote k xs + wrote k ys" "sent k (xs @ ys) = sent k xs + sent k ys"
  by (simp_all add: wrote_def sent_def)

text \<open>Storing a valid record that continues the stored one, or begins its journal.\<close>

lemma store_quiet:
  assumes inv: "rail_inv P s" and valid: "validateRailOperation P v = Inr v"
    and previous: "case map_of (rw_ops s) (op_key_of v) of Some p \<Rightarrow> \<exists>ss. extends_by p v ss
      | None \<Rightarrow> True"
  shows "quiet_step P s (store_operation v (s\<lparr>gs_life := n\<rparr>))"
proof -
  let ?t = "store_operation v (s\<lparr>gs_life := n\<rparr>)"
  let ?k = "op_key_of v"
  have ops: "map_of (rw_ops ?t) k = (if k = ?k then Some v else map_of (rw_ops s) k)" for k
    by (simp add: store_operation_def update_conv')
  have others: "rw_others ?t = rw_others s" and log: "rw_log ?t = rw_log s @ new_entries s v"
    by (simp_all add: store_operation_def new_entries_def)
  have "wrote k (new_entries s v) = (if k = ?k then submissions_of v - submissions s ?k else 0) \<and> submissions s ?k \<le> submissions_of v" for k
  proof (cases "map_of (rw_ops s) ?k")
    case (Some p)
    with previous obtain ss where ss: "extends_by p v ss" by auto
    with Some extends_drop [OF ss] show ?thesis
      by (simp add: new_entries_def wrote_entries submissions_def submissions_of_count) (simp add: extends_by_def)
  qed (simp add: new_entries_def wrote_entries submissions_def submissions_of_count)
  then have written: "\<And>k. wrote k (new_entries s v) = (if k = ?k then submissions_of v - submissions s ?k else 0)"
    and grown: "submissions s ?k \<le> submissions_of v" by blast+
  have count: "submissions ?t k = (if k = ?k then submissions_of v else submissions s k)" for k
    by (simp add: submissions_def ops)
  have unsent: "sent k (new_entries s v) = 0" for k by (simp add: new_entries_def sent_entries)
  have bal: "\<And>k. wrote k (rw_log s) + wrote k (rw_others s) = submissions s k"
    and own: "\<And>k. sent k (rw_log s) \<le> wrote k (rw_log s)" "\<And>k. sent k (rw_others s) \<le> wrote k (rw_others s)"
    and stored_ok: "\<And>k w. map_of (rw_ops s) k = Some w \<Longrightarrow> validateRailOperation P w = Inr w \<and> k = op_key_of w"
    using inv unfolding rail_inv_def by blast+
  have "wrote k (rw_log ?t) + wrote k (rw_others ?t) = submissions ?t k" for k
    using bal [of k] grown by (auto simp: count log others written)
  moreover have "sent k (rw_log ?t) \<le> wrote k (rw_log ?t) \<and> sent k (rw_others ?t) \<le> wrote k (rw_others ?t)" for k
    using own [of k] by (simp add: log others unsent)
  moreover have "map_of (rw_ops ?t) k = Some w \<Longrightarrow> validateRailOperation P w = Inr w \<and> k = op_key_of w" for k w
    using stored_ok [of k w] valid by (auto simp: ops split: if_splits)
  ultimately have "rail_inv P ?t" unfolding rail_inv_def by blast
  moreover have "journals_grow s ?t"
    using previous by (auto simp: journals_grow_def ops extends_by_def)
  ultimately show ?thesis by (simp add: quiet_step_def rail_step_def log others unsent)
qed


section \<open>Every part of the commands\<close>

lemma quiet_ask: "keeps (rail_inv P) (quiet_step P) (ask f)"
  by (rule framed_quiet) (rule framed_ask)

lemma quiet_call: "keeps (rail_inv P) (quiet_step P) (call f)"
  by (rule framed_quiet) (rule framed_call)

lemma quiet_reads: "keeps (rail_inv P) (quiet_step P) (reads f)"
  by (rule quiet.keeps_same) (simp add: reads_def)

lemma quiet_durable:
  assumes "\<And>s. rail_inv P s \<Longrightarrow> quiet_step P s (f (s\<lparr>gs_life := gs_life s - 1\<rparr>))"
  shows "keeps (rail_inv P) (quiet_step P) (durable f)"
  using assms by (simp add: keeps_def durable_def quiet.R_refl)

lemma quiet_fields:
  assumes "rail_inv P s" "rw_ops t = rw_ops s" "rw_log t = rw_log s" "rw_others t = rw_others s"
  shows "quiet_step P s t"
proof -
  have "rail_inv P t" using assms(1) by (simp add: rail_inv_def submissions_def assms(2-4))
  moreover have "journals_grow s t" by (simp add: journals_grow_def assms(2))
  ultimately show ?thesis by (simp add: quiet_step_def rail_step_def assms(3,4))
qed

lemma quiet_write: "keeps (rail_inv P) (quiet_step P) (writeOperation P v)"
  unfolding keeps_def
proof (intro allI impI)
  fix s assume inv: "rail_inv P s"
  show "quiet_step P s (snd (writeOperation P v s))"
  proof (cases "fst (writeOperation P v s)")
    case (Inl e)
    then show ?thesis
      using quiet.R_refl [OF inv]
      by (auto simp: writeOperation_def bnd_def lift_def loadOperation_def reads_def durable_def split: sum.splits prod.splits if_splits)
  next
    case (Inr u)
    then obtain w previous where w: "validateRailOperation P v = Inr w"
      and load: "load_operation P s (ro_profileHash v) (ro_operationId v) = Inr previous"
      and continues: "(case previous of Some p \<Rightarrow> validateRailContinuity P p v
        | None \<Rightarrow> check (\<not> (ro_state v \<noteq> AwaitingApproval \<or> length (ro_transitions v) \<noteq> 1))) = Inr ()"
      and life: "gs_life s \<noteq> 0" and s': "snd (writeOperation P v s) = store_operation v (s\<lparr>gs_life := gs_life s - 1\<rparr>)"
      by (auto simp: writeOperation_def bnd_def lift_def loadOperation_def reads_def durable_def split: sum.splits prod.splits if_splits)
    have valid: "validateRailOperation P v = Inr v" using w rail_valid(1) [OF w] by simp
    have "case map_of (rw_ops s) (op_key_of v) of Some p \<Rightarrow> \<exists>ss. extends_by p v ss | None \<Rightarrow> True"
    proof (cases "map_of (rw_ops s) (op_key_of v)")
      case (Some p)
      with load have "previous = Some p"
        using rail_valid(1) by (auto simp: load_operation_def op_path_def op_key_of_def)
      with continues Some show ?thesis by (auto dest: continuity_extends)
    qed simp
    then show ?thesis unfolding s' by (rule store_quiet [OF inv valid])
  qed
qed

lemma quiet_follow: "keeps (rail_inv P) (quiet_step P) (followUsage P E v)"
  unfolding followUsage_def by (intro quiet.keeps_rules framed_quiet framed_follow)

lemma quiet_now: "keeps (rail_inv P) (quiet_step P) (isoNow E)"
  unfolding isoNow_def by (intro quiet.keeps_rules quiet_ask)

lemma quiet_move: "keeps (rail_inv P) (quiet_step P) (move P E v st reason proofClass extra)"
  unfolding move_def persist_def by (intro quiet.keeps_rules quiet_now quiet_write quiet_follow)

lemma quiet_fail: "keeps (rail_inv P) (quiet_step P) (fail_before_effect P E v reason)"
  unfolding fail_before_effect_def by (rule quiet_move)

lemma quiet_conclude: "keeps (rail_inv P) (quiet_step P) (conclude P E v c k ev)"
  unfolding conclude_def persist_def by (intro quiet.keeps_rules quiet_now quiet_write quiet_follow)

lemma quiet_locks:
  assumes "others_behave P E" "keeps (rail_inv P) (quiet_step P) m"
  shows "keeps (rail_inv P) (quiet_step P) (withLocks E keys m)"
proof -
  have "keeps (rail_inv P) (quiet_step P) (interleave E)"
    using assms(1) by (auto simp: keeps_def interleave_def others_behave_def quiet_step_def)
  then show ?thesis unfolding withLocks_def by (intro quiet.keeps_rules quiet_call assms(2))
qed

lemma steps_locks:
  assumes "others_behave P E" "keeps (rail_inv P) (rail_step P) m"
  shows "keeps (rail_inv P) (rail_step P) (withLocks E keys m)"
proof -
  have "keeps (rail_inv P) (rail_step P) (interleave E)"
    using assms(1) by (auto simp: keeps_def interleave_def others_behave_def)
  then show ?thesis unfolding withLocks_def by (intro steps.keeps_rules quiet_steps [OF quiet_call] assms(2))
qed

lemmas quiet_rules = quiet.keeps_rules quiet_ask quiet_call quiet_reads quiet_write quiet_follow quiet_now quiet_move quiet_fail
  quiet_conclude

section \<open>Checks and lookups\<close>

lemma framed_reads: "keeps (\<lambda>_. True) frame (reads f)"
  by (rule framed.keeps_same) (simp add: reads_def)

lemma framed_now: "keeps (\<lambda>_. True) frame (isoNow E)"
  unfolding isoNow_def by (intro framed_rules)

lemma framed_account: "keeps (\<lambda>_. True) frame (account_of P E profile rail)"
proof -
  have account: "keeps (\<lambda>_. True) frame (chain_account_file P C p r)" for C p r
    unfolding chain_account_file_def by (intro framed_rules)
  have owner: "keeps (\<lambda>_. True) frame (ownerBinding P C p r)" for C p r
    unfolding ownerBinding_def by (intro framed_rules account)
  have owners: "keeps (\<lambda>_. True) frame (assert_rail_owners P C p x rs)" for C p x rs
    by (induction rs) (simp_all only: assert_rail_owners.simps, (intro framed_rules owner | assumption)+)
  have "keeps (\<lambda>_. True) frame (assertProfileOwner P E p x)" for p x
    unfolding assertProfileOwner_def Let_def by (intro framed_rules owners)
  then show ?thesis unfolding account_of_def by (intro framed_rules account)
qed

lemma framed_policies:
  "keeps (\<lambda>_. True) frame (required_policy P a al)" "keeps (\<lambda>_. True) frame (authorized_policy P a al m)"
  "keeps (\<lambda>_. True) frame (assertPrincipal P E policy oid amount)"
  unfolding required_policy_def authorized_policy_def assertPrincipal_def listOperations_def
  by (intro framed_rules framed_reads)+

lemma framed_current: "keeps (\<lambda>_. True) frame (assertCurrentRailPolicy P E v)"
  unfolding assertCurrentRailPolicy_def
  by (intro framed_rules framed_account framed_policies framed_confirm)

lemma framed_revalidate: "keeps (\<lambda>_. True) frame (revalidate P E v port)"
  unfolding revalidate_def by (intro framed_rules framed_current)

lemma framed_bind: "keeps (\<lambda>_. True) frame (bind_window E v port)"
proof -
  have "keeps (\<lambda>_. True) frame (bind_attempts E v bind n)" for bind n
    by (induction n) (simp_all only: bind_attempts.simps, (intro framed_rules | assumption)+)
  then show ?thesis unfolding bind_window_def patientBind_def by (intro framed_rules)
qed

lemma framed_evidence: "keeps (\<lambda>_. True) frame (inspectEvidence v port)"
  unfolding inspectEvidence_def by (intro framed_rules)

lemma framed_stored: "keeps (\<lambda>_. True) frame (stored P E entry)"
  unfolding stored_def loadOperation_def by (intro framed_rules framed_reads)

lemma framed_required: "keeps (\<lambda>_. True) frame (required P E oid)"
proof -
  have "keeps (\<lambda>_. True) frame (required_stored P E oid)"
    unfolding required_stored_def by (intro framed_rules framed_stored)
  then show ?thesis unfolding required_def by (intro framed_rules) (auto split: stored_operation.split intro: framed_rules)
qed

lemma framed_resolve:
  "keeps (\<lambda>_. True) frame (findIdempotency P E h)" "keeps (\<lambda>_. True) frame (resolvePrepare P E i)"
  unfolding resolvePrepare_def findIdempotency_def by (intro framed_rules framed_stored)+

lemma framed_claims:
  "keeps (\<lambda>_. True) frame (load_approval_claim P oid)" "keeps (\<lambda>_. True) frame (load_prepare_claim P h)"
  unfolding load_approval_claim_def load_prepare_claim_def by (rule framed_reads)+

lemma framed_outcome: "keeps (\<lambda>_. True) frame m \<Longrightarrow> keeps (\<lambda>_. True) frame (outcome m)"
  unfolding outcome_def by (intro framed_rules)

lemma framed_authorized: "keeps (\<lambda>_. True) frame (still_authorized P E v)"
  unfolding still_authorized_def by (intro framed_rules framed_account framed_policies framed_confirm)

lemma framed_foreground:
  "keeps (\<lambda>_. True) frame (foreground_checks P E v port ap)" "keeps (\<lambda>_. True) frame (foreground_solana P E v port claim ap)"
  unfolding foreground_checks_def foreground_solana_def by (intro framed_rules framed_revalidate framed_current)+

lemmas framed_checks = framed_account framed_policies framed_current framed_revalidate framed_bind framed_evidence framed_required
  framed_resolve framed_claims framed_authorized framed_foreground framed_confirm framed_admit framed_reserve

lemmas quiet_checks = framed_checks [THEN framed_quiet]

section \<open>The one submission\<close>

text \<open>The record a command holds is the one stored, as it is under the operation's locks.\<close>

definition current :: "prims \<Rightarrow> rail_operation \<Rightarrow> rail_world \<Rightarrow> bool" where
  "current P v s \<longleftrightarrow> rail_inv P s \<and> map_of (rw_ops s) (op_key_of v) = Some v"

lemma current_frame: "current P v s \<Longrightarrow> frame s t \<Longrightarrow> current P v t \<and> quiet_step P s t"
  using frame_quiet [of P s t] frame_fields [of s t] by (auto simp: current_def quiet_step_def rail_step_def)

lemma current_inv: "current P v s \<Longrightarrow> rail_inv P s"
  by (simp add: current_def)

lemma keeps_current: "keeps (rail_inv P) R m \<Longrightarrow> keeps (current P v) R m"
  by (simp add: keeps_def current_def)

text \<open>A check passes the record on; a guard that fails writes its refusal and throws.\<close>

lemma current_bnd:
  assumes "keeps (\<lambda>_. True) frame m" "\<And>x. keeps (current P v) (rail_step P) (f x)"
  shows "keeps (current P v) (rail_step P) (bnd m f)"
  unfolding keeps_def
proof (intro allI impI)
  fix s assume s: "current P v s"
  show "rail_step P s (snd (bnd m f s))"
  proof (rule steps.keeps_wp, rule wpI)
    fix x t assume "m s = (Inr x, t)"
    then have "frame s t" using assms(1) by (auto dest: keepsD)
    with s current_frame have "current P v t" "rail_step P s t" by (auto simp: quiet_step_def)
    with assms(2) show "rail_step P s t \<and> rail_step P t (snd (f x t))" by (simp add: keeps_def)
  next
    fix e t assume "m s = (Inl e, t)"
    then have "frame s t" using assms(1) by (auto dest: keepsD)
    with s current_frame show "rail_step P s t" by (auto simp: quiet_step_def)
  qed
qed

lemma current_guard:
  assumes "keeps (\<lambda>_. True) frame m" "\<And>e. keeps (rail_inv P) (rail_step P) (h e)" "\<And>x. keeps (current P v) (rail_step P) (f x)"
  shows "keeps (current P v) (rail_step P) (bnd (try_catch m (\<lambda>e. bnd (h e) (\<lambda>_. lift (Inl e)))) f)"
  unfolding keeps_def
proof (intro allI impI)
  fix s assume s: "current P v s"
  obtain a t where run: "m s = (a, t)" by (cases "m s")
  then have "frame s t" using assms(1) by (auto dest: keepsD)
  with s current_frame have t: "current P v t" "rail_step P s t" by (auto simp: quiet_step_def)
  show "rail_step P s (snd (bnd (try_catch m (\<lambda>e. bnd (h e) (\<lambda>_. lift (Inl e)))) f s))"
  proof (cases a)
    case (Inl e)
    have "rail_step P t (snd (h e t))" using assms(2) [of e] t(1) by (auto simp: keeps_def dest: current_inv)
    with t(2) have "rail_step P s (snd (h e t))" by (rule steps.R_trans)
    with run Inl show ?thesis by (auto simp: bnd_def try_catch_def lift_def split: prod.splits sum.splits)
  next
    case (Inr x)
    with assms(3) [of x] t run show ?thesis by (auto simp: bnd_def try_catch_def keeps_def intro: steps.R_trans)
  qed
qed


lemma write_stores:
  assumes "writeOperation P v s = (Inr u, t)"
  shows "map_of (rw_ops t) (op_key_of v) = Some v" "rw_log t = rw_log s @ new_entries s v"
proof -
  have "t = store_operation v (s\<lparr>gs_life := gs_life s - 1\<rparr>)"
    using assms by (auto simp: writeOperation_def bnd_def lift_def loadOperation_def reads_def durable_def split: sum.splits prod.splits if_splits)
  then show "map_of (rw_ops t) (op_key_of v) = Some v" "rw_log t = rw_log s @ new_entries s v"
    by (simp_all add: store_operation_def update_conv' new_entries_def)
qed

lemma move_InrD:
  assumes "move P E v st reason c extra s = (Inr w, t)"
  shows "\<exists>m s1 t1. mv_state m = st \<and> transitionRail P v m = Inr w \<and> frame s s1 \<and> writeOperation P w s1 = (Inr (), t1) \<and> frame t1 t"
proof -
  from assms obtain at s1 where now: "isoNow E s = (Inr at, s1)"
    and rest: "bnd (lift (transitionRail P v \<lparr>mv_state = st, mv_at = at, mv_reason = reason, mv_proofClass = c,
       mv_transactionId = me_transactionId extra, mv_rawPayloadHash = me_rawPayloadHash extra, mv_evidence = None,
       mv_send = me_send extra, mv_allowlistLease = me_lease extra\<rparr>)) (\<lambda>later.
     bnd (persist P later) (\<lambda>_. followUsage P E later)) s1 = (Inr w, t)"
    by (auto simp: move_def bnd_eq split: prod.splits sum.splits)
  from rest obtain later t1 where later: "transitionRail P v \<lparr>mv_state = st, mv_at = at, mv_reason = reason, mv_proofClass = c,
       mv_transactionId = me_transactionId extra, mv_rawPayloadHash = me_rawPayloadHash extra, mv_evidence = None,
       mv_send = me_send extra, mv_allowlistLease = me_lease extra\<rparr> = Inr later"
    and writing: "writeOperation P later s1 = (Inr (), t1)" and follow: "followUsage P E later t1 = (Inr w, t)"
    by (auto simp: bnd_eq persist_def split: prod.splits sum.splits)
  have "w = later" using follow by (auto simp: followUsage_def bnd_eq split: option.splits prod.splits sum.splits)
  moreover have "frame s s1" using keepsD [OF framed_now _ now] by simp
  moreover have "keeps (\<lambda>_. True) frame (followUsage P E later)"
    unfolding followUsage_def by (intro framed_rules framed_follow)
  then have "frame t1 (snd (followUsage P E later t1))" by (simp add: keeps_def)
  with follow have "frame t1 t" by simp
  ultimately show ?thesis using later writing by (intro exI conjI) (auto)
qed

lemma move_wp:
  assumes "rail_inv P s"
  shows "wp (move P E v st reason c extra) (\<lambda>w t. rail_step P s t \<and> current P w t) (\<lambda>_ t. rail_step P s t) s"
proof (rule wpI)
  fix w t assume run: "move P E v st reason c extra s = (Inr w, t)"
  have step: "rail_step P s t" using keepsD [OF quiet_steps [OF quiet_move] assms run] .
  from move_InrD [OF run] obtain s1 t1 where "writeOperation P w s1 = (Inr (), t1)" "frame t1 t" by blast
  then have "map_of (rw_ops t) (op_key_of w) = Some w" using write_stores(1) frame_fields(1) by metis
  with step show "rail_step P s t \<and> current P w t" by (simp add: current_def rail_step_def)
qed (use keepsD [OF quiet_steps [OF quiet_move] assms] in blast)

text \<open>A process may send an operation once more than it did when it has written a submission of it since.\<close>

definition may_send :: "rail_operation \<Rightarrow> rail_world \<Rightarrow> bool" where
  "may_send v s \<longleftrightarrow> sent (op_key_of v) (rw_log s) < wrote (op_key_of v) (rw_log s)"

lemma transition_key: "transitionRail P v m = Inr w \<Longrightarrow> op_key_of w = op_key_of v"
  using transitionRail_InrD(3) [of P v m w]
  by (cases w; cases v) (auto simp: rail_extends_def op_key_of_def rail_intent.defs)

lemma move_submitting:
  assumes "current P v s"
  shows "wp (move P E v Submitting reason c extra) (\<lambda>w t. rail_step P s t \<and> may_send w t) (\<lambda>_ t. rail_step P s t) s"
proof (rule wpI)
  fix w t assume run: "move P E v Submitting reason c extra s = (Inr w, t)"
  have inv: "rail_inv P s" using assms by (rule current_inv)
  from move_InrD [OF run] obtain m s1 t1 where w: "mv_state m = Submitting" "transitionRail P v m = Inr w"
    and s1: "frame s s1" and writing: "writeOperation P w s1 = (Inr (), t1)" and t: "frame t1 t" by blast
  let ?k = "op_key_of w"
  have key: "?k = op_key_of v" using w(2) by (rule transition_key)
  obtain e where e: "ro_transitions w = ro_transitions v @ [e]" "rt_state e = Submitting"
    using transitionRail_InrD(3) [OF w(2)] w(1) by (auto simp: rail_extends_def)
  have "distinct (map rt_state (ro_transitions w))"
    using legal_distinct [OF rail_valid(2) [OF transitionRail_InrD(2) [OF w(2)]]] .
  with e have "submissions_of v = 0" by (auto simp: submissions_of_def filter_empty_conv image_iff)
  then have "submissions s ?k = 0" using assms by (simp add: current_def submissions_def key)
  then have "wrote ?k (rw_log s) = 0" using inv by (metis add_is_0 rail_inv_def)
  then have none: "sent ?k (rw_log s) = 0" using inv unfolding rail_inv_def by (metis le_zero_eq)
  have "new_entries s1 w = [Wrote ?k Submitting]"
    using assms e by (simp add: new_entries_def current_def key frame_fields(1) [OF s1])
  then have "rw_log t = rw_log s @ [Wrote ?k Submitting]"
    using write_stores(2) [OF writing] frame_fields(2) [OF t] frame_fields(2) [OF s1] by simp
  with none have "may_send w t" by (simp add: may_send_def) (simp add: wrote_def sent_def)
  then show "rail_step P s t \<and> may_send w t" using keepsD [OF quiet_steps [OF quiet_move] inv run] by blast
qed (use keepsD [OF quiet_steps [OF quiet_move] current_inv [OF assms]] in blast)

lemma send_step:
  assumes "rail_inv P s" "may_send v s"
  shows "rail_step P s (snd (send port v effect s))"
proof (cases "gs_life s = 0")
  case True
  then show ?thesis by (simp add: send_def steps.R_refl [OF assms(1)])
next
  case False
  let ?t = "s\<lparr>gs_life := gs_life s - 1, rw_log := rw_log s @ [Sent (op_key_of v)]\<rparr>"
  have one: "sent k [Sent k'] = (if k = k' then 1 else 0)" "wrote k [Sent k'] = 0" for k k'
    by (simp_all add: sent_def wrote_def)
  have "rail_inv P ?t"
    using assms unfolding rail_inv_def may_send_def by (auto simp: one submissions_def)
  then have "rail_step P s ?t" by (simp add: rail_step_def journals_grow_def)
  moreover have "rail_step P ?t (snd (send port v effect s))"
    using quiet_steps [OF quiet_call, of P "\<lambda>n. rp_submit port n (binding v) effect"] \<open>rail_inv P ?t\<close> False
    by (simp only: send_def keeps_def if_False)
  ultimately show ?thesis by (rule steps.R_trans)
qed


definition sendable :: "prims \<Rightarrow> rail_operation \<Rightarrow> rail_world \<Rightarrow> bool" where
  "sendable P v s \<longleftrightarrow> rail_inv P s \<and> may_send v s"

lemma current_guard2:
  assumes "keeps (\<lambda>_. True) frame m" "\<And>e. keeps (rail_inv P) (rail_step P) (g e)" "\<And>e x. keeps (rail_inv P) (rail_step P) (h e x)"
    "\<And>x. keeps (current P v) (rail_step P) (f x)"
  shows "keeps (current P v) (rail_step P) (bnd (try_catch m (\<lambda>e. bnd (g e) (\<lambda>x. bnd (h e x) (\<lambda>_. lift (Inl e))))) f)"
  using current_guard [of m P "\<lambda>e. bnd (g e) (h e)" v f] assms by (simp add: bnd_assoc steps.keeps_bnd)

text \<open>How each part hands on what it established.\<close>

lemma weak_bnd:
  assumes "\<And>s. C s \<Longrightarrow> rail_inv P s" "keeps C (rail_step P) m" "\<And>x. keeps (rail_inv P) (rail_step P) (f x)"
  shows "keeps C (rail_step P) (bnd m f)"
  unfolding keeps_def
proof (intro allI impI)
  fix s assume s: "C s"
  have "rail_step P s t" if "m s = (a, t)" for a t using keepsD [OF assms(2) s that] .
  then show "rail_step P s (snd (bnd m f s))"
    using assms(3) by (intro steps.keeps_wp wpI) (auto simp: keeps_def rail_step_def)
qed

lemma sendable_bnd:
  "keeps (sendable P v) (rail_step P) m \<Longrightarrow> (\<And>x. keeps (rail_inv P) (rail_step P) (f x)) \<Longrightarrow> keeps (sendable P v) (rail_step P) (bnd m f)"
  by (rule weak_bnd) (simp_all add: sendable_def)

lemma submitting_bnd:
  assumes "\<And>w. keeps (sendable P w) (rail_step P) (f w)"
  shows "keeps (current P v) (rail_step P) (bnd (move P E v Submitting reason c extra) f)"
  unfolding keeps_def
proof (intro allI impI)
  fix s assume s: "current P v s"
  show "rail_step P s (snd (bnd (move P E v Submitting reason c extra) f s))"
    by (rule steps.keeps_wp, rule wp_weaken [OF move_submitting [OF s]])
      (use assms in \<open>auto simp: keeps_def sendable_def rail_step_def\<close>)
qed

lemma move_bnd:
  assumes "\<And>w. keeps (current P w) (rail_step P) (f w)"
  shows "keeps (rail_inv P) (rail_step P) (bnd (move P E v st reason c extra) f)"
  unfolding keeps_def
proof (intro allI impI)
  fix s assume s: "rail_inv P s"
  show "rail_step P s (snd (bnd (move P E v st reason c extra) f s))"
    by (rule steps.keeps_wp, rule wp_weaken [OF move_wp [OF s]]) (use assms in \<open>auto simp: keeps_def\<close>)
qed

lemma sendable_attempt:
  "keeps (sendable P v) (rail_step P) (attempt (bnd (send port v effect) (\<lambda>x. bnd (lift (r x)) (\<lambda>_. if c x then lift (Inl e) else ret (y x)))))"
  unfolding keeps_def sendable_def
  using send_step [of P _ v port effect]
  by (auto simp: attempt_def try_catch_def bnd_def lift_def ret_def split: prod.splits sum.splits) (metis snd_conv)+

lemmas step_rules = steps.keeps_rules quiet_rules [THEN quiet_steps] keeps_if keeps_option keeps_sum keeps_pair keeps_let
  framed_checks [THEN framed_quiet, THEN quiet_steps]

lemma keeps_inspection:
  "(\<And>r. keeps I R (f r)) \<Longrightarrow> (\<And>c a b ev. keeps I R (g c a b ev)) \<Longrightarrow>
   keeps I R (case x of Inconclusive r \<Rightarrow> f r | Concluded c a b ev \<Rightarrow> g c a b ev)"
  by (cases x) simp_all

lemma keeps_solana:
  "(\<And>v. keeps I R (f v)) \<Longrightarrow> (\<And>v e. keeps I R (g v e)) \<Longrightarrow> (\<And>v. keeps I R (h v)) \<Longrightarrow>
   keeps I R (case x of StepDone v \<Rightarrow> f v | StepSigned v e \<Rightarrow> g v e | StepPending v \<Rightarrow> h v)"
  by (cases x) simp_all

lemma keeps_mode:
  "keeps I R a \<Longrightarrow> keeps I R b \<Longrightarrow> keeps I R c \<Longrightarrow> keeps I R d \<Longrightarrow>
   keeps I R (case x of ModeDone \<Rightarrow> a | ModeClaim \<Rightarrow> b | ModeExecute \<Rightarrow> c | ModeObserve \<Rightarrow> d)"
  by (cases x) simp_all

lemmas case_rules = keeps_inspection keeps_solana keeps_mode

lemma steps_inspect: "keeps (rail_inv P) (rail_step P) (inspect P E v port)"
  unfolding inspect_def by (intro step_rules case_rules)

lemma submit_steps: "keeps (current P v) (rail_step P) (submit P E v port effect lease)"
  unfolding submit_def by (intro submitting_bnd sendable_bnd sendable_attempt step_rules steps_inspect)


section \<open>The commands\<close>

lemma current_stop: "keeps (current P v) (rail_step P) (lift r)" "keeps (current P v) (rail_step P) (ret x)"
  by (rule keeps_current, rule step_rules)+

lemma firstLocalSubmit_steps: "keeps (current P v) (rail_step P) (firstLocalSubmit P E v port effect now)"
  unfolding firstLocalSubmit_def
  by (intro current_bnd framed_outcome framed_rules framed_checks keeps_if keeps_sum current_stop submit_steps
      keeps_current [OF quiet_steps [OF quiet_fail]])

lemma finishLocalApproval_steps: "keeps (current P v) (rail_step P) (finishLocalApproval P E v port)"
  unfolding finishLocalApproval_def
  by (intro keeps_current [OF move_bnd] current_guard2 current_bnd framed_rules step_rules firstLocalSubmit_steps)

lemma start_signing_bnd:
  assumes "\<And>w. keeps (current P w) (rail_step P) (f w)"
  shows "keeps (current P v) (rail_step P) (bnd (start_signing P E v window) f)"
  unfolding start_signing_def reserveUsage_def bnd_assoc
  by (intro keeps_current [OF move_bnd] current_guard framed_rules framed_checks step_rules current_bnd assms)

lemma approve_held_steps: "keeps (current P v) (rail_step P) (approve_held P E v)"
  unfolding approve_held_def port_of_def reserveUsage_def bnd_assoc
  by (intro keeps_if keeps_option current_stop current_guard current_bnd framed_rules framed_checks step_rules submit_steps
      start_signing_bnd finishLocalApproval_steps)

lemma ret_bnd_current:
  assumes "keeps (rail_inv P) (rail_step P) (bnd m f)" "keeps (current P v) (rail_step P) (f v)"
  shows "keeps (current P v) (rail_step P) (bnd (if c then m else ret v) f)"
  using assms(2) keeps_current [OF assms(1)] by simp

lemma resume_held_steps: "keeps (current P v) (rail_step P) (resume_held P E v)"
  unfolding resume_held_def port_of_def
  by (intro keeps_if keeps_option current_stop ret_bnd_current move_bnd firstLocalSubmit_steps current_bnd framed_rules
      keeps_current [OF steps_inspect] keeps_current [OF quiet_steps [OF quiet_fail]] steps_inspect step_rules)

text \<open>The record a lookup returns is the stored one.\<close>

lemma load_operation_stored: "load_operation P s ph oid = Inr (Some v) \<Longrightarrow> map_of (rw_ops s) (op_key_of v) = Some v"
  using rail_valid(1) by (auto simp: load_operation_def op_path_def op_key_of_def split: option.splits)

lemma stored_current:
  assumes "stored P E entry s = (Inr (Some (RailStored v)), t)"
  shows "map_of (rw_ops t) (op_key_of v) = Some v"
  using assms load_operation_stored
  by (auto simp: stored_def loadOperation_def reads_def bnd_def lift_def ret_def split: if_splits prod.splits sum.splits)

lemma required_InrD:
  assumes "required P E oid s = (Inr v, t)"
  shows "map_of (rw_ops t) (op_key_of v) = Some v"
  using assms stored_current
  by (auto simp: required_def required_stored_def not_found_def bnd_def lift_def ret_def split: if_splits prod.splits sum.splits option.splits stored_operation.splits)

lemma required_bnd:
  assumes "\<And>v. keeps (current P v) (rail_step P) (f v)"
  shows "keeps (rail_inv P) (rail_step P) (bnd (required P E oid) f)"
  unfolding keeps_def
proof (intro allI impI)
  fix s assume s: "rail_inv P s"
  have step: "rail_step P s t" if "required P E oid s = (r, t)" for r t
    using keepsD [OF framed_required [THEN framed_quiet, THEN quiet_steps] s that] .
  show "rail_step P s (snd (bnd (required P E oid) f s))"
  proof (rule steps.keeps_wp, rule wpI)
    fix v t assume run: "required P E oid s = (Inr v, t)"
    with step required_InrD [OF run] have "rail_step P s t" "current P v t" by (auto simp: current_def rail_step_def)
    with assms show "rail_step P s t \<and> rail_step P t (snd (f v t))" by (simp add: keeps_def)
  qed (rule step)
qed

lemma follow_bnd:
  assumes "\<And>w. keeps (current P v) (rail_step P) (f w)"
  shows "keeps (current P v) (rail_step P) (bnd (followUsage P E v) f)"
  using assms unfolding followUsage_def by (intro current_bnd framed_rules framed_follow)

text \<open>Under the assumption that the other processes behave.\<close>

lemma locked_steps:
  assumes "others_behave P E" "\<And>v. keeps (current P v) (rail_step P) (action v)"
  shows "keeps (rail_inv P) (rail_step P) (locked P E oid action)"
  unfolding locked_def by (intro step_rules steps_locks [OF assms(1)] required_bnd follow_bnd assms(2))

lemma claim_writes:
  "keeps (rail_inv P) (rail_step P) (create_approval_claim P claim)" "keeps (rail_inv P) (rail_step P) (remove_approval_claim P claim)"
  "keeps (rail_inv P) (rail_step P) (create_prepare_claim P pclaim)" "keeps (rail_inv P) (rail_step P) (remove_prepare_claim P pclaim)"
  unfolding create_approval_claim_def remove_approval_claim_def create_prepare_claim_def remove_prepare_claim_def create_only_def
  by (intro step_rules quiet_steps [OF quiet_durable] quiet_fields; simp)+

lemma drop_steps: "keeps (rail_inv P) (rail_step P) (drop_own_claim P ph c)" "keeps (rail_inv P) (rail_step P) (drop_prepare_claim P pc)"
  unfolding drop_own_claim_def drop_prepare_claim_def by (intro step_rules claim_writes)+


section \<open>Local Solana transfers\<close>

lemma end_unsealed_steps: "keeps (rail_inv P) (rail_step P) (end_unsealed P E v port)"
  unfolding end_unsealed_def by (intro step_rules)

lemma effect_of_lock:
  assumes "others_behave P E" "\<And>v. keeps (current P v) (rail_step P) (f v)"
  shows "keeps (rail_inv P) (rail_step P) (withLocks E keys (bnd (required P E oid) f))"
  by (intro steps_locks [OF assms(1)] required_bnd assms(2))

lemma solana_steps:
  assumes "others_behave P E"
  shows "keeps (rail_inv P) (rail_step P) (recover_signing P E v port may)"
    "keeps (rail_inv P) (rail_step P) (seal_pending P E v p port)"
    "keeps (rail_inv P) (rail_step P) (recover_signed P E v port)"
    "keeps (rail_inv P) (rail_step P) (acknowledge P E v p tx)"
  unfolding recover_signing_def seal_pending_def recover_signed_def acknowledge_def
  by (intro effect_of_lock [OF assms] keeps_current step_rules end_unsealed_steps)+

lemma seal_revalidated_steps:
  assumes "others_behave P E"
  shows "keeps (rail_inv P) (rail_step P) (seal_revalidated P E v p port)"
  unfolding seal_revalidated_def
  by (intro step_rules solana_steps [OF assms] effect_of_lock [OF assms] keeps_current end_unsealed_steps)

lemma signature_steps:
  assumes "others_behave P E"
  shows "keeps (rail_inv P) (rail_step P) (solana_signature P E v port may)"
  unfolding solana_signature_def
  by (intro step_rules case_rules solana_steps [OF assms] seal_revalidated_steps [OF assms])

lemma sendable_steps:
  assumes "others_behave P E"
  shows "keeps (rail_inv P) (rail_step P) (still_sendable P E v signed port r)"
  unfolding still_sendable_def
  by (intro step_rules framed_outcome [THEN framed_quiet, THEN quiet_steps] framed_checks effect_of_lock [OF assms] keeps_current)

text \<open>The commitment hands the right to send to the submission that follows it.\<close>

lemma withLocks_bnd: "bnd (withLocks E keys m) f = withLocks E keys (bnd m f)"
  by (simp add: withLocks_def bnd_assoc)

lemma bnd_cases:
  "bnd (if c then m else m') f = (if c then bnd m f else bnd m' f)"
  "bnd (case r of Inl e \<Rightarrow> g e | Inr x \<Rightarrow> h x) f = (case r of Inl e \<Rightarrow> bnd (g e) f | Inr x \<Rightarrow> bnd (h x) f)"
  by (simp_all split: sum.split)

lemma commit_bnd:
  assumes "others_behave P E" "\<And>w. keeps (rail_inv P) (rail_step P) (f (w, False))" "\<And>w. keeps (sendable P w) (rail_step P) (f (w, True))"
  shows "keeps (rail_inv P) (rail_step P) (bnd (commit_submission P E v signed) f)"
proof -
  have failed: "keeps (current P w) (rail_step P) (bnd (fail_before_effect P E w reason) (\<lambda>failed. f (failed, False)))" for w reason
    by (rule keeps_current) (intro steps.keeps_bnd quiet_steps [OF quiet_fail] assms(2))
  show ?thesis
    unfolding commit_submission_def withLocks_bnd bnd_assoc bnd_cases bnd_ret
    by (intro effect_of_lock [OF assms(1)] keeps_if keeps_sum submitting_bnd assms(3) keeps_current [OF assms(2)] failed
        current_bnd framed_outcome framed_checks)
qed

lemma send_signed_steps:
  assumes "others_behave P E" "\<And>oid ph. keeps (rail_inv P) (rail_step P) (observe oid ph)"
  shows "keeps (rail_inv P) (rail_step P) (send_signed P E observe v signed port effect)"
  unfolding send_signed_def
  by (rule commit_bnd [OF assms(1)], simp_all only: prod.case not_False_eq_True not_True_eq_False if_True if_False)
    (intro step_rules sendable_bnd sendable_attempt solana_steps [OF assms(1)] assms(2))+

lemma execute_steps:
  assumes "others_behave P E" "\<And>oid ph. keeps (rail_inv P) (rail_step P) (observe oid ph)"
  shows "keeps (rail_inv P) (rail_step P) (executeLocalSolanaClaimed P E observe v port may)"
  unfolding executeLocalSolanaClaimed_def
  by (intro step_rules case_rules signature_steps [OF assms(1)] sendable_steps [OF assms(1)] send_signed_steps [OF assms])

lemma snapshot_steps:
  assumes "others_behave P E"
  shows "keeps (rail_inv P) (rail_step P) (resume_snapshot P E oid ph claim)"
  unfolding resume_snapshot_def by (intro effect_of_lock [OF assms] keeps_current step_rules)

lemma resume_phase_steps:
  assumes "others_behave P E"
  shows "keeps (rail_inv P) (rail_step P) (resumeLocalSolanaPhase P E depth oid ph claim)"
proof (induction depth arbitrary: oid ph claim)
  case 0
  show ?case unfolding resumeLocalSolanaPhase.simps by (rule step_rules)
next
  case (Suc depth)
  have observed: "keeps (rail_inv P) (rail_step P) (conclude_observed P E oid ph frozen inspection)" for frozen inspection
    unfolding conclude_observed_def by (intro effect_of_lock [OF assms] keeps_current step_rules case_rules)
  show ?case unfolding resumeLocalSolanaPhase.simps
    by (intro step_rules case_rules snapshot_steps [OF assms] steps_locks [OF assms] Suc execute_steps [OF assms] observed)
qed

lemma approve_solana_steps:
  assumes "others_behave P E"
  shows "keeps (rail_inv P) (rail_step P) (approveLocalSolana P E oid ph)"
proof -
  note claims = claim_writes drop_steps
  have stage: "keeps (rail_inv P) (rail_step P) (stage_approval P E oid ph)"
    unfolding stage_approval_def Let_def by (intro effect_of_lock [OF assms] keeps_current step_rules claims)
  have failed: "keeps (rail_inv P) (rail_step P) (failApprovalClaim P E v claim reason)" for v claim reason
    unfolding failApprovalClaim_def by (intro effect_of_lock [OF assms] keeps_current step_rules claims)
  have started: "keeps (rail_inv P) (rail_step P) (start_signing P E v window)" for v window
    unfolding start_signing_def reserveUsage_def by (intro step_rules)
  have commit: "keeps (rail_inv P) (rail_step P) (commit_approval P E v claim window)" for v claim window
    unfolding commit_approval_def Let_def by (intro effect_of_lock [OF assms] keeps_current step_rules claims started)
  show ?thesis
    unfolding approveLocalSolana_def port_of_def
    by (intro steps_locks [OF assms] step_rules stage failed commit execute_steps [OF assms] resume_phase_steps [OF assms] claims)
qed

lemma projected_steps: "keeps (rail_inv P) (rail_step P) m \<Longrightarrow> keeps (rail_inv P) (rail_step P) (projected P m)"
  unfolding projected_def by (intro step_rules)

lemma approve_steps:
  assumes "others_behave P E"
  shows "keeps (rail_inv P) (rail_step P) (approve P E oid)"
  unfolding approve_def approve_operation_def
  by (intro projected_steps step_rules approve_solana_steps [OF assms] locked_steps [OF assms] approve_held_steps)

lemma resume_steps:
  assumes "others_behave P E"
  shows "keeps (rail_inv P) (rail_step P) (resume P E oid)"
  unfolding resume_def resume_operation_def
  by (intro projected_steps step_rules resume_phase_steps [OF assms] locked_steps [OF assms] resume_held_steps)

lemma prepare_steps:
  assumes "others_behave P E"
  shows "keeps (rail_inv P) (rail_step P) (prepare P E input)"
proof -
  note claims = claim_writes drop_steps
  have admitted: "keeps (rail_inv P) (rail_step P) (admit_operation E i c m)"
    if "keeps (rail_inv P) (rail_step P) m" for i c and m :: "(rail_world, rail_operation) stm"
    unfolding admit_operation_def by (intro step_rules that)
  have authorized: "keeps (rail_inv P) (rail_step P) (authorize_request P E a v r)" for a v r
    unfolding authorize_request_def by (intro step_rules)
  have transfer: "keeps (rail_inv P) (rail_step P) (prepared_transfer_for P E port a v r policy)" for port a v r policy
    unfolding prepared_transfer_for_def by (intro step_rules)
  have held: "keeps (rail_inv P) (rail_step P) (prepare_held P E input v)" for v
    unfolding prepare_held_def prepare_new_def persist_def by (intro steps_locks [OF assms] step_rules admitted authorized transfer)
  have replay: "keeps (rail_inv P) (rail_step P) (solana_replay P E v h found)" for v h found
    unfolding solana_replay_def by (intro step_rules claims)
  have claim: "keeps (rail_inv P) (rail_step P) (solana_claim P E a port v r ih rh)" for a port v r ih rh
    unfolding solana_claim_def Let_def by (intro step_rules claims authorized)
  have stage: "keeps (rail_inv P) (rail_step P) (stage_solana P E input v)" for v
    unfolding stage_solana_def by (intro steps_locks [OF assms] step_rules replay claim)
  have commit: "keeps (rail_inv P) (rail_step P) (commit_solana P E v st p)" for v st p
    unfolding commit_solana_def persist_def loadOperation_def by (intro steps_locks [OF assms] step_rules claims)
  have "keeps (rail_inv P) (rail_step P) (prepareLocalSolana P E input v)" for v
    unfolding prepareLocalSolana_def by (intro steps_locks [OF assms] step_rules stage admitted transfer commit claims)
  then show ?thesis unfolding prepare_def prepare_operation_def by (intro projected_steps step_rules held)
qed

lemma receipt_steps: "keeps (rail_inv P) (rail_step P) (receipt P E oid)"
  unfolding receipt_def loadReceipt_def loadOperation_def by (intro step_rules)

section \<open>Processes\<close>

datatype rail_command = Prepare rail_prepare_input | Approve string | Resume string | Receipt string

fun run_command :: "prims \<Rightarrow> rail_env \<Rightarrow> rail_command \<Rightarrow> (rail_world, jval) stm" where
  "run_command P E (Prepare input) = prepare P E input"
| "run_command P E (Approve oid) = approve P E oid"
| "run_command P E (Resume oid) = resume P E oid"
| "run_command P E (Receipt oid) = receipt P E oid"

lemma command_steps:
  assumes "others_behave P E"
  shows "keeps (rail_inv P) (rail_step P) (run_command P E c)"
  by (cases c) (simp_all only: run_command.simps prepare_steps [OF assms] approve_steps [OF assms] resume_steps [OF assms] receipt_steps)

text \<open>
  A new process finds the stored operations and nothing of its own; everything else of the world
  (clock, policies, lists, the number of durable writes before it dies) may be different.
\<close>

definition restarted :: "rail_world \<Rightarrow> rail_world \<Rightarrow> bool" where
  "restarted s t \<longleftrightarrow> rw_ops t = rw_ops s \<and> rw_log t = [] \<and> rw_others t = rw_others s @ rw_log s"

inductive rail_system :: "prims \<Rightarrow> rail_world \<Rightarrow> bool" for P where
  fresh: "rw_ops s = [] \<Longrightarrow> rw_log s = [] \<Longrightarrow> rw_others s = [] \<Longrightarrow> rail_system P s"
| command: "rail_system P s \<Longrightarrow> restarted s t \<Longrightarrow> others_behave P E \<Longrightarrow> run_command P E c t = (r, u) \<Longrightarrow> rail_system P u"

lemma restarted_inv:
  assumes "rail_inv P s" "restarted s t"
  shows "rail_inv P t"
proof -
  have t: "rw_ops t = rw_ops s" "rw_log t = []" "rw_others t = rw_others s @ rw_log s"
    using assms(2) by (simp_all add: restarted_def)
  have "wrote k [] = 0" "sent k [] = 0" for k by (simp_all add: wrote_def sent_def)
  with assms(1) show ?thesis
    unfolding rail_inv_def submissions_def t counts_append by (metis add.commute add_0 add_mono le_refl)
qed

lemma system_inv: "rail_system P s \<Longrightarrow> rail_inv P s"
proof (induction rule: rail_system.induct)
  case (fresh s)
  then show ?case by (simp add: rail_inv_def submissions_def wrote_def sent_def)
next
  case (command s t E c r u)
  from keepsD [OF command_steps [OF command.hyps(3)] restarted_inv [OF command.IH command.hyps(2)] command.hyps(4)]
  show ?case by (simp add: rail_step_def)
qed

lemma inv_once:
  assumes "rail_inv P s"
  shows "wrote k (rw_log s) + wrote k (rw_others s) = submissions s k" "submissions s k \<le> 1"
    "sent k (rw_log s) \<le> wrote k (rw_log s)" "sent k (rw_others s) \<le> wrote k (rw_others s)"
proof -
  show "wrote k (rw_log s) + wrote k (rw_others s) = submissions s k"
    "sent k (rw_log s) \<le> wrote k (rw_log s)" "sent k (rw_others s) \<le> wrote k (rw_others s)"
    using assms unfolding rail_inv_def by blast+
  show "submissions s k \<le> 1"
  proof (cases "map_of (rw_ops s) k")
    case (Some v)
    with assms have "validateRailOperation P v = Inr v" unfolding rail_inv_def by blast
    from distinct_filter_eq [OF legal_distinct [OF rail_valid(2) [OF this]]] Some
    show ?thesis by (simp add: submissions_def submissions_of_def)
  qed (simp add: submissions_def)
qed

lemma submissions_journal:
  "0 < submissions s k \<Longrightarrow> \<exists>v. map_of (rw_ops s) k = Some v \<and> Submitting \<in> rt_state ` set (ro_transitions v)"
  by (force simp: submissions_def submissions_of_def filter_empty_conv split: option.splits)

text \<open>
  The property C20. Over any sequence of commands of any number of processes,
  each of which may die at any durable write and may be interleaved with processes that behave, an
  operation is handed to its rail at most once; and once it has been, the stored journal records the
  submission.
\<close>

theorem rail_sent_at_most_once:
  assumes "rail_system P s"
  shows "sent k (rw_log s) + sent k (rw_others s) \<le> 1 \<and>
    (0 < sent k (rw_log s) + sent k (rw_others s) \<longrightarrow>
      (\<exists>v. map_of (rw_ops s) k = Some v \<and> validateRailOperation P v = Inr v \<and> Submitting \<in> rt_state ` set (ro_transitions v)))"
proof -
  note inv = system_inv [OF assms]
  from inv_once [OF inv, of k] have "sent k (rw_log s) + sent k (rw_others s) \<le> submissions s k" "submissions s k \<le> 1" by linarith+
  with submissions_journal [of s k] inv show ?thesis unfolding rail_inv_def by fastforce
qed

text \<open>
  The property C21. A process that finds an operation whose journal already
  records the submission hands nothing to the rail, whatever command it runs and whether or not the
  process that recorded it ever sent: the record, once written, leaves only observation.
\<close>

theorem resume_never_resends:
  assumes "rail_inv P s" "restarted s t" "others_behave P E"
    "map_of (rw_ops s) k = Some v" "Submitting \<in> rt_state ` set (ro_transitions v)"
  shows "sent k (rw_log (snd (run_command P E c t))) = 0"
proof -
  let ?u = "snd (run_command P E c t)"
  have t: "rail_inv P t" using restarted_inv assms(1,2) .
  have step: "rail_step P t ?u" using command_steps [OF assms(3)] t by (simp add: keeps_def)
  have "0 < submissions t k"
    using assms(2,4,5) by (force simp: restarted_def submissions_def submissions_of_def filter_empty_conv)
  moreover have "wrote k (rw_log t) = 0" using assms(2) by (simp add: restarted_def wrote_def)
  ultimately have "0 < wrote k (rw_others t)" using inv_once(1) [OF t, of k] by simp
  moreover have "wrote k (rw_others t) \<le> wrote k (rw_others ?u)"
    using step by (auto simp: rail_step_def prefix_def)
  moreover have "rail_inv P ?u" using step by (simp add: rail_step_def)
  note inv_once [OF this, of k]
  ultimately show ?thesis by linarith
qed

lemma rail_journal_ends:
  assumes "validateRailOperation P v = Inr v"
  shows "ro_transitions v \<noteq> []" "ro_state v = rt_state (last (ro_transitions v))"
    "ro_terminal v \<longleftrightarrow> ro_state v \<in> set RAIL_TERMINAL_STATES"
proof -
  note v = rail_valid [OF assms]
  show "ro_transitions v \<noteq> []" using v(2) by (simp add: legal_journal_def)
  show state: "ro_state v = rt_state (last (ro_transitions v))" using latest_state(1) [OF v(5)] by simp
  show "ro_terminal v \<longleftrightarrow> ro_state v \<in> set RAIL_TERMINAL_STATES" using v(6) by (simp only: state)
qed

lemma legal_edges: "legal_journal es \<Longrightarrow> successively (\<lambda>s t. t \<in> set (EDGES s)) (map rt_state es)"
  by (auto simp: legal_journal_def entry_follows_def successively_map elim!: successively_mono)

lemma terminal_prefix:
  assumes "validateRailOperation P v = Inr v" "validateRailOperation P w = Inr w" "ro_terminal v"
    "prefix (map rt_state (ro_transitions v)) (map rt_state (ro_transitions w))"
  shows "map rt_state (ro_transitions w) = map rt_state (ro_transitions v)"
proof (rule ccontr)
  assume "map rt_state (ro_transitions w) \<noteq> map rt_state (ro_transitions v)"
  with assms(4) obtain x xs where w: "map rt_state (ro_transitions w) = map rt_state (ro_transitions v) @ x # xs"
    by (metis append_Nil2 list.exhaust prefixE)
  have v: "ro_transitions v \<noteq> []" "ro_state v = rt_state (last (ro_transitions v))" "ro_state v \<in> set RAIL_TERMINAL_STATES"
    using rail_journal_ends [OF assms(1)] assms(3) by blast+
  from w have "successively (\<lambda>s t. t \<in> set (EDGES s)) (map rt_state (ro_transitions v) @ x # xs)"
    using legal_edges [OF rail_valid(2) [OF assms(2)]] by simp
  then have "x \<in> set (EDGES (ro_state v))" using v(1,2) by (simp add: successively_append_iff last_map)
  with v(3) terminal_edges show False by auto
qed


section \<open>Samples\<close>

text \<open>A world that holds one operation another process submitted, and an environment that answers nothing but this operation.\<close>

definition sample_world :: "rail_state list \<Rightarrow> rail_world" where
  "sample_world ss = \<lparr>gs_ledger = sample_held, gs_tick = 0, gs_life = 9,
     rw_ops = [(op_key_of (sample_rail ss), sample_rail ss)], rw_receipts = (\<lambda>_. None), rw_policies = (\<lambda>_. None),
     rw_approvals = (\<lambda>_. None), rw_prepares = (\<lambda>_. None), rw_log = [],
     rw_others = map (Wrote (op_key_of (sample_rail ss))) ss @ (if Submitting \<in> set ss then [Sent (op_key_of (sample_rail ss))] else [])\<rparr>"

definition sample_index :: index_entry where
  "sample_index = \<lparr>ie_family = ''rail_transfer'', ie_profileHash = aaa, ie_operationId = aaa, ie_duplicate = False\<rparr>"

definition sample_rail_env :: "rail_port list \<Rightarrow> rail_env" where
  "sample_rail_env ports = \<lparr>re_gate = sample_gate, re_ready = (\<lambda>_. Inr ()), re_lock = (\<lambda>_ _. Inr ()), re_others = (\<lambda>_ s. s),
     re_ports = ports, re_chain = None, re_profileProvider = (\<lambda>_ _. Inr None), re_wallet = (\<lambda>_ _. Inr True),
     re_find = (\<lambda>_ oid. Inr (if oid = aaa then Some sample_index else None)), re_findByIdempotency = (\<lambda>_ _. Inr None),
     re_foreign = (\<lambda>_ _. Inr None), re_admit = (\<lambda>_ _ _. Inr ()), re_settled = (\<lambda>_ _. Inr ()), re_available = (\<lambda>_ _ _. Inr ()),
     re_approval = None, re_wait = (\<lambda>_ _. True)\<rparr>"

lemma sample_alone: "others_behave P (sample_rail_env ports)"
  by (simp add: others_behave_def sample_rail_env_def steps.R_refl)

lemma sample_world_inv:
  assumes "ss \<in> {[AwaitingApproval], sample_signed, sample_sent, sample_done}"
  shows "rail_inv sample_prims (sample_world ss)"
proof -
  have "wrote k (map (Wrote k') ss @ rest) = (if k = k' then count_list ss Submitting else 0) + wrote k rest" for k k' rest
    by (simp, induction ss) (auto simp: wrote_def)
  moreover have "sent k (map (Wrote k') ss) = 0" for k k' by (induction ss) (auto simp: sent_def)
  moreover have "filter (\<lambda>e. rt_state e = Submitting) (map sample_entry ss) = map sample_entry (filter (\<lambda>s. s = Submitting) ss)"
    by (simp add: filter_map comp_def) (simp add: sample_entry_def)
  ultimately show ?thesis
    using assms sample_rail_accepted [OF assms]
    by (auto simp: rail_inv_def sample_world_def submissions_def submissions_of_def) (simp_all add: wrote_def sent_def)
qed

lemma sample_restarted: "restarted (sample_world ss) (sample_world ss)"
  by (simp add: restarted_def sample_world_def)

lemma sample_stored: "map_of (rw_ops (sample_world ss)) (op_key_of (sample_rail ss)) = Some (sample_rail ss)"
  by (simp add: sample_world_def)

theorem resume_never_resends_witness:
  "sent (op_key_of (sample_rail sample_sent))
     (rw_log (snd (run_command sample_prims (sample_rail_env []) (Resume aaa) (sample_world sample_sent)))) = 0"
  by (rule resume_never_resends [OF sample_world_inv sample_restarted sample_alone sample_stored]) (simp_all add: sample_entry_def)


theorem rail_sent_at_most_once_witness:
  "sent (aaa, aaa) (rw_log (snd (run_command sample_prims (sample_rail_env []) (Resume aaa) ((sample_world [])\<lparr>rw_ops := []\<rparr>))))
   + sent (aaa, aaa) (rw_others (snd (run_command sample_prims (sample_rail_env []) (Resume aaa) ((sample_world [])\<lparr>rw_ops := []\<rparr>)))) \<le> 1"
proof -
  let ?s = "(sample_world [])\<lparr>rw_ops := []\<rparr>"
  have "rail_system sample_prims (snd (run_command sample_prims (sample_rail_env []) (Resume aaa) ?s))"
    by (rule rail_system.command [OF rail_system.fresh [of ?s] _ sample_alone prod.collapse [symmetric]])
      (simp_all add: sample_world_def restarted_def)
  from rail_sent_at_most_once [OF this] show ?thesis by blast
qed

end
