(* ===== verification/RailProgress.thy ===== *)
theory RailProgress
  imports RailSafety
begin

text \<open>
  The resumption of a local Solana transfer calls itself: to take the approval claim, and to observe
  a submission it just made. This theory shows that these are the only two levels below the first,
  so that the depth the model allows is never used up.
\<close>

section \<open>Computations that agree\<close>

definition same_on :: "('s \<Rightarrow> bool) \<Rightarrow> ('s, 'a) stm \<Rightarrow> ('s, 'a) stm \<Rightarrow> bool" where
  "same_on C m m' \<longleftrightarrow> (\<forall>s. C s \<longrightarrow> m s = m' s)"

lemma same_refl: "same_on C m m"
  by (simp add: same_on_def)

lemma same_bnd:
  assumes "\<And>s. C s \<Longrightarrow> wp m Q (\<lambda>_ _. True) s" "\<And>x t. Q x t \<Longrightarrow> f x t = g x t"
  shows "same_on C (bnd m f) (bnd m g)"
  unfolding same_on_def
proof (intro allI impI)
  fix s assume "C s"
  from assms(1) [OF this] show "bnd m f s = bnd m g s"
    by (auto simp: wp_def bnd_def intro: assms(2) split: prod.splits sum.splits)
qed

lemma same_steps:
  assumes "keeps (rail_inv P) (rail_step P) m" "\<And>x. same_on (rail_inv P) (f x) (g x)"
  shows "same_on (rail_inv P) (bnd m f) (bnd m g)"
  by (rule same_bnd [where Q = "\<lambda>_. rail_inv P"], rule wpI)
    (use assms in \<open>auto simp: same_on_def rail_step_def dest!: keepsD\<close>)

lemma same_locks:
  assumes "others_behave P E" "same_on (rail_inv P) m m'"
  shows "same_on (rail_inv P) (withLocks E keys m) (withLocks E keys m')"
proof -
  have "keeps (rail_inv P) (rail_step P) (interleave E)"
    using assms(1) by (auto simp: keeps_def interleave_def others_behave_def)
  then show ?thesis unfolding withLocks_def by (intro same_steps quiet_steps [OF quiet_call] assms(2))
qed

section \<open>Where a resumption stands\<close>

text \<open>The index names one profile for an operation id, and the operation under both.\<close>

definition index_names :: "rail_env \<Rightarrow> (string \<Rightarrow> string) \<Rightarrow> bool" where
  "index_names E owner \<longleftrightarrow>
     (\<forall>n oid e. re_find E n oid = Inr (Some e) \<longrightarrow> ie_operationId e = oid \<and> ie_profileHash e = owner oid)"

lemma required_key:
  assumes "index_names E owner" "required P E oid s = (Inr v, t)"
  shows "op_key_of v = (owner oid, oid)"
proof -
  have "op_key_of v = (ie_profileHash e, ie_operationId e)" if "stored P E e s' = (Inr (Some (RailStored v)), t')" for e s' t'
    using that by (auto simp: stored_def loadOperation_def reads_def bnd_def lift_def ret_def load_operation_def op_key_of_def
        split: if_splits prod.splits sum.splits option.splits)
  moreover from assms(2) obtain e n s' t' where "re_find E n oid = Inr (Some e)" "stored P E e s' = (Inr (Some (RailStored v)), t')"
    by (auto simp: required_def required_stored_def not_found_def call_def ask_def canonicalOperationId_def bnd_def lift_def ret_def
        split: if_splits prod.splits sum.splits option.splits stored_operation.splits)
  ultimately show ?thesis using assms(1) unfolding index_names_def by metis
qed

lemma required_wp:
  assumes "index_names E owner" "rail_inv P s"
  shows "wp (required P E oid) (\<lambda>v t. current P v t \<and> op_key_of v = (owner oid, oid) \<and> rail_step P s t) (\<lambda>_ t. rail_step P s t) s"
proof -
  have step: "rail_step P s t" if "required P E oid s = (r, t)" for r t
    using keepsD [OF framed_required [THEN framed_quiet, THEN quiet_steps] assms(2) that] .
  show ?thesis
  proof (rule wpI)
    fix v t assume run: "required P E oid s = (Inr v, t)"
    then show "current P v t \<and> op_key_of v = (owner oid, oid) \<and> rail_step P s t"
      using step [OF run] required_InrD [OF run] required_key [OF assms(1) run] by (simp add: current_def rail_step_def)
  qed (rule step)
qed

text \<open>An operation whose journal already holds the acknowledged submission.\<close>

definition past :: "prims \<Rightarrow> op_key \<Rightarrow> rail_world \<Rightarrow> bool" where
  "past P k s \<longleftrightarrow> rail_inv P s \<and> (\<exists>v. map_of (rw_ops s) k = Some v \<and> SubmittedPending \<in> rt_state ` set (ro_transitions v))"

lemma past_step:
  assumes "past P k s" "rail_step P s t"
  shows "past P k t"
proof -
  from assms(1) obtain v where v: "map_of (rw_ops s) k = Some v" "SubmittedPending \<in> set (map rt_state (ro_transitions v))"
    by (auto simp: past_def)
  with assms(2) obtain w where "map_of (rw_ops t) k = Some w" "prefix (map rt_state (ro_transitions v)) (map rt_state (ro_transitions w))"
    unfolding rail_step_def journals_grow_def by blast
  then have "SubmittedPending \<in> set (map rt_state (ro_transitions w))" using v(2) set_mono_prefix by blast
  with \<open>map_of (rw_ops t) k = Some w\<close> assms(2) show ?thesis by (auto simp: past_def rail_step_def)
qed

lemma last_after:
  assumes "sorted_wrt (<) xs" "x \<in> set xs"
  shows "x = last xs \<or> x < last xs"
  using assms by (induction xs) auto

lemma past_state:
  assumes "past P (op_key_of v) s" "current P v s"
  shows "ro_state v \<notin> {AwaitingApproval, SigningStarted, SignedNotSubmitted, Submitting}"
proof -
  have valid: "validateRailOperation P v = Inr v" and pending: "SubmittedPending \<in> set (map rt_state (ro_transitions v))"
    using assms unfolding past_def current_def rail_inv_def by (fastforce, auto)
  from last_after [OF legal_sorted [OF rail_valid(2) [OF valid]] pending] rail_journal_ends(1,2) [OF valid]
  have "SubmittedPending = ro_state v \<or> SubmittedPending < ro_state v" by (simp add: last_map)
  then show ?thesis using less_rank [of SubmittedPending "ro_state v"] by auto
qed

lemma withLocks_wp:
  assumes "others_behave P E" "rail_inv P s" "\<And>t. rail_step P s t \<Longrightarrow> wp m Q (\<lambda>_ _. True) t"
  shows "wp (withLocks E keys m) Q (\<lambda>_ _. True) s"
proof -
  have step: "rail_step P s t" "rail_step P s (re_others E (gs_tick t) t)" if "call (\<lambda>n. re_lock E n keys) s = (r, t)" for r t
  proof -
    show t: "rail_step P s t" using keepsD [OF quiet_steps [OF quiet_call] assms(2) that] .
    then have "rail_step P t (re_others E (gs_tick t) t)" using assms(1) by (simp add: others_behave_def rail_step_def)
    with t show "rail_step P s (re_others E (gs_tick t) t)" by (rule steps.R_trans)
  qed
  show ?thesis
    unfolding withLocks_def
  proof (rule wp_bnd, rule wpI)
    fix x t assume "call (\<lambda>n. re_lock E n keys) s = (Inr x, t)"
    from assms(3) [OF step(2) [OF this]] show "wp (bnd (interleave E) (\<lambda>_. m)) Q (\<lambda>_ _. True) t"
      by (simp add: wp_def interleave_def bnd_def)
  qed simp
qed

lemma locked_wp:
  assumes "others_behave P E" "index_names E owner" "rail_inv P s"
    "\<And>v t. rail_step P s t \<Longrightarrow> current P v t \<Longrightarrow> op_key_of v = (owner oid, oid) \<Longrightarrow> wp (f v) Q (\<lambda>_ _. True) t"
  shows "wp (withLocks E keys (bnd (required P E oid) f)) Q (\<lambda>_ _. True) s"
proof (rule withLocks_wp [OF assms(1,3)], rule wp_bnd)
  fix t assume t: "rail_step P s t"
  then have "rail_inv P t" by (simp add: rail_step_def)
  show "wp (required P E oid) (\<lambda>v. wp (f v) Q (\<lambda>_ _. True)) (\<lambda>_ _. True) t"
  proof (rule wp_weaken [OF required_wp [OF assms(2) \<open>rail_inv P t\<close>]])
    fix v u assume u: "current P v u \<and> op_key_of v = (owner oid, oid) \<and> rail_step P t u"
    with t have "rail_step P s u" using steps.R_trans by blast
    with u assms(4) show "wp (f v) Q (\<lambda>_ _. True) u" by blast
  qed simp
qed

lemma follow_wp:
  assumes "current P v s" "\<And>x t. rail_step P s t \<Longrightarrow> current P v t \<Longrightarrow> wp (f x) Q (\<lambda>_ _. True) t"
  shows "wp (bnd (followUsage P E v) f) Q (\<lambda>_ _. True) s"
proof (rule wp_bnd, rule wpI)
  fix x t assume "followUsage P E v s = (Inr x, t)"
  moreover have "keeps (\<lambda>_. True) frame (followUsage P E v)"
    unfolding followUsage_def by (intro framed_rules framed_follow)
  ultimately have "frame s t" by (auto dest: keepsD)
  with current_frame [OF assms(1)] show "wp (f x) Q (\<lambda>_ _. True) t"
    by (intro assms(2)) (auto simp: quiet_step_def)
qed simp

lemma moving_wp:
  assumes "rail_inv P s" "\<And>w t. rail_step P s t \<Longrightarrow> current P w t \<Longrightarrow> op_key_of w = op_key_of v \<Longrightarrow> wp (f w) Q (\<lambda>_ _. True) t"
  shows "wp (bnd (move P E v st reason c extra) f) Q (\<lambda>_ _. True) s"
proof (rule wp_bnd, rule wpI)
  fix w t assume run: "move P E v st reason c extra s = (Inr w, t)"
  then obtain m where "transitionRail P v m = Inr w" using move_InrD by blast
  then have "op_key_of w = op_key_of v" by (rule transition_key)
  with wp_Inr [OF move_wp [OF assms(1)] run] show "wp (f w) Q (\<lambda>_ _. True) t"
    by (intro assms(2)) auto
qed simp

section \<open>The depth of a resumption\<close>

lemma snapshot_wp:
  assumes "others_behave P E" "index_names E owner" "rail_inv P s"
  shows "wp (resume_snapshot P E oid ph c) (\<lambda>(v, mode) t. rail_inv P t \<and> (c \<longrightarrow> mode \<noteq> ModeClaim) \<and>
      (past P (owner oid, oid) s \<longrightarrow> mode \<in> {ModeDone, ModeObserve})) (\<lambda>_ _. True) s"
  unfolding resume_snapshot_def
proof (rule locked_wp [OF assms], rule follow_wp, assumption)
  fix v t x u assume t: "rail_step P s t" "current P v t" "op_key_of v = (owner oid, oid)" and u: "rail_step P t u" "current P v u"
  have late: "ro_state v \<notin> {AwaitingApproval, SigningStarted, SignedNotSubmitted, Submitting}" if "past P (owner oid, oid) s"
    using past_state [OF past_step [OF past_step [OF that t(1)] u(1), folded t(3)] u(2)] .
  have inv: "rail_inv P u" using u(2) by (rule current_inv)
  show "wp (if ro_terminal v \<or> ro_state v = AwaitingApproval then ret (v, ModeDone)
      else if \<not> c \<and> ro_state v \<in> {SigningStarted, SignedNotSubmitted, Submitting} then ret (v, ModeClaim)
      else if ro_state v \<in> {SigningStarted, SignedNotSubmitted} then ret (v, ModeExecute)
      else if ro_state v = Submitting
      then bnd (move P E v RailUnknownFinality ''interrupted_submission_observation_only'' ''effect_outcome_unknown'' plain_move)
        (\<lambda>observed. ret (observed, ModeObserve))
      else ret (v, ModeObserve))
     (\<lambda>(v, mode) t. rail_inv P t \<and> (c \<longrightarrow> mode \<noteq> ModeClaim) \<and> (past P (owner oid, oid) s \<longrightarrow> mode \<in> {ModeDone, ModeObserve}))
     (\<lambda>_ _. True) u"
    using late inv by (intro wp_if wp_ret moving_wp) (auto simp: rail_step_def)
qed

text \<open>One level of the resumption, over the level below it.\<close>

definition resume_level :: "prims \<Rightarrow> rail_env \<Rightarrow> (string \<Rightarrow> string \<Rightarrow> bool \<Rightarrow> (rail_world, rail_operation) stm) \<Rightarrow>
    string \<Rightarrow> string \<Rightarrow> rail_operation \<Rightarrow> resume_mode \<Rightarrow> (rail_world, rail_operation) stm" where
  "resume_level P E below oid ph v mode = (case mode of
       ModeDone \<Rightarrow> ret v
     | ModeClaim \<Rightarrow> withLocks E [''rail:approval-claim:'' @ oid] (below oid ph True)
     | ModeExecute \<Rightarrow>
         bnd (lift (rail_port_of E (ac_rail (ro_account v)) (ac_provider (ro_account v)))) (\<lambda>port.
         executeLocalSolanaClaimed P E (\<lambda>oid ph. below oid ph True) v port False)
     | ModeObserve \<Rightarrow>
         bnd (lift (rail_port_of E (ac_rail (ro_account v)) (ac_provider (ro_account v)))) (\<lambda>port.
         bnd (inspectEvidence v port) (\<lambda>inspection. conclude_observed P E oid ph v inspection)))"

lemma resume_Suc: "resumeLocalSolanaPhase P E (Suc d) oid ph c =
    bnd (resume_snapshot P E oid ph c) (\<lambda>(v, mode). resume_level P E (resumeLocalSolanaPhase P E d) oid ph v mode)"
  unfolding resumeLocalSolanaPhase.simps resume_level_def by (rule refl)

lemma level_same:
  "mode \<in> {ModeDone, ModeObserve} \<Longrightarrow> resume_level P E below oid ph v mode = resume_level P E below' oid ph v mode"
  by (auto simp: resume_level_def)

lemma past_resume:
  assumes "others_behave P E" "index_names E owner"
  shows "same_on (past P (owner oid, oid)) (resumeLocalSolanaPhase P E (Suc d) oid ph c) (resumeLocalSolanaPhase P E (Suc d') oid ph c)"
  unfolding resume_Suc
proof (rule same_bnd [where Q = "\<lambda>(v, mode) t. mode \<in> {ModeDone, ModeObserve}"])
  fix s assume past: "past P (owner oid, oid) s"
  then have "rail_inv P s" by (simp add: past_def)
  then show "wp (resume_snapshot P E oid ph c) (\<lambda>(v, mode) t. mode \<in> {ModeDone, ModeObserve}) (\<lambda>_ _. True) s"
    by (rule wp_weaken [OF snapshot_wp [OF assms]]) (use past in auto)
qed (auto intro: level_same [THEN fun_cong])

text \<open>The submission of a local Solana transfer hands its acknowledged record, and only that, to the observation.\<close>

lemma acknowledge_wp:
  assumes "others_behave P E" "index_names E owner" "rail_inv P s"
  shows "wp (acknowledge P E v p tx) (\<lambda>w t. ro_state w = SubmittedPending \<longrightarrow>
     past P (owner (ro_operationId w), ro_operationId w) t) (\<lambda>_ _. True) s"
proof -
  have result: "ro_state w = SubmittedPending \<longrightarrow> past P (owner (ro_operationId w), ro_operationId w) t"
    if w: "current P w t" "op_key_of w = (owner oid, oid)" for w t oid
  proof
    assume pending: "ro_state w = SubmittedPending"
    have stored: "map_of (rw_ops t) (owner oid, oid) = Some w" and inv: "rail_inv P t" using w by (auto simp: current_def)
    then have "validateRailOperation P w = Inr w" unfolding rail_inv_def by blast
    note ends = rail_journal_ends [OF this]
    from ends(1) have "last (ro_transitions w) \<in> set (ro_transitions w)" by simp
    with ends(2) pending have "SubmittedPending \<in> rt_state ` set (ro_transitions w)" by (metis imageI)
    moreover have "ro_operationId w = oid" using w(2) by (simp add: op_key_of_def)
    ultimately show "past P (owner (ro_operationId w), ro_operationId w) t" using stored inv by (auto simp: past_def)
  qed
  have moved: "wp (move P E w st reason c extra) (\<lambda>w t. ro_state w = SubmittedPending \<longrightarrow>
      past P (owner (ro_operationId w), ro_operationId w) t) (\<lambda>_ _. True) t"
    if "current P w t" "op_key_of w = (owner oid, oid)" for w t oid st reason c extra
  proof (rule wpI)
    fix x u assume run: "move P E w st reason c extra t = (Inr x, u)"
    then obtain m where "transitionRail P w m = Inr x" using move_InrD by blast
    then have "op_key_of x = (owner oid, oid)" using transition_key that(2) by metis
    with wp_Inr [OF move_wp [OF current_inv [OF that(1)]] run] result
    show "ro_state x = SubmittedPending \<longrightarrow> past P (owner (ro_operationId x), ro_operationId x) u" by blast
  qed simp
  show ?thesis
    unfolding acknowledge_def
    by (rule locked_wp [OF assms]) (intro wp_if wp_ret wp_option result moved; assumption)
qed

lemma send_signed_same:
  assumes "others_behave P E" "index_names E owner"
    "\<And>oid ph. same_on (past P (owner oid, oid)) (observe oid ph) (observe' oid ph)"
  shows "same_on (rail_inv P) (send_signed P E observe v signed port effect) (send_signed P E observe' v signed port effect)"
proof -
  define offered where "offered = bnd (commit_submission P E v signed) (\<lambda>(operation, committed).
     if \<not> committed then ret (operation, None)
     else bnd (attempt (bnd (send port operation (Some effect)) (\<lambda>transactionId.
         bnd (lift (validateRailTransactionId transactionId (ac_rail (ro_account operation)))) (\<lambda>_.
         if transactionId \<noteq> se_transactionId effect then lift (Inl (OtherError ''Error'')) else ret transactionId))))
       (\<lambda>answer. ret (operation, Some answer)))"
  have steps: "keeps (rail_inv P) (rail_step P) offered"
    unfolding offered_def
    by (rule commit_bnd [OF assms(1)], simp_all only: prod.case not_False_eq_True not_True_eq_False if_True if_False)
      (intro step_rules sendable_bnd sendable_attempt)+
  have split: "send_signed P E obs v signed port effect = bnd offered (\<lambda>(operation, answer).
     case answer of None \<Rightarrow> ret operation
     | Some tx \<Rightarrow> bnd (acknowledge P E v operation tx) (\<lambda>acknowledged.
         if ro_state acknowledged \<noteq> SubmittedPending then ret acknowledged
         else obs (ro_operationId acknowledged) (ro_profileHash acknowledged)))" for obs
    unfolding send_signed_def offered_def bnd_assoc
    by (rule arg_cong [where f = "bnd (commit_submission P E v signed)"]) (auto simp: fun_eq_iff bnd_assoc)
  have observed: "same_on (rail_inv P) (bnd (acknowledge P E v operation tx) (\<lambda>acknowledged.
         if ro_state acknowledged \<noteq> SubmittedPending then ret acknowledged
         else observe (ro_operationId acknowledged) (ro_profileHash acknowledged)))
       (bnd (acknowledge P E v operation tx) (\<lambda>acknowledged.
         if ro_state acknowledged \<noteq> SubmittedPending then ret acknowledged
         else observe' (ro_operationId acknowledged) (ro_profileHash acknowledged)))" for operation tx
    by (rule same_bnd, erule acknowledge_wp [OF assms(1,2)]) (use assms(3) in \<open>auto simp: same_on_def\<close>)
  show ?thesis
    unfolding split by (rule same_steps [OF steps]) (auto split: option.split intro: same_refl observed)
qed

lemma execute_same:
  assumes "others_behave P E" "index_names E owner"
    "\<And>oid ph. same_on (past P (owner oid, oid)) (observe oid ph) (observe' oid ph)"
  shows "same_on (rail_inv P) (executeLocalSolanaClaimed P E observe v port may) (executeLocalSolanaClaimed P E observe' v port may)"
  unfolding executeLocalSolanaClaimed_def
  by (intro same_steps signature_steps [OF assms(1)] sendable_steps [OF assms(1)])
    (auto split: solana_step.split option.split
      intro!: same_refl same_steps sendable_steps [OF assms(1)] send_signed_same [OF assms])

lemma level_executes:
  assumes "others_behave P E" "index_names E owner"
    "\<And>oid ph. same_on (past P (owner oid, oid)) (below oid ph True) (below' oid ph True)"
    "mode = ModeClaim \<Longrightarrow> same_on (rail_inv P) (below oid ph True) (below' oid ph True)"
  shows "same_on (rail_inv P) (resume_level P E below oid ph v mode) (resume_level P E below' oid ph v mode)"
proof (cases mode)
  case ModeExecute
  have "keeps (rail_inv P) (rail_step P) (lift (rail_port_of E (ac_rail (ro_account v)) (ac_provider (ro_account v))))"
    by (rule step_rules)
  from same_steps [OF this execute_same [OF assms(1,2) assms(3)]] show ?thesis by (simp add: resume_level_def ModeExecute)
qed (use assms(4) in \<open>auto simp: resume_level_def intro: same_refl same_locks [OF assms(1)]\<close>)

lemma claimed_resume:
  assumes "others_behave P E" "index_names E owner"
  shows "same_on (rail_inv P) (resumeLocalSolanaPhase P E (Suc (Suc d)) oid ph True) (resumeLocalSolanaPhase P E (Suc (Suc d')) oid ph True)"
  unfolding resume_Suc [of P E "Suc _"]
proof (rule same_bnd [where Q = "\<lambda>x t. rail_inv P t \<and> snd x \<noteq> ModeClaim"])
  fix s assume "rail_inv P s"
  from snapshot_wp [OF assms this, of oid ph True]
  show "wp (resume_snapshot P E oid ph True) (\<lambda>x t. rail_inv P t \<and> snd x \<noteq> ModeClaim) (\<lambda>_ _. True) s"
    by (rule wp_weaken) auto
next
  fix x :: "rail_operation \<times> resume_mode" and t assume x: "rail_inv P t \<and> snd x \<noteq> ModeClaim"
  have "same_on (rail_inv P) (resume_level P E (resumeLocalSolanaPhase P E (Suc d)) oid ph v mode)
      (resume_level P E (resumeLocalSolanaPhase P E (Suc d')) oid ph v mode)" if "mode \<noteq> ModeClaim" for v mode
    by (rule level_executes [OF assms]) (use that past_resume [OF assms] in auto)
  with x show "(case x of (v, mode) \<Rightarrow> resume_level P E (resumeLocalSolanaPhase P E (Suc d)) oid ph v mode) t =
      (case x of (v, mode) \<Rightarrow> resume_level P E (resumeLocalSolanaPhase P E (Suc d')) oid ph v mode) t"
    by (cases x) (auto simp: same_on_def)
qed

lemma unclaimed_resume:
  assumes "others_behave P E" "index_names E owner"
  shows "same_on (rail_inv P) (resumeLocalSolanaPhase P E (Suc (Suc (Suc d))) oid ph c) (resumeLocalSolanaPhase P E (Suc (Suc (Suc d'))) oid ph c)"
  unfolding resume_Suc [of P E "Suc (Suc _)"]
proof (rule same_steps [OF snapshot_steps [OF assms(1)]])
  fix x :: "rail_operation \<times> resume_mode"
  show "same_on (rail_inv P) (case x of (v, mode) \<Rightarrow> resume_level P E (resumeLocalSolanaPhase P E (Suc (Suc d))) oid ph v mode)
      (case x of (v, mode) \<Rightarrow> resume_level P E (resumeLocalSolanaPhase P E (Suc (Suc d'))) oid ph v mode)"
    by (cases x, simp only: prod.case, rule level_executes [OF assms]) (rule past_resume [OF assms], rule claimed_resume [OF assms])
qed

text \<open>
  The property C22. The recursion of a resumption never goes deeper than the three
  levels the model gives it: with any larger depth it does exactly the same, whatever the rail, the
  clock and the other processes do in between. The one assumption on the index is that it answers an
  operation id with the entry of that operation, under one profile.
\<close>

theorem resumption_depth:
  assumes "rail_inv P s" "others_behave P E" "index_names E owner"
  shows "resumeLocalSolanaPhase P E (RESUME_DEPTH + n) oid ph c s = resumeLocalSolanaPhase P E RESUME_DEPTH oid ph c s"
proof -
  have "RESUME_DEPTH + n = Suc (Suc (Suc n))" "RESUME_DEPTH = Suc (Suc (Suc 0))" by (simp_all add: RESUME_DEPTH_def)
  then show ?thesis
    using unclaimed_resume [OF assms(2,3)] assms(1) unfolding same_on_def by metis
qed

lemma sample_index_names: "index_names (sample_rail_env ports) (\<lambda>_. aaa)"
  by (simp add: index_names_def sample_rail_env_def sample_index_def)

theorem resumption_depth_witness:
  "resumeLocalSolanaPhase sample_prims (sample_rail_env []) (RESUME_DEPTH + 40) aaa aaa False (sample_world sample_sent) =
   resumeLocalSolanaPhase sample_prims (sample_rail_env []) RESUME_DEPTH aaa aaa False (sample_world sample_sent)"
  by (rule resumption_depth [OF sample_world_inv sample_alone sample_index_names]) simp

end
