(* ===== verification/OperationClaims.thy ===== *)
theory OperationClaims
  imports Wp "HOL-Library.AList"
begin

text \<open>
  The claims and entries of the operation index (\<^verbatim>\<open>operation-index/types.ts\<close>, the entry shape of
  \<^verbatim>\<open>store.ts\<close>, record paths of \<^verbatim>\<open>adapter.ts\<close>). An operation holds claims on accounts; two
  operations collide when one wants exclusively what the other holds.
\<close>

section \<open>Claims\<close>

record op_claim =
  cl_key :: string
  cl_shared :: bool

definition exclusive :: "string \<Rightarrow> op_claim" where
  "exclusive key = \<lparr>cl_key = key, cl_shared = False\<rparr>"

definition profileClaim :: "string \<Rightarrow> op_claim" where
  "profileClaim profile_hash = exclusive (''profile:'' @ profile_hash)"

definition unreadableProfileClaim :: "string \<Rightarrow> op_claim" where
  "unreadableProfileClaim profile_hash = exclusive (''unreadable:'' @ profile_hash)"

definition unreadableFamilyClaim :: "string \<Rightarrow> op_claim" where
  "unreadableFamilyClaim fam = exclusive (''unreadable-family:'' @ fam)"

definition UNREADABLE_PROVIDER_CLAIM :: op_claim where
  "UNREADABLE_PROVIDER_CLAIM = exclusive ''unreadable-provider''"

text \<open>\<^verbatim>\<open>toLowerCase\<close> on ASCII.\<close>

definition lower_char :: "char \<Rightarrow> char" where
  "lower_char c = (if upper c then char_of (of_char c + (32 :: nat)) else c)"

definition providerClaims :: "string \<Rightarrow> string \<Rightarrow> string \<Rightarrow> op_claim list" where
  "providerClaims providerId accountBindingHash payer =
     [exclusive (''provider:'' @ providerId @ '':'' @ accountBindingHash),
      exclusive (''provider-payer:'' @ providerId @ '':'' @ map lower_char payer)]"

text \<open>One step of the \<^verbatim>\<open>Map\<close> by key: an exclusive claim wins over a shared one.\<close>

fun merge_claim :: "op_claim \<Rightarrow> op_claim list \<Rightarrow> op_claim list" where
  "merge_claim c [] = [c]"
| "merge_claim c (prior # cs) =
     (if cl_key prior = cl_key c
      then (if \<not> cl_shared prior \<or> \<not> cl_shared c then exclusive (cl_key c) else c) # cs
      else prior # merge_claim c cs)"

definition normalizeClaims :: "op_claim list \<Rightarrow> op_claim list" where
  "normalizeClaims claims = sort_key cl_key (fold merge_claim claims [])"

definition collidingClaims :: "op_claim list \<Rightarrow> op_claim list \<Rightarrow> op_claim list" where
  "collidingClaims held wanted =
     filter (\<lambda>claim. case map_of (rev (map (\<lambda>c. (cl_key c, c)) wanted)) (cl_key claim) of
       None \<Rightarrow> False
     | Some other \<Rightarrow> \<not> (cl_shared claim \<and> cl_shared other)) held"

section \<open>Entries\<close>

definition OPERATION_FAMILIES :: "string list" where
  "OPERATION_FAMILIES = [''direct_transfer'', ''x402_fetch'', ''rail_transfer'', ''bridge_route'', ''gasless_transfer'',
     ''metamask_gasless_transfer'', ''smart_account_gasless_transfer'', ''facilitator_gasless_transfer'', ''circle_route'',
     ''merchant_x402'', ''permit2_production'', ''relay_unsigned'', ''sei_gaszip'', ''mega_gaszip'', ''swap'', ''uniswap_token'',
     ''stargate_native'', ''stargate_token'', ''gasless_usdt'', ''oneclick_source'', ''circle_source'', ''circle_approval'',
     ''metamask_native'', ''x402_solana'', ''permit2_allowance'', ''wallet_allowance_revoke'']"

datatype index_state = Admitted | Active | Terminal | Unreadable | ReleasedEntry

datatype unreadable_reason = RecordInvalid | RecordNotJson | DuplicateOperationId

text \<open>The time of an admission is kept as its milliseconds; the file holds its ISO text.\<close>

record op_entry =
  oe_operationId :: string
  oe_family :: string
  oe_profileHash :: "string option"
  oe_idempotencyHash :: "string option"
  oe_requestHash :: "string option"
  oe_recordPath :: string
  oe_claims :: "op_claim list"
  oe_state :: index_state
  oe_admittedAt :: "int option"
  oe_reason :: "unreadable_reason option"

text \<open>A canonical entry: its claims are normalized.\<close>

definition entryOf :: "op_entry \<Rightarrow> op_entry" where
  "entryOf e = e\<lparr>oe_claims := normalizeClaims (oe_claims e)\<rparr>"

record op_identity =
  oi_family :: string
  oi_profileHash :: string
  oi_operationId :: string
  oi_idempotencyHash :: "string option"
  oi_requestHash :: "string option"

datatype wanted_tag = NativeBesideSettledCircle string | CircleSourceAfterBurn | MetamaskBesideDispatched | MetamaskRevoke

record wanted_claims =
  wc_family :: "string option"
  wc_profileHash :: "string option"
  wc_claims :: "op_claim list"
  wc_holds :: "op_claim list"
  wc_waits :: "op_claim list"
  wc_tag :: "wanted_tag option"
  wc_except :: "string option"

text \<open>
  Every claim an admission wants: its own, its profile's quarantine and its family's (every family's
  when it states none), and the provider quarantine when it wants a provider account.
\<close>

definition wantedClaims :: "wanted_claims \<Rightarrow> op_claim list" where
  "wantedClaims wanted =
     (let provider = list_ex (\<lambda>c. starts_with ''provider:'' (cl_key c) \<or> starts_with ''provider-payer:'' (cl_key c)) (wc_claims wanted) in
      normalizeClaims (wc_claims wanted @ wc_waits wanted @
        (case wc_profileHash wanted of None \<Rightarrow> [] | Some p \<Rightarrow> [unreadableProfileClaim p]) @
        map unreadableFamilyClaim (case wc_family wanted of None \<Rightarrow> OPERATION_FAMILIES | Some f \<Rightarrow> [f]) @
        (if provider then [UNREADABLE_PROVIDER_CLAIM] else [])))"

section \<open>Files of the index\<close>

definition damage :: js_error where
  "damage = OtherError ''OperationIndexDamage''"

definition nullable_hash :: "string option \<Rightarrow> bool" where
  "nullable_hash v = (case v of None \<Rightarrow> True | Some h \<Rightarrow> hash_text h)"

definition validClaim :: "op_claim \<Rightarrow> bool" where
  "validClaim c \<longleftrightarrow> cl_key c \<noteq> [] \<and> length (cl_key c) \<le> 256"

definition validateIndexEntry :: "string \<Rightarrow> op_entry \<Rightarrow> op_entry result" where
  "validateIndexEntry operationId e =
     (if oe_operationId e \<noteq> operationId \<or> \<not> hash_text operationId \<or> oe_family e \<notin> set OPERATION_FAMILIES \<or>
         \<not> nullable_hash (oe_profileHash e) \<or> \<not> nullable_hash (oe_idempotencyHash e) \<or> \<not> nullable_hash (oe_requestHash e) \<or>
         \<not> list_all validClaim (oe_claims e) \<or>
         (oe_state e = Admitted) \<noteq> (oe_admittedAt e \<noteq> None) \<or>
         (oe_state e = Unreadable) \<noteq> (oe_reason e \<noteq> None) \<and> oe_state e \<noteq> ReleasedEntry
      then Inl damage else Inr e)"

definition operationIds :: "string list \<Rightarrow> bool" where
  "operationIds ids \<longleftrightarrow> ids \<noteq> [] \<and> list_all hash_text ids \<and> sort (remdups ids) = ids"

section \<open>Record paths\<close>

record record_name =
  rn_path :: string
  rn_profileHash :: "string option"
  rn_operationId :: string

record op_store =
  os_directory :: string
  os_perProfile :: bool

fun split_on :: "char \<Rightarrow> string \<Rightarrow> string list" where
  "split_on d [] = [[]]"
| "split_on d (c # cs) = (if c = d then [] # split_on d cs
     else case split_on d cs of [] \<Rightarrow> [[c]] | w # ws \<Rightarrow> (c # w) # ws)"

definition record_file_name :: "string \<Rightarrow> string option" where
  "record_file_name name =
     (if hash_text (take 64 name) \<and> drop 64 name = ''.json'' then Some (take 64 name) else None)"

definition parseRecordPath :: "string \<Rightarrow> (string \<times> string option \<times> string) option" where
  "parseRecordPath path =
     (let parts = split_on CHR ''/'' path in
      case record_file_name (last parts) of None \<Rightarrow> None
      | Some operationId \<Rightarrow>
          if length parts = 2 then Some (parts ! 0, None, operationId)
          else if length parts = 3 \<and> hash_text (parts ! 1) then Some (parts ! 0, Some (parts ! 1), operationId)
          else None)"

definition requiredRecordPath :: "op_store \<Rightarrow> string \<Rightarrow> (string option \<times> string) result" where
  "requiredRecordPath store path =
     (case parseRecordPath path of
        Some (directory, profile, operationId) \<Rightarrow>
          if directory \<noteq> os_directory store \<or> (profile \<noteq> None) \<noteq> os_perProfile store then Inl (OtherError ''Error'')
          else Inr (profile, operationId)
      | None \<Rightarrow> Inl (OtherError ''Error''))"

definition nameOf :: "op_entry \<Rightarrow> record_name option" where
  "nameOf e =
     (case parseRecordPath (oe_recordPath e) of
        Some (directory, profile, operationId) \<Rightarrow>
          if operationId \<noteq> oe_operationId e then None
          else Some \<lparr>rn_path = oe_recordPath e, rn_profileHash = profile, rn_operationId = oe_operationId e\<rparr>
      | None \<Rightarrow> None)"

definition record_path :: "op_store \<Rightarrow> string \<Rightarrow> string \<Rightarrow> string" where
  "record_path store profile operationId =
     (if os_perProfile store then os_directory store @ ''/'' @ profile @ ''/'' @ operationId @ ''.json''
      else os_directory store @ ''/'' @ operationId @ ''.json'')"

section \<open>The algebra of claims\<close>

text \<open>What a list of claims asks of a key: nothing, all shared, or at least one exclusive.\<close>

definition demand :: "op_claim list \<Rightarrow> string \<Rightarrow> bool option" where
  "demand claims key = (if key \<notin> cl_key ` set claims then None
     else Some (\<exists>c \<in> set claims. cl_key c = key \<and> \<not> cl_shared c))"

text \<open>Two lists collide on a key both ask for, unless both ask for it shared only.\<close>

definition collide :: "op_claim list \<Rightarrow> op_claim list \<Rightarrow> bool" where
  "collide xs ys \<longleftrightarrow> (\<exists>key x y. demand xs key = Some x \<and> demand ys key = Some y \<and> (x \<or> y))"

lemma collide_sym: "collide xs ys \<Longrightarrow> collide ys xs"
  by (auto simp: collide_def)

lemma merge_keys: "cl_key ` set (merge_claim c cs) = insert (cl_key c) (cl_key ` set cs)"
  by (induction cs) (auto simp: exclusive_def)

lemma merge_distinct: "distinct (map cl_key cs) \<Longrightarrow> distinct (map cl_key (merge_claim c cs))"
proof (induction cs)
  case (Cons d cs)
  have "cl_key ` set (merge_claim c cs) = insert (cl_key c) (cl_key ` set cs)" by (rule merge_keys)
  with Cons show ?case by (auto simp: exclusive_def)
qed simp

lemma merge_exclusive:
  "distinct (map cl_key cs) \<Longrightarrow>
   (\<exists>d \<in> set (merge_claim c cs). cl_key d = key \<and> \<not> cl_shared d) \<longleftrightarrow>
   (cl_key c = key \<and> \<not> cl_shared c) \<or> (\<exists>d \<in> set cs. cl_key d = key \<and> \<not> cl_shared d)"
proof (induction cs)
  case (Cons d cs)
  then show ?case by (auto simp: exclusive_def)
qed simp

lemma demand_merge: "distinct (map cl_key cs) \<Longrightarrow> demand (merge_claim c cs) = demand (c # cs)"
  by (rule ext, unfold demand_def, simp only: merge_keys merge_exclusive) auto

lemma fold_merge:
  "distinct (map cl_key acc) \<Longrightarrow>
   distinct (map cl_key (fold merge_claim cs acc)) \<and> demand (fold merge_claim cs acc) = demand (cs @ acc)"
proof (induction cs arbitrary: acc)
  case (Cons c cs)
  note acc = merge_distinct [OF Cons.prems, of c]
  have "demand (cs @ merge_claim c acc) key = demand (c # cs @ acc) key" for key
    using demand_merge [OF Cons.prems, of c, THEN fun_cong, of key] merge_keys [of c acc] merge_exclusive [OF Cons.prems, of c key]
    by (simp add: demand_def image_Un) (auto simp: demand_def)
  with Cons.IH [OF acc] show ?case by (simp add: fun_eq_iff)
qed simp

lemma normalize_distinct: "distinct (map cl_key (normalizeClaims cs))"
  using fold_merge [of "[]" cs] by (simp add: normalizeClaims_def distinct_map)

lemma demand_cong: "set xs = set ys \<Longrightarrow> demand xs = demand ys"
  by (simp add: demand_def fun_eq_iff)

lemma demand_normalize [simp]: "demand (normalizeClaims cs) = demand cs"
proof -
  have "demand (normalizeClaims cs) = demand (fold merge_claim cs [])"
    by (rule demand_cong) (simp add: normalizeClaims_def)
  then show ?thesis using fold_merge [of "[]" cs] by simp
qed

lemma collide_normalize [simp]: "collide (normalizeClaims xs) ys = collide xs ys" "collide xs (normalizeClaims ys) = collide xs ys"
  by (simp_all add: collide_def)

lemma map_of_claims:
  assumes "distinct (map cl_key ws)"
  shows "map_of (rev (map (\<lambda>c. (cl_key c, c)) ws)) key = Some w \<longleftrightarrow> w \<in> set ws \<and> cl_key w = key"
proof -
  have "map fst (rev (map (\<lambda>c. (cl_key c, c)) ws)) = rev (map cl_key ws)" by (simp add: rev_map comp_def)
  with assms have "distinct (map fst (rev (map (\<lambda>c. (cl_key c, c)) ws)))" by (metis distinct_rev)
  then show ?thesis by (auto simp: map_of_eq_Some_iff image_iff)
qed

lemma demand_distinct:
  "distinct (map cl_key ws) \<Longrightarrow> w \<in> set ws \<Longrightarrow> demand ws (cl_key w) = Some (\<not> cl_shared w)"
  by (auto simp: demand_def distinct_map dest: inj_onD)

text \<open>On normalized lists the filter of the code finds a claim exactly when the demands collide.\<close>

lemma colliding_iff:
  assumes "distinct (map cl_key held)" "distinct (map cl_key wanted)"
  shows "collidingClaims held wanted \<noteq> [] \<longleftrightarrow> collide held wanted"
proof
  assume "collidingClaims held wanted \<noteq> []"
  then obtain c w where "c \<in> set held" "w \<in> set wanted" "cl_key w = cl_key c" "\<not> (cl_shared c \<and> cl_shared w)"
    by (auto simp: collidingClaims_def filter_empty_conv map_of_claims [OF assms(2)] split: option.splits)
  with demand_distinct [OF assms(1), of c] demand_distinct [OF assms(2), of w] show "collide held wanted"
    unfolding collide_def by (intro exI [of _ "cl_key c"] exI conjI) auto
next
  assume "collide held wanted"
  then obtain key x y where d: "demand held key = Some x" "demand wanted key = Some y" "x \<or> y" by (auto simp: collide_def)
  from d(1,2) obtain c w where c: "c \<in> set held" "cl_key c = key" and w: "w \<in> set wanted" "cl_key w = key"
    by (auto simp: demand_def split: if_splits)
  with d demand_distinct [OF assms(1) c(1)] demand_distinct [OF assms(2) w(1)] have "\<not> (cl_shared c \<and> cl_shared w)" by auto
  moreover have "map_of (rev (map (\<lambda>c. (cl_key c, c)) wanted)) (cl_key c) = Some w"
    using w c by (simp add: map_of_claims [OF assms(2)])
  ultimately have "c \<in> set (collidingClaims held wanted)" using c by (simp add: collidingClaims_def)
  then show "collidingClaims held wanted \<noteq> []" by auto
qed

text \<open>
  The property C30. Normalizing claims never changes what they ask for, and
  after it the guard's test is exactly the rule of the source: two operations collide when some key is
  asked for by both and by one of them exclusively. In particular the test is symmetric, so it does
  not matter which of two operations was admitted first.
\<close>

theorem claims_collide_symmetric:
  "(collidingClaims (normalizeClaims xs) (normalizeClaims ys) \<noteq> []) = collide xs ys \<and>
   (collidingClaims (normalizeClaims xs) (normalizeClaims ys) \<noteq> []) =
   (collidingClaims (normalizeClaims ys) (normalizeClaims xs) \<noteq> [])"
  using colliding_iff [OF normalize_distinct normalize_distinct, of xs ys] colliding_iff [OF normalize_distinct normalize_distinct, of ys xs]
    collide_sym [of xs ys] collide_sym [of ys xs]
  by simp blast

end
