(* ===== verification/OperationIndex.thy ===== *)
theory OperationIndex
  imports OperationClaims
begin

text \<open>
  The operation index (\<^verbatim>\<open>operation-index/index.ts\<close>, \<^verbatim>\<open>store.ts\<close>, \<^verbatim>\<open>reconcile.ts\<close>): a cache of
  entries over the records of every money family, and the guard that admits one operation per
  account. The records and the family adapters that read them are type parameters: \<open>'f\<close> is the
  content of a record file, \<open>'r\<close> a record as its family reads it.
\<close>

section \<open>Adapters, world and environment\<close>

record record_identity =
  ri_profileHash :: string
  ri_operationId :: string
  ri_idempotencyHash :: "string option"
  ri_requestHash :: "string option"

record salvaged_record =
  sv_profileHashes :: "string list"
  sv_idempotencyHash :: "string option"
  sv_claims :: "op_claim list option"

record ('f, 'r) family_adapter =
  fa_family :: string
  fa_stores :: "op_store list"
  fa_path :: "string \<Rightarrow> unit result"
  fa_decode :: "string \<Rightarrow> 'f \<Rightarrow> 'r result"
  fa_identity :: "'r \<Rightarrow> record_identity"
  fa_claims :: "'r \<Rightarrow> op_claim list option"
  fa_holdsProfile :: "'r \<Rightarrow> bool"
  fa_terminal :: "nat \<Rightarrow> 'r \<Rightarrow> bool result"
  fa_state :: "'r \<Rightarrow> string"
  fa_admits :: "'r \<Rightarrow> wanted_claims \<Rightarrow> op_claim \<Rightarrow> bool"
  fa_salvage :: "'f \<Rightarrow> salvaged_record"
  fa_unknownClaims :: "op_claim list"

datatype index_file = Intact op_entry | DamagedEntry
datatype 'f record_file = Content 'f | NotJson

text \<open>
  The directories \<^verbatim>\<open>entries\<close>, \<^verbatim>\<open>open\<close>, \<^verbatim>\<open>idempotency\<close> and \<^verbatim>\<open>terminal-pointers\<close> of the index, and
  the records; a value \<open>None\<close> of a pointer or shard file is one that does not validate.
\<close>

record 'f index_world =
  xw_entries :: "(string \<times> index_file) list"
  xw_open :: "(string \<times> index_file) list"
  xw_pointers :: "(string \<times> string list option) list"
  xw_shards :: "(string \<times> (string \<times> string list) list option) list"
  xw_records :: "(string \<times> 'f record_file) list"
  xw_tick :: nat
  xw_life :: nat

record ('f, 'r) index_env =
  xe_registry :: "('f, 'r) family_adapter list"
  xe_now :: "nat \<Rightarrow> int"
  xe_random :: "nat \<Rightarrow> nat"
  xe_io :: "nat \<Rightarrow> string \<Rightarrow> unit result"
  xe_lock :: "nat \<Rightarrow> unit result"
  xe_others :: "nat \<Rightarrow> 'f index_world \<Rightarrow> 'f index_world"
  xe_consent :: "nat \<Rightarrow> op_entry \<Rightarrow> unit result"

definition query :: "(nat \<Rightarrow> 'a) \<Rightarrow> ('f index_world, 'a) stm" where
  "query f = (\<lambda>s. (Inr (f (xw_tick s)), s\<lparr>xw_tick := Suc (xw_tick s)\<rparr>))"

definition asks :: "(nat \<Rightarrow> 'a result) \<Rightarrow> ('f index_world, 'a) stm" where
  "asks f = bnd (query f) lift"

definition looks :: "('f index_world \<Rightarrow> 'a result) \<Rightarrow> ('f index_world, 'a) stm" where
  "looks f = (\<lambda>s. (f s, s))"

text \<open>A process may die at any write.\<close>

definition put :: "('f index_world \<Rightarrow> 'f index_world) \<Rightarrow> ('f index_world, unit) stm" where
  "put f = (\<lambda>s. if xw_life s = 0 then (Inl (OtherError ''crash''), s) else (Inr (), f (s\<lparr>xw_life := xw_life s - 1\<rparr>)))"

definition meet :: "('f, 'r) index_env \<Rightarrow> ('f index_world, unit) stm" where
  "meet E = (\<lambda>s. (Inr (), xe_others E (xw_tick s) s))"

text \<open>Other processes act while this one waits for the leaf lock.\<close>

definition index_lock :: "('f, 'r) index_env \<Rightarrow> ('f index_world, 'a) stm \<Rightarrow> ('f index_world, 'a) stm" where
  "index_lock E m = bnd (asks (xe_lock E)) (\<lambda>_. bnd (meet E) (\<lambda>_. m))"

text \<open>An error of the file system itself.\<close>

definition systemFailure :: "js_error \<Rightarrow> bool" where
  "systemFailure e \<longleftrightarrow> e = OtherError ''syscall''"

fun each :: "('a \<Rightarrow> ('s, unit) stm) \<Rightarrow> 'a list \<Rightarrow> ('s, unit) stm" where
  "each f [] = ret ()"
| "each f (x # xs) = bnd (f x) (\<lambda>_. each f xs)"

fun collect :: "('a \<Rightarrow> ('s, 'b option) stm) \<Rightarrow> 'a list \<Rightarrow> ('s, 'b list) stm" where
  "collect f [] = ret []"
| "collect f (x # xs) = bnd (f x) (\<lambda>y. bnd (collect f xs) (\<lambda>ys. ret (case y of None \<Rightarrow> ys | Some z \<Rightarrow> z # ys)))"

section \<open>The store\<close>

definition read_entry :: "(string \<times> index_file) list \<Rightarrow> string \<Rightarrow> op_entry option result" where
  "read_entry files operationId =
     (case map_of files operationId of
        None \<Rightarrow> Inr None
      | Some DamagedEntry \<Rightarrow> Inl damage
      | Some (Intact e) \<Rightarrow> rbind (validateIndexEntry operationId e) (\<lambda>e. Inr (Some e)))"

definition stored_entry :: "string \<Rightarrow> ('f index_world, op_entry option) stm" where
  "stored_entry operationId = looks (\<lambda>s. read_entry (xw_entries s) operationId)"

definition load_open :: "string \<Rightarrow> ('f index_world, op_entry option) stm" where
  "load_open operationId = looks (\<lambda>s. read_entry (xw_open s) operationId)"

definition entryIds :: "('f index_world, string list) stm" where
  "entryIds = looks (\<lambda>s. Inr (sort (remdups (map fst (xw_entries s)))))"

definition openIds :: "('f index_world, string list) stm" where
  "openIds = looks (\<lambda>s. Inr (sort (remdups (map fst (xw_open s)))))"

definition shard_ok :: "string \<Rightarrow> (string \<times> string list) list \<Rightarrow> bool" where
  "shard_ok name pointers \<longleftrightarrow> list_all (\<lambda>(hash, ids). hash_text hash \<and> starts_with name hash \<and> operationIds ids) pointers"

definition shard :: "'f index_world \<Rightarrow> string \<Rightarrow> (string \<times> string list) list result" where
  "shard s name =
     (if length name \<noteq> 1 \<or> \<not> list_all lower_hex name then Inl damage
      else case map_of (xw_shards s) name of
        None \<Rightarrow> Inr []
      | Some None \<Rightarrow> Inl damage
      | Some (Some pointers) \<Rightarrow> if shard_ok name pointers then Inr pointers else Inl damage)"

definition read_pointer :: "'f index_world \<Rightarrow> string \<Rightarrow> string list option result" where
  "read_pointer s hash =
     (case map_of (xw_pointers s) hash of
        None \<Rightarrow> rbind (shard s (take 1 hash)) (\<lambda>ps. Inr (map_of ps hash))
      | Some None \<Rightarrow> Inl damage
      | Some (Some ids) \<Rightarrow> if operationIds ids then Inr (Some ids) else Inl damage)"

definition pointer :: "string \<Rightarrow> ('f index_world, string list option) stm" where
  "pointer hash = looks (\<lambda>s. read_pointer s hash)"

definition putEntry :: "op_entry \<Rightarrow> ('f index_world, unit) stm" where
  "putEntry e = put (\<lambda>s. s\<lparr>xw_entries := AList.update (oe_operationId e) (Intact e) (xw_entries s)\<rparr>)"

definition putOpen :: "op_entry \<Rightarrow> ('f index_world, unit) stm" where
  "putOpen e = put (\<lambda>s. s\<lparr>xw_open := AList.update (oe_operationId e) (Intact e) (xw_open s)\<rparr>)"

definition dropEntry :: "string \<Rightarrow> ('f index_world, unit) stm" where
  "dropEntry operationId = put (\<lambda>s. s\<lparr>xw_entries := AList.delete operationId (xw_entries s)\<rparr>)"

definition dropOpen :: "string \<Rightarrow> ('f index_world, unit) stm" where
  "dropOpen operationId = put (\<lambda>s. s\<lparr>xw_open := AList.delete operationId (xw_open s)\<rparr>)"

definition dropPointer :: "string \<Rightarrow> ('f index_world, unit) stm" where
  "dropPointer hash = put (\<lambda>s. s\<lparr>xw_pointers := AList.delete hash (xw_pointers s)\<rparr>)"

text \<open>Create-only when asked: an occupied target answers false.\<close>

definition putPointer :: "string \<Rightarrow> string list \<Rightarrow> bool \<Rightarrow> ('f index_world, bool) stm" where
  "putPointer hash ids createOnly =
     bnd (looks (\<lambda>s. Inr (createOnly \<and> hash \<in> fst ` set (xw_pointers s)))) (\<lambda>occupied.
     if occupied then ret False
     else bnd (put (\<lambda>s. s\<lparr>xw_pointers := AList.update hash (Some (sort (remdups ids))) (xw_pointers s)\<rparr>)) (\<lambda>_. ret True))"

definition remove_damaged_file :: "('f index_world \<Rightarrow> 'a result) \<Rightarrow> ('f index_world, unit) stm \<Rightarrow> ('f index_world, unit) stm" where
  "remove_damaged_file reading drop_it =
     try_catch (bnd (looks reading) (\<lambda>_. ret ())) (\<lambda>e. if e \<noteq> damage then lift (Inl e) else drop_it)"

definition removeDamaged :: "('f index_world, unit) stm" where
  "removeDamaged =
     bnd entryIds (\<lambda>ids. bnd (each (\<lambda>i. remove_damaged_file (\<lambda>s. read_entry (xw_entries s) i) (dropEntry i)) ids) (\<lambda>_.
     bnd openIds (\<lambda>ids. bnd (each (\<lambda>i. remove_damaged_file (\<lambda>s. read_entry (xw_open s) i) (dropOpen i)) ids) (\<lambda>_.
     bnd (looks (\<lambda>s. Inr (sort (remdups (map fst (xw_pointers s)))))) (\<lambda>hashes.
     bnd (each (\<lambda>h. remove_damaged_file (\<lambda>s. read_pointer s h) (dropPointer h)) hashes) (\<lambda>_.
     bnd (looks (\<lambda>s. Inr (map fst (xw_shards s)))) (\<lambda>names.
       each (\<lambda>n. remove_damaged_file (\<lambda>s. shard s n) (put (\<lambda>s. s\<lparr>xw_shards := AList.delete n (xw_shards s)\<rparr>))) names)))))))"

text \<open>Names only: foreign names are not records.\<close>

definition recordNames :: "op_store \<Rightarrow> 'f index_world \<Rightarrow> record_name list" where
  "recordNames store s =
     List.map_filter (\<lambda>path. case parseRecordPath path of
        Some (directory, profile, operationId) \<Rightarrow>
          if directory = os_directory store \<and> (profile \<noteq> None) = os_perProfile store
          then Some \<lparr>rn_path = path, rn_profileHash = profile, rn_operationId = operationId\<rparr> else None
      | None \<Rightarrow> None) (map fst (xw_records s))"

section \<open>Deriving an entry from its record\<close>

text \<open>The family's reader: no record, the record, or an error when it is invalid.\<close>

definition load_record :: "('f, 'r) index_env \<Rightarrow> ('f, 'r) family_adapter \<Rightarrow> string \<Rightarrow> ('f index_world, 'r option) stm" where
  "load_record E A path =
     bnd (lift (fa_path A path)) (\<lambda>_.
     bnd (asks (\<lambda>n. xe_io E n path)) (\<lambda>_.
     looks (\<lambda>s. case map_of (xw_records s) path of
         None \<Rightarrow> Inr None
       | Some NotJson \<Rightarrow> Inl (ApnError APN_STATE_CORRUPT None)
       | Some (Content f) \<Rightarrow> rbind (fa_decode A path f) (\<lambda>r. Inr (Some r)))))"

definition quarantine_claims :: "('f, 'r) family_adapter \<Rightarrow> string list \<Rightarrow> salvaged_record option \<Rightarrow> op_claim list" where
  "quarantine_claims A profiles salvaged =
     (case (case salvaged of None \<Rightarrow> None | Some v \<Rightarrow> sv_claims v) of
        Some claims \<Rightarrow> claims
      | None \<Rightarrow> map profileClaim profiles @
          (if profiles \<noteq> [] then map unreadableProfileClaim profiles else [unreadableFamilyClaim (fa_family A)]) @ fa_unknownClaims A)"

definition quarantine :: "('f, 'r) family_adapter \<Rightarrow> record_name \<Rightarrow> unreadable_reason \<Rightarrow> ('f index_world, op_entry option) stm" where
  "quarantine A name reason = looks (\<lambda>s. Inr (
     case map_of (xw_records s) (rn_path name) of
       None \<Rightarrow> None
     | Some raw \<Rightarrow>
         let salvaged = (case raw of Content f \<Rightarrow> Some (fa_salvage A f) | NotJson \<Rightarrow> None);
           profiles = (case rn_profileHash name of Some p \<Rightarrow> [p] | None \<Rightarrow> (case salvaged of None \<Rightarrow> [] | Some v \<Rightarrow> sv_profileHashes v)) in
         Some (entryOf \<lparr>oe_operationId = rn_operationId name, oe_family = fa_family A,
           oe_profileHash = (case profiles of [] \<Rightarrow> None | p # _ \<Rightarrow> Some p),
           oe_idempotencyHash = (case salvaged of None \<Rightarrow> None | Some v \<Rightarrow> sv_idempotencyHash v), oe_requestHash = None,
           oe_recordPath = rn_path name, oe_claims = normalizeClaims (quarantine_claims A profiles salvaged),
           oe_state = Unreadable, oe_admittedAt = None,
           oe_reason = Some (case raw of Content _ \<Rightarrow> reason | NotJson \<Rightarrow> RecordNotJson)\<rparr>)))"

definition record_claims :: "('f, 'r) family_adapter \<Rightarrow> string \<Rightarrow> 'r \<Rightarrow> op_claim list" where
  "record_claims A profile_hash r =
     (let held = fa_claims A r in
      normalizeClaims ((if held = None \<or> fa_holdsProfile A r then [profileClaim profile_hash] else []) @
        (case held of Some claims \<Rightarrow> claims | None \<Rightarrow> unreadableProfileClaim profile_hash # fa_unknownClaims A)))"

definition record_entry :: "('f, 'r) family_adapter \<Rightarrow> record_name \<Rightarrow> 'r \<Rightarrow> bool option \<Rightarrow> op_entry" where
  "record_entry A name r finished =
     (let i = fa_identity A r in
      entryOf \<lparr>oe_operationId = rn_operationId name, oe_family = fa_family A, oe_profileHash = Some (ri_profileHash i),
        oe_idempotencyHash = ri_idempotencyHash i, oe_requestHash = ri_requestHash i, oe_recordPath = rn_path name,
        oe_claims = (if finished = Some True then [] else record_claims A (ri_profileHash i) r),
        oe_state = (case finished of Some True \<Rightarrow> Terminal | Some False \<Rightarrow> Active | None \<Rightarrow> Unreadable), oe_admittedAt = None,
        oe_reason = (case finished of None \<Rightarrow> Some RecordInvalid | Some _ \<Rightarrow> None)\<rparr>)"

text \<open>A lifecycle that cannot be decided keeps the record's claims and reads as unreadable.\<close>

definition fromRecord :: "('f, 'r) family_adapter \<Rightarrow> record_name \<Rightarrow> 'r \<Rightarrow> ('f index_world, op_entry option) stm" where
  "fromRecord A name r =
     (let i = fa_identity A r in
      if ri_operationId i \<noteq> rn_operationId name \<or> (rn_profileHash name \<noteq> None \<and> Some (ri_profileHash i) \<noteq> rn_profileHash name)
      then quarantine A name RecordInvalid
      else bnd (try_catch (bnd (asks (\<lambda>n. fa_terminal A n r)) (\<lambda>finished. ret (Some finished)))
          (\<lambda>e. if systemFailure e then lift (Inl e) else ret None)) (\<lambda>finished.
        ret (Some (record_entry A name r finished))))"

definition derive :: "('f, 'r) index_env \<Rightarrow> ('f, 'r) family_adapter \<Rightarrow> record_name \<Rightarrow> ('f index_world, op_entry option) stm" where
  "derive E A name =
     bnd (try_catch (bnd (load_record E A (rn_path name)) (\<lambda>r. ret (Inr r)))
       (\<lambda>e. if systemFailure e then lift (Inl e) else bnd (quarantine A name RecordInvalid) (\<lambda>q. ret (Inl q)))) (\<lambda>loaded.
     case loaded of
       Inl q \<Rightarrow> ret q
     | Inr None \<Rightarrow> ret None
     | Inr (Some r) \<Rightarrow> fromRecord A name r)"

section \<open>Writing an entry\<close>

fun bind_pointer_attempts :: "nat \<Rightarrow> string \<Rightarrow> string \<Rightarrow> ('f index_world, unit) stm" where
  "bind_pointer_attempts 0 hash operationId = lift (Inl (ApnError APN_STATE_BUSY None))"
| "bind_pointer_attempts (Suc n) hash operationId =
     bnd (pointer hash) (\<lambda>bound.
     if (case bound of None \<Rightarrow> False | Some ids \<Rightarrow> operationId \<in> set ids) then ret ()
     else bnd (putPointer hash ((case bound of None \<Rightarrow> [] | Some ids \<Rightarrow> ids) @ [operationId]) (bound = None)) (\<lambda>placed.
       if placed then ret () else bind_pointer_attempts n hash operationId))"

definition bindPointer :: "string \<Rightarrow> string \<Rightarrow> ('f index_world, unit) stm" where
  "bindPointer hash operationId = bind_pointer_attempts 3 hash operationId"

text \<open>The entry an id already has, where a damaged one counts as none.\<close>

definition entry_or_damaged :: "string \<Rightarrow> ('f index_world, op_entry option) stm" where
  "entry_or_damaged operationId = try_catch (stored_entry operationId) (\<lambda>e. if e = damage then ret None else lift (Inl e))"

text \<open>Pointer first, then the open copy, then the entry.\<close>

definition place :: "op_entry \<Rightarrow> ('f index_world, unit) stm" where
  "place e =
     bnd (case oe_idempotencyHash e of None \<Rightarrow> ret () | Some h \<Rightarrow> bindPointer h (oe_operationId e)) (\<lambda>_.
     bnd (if oe_claims e \<noteq> [] then putOpen e else dropOpen (oe_operationId e)) (\<lambda>_.
     putEntry e))"

text \<open>An owner release of a quarantine stays released while the record still cannot be read.\<close>

definition write_entry :: "op_entry option \<Rightarrow> bool \<Rightarrow> ('f index_world, unit) stm" where
  "write_entry derived force =
     (case derived of None \<Rightarrow> ret ()
      | Some e \<Rightarrow>
          bnd (if force \<or> oe_state e = Unreadable then entry_or_damaged (oe_operationId e) else ret None) (\<lambda>existing.
          if (case existing of None \<Rightarrow> False | Some x \<Rightarrow> oe_state x = ReleasedEntry) \<and> oe_state e = Unreadable then ret ()
          else place e))"

definition merge_shard :: "(string \<times> string list) list \<Rightarrow> (string \<times> string) list \<Rightarrow> (string \<times> string list) list" where
  "merge_shard present added =
     fold (\<lambda>(hash, operationId) ps. AList.update hash (sort (remdups ((case map_of ps hash of None \<Rightarrow> [] | Some ids \<Rightarrow> ids) @ [operationId]))) ps)
       added present"

text \<open>Terminal records of one walk: their pointers are merged into shards first, then their entries follow.\<close>

definition putTerminal :: "('f, 'r) index_env \<Rightarrow> op_entry list \<Rightarrow> ('f index_world, unit) stm" where
  "putTerminal E entries =
     bnd (looks (\<lambda>s. Inr (map fst (xw_pointers s)))) (\<lambda>individual.
     let hashed = List.map_filter (\<lambda>e. map_option (\<lambda>h. (h, oe_operationId e)) (oe_idempotencyHash e)) entries;
       sharded = filter (\<lambda>(h, _). h \<notin> set individual) hashed;
       names = sort (remdups (map (\<lambda>(h, _). take 1 h) sharded)) in
     bnd (each (\<lambda>(h, i). if h \<in> set individual then bindPointer h i else ret ()) hashed) (\<lambda>_.
     bnd (if sharded = [] then ret ()
       else index_lock E (each (\<lambda>name.
         bnd (looks (\<lambda>s. shard s name)) (\<lambda>present.
         put (\<lambda>s. s\<lparr>xw_shards := AList.update name (Some (merge_shard present (filter (\<lambda>(h, _). take 1 h = name) sharded))) (xw_shards s)\<rparr>)))
         names)) (\<lambda>_.
     bnd openIds (\<lambda>opened.
     each (\<lambda>e. bnd (if oe_operationId e \<in> set opened then dropOpen (oe_operationId e) else ret ()) (\<lambda>_. putEntry e)) entries))))"

section \<open>Reconciliation\<close>

definition named_records :: "('f, 'r) index_env \<Rightarrow> 'f index_world \<Rightarrow> (('f, 'r) family_adapter \<times> record_name) list" where
  "named_records E s = concat (map (\<lambda>A. concat (map (\<lambda>store. map (Pair A) (recordNames store s)) (fa_stores A))) (xe_registry E))"

text \<open>One operation id in two places is corrupt: it holds what each copy holds.\<close>

definition indexDuplicate :: "('f, 'r) index_env \<Rightarrow> string \<Rightarrow> (('f, 'r) family_adapter \<times> record_name) list \<Rightarrow> bool \<Rightarrow>
    ('f index_world, unit) stm" where
  "indexDuplicate E operationId named force =
     bnd (if force then ret None else try_catch (stored_entry operationId) (\<lambda>_. ret None)) (\<lambda>existing.
     if (case existing of None \<Rightarrow> False | Some x \<Rightarrow> oe_reason x = Some DuplicateOperationId) then ret ()
     else bnd (collect (\<lambda>(A, name). derive E A name) named) (\<lambda>derived.
       case derived of [] \<Rightarrow> ret ()
       | first # _ \<Rightarrow>
           bnd (each (\<lambda>e. case oe_idempotencyHash e of None \<Rightarrow> ret () | Some h \<Rightarrow> bindPointer h operationId) derived) (\<lambda>_.
           write_entry (Some (entryOf (first\<lparr>oe_idempotencyHash := None, oe_requestHash := None, oe_state := Unreadable,
             oe_admittedAt := None, oe_claims := normalizeClaims (concat (map oe_claims derived)),
             oe_reason := Some DuplicateOperationId\<rparr>))) False)))"

definition reconcile_one :: "('f, 'r) index_env \<Rightarrow> bool \<Rightarrow> string list \<Rightarrow> (('f, 'r) family_adapter \<times> record_name) list \<Rightarrow> string \<Rightarrow>
    ('f index_world, op_entry option) stm" where
  "reconcile_one E force indexed seen operationId =
     (let named = filter (\<lambda>(_, name). rn_operationId name = operationId) seen in
      if length named > 1 then bnd (indexDuplicate E operationId named force) (\<lambda>_. ret None)
      else if operationId \<in> set indexed then ret None
      else case named of [] \<Rightarrow> ret None
        | (A, name) # _ \<Rightarrow>
            bnd (derive E A name) (\<lambda>derived.
            case derived of None \<Rightarrow> ret None
            | Some e \<Rightarrow> if \<not> force \<and> oe_state e = Terminal then ret (Some e)
                else bnd (write_entry (Some e) force) (\<lambda>_. ret None)))"

definition reconcile :: "('f, 'r) index_env \<Rightarrow> bool \<Rightarrow> ('f index_world, unit) stm" where
  "reconcile E force =
     bnd (if force then ret [] else entryIds) (\<lambda>indexed.
     bnd (looks (\<lambda>s. Inr (named_records E s))) (\<lambda>seen.
     bnd (collect (reconcile_one E force indexed seen) (remdups (map (\<lambda>(_, name). rn_operationId name) seen))) (\<lambda>terminal.
     if terminal \<noteq> [] then putTerminal E terminal else ret ())))"

text \<open>A damaged index file is removed and every record derived again; a second failure is final.\<close>

definition repairing :: "('f, 'r) index_env \<Rightarrow> ('f index_world, 'a) stm \<Rightarrow> ('f index_world, 'a) stm" where
  "repairing E action =
     try_catch action (\<lambda>e.
       if e \<noteq> damage then lift (Inl e)
       else bnd removeDamaged (\<lambda>_. bnd (reconcile E True) (\<lambda>_.
         try_catch action (\<lambda>again. if again \<noteq> damage then lift (Inl again) else lift (Inl (ApnError APN_STATE_CORRUPT None))))))"

end
