(* ===== verification/OperationGuard.thy ===== *)
theory OperationGuard
  imports OperationIndex
begin

text \<open>
  The guard of the operation index (\<^verbatim>\<open>operation-index/index.ts\<close>): lookups, the verification of open
  entries against their records, and the admission of a new operation, whose claims are checked
  without a lock and written under the leaf lock only when no unverified collision appeared meanwhile.
\<close>

section \<open>Constants and lookups\<close>

definition ADMISSION_LEASE_MS :: int where
  "ADMISSION_LEASE_MS = 10 * 60000"

definition GC_PER_CHECK :: nat where
  "GC_PER_CHECK = 2"

definition idempotencyConflict :: js_error where
  "idempotencyConflict = ApnError APN_IDEMPOTENCY_CONFLICT None"

definition adapter_of :: "('f, 'r) index_env \<Rightarrow> op_entry \<Rightarrow> ('f, 'r) family_adapter option" where
  "adapter_of E e = find (\<lambda>A. fa_family A = oe_family e) (xe_registry E)"

definition loadRecord :: "('f, 'r) index_env \<Rightarrow> op_entry \<Rightarrow> ('f index_world, 'r option) stm" where
  "loadRecord E e = (case adapter_of E e of None \<Rightarrow> ret None | Some A \<Rightarrow> load_record E A (oe_recordPath e))"

text \<open>A miss walks the record stores before it answers.\<close>

definition or_reconciled :: "('f, 'r) index_env \<Rightarrow> ('f index_world, 'a option) stm \<Rightarrow> ('f index_world, 'a option) stm" where
  "or_reconciled E reading = bnd reading (\<lambda>found.
     if found \<noteq> None then ret found else bnd (reconcile E False) (\<lambda>_. reading))"

definition find_entry :: "('f, 'r) index_env \<Rightarrow> string \<Rightarrow> ('f index_world, op_entry option) stm" where
  "find_entry E operationId = repairing E (or_reconciled E (stored_entry operationId))"

definition byIdempotency :: "('f, 'r) index_env \<Rightarrow> string \<Rightarrow> ('f index_world, op_entry option) stm" where
  "byIdempotency E hash =
     bnd (or_reconciled E (pointer hash)) (\<lambda>ids.
     case ids of None \<Rightarrow> ret None
     | Some ids \<Rightarrow> if length ids > 1 then lift (Inl (ApnError APN_STATE_CORRUPT None))
         else or_reconciled E (stored_entry (hd ids)))"

definition findByIdempotency_entry :: "('f, 'r) index_env \<Rightarrow> string \<Rightarrow> ('f index_world, op_entry option) stm" where
  "findByIdempotency_entry E hash = repairing E (byIdempotency E hash)"

definition same_prepare :: "op_identity \<Rightarrow> op_entry \<Rightarrow> bool" where
  "same_prepare i e \<longleftrightarrow> oe_family e = oi_family i \<and> oe_profileHash e = Some (oi_profileHash i) \<and>
     oe_operationId e = oi_operationId i \<and> oe_idempotencyHash e = oi_idempotencyHash i \<and> oe_requestHash e = oi_requestHash i"

text \<open>None for a new identity, the entry of an exact replay, a conflict otherwise.\<close>

definition resolve_identity :: "('f, 'r) index_env \<Rightarrow> op_identity \<Rightarrow> ('f index_world, op_entry option) stm" where
  "resolve_identity E i = repairing E
     (bnd (case oi_idempotencyHash i of
         None \<Rightarrow> or_reconciled E (stored_entry (oi_operationId i))
       | Some hash \<Rightarrow> byIdempotency E hash) (\<lambda>found.
      case found of
        None \<Rightarrow> bnd (stored_entry (oi_operationId i)) (\<lambda>occupied.
          if occupied \<noteq> None then lift (Inl idempotencyConflict) else ret None)
      | Some e \<Rightarrow>
          if oe_state e = Unreadable then lift (Inl (ApnError APN_STATE_CORRUPT None))
          else if \<not> same_prepare i e then lift (Inl idempotencyConflict)
          else ret (Some e)))"

section \<open>Verification of an open entry\<close>

record block_info =
  bl_operationId :: string
  bl_state :: "string option"
  bl_held :: "op_claim list"

record 'r op_beside =
  bs_operationId :: string
  bs_family :: string
  bs_state :: string
  bs_record :: 'r

datatype 'r verdict = Clear | Blocked block_info | BesideIt "'r op_beside"

definition blockedBy :: "op_entry \<Rightarrow> string option \<Rightarrow> op_claim list \<Rightarrow> 'r verdict" where
  "blockedBy e st held = Blocked \<lparr>bl_operationId = oe_operationId e, bl_state = st, bl_held = held\<rparr>"

definition blocked_error :: js_error where
  "blocked_error = ApnError APN_OPERATION_BLOCKED None"

text \<open>Drops an entry whose record does not exist, unless it changed meanwhile.\<close>

definition forgetLocked :: "op_entry \<Rightarrow> ('f index_world, unit) stm" where
  "forgetLocked e =
     bnd (dropOpen (oe_operationId e)) (\<lambda>_. bnd (dropEntry (oe_operationId e)) (\<lambda>_.
     case oe_idempotencyHash e of None \<Rightarrow> ret ()
     | Some hash \<Rightarrow> bnd (pointer hash) (\<lambda>ids. if ids = Some [oe_operationId e] then dropPointer hash else ret ())))"

definition forget :: "('f, 'r) index_env \<Rightarrow> op_entry \<Rightarrow> ('f index_world, unit) stm" where
  "forget E e = index_lock E (bnd (stored_entry (oe_operationId e)) (\<lambda>now. if now = Some e then forgetLocked e else ret ()))"

text \<open>The record as it can be verified: unverifiable, absent, or read by its family.\<close>

datatype 'r found = Unverifiable | Absent | Found "('r)"

text \<open>An open entry whose record cannot be read becomes a quarantine.\<close>

definition quarantine_open :: "('f, 'r) family_adapter \<Rightarrow> record_name \<Rightarrow> op_entry \<Rightarrow> ('f index_world, unit) stm" where
  "quarantine_open A name e =
     (if oe_state e = Active \<or> oe_state e = Admitted then bnd (quarantine A name RecordInvalid) (\<lambda>q. write_entry q False) else ret ())"

definition verify_record :: "('f, 'r) index_env \<Rightarrow> op_entry \<Rightarrow> ('f index_world, 'r found) stm" where
  "verify_record E e =
     (case (adapter_of E e, nameOf e) of
        (Some A, Some name) \<Rightarrow>
          try_catch (bnd (load_record E A (oe_recordPath e)) (\<lambda>r. ret (case r of None \<Rightarrow> Absent | Some r \<Rightarrow> Found r)))
            (\<lambda>error. if systemFailure error then lift (Inl error)
              else bnd (quarantine_open A name e) (\<lambda>_. ret Unverifiable))
      | _ \<Rightarrow> ret Unverifiable)"

definition leased :: "op_entry \<Rightarrow> int \<Rightarrow> bool" where
  "leased e now \<longleftrightarrow> oe_state e = Admitted \<and> (case oe_admittedAt e of None \<Rightarrow> False | Some t \<Rightarrow> t + ADMISSION_LEASE_MS > now)"

text \<open>An admitted operation keeps the claims it was admitted with while its record is unresolved.\<close>

definition followed :: "op_entry \<Rightarrow> op_entry \<Rightarrow> op_entry" where
  "followed e derived =
     (if oe_state e = Admitted \<and> oe_state derived = Active then entryOf (derived\<lparr>oe_claims := oe_claims derived @ oe_claims e\<rparr>) else derived)"

definition judge :: "('f, 'r) family_adapter \<Rightarrow> 'r \<Rightarrow> op_entry \<Rightarrow> op_entry \<Rightarrow> wanted_claims option \<Rightarrow> 'r verdict" where
  "judge A r e derived wanted =
     (case wanted of None \<Rightarrow> Clear
      | Some w \<Rightarrow>
          if oe_state derived = Terminal then Clear
          else if oe_state derived = Unreadable then blockedBy e None (collidingClaims (oe_claims derived) (wc_claims w))
          else let colliding = collidingClaims (oe_claims (followed e derived)) (wc_claims w);
              blocking = filter (\<lambda>c. \<not> fa_admits A r w c) colliding in
            if blocking \<noteq> [] then blockedBy e (Some (fa_state A r)) blocking
            else if colliding = [] then Clear
            else BesideIt \<lparr>bs_operationId = oe_operationId e, bs_family = oe_family e, bs_state = fa_state A r, bs_record = r\<rparr>)"

definition inspect_record :: "('f, 'r) family_adapter \<Rightarrow> record_name \<Rightarrow> 'r \<Rightarrow> op_entry \<Rightarrow> wanted_claims option \<Rightarrow> ('f index_world, 'r verdict) stm" where
  "inspect_record A name r e wanted =
     bnd (fromRecord A name r) (\<lambda>derived.
     case derived of None \<Rightarrow> ret Clear
     | Some d \<Rightarrow>
         bnd (if oe_state e \<noteq> Active \<or> oe_state d \<noteq> Active then write_entry (Some (followed e d)) True else ret ()) (\<lambda>_.
         ret (judge A r e d wanted)))"

definition refused :: "op_entry \<Rightarrow> string option \<Rightarrow> wanted_claims option \<Rightarrow> 'r verdict" where
  "refused e st wanted = (case wanted of None \<Rightarrow> Clear | Some w \<Rightarrow> blockedBy e st (collidingClaims (oe_claims e) (wc_claims w)))"

definition inspect_entry :: "('f, 'r) index_env \<Rightarrow> op_entry \<Rightarrow> wanted_claims option \<Rightarrow> ('f index_world, 'r verdict) stm" where
  "inspect_entry E e wanted =
     (if oe_reason e = Some DuplicateOperationId then ret (refused e None wanted)
      else bnd (verify_record E e) (\<lambda>found.
        case found of
          Unverifiable \<Rightarrow> ret (refused e None wanted)
        | Absent \<Rightarrow>
            bnd (query (xe_now E)) (\<lambda>now.
            if leased e now then ret (refused e (Some ''admitted'') wanted)
            else bnd (forget E e) (\<lambda>_. ret Clear))
        | Found r \<Rightarrow>
            (case (adapter_of E e, nameOf e) of
               (Some A, Some name) \<Rightarrow> inspect_record A name r e wanted
             | _ \<Rightarrow> ret Clear)))"

section \<open>The guard\<close>

fun read_open :: "string list \<Rightarrow> ('f index_world, op_entry list) stm" where
  "read_open [] = ret []"
| "read_open (i # is) = bnd (load_open i) (\<lambda>e. bnd (read_open is) (\<lambda>es. ret (case e of None \<Rightarrow> es | Some e \<Rightarrow> e # es)))"

definition openEntries :: "('f index_world, op_entry list) stm" where
  "openEntries = bnd openIds read_open"

definition collides :: "wanted_claims \<Rightarrow> op_claim list \<Rightarrow> op_entry \<Rightarrow> bool" where
  "collides wanted all e \<longleftrightarrow> Some (oe_operationId e) \<noteq> wc_except wanted \<and> collidingClaims (oe_claims e) all \<noteq> []"

text \<open>\<^verbatim>\<open>indexOf\<close>: minus one for a family without adapter.\<close>

definition family_order :: "('f, 'r) index_env \<Rightarrow> op_entry \<Rightarrow> int" where
  "family_order E e =
     (let i = length (takeWhile (\<lambda>A. fa_family A \<noteq> oe_family e) (xe_registry E)) in
      if i = length (xe_registry E) then - 1 else int i)"

fun check_each :: "('f, 'r) index_env \<Rightarrow> wanted_claims \<Rightarrow> op_entry list \<Rightarrow> ('f index_world, string list) stm" where
  "check_each E wanted [] = ret []"
| "check_each E wanted (e # es) =
     bnd (inspect_entry E e (Some wanted)) (\<lambda>verdict.
     case verdict of Blocked _ \<Rightarrow> lift (Inl blocked_error)
     | _ \<Rightarrow> bnd (check_each E wanted es) (\<lambda>ids. ret (oe_operationId e # ids)))"

text \<open>A few other open entries are verified per check, from a random one on.\<close>

definition sweep :: "('f, 'r) index_env \<Rightarrow> op_entry list \<Rightarrow> ('f index_world, unit) stm" where
  "sweep E others =
     (if others = [] then ret ()
      else bnd (query (xe_random E)) (\<lambda>start.
        each (\<lambda>i. bnd (inspect_entry E (others ! ((start + i) mod length others)) None) (\<lambda>_. ret ()))
          [0 ..< min GC_PER_CHECK (length others)]))"

definition check_claims :: "('f, 'r) index_env \<Rightarrow> wanted_claims \<Rightarrow> ('f index_world, string list) stm" where
  "check_claims E wanted =
     (let all = wantedClaims wanted in
      bnd openEntries (\<lambda>opened.
      let colliding = sort_key (family_order E) (sort_key oe_operationId (filter (collides wanted all) opened)) in
      bnd (check_each E (wanted\<lparr>wc_claims := all\<rparr>) colliding) (\<lambda>clear.
      bnd (sweep E (filter (\<lambda>e. e \<notin> set colliding) opened)) (\<lambda>_. ret clear))))"

text \<open>Writes under the leaf lock only when the colliding set did not grow since it was verified (one retry).\<close>

fun claim_attempts :: "('f, 'r) index_env \<Rightarrow> nat \<Rightarrow> wanted_claims \<Rightarrow> ('f index_world, unit) stm \<Rightarrow> ('f index_world, unit) stm" where
  "claim_attempts E 0 wanted write_it = lift (Inl (ApnError APN_STATE_BUSY None))"
| "claim_attempts E (Suc n) wanted write_it =
     bnd (check_claims E wanted) (\<lambda>clear.
     bnd (index_lock E (bnd openEntries (\<lambda>opened.
         if list_ex (\<lambda>e. oe_operationId e \<notin> set clear) (filter (collides wanted (wantedClaims wanted)) opened) then ret False
         else bnd write_it (\<lambda>_. ret True)))) (\<lambda>finished.
     if finished then ret () else claim_attempts E n wanted write_it))"

definition claimUnderLock :: "('f, 'r) index_env \<Rightarrow> wanted_claims \<Rightarrow> ('f index_world, unit) stm \<Rightarrow> ('f index_world, unit) stm" where
  "claimUnderLock E wanted write_it = claim_attempts E 2 wanted write_it"

definition assertAvailable :: "('f, 'r) index_env \<Rightarrow> wanted_claims \<Rightarrow> ('f index_world, unit) stm" where
  "assertAvailable E wanted = repairing E (bnd (reconcile E False) (\<lambda>_. bnd (check_claims E wanted) (\<lambda>_. ret ())))"

definition admittedBeside :: "('f, 'r) index_env \<Rightarrow> wanted_claims \<Rightarrow> ('f index_world, 'r op_beside list) stm" where
  "admittedBeside E wanted = repairing E
     (bnd (reconcile E False) (\<lambda>_. bnd openEntries (\<lambda>opened.
      bnd (collect (\<lambda>e.
          if Some (oe_operationId e) = wc_except wanted \<or> collidingClaims (oe_claims e) (wc_claims wanted) = [] then ret None
          else bnd (inspect_entry E e (Some wanted)) (\<lambda>verdict. ret (case verdict of BesideIt b \<Rightarrow> Some b | _ \<Rightarrow> None))) opened) (\<lambda>beside.
      ret (sort_key bs_operationId beside)))))"

section \<open>Admission\<close>

definition recordPathFor :: "('f, 'r) index_env \<Rightarrow> op_identity \<Rightarrow> string result" where
  "recordPathFor E i =
     (case find (\<lambda>A. fa_family A = oi_family i) (xe_registry E) of
        Some A \<Rightarrow> (case fa_stores A of store # _ \<Rightarrow> Inr (record_path store (oi_profileHash i) (oi_operationId i))
          | [] \<Rightarrow> Inl (ApnError APN_STATE_CORRUPT None))
      | None \<Rightarrow> Inl (ApnError APN_STATE_CORRUPT None))"

definition admitted_entry :: "op_identity \<Rightarrow> wanted_claims \<Rightarrow> string \<Rightarrow> int \<Rightarrow> op_entry" where
  "admitted_entry i wanted path now = entryOf \<lparr>oe_operationId = oi_operationId i, oe_family = oi_family i,
     oe_profileHash = Some (oi_profileHash i), oe_idempotencyHash = oi_idempotencyHash i, oe_requestHash = oi_requestHash i,
     oe_recordPath = path, oe_claims = normalizeClaims (profileClaim (oi_profileHash i) # wc_claims wanted @ wc_holds wanted),
     oe_state = Admitted, oe_admittedAt = Some now, oe_reason = None\<rparr>"

text \<open>What is written under the lock.\<close>

definition write_admission :: "op_identity \<Rightarrow> op_entry \<Rightarrow> ('f index_world, unit) stm" where
  "write_admission i admitted =
     bnd (stored_entry (oi_operationId i)) (\<lambda>present.
     if (case present of None \<Rightarrow> False | Some e \<Rightarrow> oe_state e \<noteq> Admitted) then lift (Inl idempotencyConflict)
     else bnd (case oi_idempotencyHash i of None \<Rightarrow> ret True
         | Some hash \<Rightarrow> bnd (putPointer hash [oi_operationId i] True) (\<lambda>placed.
             if placed then ret True else bnd (pointer hash) (\<lambda>ids. ret (ids = Some [oi_operationId i])))) (\<lambda>bound.
       if \<not> bound then lift (Inl idempotencyConflict)
       else bnd (putOpen admitted) (\<lambda>_. putEntry admitted)))"

definition admit_claims :: "('f, 'r) index_env \<Rightarrow> op_identity \<Rightarrow> wanted_claims \<Rightarrow> ('f index_world, unit) stm" where
  "admit_claims E i wanted = repairing E
     (bnd (reconcile E False) (\<lambda>_.
      bnd (resolve_identity E i) (\<lambda>existing.
      bnd (case existing of None \<Rightarrow> ret False
        | Some e \<Rightarrow> if oe_state e \<noteq> Admitted then ret True else bnd (loadRecord E e) (\<lambda>r. ret (r \<noteq> None))) (\<lambda>taken.
      if taken then lift (Inl idempotencyConflict)
      else bnd (case existing of Some e \<Rightarrow> ret (oe_recordPath e) | None \<Rightarrow> lift (recordPathFor E i)) (\<lambda>path.
        bnd (query (xe_now E)) (\<lambda>now.
        claimUnderLock E (wanted\<lparr>wc_except := Some (oi_operationId i)\<rparr>) (write_admission i (admitted_entry i wanted path now))))))))"

text \<open>An admission whose record does not exist is dropped; an entry or record that cannot be read is kept.\<close>

definition dropIfRecordless :: "('f, 'r) index_env \<Rightarrow> string \<Rightarrow> ('f index_world, bool) stm" where
  "dropIfRecordless E operationId =
     bnd (try_catch (stored_entry operationId) (\<lambda>_. ret None)) (\<lambda>found.
     case found of None \<Rightarrow> ret False
     | Some e \<Rightarrow>
         if oe_state e \<noteq> Admitted then ret False
         else bnd (try_catch (bnd (loadRecord E e) (\<lambda>r. ret (r = None))) (\<lambda>_. ret False)) (\<lambda>recordless.
           if \<not> recordless then ret False else bnd (forget E e) (\<lambda>_. ret True)))"

definition follow_entry :: "('f, 'r) index_env \<Rightarrow> string \<Rightarrow> ('f index_world, unit) stm" where
  "follow_entry E operationId =
     bnd (stored_entry operationId) (\<lambda>found.
     case found of None \<Rightarrow> ret () | Some e \<Rightarrow> bnd (inspect_entry E e None) (\<lambda>_. ret ()))"

definition admit_index :: "('f, 'r) index_env \<Rightarrow> op_identity \<Rightarrow> wanted_claims \<Rightarrow> ('f index_world, 'a) stm \<Rightarrow> ('f index_world, 'a) stm" where
  "admit_index E i wanted work =
     bnd (admit_claims E i wanted) (\<lambda>_.
     bnd (try_catch work (\<lambda>e. bnd (dropIfRecordless E (oi_operationId i)) (\<lambda>_. lift (Inl e)))) (\<lambda>value.
     bnd (dropIfRecordless E (oi_operationId i)) (\<lambda>dropped.
     bnd (if dropped then ret () else repairing E (follow_entry E (oi_operationId i))) (\<lambda>_. ret value))))"

text \<open>A claim taken after creation.\<close>

definition addClaims :: "('f, 'r) index_env \<Rightarrow> string \<Rightarrow> wanted_claims \<Rightarrow> ('f index_world, unit) stm" where
  "addClaims E operationId wanted = repairing E
     (bnd (reconcile E False) (\<lambda>_.
      claimUnderLock E (wanted\<lparr>wc_except := Some operationId\<rparr>)
        (bnd (stored_entry operationId) (\<lambda>present.
         case present of None \<Rightarrow> lift (Inl (ApnError APN_OPERATION_NOT_FOUND None))
         | Some e \<Rightarrow>
             if oe_state e \<noteq> Active \<and> oe_state e \<noteq> Admitted then lift (Inl blocked_error)
             else let next_entry = entryOf (e\<lparr>oe_claims := normalizeClaims (oe_claims e @ wc_claims wanted)\<rparr>) in
               bnd (putOpen next_entry) (\<lambda>_. putEntry next_entry)))))"

definition refresh :: "('f, 'r) index_env \<Rightarrow> string \<Rightarrow> ('f index_world, unit) stm" where
  "refresh E operationId =
     try_catch (bnd (stored_entry operationId) (\<lambda>found.
       case found of None \<Rightarrow> ret ()
       | Some e \<Rightarrow> if oe_state e = Terminal then ret () else bnd (inspect_entry E e None) (\<lambda>_. ret ()))) (\<lambda>_. ret ())"

definition settle :: "('f, 'r) index_env \<Rightarrow> string \<Rightarrow> ('f index_world, unit) stm" where
  "settle E operationId = repairing E (follow_entry E operationId)"

section \<open>The owner exit\<close>

text \<open>
  An entry is released by its owner when it is an admission without a record, or unreadable and still
  so; what the record would yield today is read first.
\<close>

definition releasable :: "op_entry \<Rightarrow> 'r found \<Rightarrow> op_entry option \<Rightarrow> bool \<times> bool" where
  "releasable e found rederived =
     (oe_state e = Admitted \<and> (case found of Absent \<Rightarrow> True | _ \<Rightarrow> False),
      oe_state e = Unreadable \<and> ((case found of Unverifiable \<Rightarrow> True | _ \<Rightarrow> False) \<or>
        (case rederived of None \<Rightarrow> False | Some d \<Rightarrow> oe_state d = Unreadable) \<or> oe_reason e = Some DuplicateOperationId))"

definition release_locked :: "op_entry \<Rightarrow> bool \<Rightarrow> ('f index_world, op_entry) stm" where
  "release_locked e orphan =
     bnd (stored_entry (oe_operationId e)) (\<lambda>now.
     if now \<noteq> Some e then lift (Inl (ApnError APN_STATE_BUSY None))
     else if orphan then bnd (forgetLocked e) (\<lambda>_. ret e)
     else let released = entryOf (e\<lparr>oe_claims := [], oe_state := ReleasedEntry\<rparr>) in
       bnd (putOpen released) (\<lambda>_. bnd (putEntry released) (\<lambda>_. ret released)))"

definition releaseByOwner :: "('f, 'r) index_env \<Rightarrow> string \<Rightarrow> ('f index_world, op_entry) stm" where
  "releaseByOwner E operationId =
     bnd (find_entry E operationId) (\<lambda>found.
     case found of None \<Rightarrow> lift (Inl (ApnError APN_OPERATION_NOT_FOUND None))
     | Some e \<Rightarrow>
         bnd (try_catch (bnd (loadRecord E e) (\<lambda>r. ret (case r of None \<Rightarrow> Absent | Some r \<Rightarrow> Found r)))
             (\<lambda>error. if systemFailure error then lift (Inl error) else ret Unverifiable)) (\<lambda>loaded.
         bnd (case (loaded, adapter_of E e, nameOf e) of (Found r, Some A, Some name) \<Rightarrow> fromRecord A name r | _ \<Rightarrow> ret None) (\<lambda>rederived.
         let (orphan, unreadable) = releasable e loaded rederived in
         if \<not> orphan \<and> \<not> unreadable then lift (Inl blocked_error)
         else bnd (asks (\<lambda>n. xe_consent E n e)) (\<lambda>_. index_lock E (release_locked e orphan)))))"

end
