(* ===== verification/OperationGuardLaws.thy ===== *)
theory OperationGuardLaws
  imports OperationGuard Runs
begin

text \<open>
  What the guard of the operation index promises, as a run by one process between two interferences.
\<close>

section \<open>What a run may touch\<close>

definition alone :: "('f, 'r) index_env \<Rightarrow> bool" where
  "alone E \<longleftrightarrow> (\<forall>n s. xe_others E n s = s)"

text \<open>Only the files of one operation id, never a record.\<close>

definition touches :: "string \<Rightarrow> 'f index_world \<Rightarrow> 'f index_world \<Rightarrow> bool" where
  "touches i s t \<longleftrightarrow> xw_records t = xw_records s \<and>
     (\<forall>j. j \<noteq> i \<longrightarrow> map_of (xw_open t) j = map_of (xw_open s) j \<and> map_of (xw_entries t) j = map_of (xw_entries s) j)"

interpretation touching: stable_runs "\<lambda>_. True" "touches i" for i
  by unfold_locales (auto simp: touches_def)

lemma touching_query: "keeps (\<lambda>_. True) (touches i) (query f)"
  by (simp add: keeps_def query_def touches_def)

lemma touching_asks: "keeps (\<lambda>_. True) (touches i) (asks f)"
  unfolding asks_def by (intro touching.keeps_rules touching_query)

lemma touching_looks: "keeps (\<lambda>_. True) (touches i) (looks f)"
  by (simp add: keeps_def looks_def touches_def)

lemma touching_put: "(\<And>s. touches i s (f (s\<lparr>xw_life := xw_life s - 1\<rparr>))) \<Longrightarrow> keeps (\<lambda>_. True) (touches i) (put f)"
  by (simp add: keeps_def put_def) (simp add: touches_def)

lemma touching_lock:
  assumes "alone E" "keeps (\<lambda>_. True) (touches i) m"
  shows "keeps (\<lambda>_. True) (touches i) (index_lock E m)"
proof -
  have "keeps (\<lambda>_. True) (touches i) (meet E)"
    using assms(1) by (simp add: keeps_def meet_def alone_def touches_def)
  then show ?thesis unfolding index_lock_def by (intro touching.keeps_rules touching_asks assms(2))
qed

lemma touching_entry_files:
  "keeps (\<lambda>_. True) (touches (oe_operationId e)) (putEntry e)" "keeps (\<lambda>_. True) (touches (oe_operationId e)) (putOpen e)"
  "keeps (\<lambda>_. True) (touches i) (dropEntry i)" "keeps (\<lambda>_. True) (touches i) (dropOpen i)"
  "keeps (\<lambda>_. True) (touches i) (dropPointer h)"
  unfolding putEntry_def putOpen_def dropEntry_def dropOpen_def dropPointer_def
  by (rule touching_put, simp add: touches_def update_conv' delete_conv')+

lemma touching_pointer: "keeps (\<lambda>_. True) (touches i) (putPointer h ids c)" "keeps (\<lambda>_. True) (touches i) (bindPointer h j)"
proof -
  show put: "keeps (\<lambda>_. True) (touches i) (putPointer h ids c)" for h ids c
    unfolding putPointer_def by (intro touching.keeps_rules touching_looks touching_put) (simp_all add: touches_def)
  have "keeps (\<lambda>_. True) (touches i) (bind_pointer_attempts n h j)" for n
    by (induction n) (simp_all only: bind_pointer_attempts.simps pointer_def,
      (intro touching.keeps_rules touching_looks put | assumption)+)
  then show "keeps (\<lambda>_. True) (touches i) (bindPointer h j)" by (simp add: bindPointer_def)
qed

lemma touching_write:
  assumes "\<And>e. d = Some e \<Longrightarrow> oe_operationId e = i"
  shows "keeps (\<lambda>_. True) (touches i) (write_entry d force)"
proof -
  have "keeps (\<lambda>_. True) (touches i) (place e)" if "oe_operationId e = i" for e
    using touching_entry_files(1,2) [of e] unfolding place_def that
    by (intro touching.keeps_rules touching_pointer touching_entry_files)
  then show ?thesis
    unfolding write_entry_def entry_or_damaged_def stored_entry_def
    by (intro touching.keeps_rules touching_looks) (use assms in auto)
qed

lemma touching_forget: "alone E \<Longrightarrow> keeps (\<lambda>_. True) (touches (oe_operationId e)) (forget E e)"
  unfolding forget_def forgetLocked_def stored_entry_def pointer_def
  by (intro touching_lock touching.keeps_rules touching_looks touching_entry_files)

lemma touching_load: "keeps (\<lambda>_. True) (touches i) (load_record E A path)"
  unfolding load_record_def by (intro touching.keeps_rules touching_asks touching_looks)

text \<open>Every derived entry carries the id of its record name.\<close>

lemma quarantine_id: "quarantine A name reason s = (Inr (Some e), t) \<Longrightarrow> oe_operationId e = rn_operationId name \<and> oe_state e = Unreadable"
  by (auto simp: quarantine_def looks_def entryOf_def Let_def split: option.splits)

lemma record_entry_id [simp]:
  "oe_operationId (record_entry A name r fin) = rn_operationId name" "oe_recordPath (record_entry A name r fin) = rn_path name"
  "oe_family (record_entry A name r fin) = fa_family A"
  by (simp_all add: record_entry_def entryOf_def Let_def)

lemma fromRecord_cases:
  assumes "fromRecord A name r s = (Inr d, t)"
  shows "(\<exists>reason. quarantine A name reason s = (Inr d, t)) \<or> (\<exists>fin. d = Some (record_entry A name r fin))"
  using assms by (auto simp: fromRecord_def Let_def bnd_def try_catch_def split: if_splits prod.splits sum.splits)

lemma fromRecord_id: "fromRecord A name r s = (Inr (Some e), t) \<Longrightarrow> oe_operationId e = rn_operationId name"
  by (auto dest: fromRecord_cases quarantine_id)

lemma touching_quarantine: "keeps (\<lambda>_. True) (touches i) (quarantine A name reason)"
  unfolding quarantine_def by (rule touching_looks)

lemma nameOf_id: "nameOf e = Some name \<Longrightarrow> rn_operationId name = oe_operationId e \<and> rn_path name = oe_recordPath e"
  by (auto simp: nameOf_def split: option.splits prod.splits if_splits)

lemma followed_id: "oe_operationId d = oe_operationId e \<Longrightarrow> oe_operationId (followed e d) = oe_operationId e"
  by (simp add: followed_def entryOf_def)

lemma touching_bnd_wp:
  assumes "keeps (\<lambda>_. True) (touches i) m" "\<And>s x t. m s = (Inr x, t) \<Longrightarrow> keeps (\<lambda>_. True) (touches i) (f x)"
  shows "keeps (\<lambda>_. True) (touches i) (bnd m f)"
proof (rule keepsI)
  fix s r t assume run: "bnd m f s = (r, t)"
  obtain a u where a: "m s = (a, u)" by (cases "m s")
  then have u: "touches i s u" using assms(1) by (auto dest: keepsD)
  show "touches i s t"
  proof (cases a)
    case (Inr x)
    with run a have "f x u = (r, t)" by (simp add: bnd_def)
    then have "touches i u t" using assms(2) a Inr by (blast dest: keepsD)
    with u show ?thesis by (rule touching.R_trans)
  qed (use run a u in \<open>simp add: bnd_def\<close>)
qed

lemma touching_inspect:
  fixes E :: "('f, 'r) index_env"
  assumes "alone E"
  shows "keeps (\<lambda>_. True) (touches (oe_operationId e)) (inspect_entry E e w)"
proof -
  let ?i = "oe_operationId e"
  have quarantined: "keeps (\<lambda>_. True) (touches ?i) (quarantine_open A name e)" if "nameOf e = Some name" for A :: "('f, 'r) family_adapter" and name
  proof -
    have "keeps (\<lambda>_. True) (touches ?i) (bnd (quarantine A name RecordInvalid) (\<lambda>q. write_entry q False))"
    proof (rule touching_bnd_wp [OF touching_quarantine])
      fix s q t assume "quarantine A name RecordInvalid s = (Inr q, t)"
      then show "keeps (\<lambda>_. True) (touches ?i) (write_entry q False)"
        using nameOf_id [OF that] by (intro touching_write) (auto dest: quarantine_id)
    qed
    then show ?thesis by (simp add: quarantine_open_def touching.keeps_ret)
  qed
  have "keeps (\<lambda>_. True) (touches ?i) (verify_record E e)"
    unfolding verify_record_def
    by (auto split: option.split intro!: touching.keeps_rules touching_load quarantined)
  moreover have "keeps (\<lambda>_. True) (touches ?i) (inspect_record A name r e w)" if "nameOf e = Some name"
    for A :: "('f, 'r) family_adapter" and name r
    unfolding inspect_record_def
  proof (rule touching_bnd_wp)
    show "keeps (\<lambda>_. True) (touches ?i) (fromRecord A name r)"
      unfolding fromRecord_def Let_def quarantine_def by (intro touching.keeps_rules touching_looks touching_asks)
  next
    fix s d t assume "fromRecord A name r s = (Inr d, t)"
    then have "oe_operationId x = ?i" if "d = Some x" for x
      using fromRecord_id [of A name r s x t] that nameOf_id [OF \<open>nameOf e = Some name\<close>] by simp
    then show "keeps (\<lambda>_. True) (touches ?i) (case d of None \<Rightarrow> ret Clear
     | Some d \<Rightarrow> bnd (if oe_state e \<noteq> Active \<or> oe_state d \<noteq> Active then write_entry (Some (followed e d)) True else ret ())
         (\<lambda>_. ret (judge A r e d w)))"
      by (intro touching.keeps_rules touching_write) (auto simp: followed_id)
  qed
  ultimately show ?thesis
    unfolding inspect_entry_def
    by (auto split: found.split option.split intro!: touching.keeps_rules touching_query touching_forget [OF assms])
qed

section \<open>What a verified entry can still hold\<close>

text \<open>
  An open entry that does not stand against an admission: either its record was never written and the
  lease of its admission has run out, or its family admits the admission beside every colliding claim,
  as stored or as the record yields them today.
\<close>

definition harmless :: "('f, 'r) index_env \<Rightarrow> 'f index_world \<Rightarrow> wanted_claims \<Rightarrow> op_entry \<Rightarrow> bool" where
  "harmless E s w x \<longleftrightarrow> (\<exists>A name. adapter_of E x = Some A \<and> nameOf x = Some name \<and>
     (map_of (xw_records s) (oe_recordPath x) = None \<and> (\<exists>n. \<not> leased x (xe_now E n)) \<or>
      (\<exists>f r. map_of (xw_records s) (oe_recordPath x) = Some (Content f) \<and> fa_decode A (oe_recordPath x) f = Inr r \<and>
        (list_all (fa_admits A r w) (collidingClaims (oe_claims x) (wc_claims w)) \<or>
         list_all (fa_admits A r w) (collidingClaims (oe_claims (record_entry A name r (Some False))) (wc_claims w))))))"

lemma harmless_cong: "xw_records t = xw_records s \<Longrightarrow> harmless E t w x = harmless E s w x"
  by (simp add: harmless_def)

definition same_files :: "'f index_world \<Rightarrow> 'f index_world \<Rightarrow> bool" where
  "same_files s t \<longleftrightarrow> xw_records t = xw_records s \<and> xw_open t = xw_open s \<and> xw_entries t = xw_entries s"

interpretation reading: stable_runs "\<lambda>_. True" same_files
  by unfold_locales (auto simp: same_files_def)

lemma reading_rules [simp, intro]:
  "keeps (\<lambda>_. True) same_files (query f)" "keeps (\<lambda>_. True) same_files (looks g)"
  by (simp_all add: keeps_def query_def looks_def same_files_def)

lemma reading_load: "keeps (\<lambda>_. True) same_files (load_record E A path)"
  unfolding load_record_def asks_def by (intro reading.keeps_rules reading_rules)

lemma load_record_InrD:
  assumes "load_record E A path s = (Inr v, t)"
  shows "same_files s t" "(case v of None \<Rightarrow> map_of (xw_records s) path = None
    | Some r \<Rightarrow> \<exists>f. map_of (xw_records s) path = Some (Content f) \<and> fa_decode A path f = Inr r)"
proof -
  show "same_files s t" using keepsD [OF reading_load _ assms] by simp
  show "case v of None \<Rightarrow> map_of (xw_records s) path = None
    | Some r \<Rightarrow> \<exists>f. map_of (xw_records s) path = Some (Content f) \<and> fa_decode A path f = Inr r"
    using assms by (auto simp: load_record_def asks_def query_def looks_def bnd_def lift_def split: sum.splits prod.splits option.splits record_file.splits)
qed

lemma verify_InrD:
  assumes "verify_record E e s = (Inr v, t)" "v \<noteq> Unverifiable"
  shows "\<exists>A name. adapter_of E e = Some A \<and> nameOf e = Some name \<and> same_files s t \<and>
    (v = Absent \<and> map_of (xw_records s) (oe_recordPath e) = None \<or>
     (\<exists>f r. v = Found r \<and> map_of (xw_records s) (oe_recordPath e) = Some (Content f) \<and> fa_decode A (oe_recordPath e) f = Inr r))"
proof -
  from assms obtain A name where A: "adapter_of E e = Some A" "nameOf e = Some name"
    by (auto simp: verify_record_def split: option.splits)
  with assms obtain r where "load_record E A (oe_recordPath e) s = (Inr r, t)" "v = (case r of None \<Rightarrow> Absent | Some r \<Rightarrow> Found r)"
    by (auto simp: verify_record_def try_catch_def bnd_def lift_def split: prod.splits sum.splits if_splits)
  with load_record_InrD [OF this(1)] A show ?thesis by (auto split: option.splits)
qed

lemma forget_InrD:
  assumes "alone E" "forget E e s = (Inr u, t)"
  shows "xw_records t = xw_records s"
    "map_of (xw_open t) (oe_operationId e) = None \<or> map_of (xw_open t) (oe_operationId e) = map_of (xw_open s) (oe_operationId e)"
proof -
  show "xw_records t = xw_records s" using keepsD [OF touching_forget [OF assms(1)] _ assms(2)] by (simp add: touches_def)
  show "map_of (xw_open t) (oe_operationId e) = None \<or> map_of (xw_open t) (oe_operationId e) = map_of (xw_open s) (oe_operationId e)"
    using assms
    by (auto simp: forget_def forgetLocked_def index_lock_def asks_def query_def meet_def alone_def stored_entry_def looks_def
        dropOpen_def dropEntry_def dropPointer_def pointer_def put_def bnd_def lift_def ret_def delete_conv'
        split: sum.splits prod.splits if_splits option.splits)
qed

lemma place_InrD:
  assumes "place d s = (Inr u, t)"
  shows "map_of (xw_open t) (oe_operationId d) = (if oe_claims d = [] then None else Some (Intact d))"
proof -
  from assms obtain s1 s2 where "(if oe_claims d \<noteq> [] then putOpen d else dropOpen (oe_operationId d)) s1 = (Inr (), s2)"
      "putEntry d s2 = (Inr (), t)"
    by (auto simp: place_def bnd_def split: prod.splits sum.splits)
  then show ?thesis
    by (auto simp: putOpen_def dropOpen_def putEntry_def put_def update_conv' delete_conv' split: if_splits)
qed

lemma write_InrD:
  assumes "write_entry (Some d) force s = (Inr u, t)" "oe_state d \<noteq> Unreadable"
  shows "map_of (xw_open t) (oe_operationId d) = (if oe_claims d = [] then None else Some (Intact d))"
  using assms by (auto simp: write_entry_def bnd_def place_InrD split: prod.splits sum.splits if_splits)

lemma adapter_family: "adapter_of E e = Some A \<Longrightarrow> fa_family A = oe_family e"
  by (auto simp: adapter_of_def dest: find_SomeD)

lemma followed_place:
  assumes "adapter_of E e = Some A" "nameOf e = Some name" "x = followed e (record_entry A name r (Some False))"
  shows "oe_recordPath x = oe_recordPath e" "adapter_of E x = Some A" "nameOf x = Some name" "oe_operationId x = oe_operationId e"
    "oe_state x = Active"
proof -
  have fields: "oe_recordPath x = oe_recordPath e" "oe_family x = oe_family e" "oe_operationId x = oe_operationId e" "oe_state x = Active"
    using nameOf_id [OF assms(2)] adapter_family [OF assms(1)]
    by (simp_all add: assms(3) followed_def entryOf_def record_entry_def Let_def)
  then show "oe_recordPath x = oe_recordPath e" "oe_operationId x = oe_operationId e" "oe_state x = Active" by simp_all
  show "adapter_of E x = Some A" using assms(1) fields(2) by (simp add: adapter_of_def)
  show "nameOf x = Some name" using assms(2) unfolding nameOf_def fields .
qed

lemma judge_clear:
  assumes "judge A r e d (Some w) = v" "\<And>b. v \<noteq> Blocked b"
  shows "oe_state d = Terminal \<or>
    oe_state d \<noteq> Unreadable \<and> list_all (fa_admits A r w) (collidingClaims (oe_claims (followed e d)) (wc_claims w))"
  using assms by (auto simp: judge_def blockedBy_def Let_def filter_empty_conv list_all_iff split: if_splits)

lemma fromRecord_readable:
  assumes "fromRecord A name r s = (Inr d, t)" "map_of (xw_records s) (rn_path name) \<noteq> None"
  shows "same_files s t \<and> (\<exists>x. d = Some x \<and> (oe_state x = Unreadable \<or>
    x = record_entry A name r (Some True) \<and> oe_state x = Terminal \<and> oe_claims x = [] \<or>
    x = record_entry A name r (Some False) \<and> oe_state x = Active))"
proof
  have "keeps (\<lambda>_. True) same_files (fromRecord A name r)"
    unfolding fromRecord_def Let_def asks_def quarantine_def by (intro reading.keeps_rules reading_rules)
  from keepsD [OF this TrueI assms(1)] show "same_files s t" .
  from fromRecord_cases [OF assms(1)] show "\<exists>x. d = Some x \<and> (oe_state x = Unreadable \<or>
    x = record_entry A name r (Some True) \<and> oe_state x = Terminal \<and> oe_claims x = [] \<or>
    x = record_entry A name r (Some False) \<and> oe_state x = Active)"
  proof
    assume "\<exists>reason. quarantine A name reason s = (Inr d, t)"
    then obtain reason where q: "quarantine A name reason s = (Inr d, t)" by blast
    with assms(2) obtain x where "d = Some x" by (auto simp: quarantine_def looks_def Let_def)
    with q quarantine_id show ?thesis by blast
  next
    assume "\<exists>fin. d = Some (record_entry A name r fin)"
    then obtain fin where fin: "d = Some (record_entry A name r fin)" by blast
    consider "fin = None" | "fin = Some True" | "fin = Some False" by (cases fin) auto
    then show ?thesis
      by cases (auto simp: fin record_entry_def Let_def entryOf_def normalizeClaims_def)
  qed
qed

lemma inspected_harmless:
  assumes "alone E" "inspect_entry E e (Some w) s = (Inr v, t)" "\<And>b. v \<noteq> Blocked b"
    "map_of (xw_open s) (oe_operationId e) = Some (Intact e)" "map_of (xw_open t) (oe_operationId e) = Some (Intact x)"
  shows "harmless E t w x"
proof -
  have records: "xw_records t = xw_records s" using keepsD [OF touching_inspect [OF assms(1)] TrueI assms(2)] by (simp add: touches_def)
  from assms(2,3) obtain found u where reason: "oe_reason e \<noteq> Some DuplicateOperationId" and verify: "verify_record E e s = (Inr found, u)"
    and found: "found \<noteq> Unverifiable"
    by (auto simp: inspect_entry_def refused_def blockedBy_def bnd_def split: if_splits prod.splits sum.splits found.splits)
  from verify_InrD [OF verify found] obtain A name where A: "adapter_of E e = Some A" "nameOf e = Some name" and same: "same_files s u"
    and what: "found = Absent \<and> map_of (xw_records s) (oe_recordPath e) = None \<or>
     (\<exists>f r. found = Found r \<and> map_of (xw_records s) (oe_recordPath e) = Some (Content f) \<and> fa_decode A (oe_recordPath e) f = Inr r)"
    by blast
  from what show ?thesis
  proof
    assume absent: "found = Absent \<and> map_of (xw_records s) (oe_recordPath e) = None"
    let ?u = "u\<lparr>xw_tick := Suc (xw_tick u)\<rparr>"
    have "\<not> leased e (xe_now E (xw_tick u)) \<and> forget E e ?u = (Inr (), t)"
      using assms(2,3) reason verify absent
      by (auto simp: inspect_entry_def query_def refused_def blockedBy_def bnd_def split: if_splits prod.splits sum.splits)
    with forget_InrD(2) [OF assms(1), of e ?u "()" t] assms(4,5) same have "x = e" "\<not> leased e (xe_now E (xw_tick u))"
      by (auto simp: same_files_def)
    with A absent records show ?thesis unfolding harmless_def by auto
  next
    assume "\<exists>f r. found = Found r \<and> map_of (xw_records s) (oe_recordPath e) = Some (Content f) \<and> fa_decode A (oe_recordPath e) f = Inr r"
    then obtain f r where r: "found = Found r" "map_of (xw_records s) (oe_recordPath e) = Some (Content f)" "fa_decode A (oe_recordPath e) f = Inr r"
      by blast
    have "inspect_record A name r e (Some w) u = (Inr v, t)"
      using assms(2) reason verify A by (simp add: inspect_entry_def bnd_def r(1))
    then obtain d u' where d: "fromRecord A name r u = (Inr d, u')"
      and rest: "(case d of None \<Rightarrow> ret Clear
     | Some d \<Rightarrow> bnd (if oe_state e \<noteq> Active \<or> oe_state d \<noteq> Active then write_entry (Some (followed e d)) True else ret ())
         (\<lambda>_. ret (judge A r e d (Some w)))) u' = (Inr v, t)"
      by (auto simp: inspect_record_def bnd_def split: prod.splits sum.splits)
    have "map_of (xw_records u) (rn_path name) \<noteq> None" using r(2) same nameOf_id [OF A(2)] by (simp add: same_files_def)
    from fromRecord_readable [OF d this] obtain y where y: "d = Some y" "same_files u u'"
      and kind: "oe_state y = Unreadable \<or> y = record_entry A name r (Some True) \<and> oe_state y = Terminal \<and> oe_claims y = [] \<or>
        y = record_entry A name r (Some False) \<and> oe_state y = Active" by blast
    from rest y obtain u2 where wrote: "(if oe_state e \<noteq> Active \<or> oe_state y \<noteq> Active then write_entry (Some (followed e y)) True else ret ()) u' = (Inr (), u2)"
      and v: "v = judge A r e y (Some w)" and t: "t = u2"
      by (auto simp: bnd_def split: prod.splits sum.splits)
    from judge_clear [OF v [symmetric] assms(3)] kind
    have "y = record_entry A name r (Some True) \<and> oe_state y = Terminal \<and> oe_claims y = [] \<or>
      y = record_entry A name r (Some False) \<and> oe_state y = Active \<and>
        list_all (fa_admits A r w) (collidingClaims (oe_claims (followed e y)) (wc_claims w))" by auto
    then show ?thesis
    proof
      assume y': "y = record_entry A name r (Some True) \<and> oe_state y = Terminal \<and> oe_claims y = []"
      then have state: "oe_state y = Terminal" "oe_claims y = []" by blast+
      have id: "oe_operationId y = oe_operationId e" using y' nameOf_id [OF A(2)] by simp
      from state have "followed e y = y" by (simp add: followed_def)
      with wrote state have "write_entry (Some y) True u' = (Inr (), u2)" by simp
      from write_InrD [OF this] state id have "map_of (xw_open t) (oe_operationId e) = None" by (simp add: t)
      with assms(5) show ?thesis by simp
    next
      assume y': "y = record_entry A name r (Some False) \<and> oe_state y = Active \<and>
        list_all (fa_admits A r w) (collidingClaims (oe_claims (followed e y)) (wc_claims w))"
      have fields: "oe_recordPath (followed e y) = oe_recordPath e" "adapter_of E (followed e y) = Some A" "nameOf (followed e y) = Some name"
          "oe_operationId (followed e y) = oe_operationId e" "oe_state (followed e y) = Active"
        using followed_place [OF A refl, of r] y' by simp_all
      show ?thesis
      proof (cases "oe_state e = Active")
        case True
        with wrote y' assms(4,5) y(2) same have "x = e" by (auto simp: t same_files_def)
        moreover have "followed e y = y" using True by (simp add: followed_def)
        ultimately show ?thesis using A r records y' unfolding harmless_def by auto
      next
        case False
        with wrote have "write_entry (Some (followed e y)) True u' = (Inr (), u2)" by simp
        from write_InrD [OF this] assms(5) fields have "x = followed e y" by (simp add: t split: if_splits)
        with fields r records y' show ?thesis unfolding harmless_def by auto
      qed
    qed
  qed
qed

section \<open>The guard\<close>

definition open_entry :: "'f index_world \<Rightarrow> op_entry \<Rightarrow> bool" where
  "open_entry s e \<longleftrightarrow> map_of (xw_open s) (oe_operationId e) = Some (Intact e)"

lemma read_entry_InrD:
  "read_entry files i = Inr (Some e) \<Longrightarrow> map_of files i = Some (Intact e) \<and> oe_operationId e = i"
  by (auto simp: read_entry_def validateIndexEntry_def split: option.splits index_file.splits if_splits)

lemma read_open_InrD:
  "read_open is s = (Inr es, t) \<Longrightarrow> t = s \<and> es = List.map_filter (\<lambda>i. case read_entry (xw_open s) i of Inr e \<Rightarrow> e | Inl _ \<Rightarrow> None) is \<and>
     (\<forall>i \<in> set is. is_ok (read_entry (xw_open s) i))"
proof (induction "is" arbitrary: es)
  case (Cons i "is")
  then show ?case
    by (fastforce simp: bnd_def load_open_def looks_def map_filter_simps split: prod.splits sum.splits option.splits)
qed (simp add: map_filter_simps)

lemma openEntries_InrD:
  assumes "openEntries s = (Inr es, t)"
  shows "t = s" "set es = {e. open_entry s e \<and> is_ok (validateIndexEntry (oe_operationId e) e)}" "distinct (map oe_operationId es)"
proof -
  let ?ids = "sort (remdups (map fst (xw_open s)))"
  let ?get = "\<lambda>i. case read_entry (xw_open s) i of Inr e \<Rightarrow> e | Inl _ \<Rightarrow> None"
  from assms have run: "read_open ?ids s = (Inr es, t)" by (simp add: openEntries_def openIds_def looks_def bnd_def)
  note es = read_open_InrD [OF run]
  show "t = s" using es by blast
  have get: "?get i = Some e \<longleftrightarrow> read_entry (xw_open s) i = Inr (Some e)" for i e by (auto split: sum.split)
  have entry: "read_entry (xw_open s) (oe_operationId e) = Inr (Some e) \<longleftrightarrow> open_entry s e \<and> is_ok (validateIndexEntry (oe_operationId e) e)" for e
    by (auto simp: read_entry_def open_entry_def validateIndexEntry_def split: option.splits index_file.splits)
  have "e \<in> set es \<longleftrightarrow> read_entry (xw_open s) (oe_operationId e) = Inr (Some e)" for e
  proof
    assume "e \<in> set es"
    then obtain i where "read_entry (xw_open s) i = Inr (Some e)" using es get by (auto simp: map_filter_def)
    with read_entry_InrD show "read_entry (xw_open s) (oe_operationId e) = Inr (Some e)" by metis
  next
    assume e: "read_entry (xw_open s) (oe_operationId e) = Inr (Some e)"
    then have "oe_operationId e \<in> set ?ids" using read_entry_InrD [OF e] by (auto dest: map_of_SomeD simp: rev_image_eqI)
    with e es get show "e \<in> set es" by (force simp: map_filter_def)
  qed
  with entry show "set es = {e. open_entry s e \<and> is_ok (validateIndexEntry (oe_operationId e) e)}" by blast
  have "map oe_operationId es = filter (\<lambda>i. ?get i \<noteq> None) ?ids"
  proof -
    have "map oe_operationId (List.map_filter ?get is) = filter (\<lambda>i. ?get i \<noteq> None) is" for "is"
    proof (induction "is")
      case (Cons i "is")
      then show ?case by (auto simp: map_filter_simps get dest: read_entry_InrD split: option.split)
    qed (simp add: map_filter_simps)
    with es show ?thesis by simp
  qed
  then show "distinct (map oe_operationId es)" by simp
qed

lemma check_each_harmless:
  assumes "alone E" "check_each E w es s = (Inr ids, t)" "distinct (map oe_operationId es)" "\<forall>e \<in> set es. open_entry s e"
  shows "ids = map oe_operationId es" "xw_records t = xw_records s"
    "\<forall>i. i \<notin> oe_operationId ` set es \<longrightarrow> map_of (xw_open t) i = map_of (xw_open s) i"
    "\<forall>x. open_entry t x \<and> oe_operationId x \<in> oe_operationId ` set es \<longrightarrow> harmless E t w x"
proof -
  have "ids = map oe_operationId es \<and> xw_records t = xw_records s \<and>
    (\<forall>i. i \<notin> oe_operationId ` set es \<longrightarrow> map_of (xw_open t) i = map_of (xw_open s) i) \<and>
    (\<forall>x. open_entry t x \<and> oe_operationId x \<in> oe_operationId ` set es \<longrightarrow> harmless E t w x)"
    using assms(2-4)
  proof (induction es arbitrary: s ids)
    case (Cons e es)
    from Cons.prems(1) obtain v u js where inspect: "inspect_entry E e (Some w) s = (Inr v, u)" "\<And>b. v \<noteq> Blocked b"
      and rest: "check_each E w es u = (Inr js, t)" "ids = oe_operationId e # js"
      by (auto simp: bnd_def split: prod.splits sum.splits verdict.splits)
    have touch: "touches (oe_operationId e) s u" using keepsD [OF touching_inspect [OF assms(1)] TrueI inspect(1)] .
    have "\<forall>e \<in> set es. open_entry u e"
      using touch Cons.prems(2,3) unfolding touches_def open_entry_def by (metis image_eqI distinct.simps(2) list.simps(9) list.set_intros(2) set_map)
    with Cons.IH [OF rest(1)] Cons.prems(2) have IH: "js = map oe_operationId es" "xw_records t = xw_records u"
        "\<forall>i. i \<notin> oe_operationId ` set es \<longrightarrow> map_of (xw_open t) i = map_of (xw_open u) i"
        "\<forall>x. open_entry t x \<and> oe_operationId x \<in> oe_operationId ` set es \<longrightarrow> harmless E t w x" by simp_all
    have own: "harmless E t w x" if "open_entry t x" "oe_operationId x = oe_operationId e" for x
    proof -
      have "oe_operationId e \<notin> oe_operationId ` set es" using Cons.prems(2) by simp
      with IH(3) that have "map_of (xw_open u) (oe_operationId e) = Some (Intact x)" by (simp add: open_entry_def)
      moreover have "map_of (xw_open s) (oe_operationId e) = Some (Intact e)" using Cons.prems(3) by (simp add: open_entry_def)
      ultimately have "harmless E u w x" using inspected_harmless [OF assms(1) inspect] by blast
      with IH(2) show ?thesis using harmless_cong by blast
    qed
    from IH touch rest(2) own show ?case by (auto simp: touches_def)
  qed simp
  then show "ids = map oe_operationId es" "xw_records t = xw_records s"
    "\<forall>i. i \<notin> oe_operationId ` set es \<longrightarrow> map_of (xw_open t) i = map_of (xw_open s) i"
    "\<forall>x. open_entry t x \<and> oe_operationId x \<in> oe_operationId ` set es \<longrightarrow> harmless E t w x" by blast+
qed

text \<open>The sweep touches none of the verified entries.\<close>

definition avoids :: "string set \<Rightarrow> 'f index_world \<Rightarrow> 'f index_world \<Rightarrow> bool" where
  "avoids I s t \<longleftrightarrow> xw_records t = xw_records s \<and> (\<forall>i \<in> I. map_of (xw_open t) i = map_of (xw_open s) i)"

interpretation avoiding: stable_runs "\<lambda>_. True" "avoids I" for I
  by unfold_locales (auto simp: avoids_def)

lemma sweep_avoids:
  assumes "alone E" "\<forall>e \<in> set others. oe_operationId e \<notin> I"
  shows "keeps (\<lambda>_. True) (avoids I) (sweep E others)"
proof (cases "others = []")
  case False
  have one: "keeps (\<lambda>_. True) (avoids I) (inspect_entry E e None)" if "e \<in> set others" for e
  proof (rule keeps_mono [OF touching_inspect [OF assms(1)]])
    fix s t assume "touches (oe_operationId e) s t"
    moreover have "oe_operationId e \<notin> I" using that assms(2) by blast
    ultimately show "avoids I s t" unfolding touches_def avoids_def by metis
  qed
  have "keeps (\<lambda>_. True) (avoids I) (each (\<lambda>i. bnd (inspect_entry E (others ! ((start + i) mod length others)) None) (\<lambda>_. ret ())) js)" for start js
    using False by (induction js) (auto intro!: avoiding.keeps_rules one)
  moreover have "keeps (\<lambda>_. True) (avoids I) (query f)" for f by (simp add: keeps_def query_def avoids_def)
  ultimately show ?thesis unfolding sweep_def using False by (auto intro!: avoiding.keeps_bnd)
qed (simp add: sweep_def avoiding.keeps_ret)

lemma check_claims_harmless:
  assumes "alone E" "check_claims E wanted s = (Inr clear, t)"
  shows "\<forall>x. open_entry t x \<and> oe_operationId x \<in> set clear \<longrightarrow> harmless E t (wanted\<lparr>wc_claims := wantedClaims wanted\<rparr>) x"
proof -
  let ?w = "wanted\<lparr>wc_claims := wantedClaims wanted\<rparr>"
  from assms(2) obtain es u where es: "openEntries s = (Inr es, u)" by (auto simp: check_claims_def Let_def bnd_def split: prod.splits sum.splits)
  note opened = openEntries_InrD [OF es]
  define colliding where "colliding = sort_key (family_order E) (sort_key oe_operationId (filter (collides wanted (wantedClaims wanted)) es))"
  from assms(2) es opened(1) obtain v where check: "check_each E ?w colliding s = (Inr clear, v)"
    and swept: "sweep E (filter (\<lambda>e. e \<notin> set colliding) es) v = (Inr (), t)"
    by (auto simp: check_claims_def Let_def bnd_def colliding_def split: prod.splits sum.splits)
  have "distinct (map oe_operationId (filter P es))" for P using opened(3) by (rule distinct_map_filter)
  then have distinct: "distinct (map oe_operationId colliding)" by (simp add: colliding_def distinct_map)
  have sub: "set colliding \<subseteq> set es" by (auto simp: colliding_def)
  have "\<forall>e \<in> set colliding. open_entry s e" using sub opened(2) by auto
  note each = check_each_harmless [OF assms(1) check distinct this]
  have "\<forall>e \<in> set (filter (\<lambda>e. e \<notin> set colliding) es). oe_operationId e \<notin> oe_operationId ` set colliding"
    using sub opened(3) by (auto simp: distinct_map inj_on_def)
  from keepsD [OF sweep_avoids [OF assms(1) this] TrueI swept]
  have kept: "avoids (oe_operationId ` set colliding) v t" .
  show ?thesis
  proof (intro allI impI)
    fix x assume x: "open_entry t x \<and> oe_operationId x \<in> set clear"
    then have "oe_operationId x \<in> oe_operationId ` set colliding" by (simp add: each(1))
    moreover from this kept have "map_of (xw_open t) (oe_operationId x) = map_of (xw_open v) (oe_operationId x)"
      unfolding avoids_def by blast
    with x have "open_entry v x" by (simp add: open_entry_def)
    ultimately have "harmless E v ?w x" using each(4) by blast
    then show "harmless E t ?w x" using harmless_cong [of t v E] kept by (simp add: avoids_def)
  qed
qed

lemma lock_alone:
  assumes "alone E" "index_lock E m s = (Inr x, t)"
  shows "m (s\<lparr>xw_tick := Suc (xw_tick s)\<rparr>) = (Inr x, t)"
  using assms by (auto simp: index_lock_def asks_def query_def meet_def alone_def bnd_def lift_def split: sum.splits prod.splits)

text \<open>The write of an admission runs where every other colliding open entry is harmless.\<close>

lemma claim_exclusive:
  assumes "alone E" "claimUnderLock E wanted write_it s = (Inr (), s')"
  shows "\<exists>t. write_it t = (Inr (), s') \<and> (\<forall>x. open_entry t x \<and> is_ok (validateIndexEntry (oe_operationId x) x) \<and>
    collides wanted (wantedClaims wanted) x \<longrightarrow> harmless E t (wanted\<lparr>wc_claims := wantedClaims wanted\<rparr>) x)"
proof -
  have "claim_attempts E n wanted write_it s = (Inr (), s') \<Longrightarrow> ?thesis" for n
  proof (induction n arbitrary: s)
    case (Suc n)
    define locked where "locked = (\<lambda>clear. bnd openEntries (\<lambda>opened.
         if list_ex (\<lambda>e. oe_operationId e \<notin> set clear) (filter (collides wanted (wantedClaims wanted)) opened) then ret False
         else bnd write_it (\<lambda>_. ret True)))"
    from Suc.prems obtain clear t finished u where check: "check_claims E wanted s = (Inr clear, t)"
      and lock: "index_lock E (locked clear) t = (Inr finished, u)"
      and rest: "(if finished then ret () else claim_attempts E n wanted write_it) u = (Inr (), s')"
      by (auto simp: bnd_def locked_def split: prod.splits sum.splits)
    show ?case
    proof (cases finished)
      case False
      with rest Suc.IH show ?thesis by simp
    next
      case True
      let ?t = "t\<lparr>xw_tick := Suc (xw_tick t)\<rparr>"
      from lock_alone [OF assms(1) lock] True obtain es where es: "openEntries ?t = (Inr es, ?t)"
        and clear: "\<not> list_ex (\<lambda>e. oe_operationId e \<notin> set clear) (filter (collides wanted (wantedClaims wanted)) es)"
        and written: "write_it ?t = (Inr (), u)"
        by (auto simp: locked_def bnd_def dest: openEntries_InrD(1) split: prod.splits sum.splits if_splits)
      have "harmless E ?t (wanted\<lparr>wc_claims := wantedClaims wanted\<rparr>) x"
        if "open_entry ?t x" "is_ok (validateIndexEntry (oe_operationId x) x)" "collides wanted (wantedClaims wanted) x" for x
      proof -
        have "x \<in> set es" using that openEntries_InrD(2) [OF es] by simp
        with that(3) clear have "oe_operationId x \<in> set clear" by (auto simp: list_ex_iff)
        moreover have "open_entry t x" using that(1) by (simp add: open_entry_def)
        ultimately have "harmless E t (wanted\<lparr>wc_claims := wantedClaims wanted\<rparr>) x" using check_claims_harmless [OF assms(1) check] by blast
        then show ?thesis using harmless_cong [of ?t t E] by simp
      qed
      with written rest True show ?thesis by auto
    qed
  qed simp
  with assms(2) show ?thesis by (simp add: claimUnderLock_def)
qed

section \<open>Admission\<close>

lemma repairing_InrD:
  assumes "repairing E action s = (Inr x, t)"
  shows "\<exists>s'. action s' = (Inr x, t)"
  using assms
  by (auto simp: repairing_def try_catch_def bnd_def lift_def split: prod.splits sum.splits if_splits)

lemma write_admission_InrD:
  assumes "write_admission i admitted s = (Inr (), t)" "oe_operationId admitted = oi_operationId i"
  shows "xw_records t = xw_records s"
    "xw_open t = AList.update (oe_operationId admitted) (Intact admitted) (xw_open s)"
    "xw_entries t = AList.update (oe_operationId admitted) (Intact admitted) (xw_entries s)"
  using assms
  by (auto simp: write_admission_def stored_entry_def looks_def putPointer_def pointer_def putOpen_def putEntry_def put_def bnd_def lift_def ret_def
      split: prod.splits sum.splits if_splits option.splits)

lemma admit_claims_InrD:
  assumes "admit_claims E i wanted s = (Inr (), t)"
  shows "\<exists>path now s'. claimUnderLock E (wanted\<lparr>wc_except := Some (oi_operationId i)\<rparr>)
    (write_admission i (admitted_entry i wanted path now)) s' = (Inr (), t)"
proof -
  note run = repairing_InrD [OF assms [unfolded admit_claims_def], unfolded bnd_Inr]
  show ?thesis
    using run by (elim exE conjE, split if_split_asm) (auto simp: bnd_Inr)
qed

end
