(* ===== verification/OperationSamples.thy ===== *)
theory OperationSamples
  imports OperationGuard
begin

text \<open>
  A small index for the witnesses: one family, two profiles that use the same account, and an
  admission whose prepare died before it wrote a record.
\<close>

definition sample_store :: op_store where
  "sample_store = \<lparr>os_directory = ''rail-operations'', os_perProfile = True\<rparr>"

definition sample_family :: "(unit, unit) family_adapter" where
  "sample_family = \<lparr>fa_family = ''rail_transfer'', fa_stores = [sample_store], fa_path = (\<lambda>_. Inr ()), fa_decode = (\<lambda>_ _. Inr ()),
     fa_identity = (\<lambda>_. \<lparr>ri_profileHash = [], ri_operationId = [], ri_idempotencyHash = None, ri_requestHash = None\<rparr>),
     fa_claims = (\<lambda>_. None), fa_holdsProfile = (\<lambda>_. True), fa_terminal = (\<lambda>_ _. Inr False), fa_state = (\<lambda>_. []),
     fa_admits = (\<lambda>_ _ _. False), fa_salvage = (\<lambda>_. \<lparr>sv_profileHashes = [], sv_idempotencyHash = None, sv_claims = None\<rparr>),
     fa_unknownClaims = []\<rparr>"

text \<open>The clock stands at 10000 s, the other processes do as told.\<close>

definition sample_index_env :: "(nat \<Rightarrow> unit index_world \<Rightarrow> unit index_world) \<Rightarrow> (unit, unit) index_env" where
  "sample_index_env others = \<lparr>xe_registry = [sample_family], xe_now = (\<lambda>_. 10000000), xe_random = (\<lambda>_. 0), xe_io = (\<lambda>_ _. Inr ()),
     xe_lock = (\<lambda>_. Inr ()), xe_others = others, xe_consent = (\<lambda>_ _. Inr ())\<rparr>"

definition calm_env :: "(unit, unit) index_env" where
  "calm_env = sample_index_env (\<lambda>_ s. s)"

definition hex64 :: "char \<Rightarrow> string" where
  "hex64 c = replicate 64 c"

definition sample_identity :: "char \<Rightarrow> char \<Rightarrow> op_identity" where
  "sample_identity p c = \<lparr>oi_family = ''rail_transfer'', oi_profileHash = hex64 p, oi_operationId = hex64 c,
     oi_idempotencyHash = Some (hex64 c), oi_requestHash = Some (hex64 c)\<rparr>"

text \<open>Operation b of profile a, and operation c of profile d.\<close>

abbreviation identity_b :: op_identity where "identity_b \<equiv> sample_identity CHR ''a'' CHR ''b''"
abbreviation identity_c :: op_identity where "identity_c \<equiv> sample_identity CHR ''d'' CHR ''c''"

definition sample_wanted :: "char \<Rightarrow> wanted_claims" where
  "sample_wanted p = \<lparr>wc_family = Some ''rail_transfer'', wc_profileHash = Some (hex64 p), wc_claims = [exclusive ''account''],
     wc_holds = [], wc_waits = [], wc_tag = None, wc_except = None\<rparr>"

definition sample_path :: "char \<Rightarrow> char \<Rightarrow> string" where
  "sample_path p c = record_path sample_store (hex64 p) (hex64 c)"

definition sample_admission :: "char \<Rightarrow> char \<Rightarrow> int \<Rightarrow> op_entry" where
  "sample_admission p c at = admitted_entry (sample_identity p c) (sample_wanted p) (sample_path p c) at"

abbreviation orphan :: op_entry where "orphan \<equiv> sample_admission CHR ''a'' CHR ''b'' 0"

definition sample_index_world :: "unit index_world" where
  "sample_index_world = \<lparr>xw_entries = [(hex64 CHR ''b'', Intact orphan)], xw_open = [(hex64 CHR ''b'', Intact orphan)],
     xw_pointers = [(hex64 CHR ''b'', Some [hex64 CHR ''b''])], xw_shards = [], xw_records = [], xw_tick = 0, xw_life = 40\<rparr>"

definition empty_index_world :: "unit index_world" where
  "empty_index_world = sample_index_world\<lparr>xw_entries := [], xw_open := [], xw_pointers := []\<rparr>"

lemma sample_entry_fields [simp]:
  "oe_operationId (sample_admission p c at) = hex64 c" "oe_family (sample_admission p c at) = ''rail_transfer''"
  "oe_profileHash (sample_admission p c at) = Some (hex64 p)" "oe_idempotencyHash (sample_admission p c at) = Some (hex64 c)"
  "oe_requestHash (sample_admission p c at) = Some (hex64 c)" "oe_recordPath (sample_admission p c at) = sample_path p c"
  "oe_state (sample_admission p c at) = Admitted" "oe_admittedAt (sample_admission p c at) = Some at" "oe_reason (sample_admission p c at) = None"
  "oe_claims (sample_admission p c at) = normalizeClaims (normalizeClaims [profileClaim (hex64 p), exclusive ''account''])"
  by (simp_all add: sample_admission_def admitted_entry_def entryOf_def sample_identity_def sample_wanted_def)

lemma hex64_hash: "c \<in> set ''abcd'' \<Longrightarrow> hash_text (hex64 c)"
  by (auto simp: hex64_def hash_text_def lower_hex_def list_all_iff)

lemma hex64_inj [simp]: "hex64 c = hex64 d \<longleftrightarrow> c = d"
  by (simp add: hex64_def)

lemma hex64_chars: "set (hex64 c) = {c}" "length (hex64 c) = 64"
  by (simp_all add: hex64_def)

lemma split_on_append: "d \<notin> set w \<Longrightarrow> split_on d (w @ d # ws) = w # split_on d ws"
  by (induction w) auto

lemma split_on_last: "d \<notin> set w \<Longrightarrow> split_on d w = [w]"
  by (induction w) auto

lemma sample_path_parse:
  assumes "p \<in> set ''abcd''" "c \<in> set ''abcd''"
  shows "parseRecordPath (sample_path p c) = Some (''rail-operations'', Some (hex64 p), hex64 c)"
proof -
  have split: "split_on CHR ''/'' (sample_path p c) = [''rail-operations'', hex64 p, hex64 c @ ''.json'']"
  proof -
    have "split_on CHR ''/'' (hex64 c @ ''.json'') = [hex64 c @ ''.json'']"
      using assms by (intro split_on_last) (auto simp: hex64_chars)
    moreover have "split_on CHR ''/'' (hex64 p @ CHR ''/'' # hex64 c @ ''.json'') = hex64 p # split_on CHR ''/'' (hex64 c @ ''.json'')"
      using assms by (intro split_on_append) (auto simp: hex64_chars)
    moreover have "sample_path p c = ''rail-operations'' @ CHR ''/'' # hex64 p @ CHR ''/'' # hex64 c @ ''.json''"
      by (simp add: sample_path_def record_path_def sample_store_def)
    ultimately show ?thesis by (simp add: split_on_append)
  qed
  have "take 64 (hex64 c @ ''.json'') = hex64 c" "drop 64 (hex64 c @ ''.json'') = ''.json''"
    by (simp_all add: hex64_chars)
  then show ?thesis
    using hex64_hash [OF assms(1)] hex64_hash [OF assms(2)] by (simp add: parseRecordPath_def Let_def split record_file_name_def)
qed

lemma normalize_keys: "cl_key ` set (normalizeClaims cs) = cl_key ` set cs"
proof -
  have "cl_key ` set (fold merge_claim cs acc) = cl_key ` (set cs \<union> set acc)" for acc
    by (induction cs arbitrary: acc) (simp_all add: merge_keys image_Un insert_commute Un_left_commute)
  then show ?thesis by (simp add: normalizeClaims_def)
qed

lemma sample_entry_valid:
  assumes "p \<in> set ''abcd''" "c \<in> set ''abcd''"
  shows "validateIndexEntry (hex64 c) (sample_admission p c at) = Inr (sample_admission p c at)"
proof -
  have keys: "cl_key ` set (normalizeClaims (normalizeClaims [profileClaim (hex64 p), exclusive ''account''])) = {''profile:'' @ hex64 p, ''account''}"
    by (simp add: normalize_keys profileClaim_def exclusive_def)
  have "validClaim x" if "x \<in> set (normalizeClaims (normalizeClaims [profileClaim (hex64 p), exclusive ''account'']))" for x
  proof -
    have "cl_key x = ''profile:'' @ hex64 p \<or> cl_key x = ''account''" using that keys by blast
    then show ?thesis using hex64_chars(2) [of p] by (elim disjE) (simp_all add: validClaim_def)
  qed
  then show ?thesis
    using hex64_hash [OF assms(1)] hex64_hash [OF assms(2)]
    by (simp add: validateIndexEntry_def nullable_hash_def OPERATION_FAMILIES_def list_all_iff)
qed

lemma sample_collides:
  "collidingClaims (oe_claims (sample_admission p c at)) (wantedClaims (sample_wanted q\<lparr>wc_except := x\<rparr>)) \<noteq> []"
  "collidingClaims (oe_claims (sample_admission p c at)) (oe_claims (sample_admission q d at')) \<noteq> []"
proof -
  have "collide [profileClaim (hex64 p), exclusive ''account''] (exclusive ''account'' # cs)" for cs
    unfolding collide_def by (rule exI [of _ "''account''"]) (simp add: demand_def exclusive_def profileClaim_def, blast)
  then show "collidingClaims (oe_claims (sample_admission p c at)) (wantedClaims (sample_wanted q\<lparr>wc_except := x\<rparr>)) \<noteq> []"
    by (simp add: wantedClaims_def Let_def colliding_iff [OF normalize_distinct normalize_distinct] sample_wanted_def)
  have "collide [profileClaim (hex64 p), exclusive ''account''] [profileClaim (hex64 q), exclusive ''account'']"
    unfolding collide_def by (rule exI [of _ "''account''"]) (simp add: demand_def exclusive_def profileClaim_def, blast)
  then show "collidingClaims (oe_claims (sample_admission p c at)) (oe_claims (sample_admission q d at')) \<noteq> []"
    by (simp add: colliding_iff [OF normalize_distinct normalize_distinct])
qed

end
