(* ===== verification/OperationAdmission.thy ===== *)
theory OperationAdmission
  imports OperationGuardLaws OperationSamples
begin

text \<open>
  Admissions whose prepare died: how long they hold their account, how they go, and the one window
  in which two operations can be admitted on one account.
\<close>

section \<open>An orphaned admission\<close>

text \<open>The environment answers: locks and file reads work.\<close>

definition answers :: "('f, 'r) index_env \<Rightarrow> bool" where
  "answers E \<longleftrightarrow> (\<forall>n. xe_lock E n = Inr ()) \<and> (\<forall>n path. xe_io E n path = Inr ())"

text \<open>An admission that never wrote its record, as both copies and the pointer of the index hold it.\<close>

definition recordless :: "('f, 'r) index_env \<Rightarrow> 'f index_world \<Rightarrow> op_entry \<Rightarrow> bool" where
  "recordless E s x \<longleftrightarrow> oe_state x = Admitted \<and> oe_reason x = None \<and> validateIndexEntry (oe_operationId x) x = Inr x \<and>
     (\<exists>A. adapter_of E x = Some A \<and> fa_path A (oe_recordPath x) = Inr ()) \<and> nameOf x \<noteq> None \<and> map_of (xw_records s) (oe_recordPath x) = None \<and>
     map_of (xw_entries s) (oe_operationId x) = Some (Intact x) \<and>
     (case oe_idempotencyHash x of None \<Rightarrow> True | Some h \<Rightarrow> map_of (xw_pointers s) h = Some (Some [oe_operationId x]))"

lemma recordlessD:
  assumes "recordless E s x"
  shows "oe_state x = Admitted" "oe_reason x = None" "hash_text (oe_operationId x)"
    "validateIndexEntry (oe_operationId x) x = Inr x" "\<exists>t. oe_admittedAt x = Some t"
    "map_of (xw_records s) (oe_recordPath x) = None" "map_of (xw_entries s) (oe_operationId x) = Some (Intact x)"
    "\<exists>A. adapter_of E x = Some A \<and> fa_path A (oe_recordPath x) = Inr ()" "\<exists>name. nameOf x = Some name"
  using assms by (auto simp: recordless_def validateIndexEntry_def split: if_splits)

lemma recordless_tick [simp]: "recordless E (s\<lparr>xw_tick := n\<rparr>) x = recordless E s x"
  unfolding recordless_def by (cases "oe_idempotencyHash x") simp_all

definition forgotten :: "op_entry \<Rightarrow> 'f index_world \<Rightarrow> 'f index_world" where
  "forgotten x s = (let t = s\<lparr>xw_open := AList.delete (oe_operationId x) (xw_open s), xw_entries := AList.delete (oe_operationId x) (xw_entries s)\<rparr> in
     case oe_idempotencyHash x of None \<Rightarrow> t\<lparr>xw_life := xw_life s - 2\<rparr>
     | Some h \<Rightarrow> t\<lparr>xw_pointers := AList.delete h (xw_pointers s), xw_life := xw_life s - 3\<rparr>)"

lemma operationIds_single: "hash_text i \<Longrightarrow> operationIds [i]"
  by (simp add: operationIds_def)

lemma forget_recordless:
  assumes "answers E" "recordless E s x" "3 \<le> xw_life s"
    "\<And>n. xe_others E n (s\<lparr>xw_tick := Suc (xw_tick s)\<rparr>) = s\<lparr>xw_tick := Suc (xw_tick s)\<rparr>"
  shows "forget E x s = (Inr (), forgotten x (s\<lparr>xw_tick := Suc (xw_tick s)\<rparr>))"
proof -
  note x = recordlessD [OF assms(2)]
  have entry: "read_entry (xw_entries s) (oe_operationId x) = Inr (Some x)" by (simp add: read_entry_def x(4,7))
  have life: "xw_life s \<noteq> 0" "xw_life s - 1 \<noteq> 0" "xw_life s - 2 \<noteq> 0" using assms(3) by simp_all
  show ?thesis
  proof (cases "oe_idempotencyHash x")
    case None
    then show ?thesis
      using assms(1,3) by (simp add: forget_def index_lock_def asks_def query_def meet_def assms(4) bnd_def stored_entry_def looks_def entry
          forgetLocked_def dropOpen_def dropEntry_def put_def life forgotten_def Let_def answers_def numeral_2_eq_2)
  next
    case (Some h)
    then have "map_of (xw_pointers s) h = Some (Some [oe_operationId x])" using assms(2) by (simp add: recordless_def)
    then have "read_pointer (s\<lparr>xw_tick := t, xw_open := a, xw_life := b, xw_entries := c\<rparr>) h = Inr (Some [oe_operationId x])" for t a b c
      using operationIds_single [OF x(3)] by (simp add: read_pointer_def)
    with Some show ?thesis
      using assms(1,3) by (simp add: forget_def index_lock_def asks_def query_def meet_def assms(4) bnd_def stored_entry_def looks_def entry
          forgetLocked_def dropOpen_def dropEntry_def dropPointer_def pointer_def put_def life forgotten_def Let_def answers_def numeral_2_eq_2 numeral_3_eq_3)
  qed
qed

lemma inspect_recordless:
  assumes "answers E" "recordless E s x"
  shows "inspect_entry E x w s =
    (let t = s\<lparr>xw_tick := Suc (Suc (xw_tick s))\<rparr> in
     if leased x (xe_now E (Suc (xw_tick s))) then (Inr (refused x (Some ''admitted'') w), t)
     else bnd (forget E x) (\<lambda>_. ret Clear) t)"
proof -
  note x = recordlessD [OF assms(2)]
  obtain A name where A: "adapter_of E x = Some A" "fa_path A (oe_recordPath x) = Inr ()" "nameOf x = Some name" using x(8,9) by blast
  have "load_record E A (oe_recordPath x) s = (Inr None, s\<lparr>xw_tick := Suc (xw_tick s)\<rparr>)"
    using assms(1) A(2) x(6) by (simp add: load_record_def asks_def query_def looks_def bnd_def answers_def)
  then have "verify_record E x s = (Inr Absent, s\<lparr>xw_tick := Suc (xw_tick s)\<rparr>)"
    by (simp add: verify_record_def A try_catch_def bnd_def)
  then show ?thesis by (simp add: inspect_entry_def x(2) bnd_def query_def Let_def)
qed

text \<open>
  The property C26. An admission without a record blocks every operation that wants its
  claims for exactly ten minutes from when it was made: until then the answer is a refusal that names
  it, from then on the next operation that meets it removes its claims, its entry and its pointer.
\<close>

theorem admission_lease:
  assumes "answers E" "alone E" "recordless E s x" "oe_admittedAt x = Some at" "3 \<le> xw_life s" "now = xe_now E (Suc (xw_tick s))"
  shows "(now < at + 600000 \<longrightarrow> fst (inspect_entry E x (Some w) s) =
      Inr (Blocked \<lparr>bl_operationId = oe_operationId x, bl_state = Some ''admitted'', bl_held = collidingClaims (oe_claims x) (wc_claims w)\<rparr>)) \<and>
    (at + 600000 \<le> now \<longrightarrow> (\<exists>t. inspect_entry E x (Some w) s = (Inr Clear, t) \<and>
      map_of (xw_open t) (oe_operationId x) = None \<and> map_of (xw_entries t) (oe_operationId x) = None \<and>
      (\<forall>h. oe_idempotencyHash x = Some h \<longrightarrow> map_of (xw_pointers t) h = None)))"
proof -
  let ?t = "s\<lparr>xw_tick := Suc (Suc (xw_tick s))\<rparr>"
  have leased: "leased x now \<longleftrightarrow> now < at + 600000"
    using recordlessD(1) [OF assms(3)] assms(4) by (auto simp: leased_def ADMISSION_LEASE_MS_def)
  have "recordless E ?t x" using assms(3) by simp
  from forget_recordless [OF assms(1) this] assms(2,5)
  have "forget E x ?t = (Inr (), forgotten x (?t\<lparr>xw_tick := Suc (xw_tick ?t)\<rparr>))" by (simp add: alone_def)
  then have "\<not> leased x now \<Longrightarrow> inspect_entry E x (Some w) s = (Inr Clear, forgotten x (?t\<lparr>xw_tick := Suc (xw_tick ?t)\<rparr>))"
    by (simp add: inspect_recordless [OF assms(1,3)] Let_def assms(6) bnd_def)
  moreover have "leased x now \<Longrightarrow> fst (inspect_entry E x (Some w) s) = Inr (refused x (Some ''admitted'') (Some w))"
    by (simp add: inspect_recordless [OF assms(1,3)] Let_def assms(6))
  ultimately show ?thesis
    by (auto simp: leased refused_def blockedBy_def forgotten_def Let_def delete_conv' split: option.split)
qed

section \<open>A prepare that fails\<close>

lemma drop_recordless:
  assumes "answers E" "alone E" "recordless E s x" "3 \<le> xw_life s"
  shows "\<exists>t. dropIfRecordless E (oe_operationId x) s = (Inr True, t) \<and> map_of (xw_open t) (oe_operationId x) = None \<and>
    map_of (xw_entries t) (oe_operationId x) = None"
proof -
  note x = recordlessD [OF assms(3)]
  obtain A where A: "adapter_of E x = Some A" "fa_path A (oe_recordPath x) = Inr ()" using x(8) by blast
  let ?t = "s\<lparr>xw_tick := Suc (xw_tick s)\<rparr>"
  have entry: "stored_entry (oe_operationId x) s = (Inr (Some x), s)" by (simp add: stored_entry_def looks_def read_entry_def x(4,7))
  have "loadRecord E x s = (Inr None, ?t)"
    using assms(1) A(2) x(6) by (simp add: loadRecord_def A(1) load_record_def asks_def query_def looks_def bnd_def answers_def)
  moreover have "recordless E ?t x" using assms(3) by simp
  from forget_recordless [OF assms(1) this] assms(2,4)
  have "forget E x ?t = (Inr (), forgotten x (?t\<lparr>xw_tick := Suc (xw_tick ?t)\<rparr>))" by (simp add: alone_def)
  ultimately have "dropIfRecordless E (oe_operationId x) s = (Inr True, forgotten x (?t\<lparr>xw_tick := Suc (xw_tick ?t)\<rparr>))"
    by (simp add: dropIfRecordless_def try_catch_def bnd_def entry x(1))
  then show ?thesis by (auto simp: forgotten_def Let_def delete_conv' split: option.split)
qed

text \<open>
  The property C27. A prepare body that throws without having written its record
  leaves nothing behind: the error is passed on and the operation has neither an entry nor claims.
\<close>

theorem failed_prepare_releases:
  assumes "answers E" "alone E" "admit_claims E i wanted s = (Inr (), s1)" "work s1 = (Inl e, s2)"
    "recordless E s2 x" "oe_operationId x = oi_operationId i" "3 \<le> xw_life s2"
  shows "\<exists>t. admit_index E i wanted work s = (Inl e, t) \<and> map_of (xw_open t) (oi_operationId i) = None \<and>
    map_of (xw_entries t) (oi_operationId i) = None"
proof -
  from drop_recordless [OF assms(1,2,5,7)] obtain t where
    "dropIfRecordless E (oi_operationId i) s2 = (Inr True, t)" "map_of (xw_open t) (oi_operationId i) = None"
    "map_of (xw_entries t) (oi_operationId i) = None" unfolding assms(6) by blast
  then show ?thesis
    by (simp add: admit_index_def bnd_def assms(3,4) try_catch_def)
qed

section \<open>Admission in steps\<close>

text \<open>Every record of the walked stores is indexed and has a name of its own.\<close>

definition in_step :: "('f, 'r) index_env \<Rightarrow> 'f index_world \<Rightarrow> bool" where
  "in_step E s \<longleftrightarrow> distinct (map (\<lambda>(_, name). rn_operationId name) (named_records E s)) \<and>
     (\<lambda>(_, name). rn_operationId name) ` set (named_records E s) \<subseteq> fst ` set (xw_entries s)"

lemma collect_none:
  assumes "\<And>x. x \<in> set xs \<Longrightarrow> f x s = (Inr None, s)"
  shows "collect f xs s = (Inr [], s)"
  using assms by (induction xs) (simp_all add: bnd_def)

lemma distinct_filter_single:
  "distinct (map f xs) \<Longrightarrow> length (filter (\<lambda>x. f x = k) xs) \<le> 1"
  by (induction xs) (auto simp: filter_empty_conv image_iff)

lemma reconcile_in_step:
  assumes "in_step E s"
  shows "reconcile E False s = (Inr (), s)"
proof -
  have "reconcile_one E False (sort (remdups (map fst (xw_entries s)))) (named_records E s) i s = (Inr None, s)"
    if "i \<in> set (remdups (map (\<lambda>(_, name). rn_operationId name) (named_records E s)))" for i
  proof -
    have "length (filter (\<lambda>(_, name). rn_operationId name = i) (named_records E s)) \<le> 1"
      using distinct_filter_single [of "\<lambda>(_, name). rn_operationId name" "named_records E s" i] assms
      by (simp add: in_step_def case_prod_unfold)
    moreover have "i \<in> fst ` set (xw_entries s)" using that assms by (auto simp: in_step_def)
    ultimately show ?thesis by (simp add: reconcile_one_def Let_def)
  qed
  then have "collect (reconcile_one E False (sort (remdups (map fst (xw_entries s)))) (named_records E s))
      (remdups (map (\<lambda>(_, name). rn_operationId name) (named_records E s))) s = (Inr [], s)"
    by (rule collect_none)
  then show ?thesis by (simp add: reconcile_def entryIds_def looks_def bnd_def)
qed

text \<open>An identity the index knows nothing of.\<close>

definition unknown_identity :: "'f index_world \<Rightarrow> op_identity \<Rightarrow> bool" where
  "unknown_identity s i \<longleftrightarrow> map_of (xw_entries s) (oi_operationId i) = None \<and>
     (case oi_idempotencyHash i of None \<Rightarrow> True | Some h \<Rightarrow> h \<notin> fst ` set (xw_pointers s) \<and> read_pointer s h = Inr None)"

lemma resolve_unknown:
  assumes "in_step E s" "unknown_identity s i"
  shows "resolve_identity E i s = (Inr None, s)"
proof -
  have entry: "stored_entry (oi_operationId i) s = (Inr None, s)"
    using assms(2) by (simp add: stored_entry_def looks_def read_entry_def unknown_identity_def)
  have entries: "or_reconciled E (stored_entry (oi_operationId i)) s = (Inr None, s)"
    using entry reconcile_in_step [OF assms(1)] by (simp add: or_reconciled_def bnd_def)
  show ?thesis
  proof (cases "oi_idempotencyHash i")
    case None
    then show ?thesis using entry entries by (simp add: resolve_identity_def repairing_def try_catch_def bnd_def)
  next
    case (Some h)
    then have "pointer h s = (Inr None, s)" using assms(2) by (simp add: pointer_def looks_def unknown_identity_def)
    then have "or_reconciled E (pointer h) s = (Inr None, s)"
      using reconcile_in_step [OF assms(1)] by (simp add: or_reconciled_def bnd_def)
    with Some show ?thesis using entry
      by (simp add: resolve_identity_def repairing_def try_catch_def byIdempotency_def bnd_def)
  qed
qed

definition admitted_world :: "op_identity \<Rightarrow> op_entry \<Rightarrow> 'f index_world \<Rightarrow> 'f index_world" where
  "admitted_world i x s = s\<lparr>xw_open := AList.update (oe_operationId x) (Intact x) (xw_open s),
     xw_entries := AList.update (oe_operationId x) (Intact x) (xw_entries s),
     xw_pointers := (case oi_idempotencyHash i of None \<Rightarrow> xw_pointers s | Some h \<Rightarrow> AList.update h (Some [oi_operationId i]) (xw_pointers s)),
     xw_life := xw_life s - (if oi_idempotencyHash i = None then 2 else 3)\<rparr>"

lemma write_unknown:
  assumes "unknown_identity s i" "3 \<le> xw_life s"
  shows "write_admission i x s = (Inr (), admitted_world i x s)"
proof -
  have entry: "read_entry (xw_entries s) (oi_operationId i) = Inr None"
    using assms(1) by (simp add: read_entry_def unknown_identity_def)
  show ?thesis
    using assms by (cases "oi_idempotencyHash i")
      (simp_all add: write_admission_def stored_entry_def looks_def entry putPointer_def put_def putOpen_def putEntry_def bnd_def
        unknown_identity_def admitted_world_def numeral_2_eq_2 numeral_3_eq_3)
qed

text \<open>
  The run of an admission whose first check passes: the check, what other processes do until the lock
  is had, the second look at the open entries, the write.
\<close>

lemma admit_steps:
  assumes "answers E" "in_step E s" "unknown_identity s i" "recordPathFor E i = Inr path"
    "check_claims E (wanted\<lparr>wc_except := Some (oi_operationId i)\<rparr>) (s\<lparr>xw_tick := Suc (xw_tick s)\<rparr>) = (Inr clear, t)"
    "xe_others E (Suc (xw_tick t)) (t\<lparr>xw_tick := Suc (xw_tick t)\<rparr>) = u" "openEntries u = (Inr es, u)"
    "\<forall>e \<in> set es. collides (wanted\<lparr>wc_except := Some (oi_operationId i)\<rparr>)
       (wantedClaims (wanted\<lparr>wc_except := Some (oi_operationId i)\<rparr>)) e \<longrightarrow> oe_operationId e \<in> set clear"
    "unknown_identity u i" "3 \<le> xw_life u"
  shows "admit_claims E i wanted s =
    (Inr (), admitted_world i (admitted_entry i wanted path (xe_now E (xw_tick s))) u)"
proof -
  let ?w = "wanted\<lparr>wc_except := Some (oi_operationId i)\<rparr>"
  have quiet: "\<not> list_ex (\<lambda>e. oe_operationId e \<notin> set clear) (filter (collides ?w (wantedClaims ?w)) es)"
    using assms(8) by (auto simp: list_ex_iff)
  have lock: "xe_lock E n = Inr ()" for n using assms(1) by (simp add: answers_def)
  have "claim_attempts E (Suc n) ?w (write_admission i x) (s\<lparr>xw_tick := Suc (xw_tick s)\<rparr>) = (Inr (), admitted_world i x u)" for n x
    using quiet by (simp add: bnd_def assms(5-7) index_lock_def asks_def query_def lock meet_def write_unknown [OF assms(9,10)])
  then have "claimUnderLock E ?w (write_admission i x) (s\<lparr>xw_tick := Suc (xw_tick s)\<rparr>) = (Inr (), admitted_world i x u)" for x
    by (simp add: claimUnderLock_def numeral_2_eq_2)
  then show ?thesis
    by (simp add: admit_claims_def repairing_def try_catch_def bnd_def reconcile_in_step [OF assms(2)]
        resolve_unknown [OF assms(2,3)] assms(4) query_def)
qed

lemma check_idle: "xw_open s = [] \<Longrightarrow> check_claims E w s = (Inr [], s)"
  by (simp add: check_claims_def openEntries_def openIds_def looks_def bnd_def Let_def sweep_def)

lemma openEntries_single:
  "xw_open s = [(oe_operationId x, Intact x)] \<Longrightarrow> validateIndexEntry (oe_operationId x) x = Inr x \<Longrightarrow> openEntries s = (Inr [x], s)"
  by (simp add: openEntries_def openIds_def looks_def bnd_def load_open_def read_entry_def)

lemma shard_cong: "xw_shards t = xw_shards s \<Longrightarrow> shard t = shard s"
  by (simp add: shard_def fun_eq_iff)

lemma unknown_cong:
  assumes "unknown_identity s i" "xw_shards t = xw_shards s" "fst ` set (xw_pointers t) \<subseteq> fst ` set (xw_pointers s)"
    "map_of (xw_entries t) (oi_operationId i) = None"
  shows "unknown_identity t i"
proof (cases "oi_idempotencyHash i")
  case (Some h)
  with assms(1) have "h \<notin> fst ` set (xw_pointers s)" "read_pointer s h = Inr None" by (simp_all add: unknown_identity_def)
  moreover from this assms(3) have "h \<notin> fst ` set (xw_pointers t)" by blast
  moreover have "map_of ps h = None" if "h \<notin> fst ` set ps" for ps :: "(string \<times> string list option) list"
    using that by (simp add: map_of_eq_None_iff)
  ultimately show ?thesis
    using Some assms(4) by (simp add: unknown_identity_def read_pointer_def shard_cong [OF assms(2)])
qed (use assms(4) in \<open>simp add: unknown_identity_def\<close>)

lemma forgotten_files:
  "xw_open (forgotten x s) = AList.delete (oe_operationId x) (xw_open s)"
  "xw_entries (forgotten x s) = AList.delete (oe_operationId x) (xw_entries s)"
  "fst ` set (xw_pointers (forgotten x s)) \<subseteq> fst ` set (xw_pointers s)" "xw_shards (forgotten x s) = xw_shards s"
  "xw_tick (forgotten x s) = xw_tick s" "xw_life s \<le> xw_life (forgotten x s) + 3" "xw_records (forgotten x s) = xw_records s"
proof -
  have "fst ` set (AList.delete h ps) \<subseteq> fst ` set ps" for h and ps :: "(string \<times> string list option) list"
    using delete_keys [of h ps] by (auto simp: image_iff AList.delete_eq)
  then show "fst ` set (xw_pointers (forgotten x s)) \<subseteq> fst ` set (xw_pointers s)"
    by (cases "oe_idempotencyHash x") (simp_all add: forgotten_def Let_def)
qed (auto simp: forgotten_def Let_def split: option.split)

lemma unknown_forgotten: "unknown_identity s i \<Longrightarrow> unknown_identity (forgotten x s) i"
  by (rule unknown_cong [OF _ forgotten_files(4,3)]) (simp_all add: forgotten_files delete_conv' unknown_identity_def)

lemma unknown_tick [simp]: "unknown_identity (s\<lparr>xw_tick := n\<rparr>) i = unknown_identity s i"
proof -
  have "unknown_identity t i" if "unknown_identity s i" "xw_shards t = xw_shards s" "xw_pointers t = xw_pointers s" "xw_entries t = xw_entries s"
    for s t :: "'a index_world"
    using that unknown_cong [of s i t] by (simp add: unknown_identity_def)
  from this [of s "s\<lparr>xw_tick := n\<rparr>"] this [of "s\<lparr>xw_tick := n\<rparr>" s] show ?thesis by auto
qed

lemma forgotten_tick: "(forgotten x s)\<lparr>xw_tick := n\<rparr> = forgotten x (s\<lparr>xw_tick := n\<rparr>)"
  by (cases "oe_idempotencyHash x") (simp_all add: forgotten_def Let_def)

lemma openEntries_none: "xw_open s = [] \<Longrightarrow> openEntries s = (Inr [], s)"
  by (simp add: openEntries_def openIds_def looks_def bnd_def)

text \<open>
  The check meets one open entry, an admission without a record whose lease is over: it is forgotten,
  by the check itself when it collides and by the sweep otherwise.
\<close>

lemma check_expired:
  assumes "answers E" "recordless E s x" "xw_open s = [(oe_operationId x, Intact x)]" "3 \<le> xw_life s"
    "\<And>n. \<not> leased x (xe_now E n)" "\<And>n m. xe_others E n (s\<lparr>xw_tick := m\<rparr>) = s\<lparr>xw_tick := m\<rparr>"
  shows "\<exists>clear n. check_claims E w s = (Inr clear, forgotten x (s\<lparr>xw_tick := n\<rparr>)) \<and>
    (collides w (wantedClaims w) x \<longrightarrow> clear = [oe_operationId x])"
proof -
  have inspected: "inspect_entry E x v (s\<lparr>xw_tick := n\<rparr>) = (Inr Clear, forgotten x (s\<lparr>xw_tick := Suc (Suc (Suc n))\<rparr>))" for v n
  proof -
    have "recordless E (s\<lparr>xw_tick := k\<rparr>) x" for k using assms(2) by simp
    note forgets = forget_recordless [OF assms(1) this] and inspects = inspect_recordless [OF assms(1) this]
    from forgets [of "Suc (Suc n)"] assms(4,6) have "forget E x (s\<lparr>xw_tick := Suc (Suc n)\<rparr>) = (Inr (), forgotten x (s\<lparr>xw_tick := Suc (Suc (Suc n))\<rparr>))"
      by simp
    then show ?thesis by (simp add: inspects Let_def assms(5) bnd_def)
  qed
  have tick: "s = s\<lparr>xw_tick := xw_tick s\<rparr>" by simp
  note opened = openEntries_single [OF assms(3) recordlessD(4) [OF assms(2)]]
  show ?thesis
  proof (cases "collides w (wantedClaims w) x")
    case True
    then have "check_claims E w s = (Inr [oe_operationId x], forgotten x (s\<lparr>xw_tick := Suc (Suc (Suc (xw_tick s)))\<rparr>))"
      using inspected [of _ "xw_tick s"] by (simp add: check_claims_def bnd_def opened Let_def sweep_def)
    then show ?thesis by blast
  next
    case False
    then have "check_claims E w s = (Inr [], forgotten x (s\<lparr>xw_tick := Suc (Suc (Suc (Suc (xw_tick s))))\<rparr>))"
      using inspected [of _ "Suc (xw_tick s)"]
      by (simp add: check_claims_def bnd_def opened Let_def sweep_def query_def GC_PER_CHECK_def)
    with False show ?thesis by blast
  qed
qed

section \<open>The account comes free\<close>


section \<open>One operation per account\<close>

text \<open>What stands in the index after an admission: the admission, and beside it harmless operations.\<close>

definition admission_claims :: "op_identity \<Rightarrow> wanted_claims \<Rightarrow> wanted_claims" where
  "admission_claims i wanted = wanted\<lparr>wc_claims := wantedClaims wanted, wc_except := Some (oi_operationId i)\<rparr>"

lemma admitted_beside:
  assumes "alone E" "admit_claims E i wanted s = (Inr (), t)"
  shows "\<exists>path now. open_entry t (admitted_entry i wanted path now)"
    "\<And>x. open_entry t x \<Longrightarrow> is_ok (validateIndexEntry (oe_operationId x) x) \<Longrightarrow> oe_operationId x \<noteq> oi_operationId i \<Longrightarrow>
      collidingClaims (oe_claims x) (wantedClaims wanted) \<noteq> [] \<Longrightarrow> harmless E t (admission_claims i wanted) x"
proof -
  let ?own = "wanted\<lparr>wc_except := Some (oi_operationId i)\<rparr>"
  have same: "wantedClaims ?own = wantedClaims wanted" by (simp add: wantedClaims_def)
  have w: "?own\<lparr>wc_claims := wantedClaims ?own\<rparr> = admission_claims i wanted" by (simp add: admission_claims_def same)
  from admit_claims_InrD [OF assms(2)] obtain path now s' where
    "claimUnderLock E ?own (write_admission i (admitted_entry i wanted path now)) s' = (Inr (), t)" by blast
  from claim_exclusive [OF assms(1) this] obtain u where written: "write_admission i (admitted_entry i wanted path now) u = (Inr (), t)"
    and others: "\<And>x. open_entry u x \<Longrightarrow> is_ok (validateIndexEntry (oe_operationId x) x) \<Longrightarrow> collides ?own (wantedClaims ?own) x \<Longrightarrow>
      harmless E u (?own\<lparr>wc_claims := wantedClaims ?own\<rparr>) x" by blast
  have id: "oe_operationId (admitted_entry i wanted path now) = oi_operationId i" by (simp add: admitted_entry_def entryOf_def)
  note t = write_admission_InrD [OF written id]
  have "open_entry t (admitted_entry i wanted path now)" by (simp add: open_entry_def t(2) update_conv')
  then show "\<exists>path now. open_entry t (admitted_entry i wanted path now)" by blast
  fix x assume x: "open_entry t x" "is_ok (validateIndexEntry (oe_operationId x) x)"
    "oe_operationId x \<noteq> oi_operationId i" "collidingClaims (oe_claims x) (wantedClaims wanted) \<noteq> []"
  from x(1,3) have "open_entry u x" by (simp add: open_entry_def t(2) update_conv' id)
  moreover have "collides ?own (wantedClaims ?own) x" using x(3,4) by (simp add: collides_def same)
  ultimately have "harmless E u (admission_claims i wanted) x" using others x(2) w by metis
  then show "harmless E t (admission_claims i wanted) x" using harmless_cong [of t u E] t(1) by simp
qed


section \<open>At the sample index\<close>

lemma sample_answers: "answers (sample_index_env others)"
  by (simp add: answers_def sample_index_env_def)

lemma calm_alone: "alone calm_env"
  by (simp add: alone_def calm_env_def sample_index_env_def)

lemma sample_entry_adapter: "adapter_of (sample_index_env others) (sample_admission p c at) = Some sample_family"
  by (simp add: adapter_of_def sample_index_env_def sample_family_def)

lemma sample_recordPath: "recordPathFor (sample_index_env others) (sample_identity p c) = Inr (sample_path p c)"
  by (simp add: recordPathFor_def sample_index_env_def sample_family_def sample_identity_def sample_path_def)

lemma sample_recordless: "recordless (sample_index_env others) sample_index_world orphan"
proof -
  have "nameOf orphan \<noteq> None" using sample_path_parse [of "CHR ''a''" "CHR ''b''"] by (simp add: nameOf_def)
  then show ?thesis
    using sample_entry_valid [of "CHR ''a''" "CHR ''b''" 0] by (simp add: recordless_def sample_entry_adapter sample_index_world_def sample_family_def)
qed

lemma sample_in_step: "xw_records s = [] \<Longrightarrow> in_step E s"
proof -
  assume "xw_records s = []"
  then have "set (named_records E s) = {}" by (simp add: named_records_def recordNames_def)
  then show "in_step E s" by (simp add: in_step_def)
qed

lemma sample_unknown:
  assumes "c \<in> set ''abcd''" "hex64 c \<notin> fst ` set (xw_entries s)" "hex64 c \<notin> fst ` set (xw_pointers s)" "xw_shards s = []"
  shows "unknown_identity s (sample_identity p c)"
proof -
  have "take (Suc 0) (hex64 c) = [c]" by (simp add: hex64_def)
  moreover have "lower_hex c" using assms(1) by (auto simp: lower_hex_def)
  moreover note map_of_eq_None_iff [THEN iffD2, OF assms(2)] map_of_eq_None_iff [THEN iffD2, OF assms(3)]
  ultimately show ?thesis using assms(2-4) by (simp add: unknown_identity_def sample_identity_def read_pointer_def shard_def)
qed

lemma sample_forgotten: "forgotten orphan (sample_index_world\<lparr>xw_tick := n\<rparr>) = empty_index_world\<lparr>xw_tick := n, xw_life := 37\<rparr>"
  by (simp add: forgotten_def Let_def sample_index_world_def empty_index_world_def)

lemma sample_leased: "leased (sample_admission p c at) now \<longleftrightarrow> now < at + 600000"
  by (auto simp: leased_def ADMISSION_LEASE_MS_def)

lemma sample_values [simp]:
  "xw_life sample_index_world = 40" "xw_open sample_index_world = [(hex64 CHR ''b'', Intact orphan)]"
  "xw_entries sample_index_world = [(hex64 CHR ''b'', Intact orphan)]" "xw_records sample_index_world = []"
  "xw_tick sample_index_world = 0" "xe_now (sample_index_env others) n = 10000000" "oi_operationId (sample_identity p c) = hex64 c"
  "xw_open empty_index_world = []" "xw_entries empty_index_world = []" "xw_pointers empty_index_world = []"
  "xw_records empty_index_world = []" "xw_shards empty_index_world = []" "xw_shards sample_index_world = []"
  "xw_pointers sample_index_world = [(hex64 CHR ''b'', Some [hex64 CHR ''b''])]" "xw_life empty_index_world = 40" "xw_tick empty_index_world = 0"
  by (simp_all add: empty_index_world_def sample_index_world_def calm_env_def sample_index_env_def sample_identity_def)

lemmas at_calm = sample_answers [of "\<lambda>_ s. s", folded calm_env_def] sample_recordless [of "\<lambda>_ s. s", folded calm_env_def]
  sample_recordPath [of "\<lambda>_ s. s", folded calm_env_def] sample_values(6) [of "\<lambda>_ s. s", folded calm_env_def]

theorem admission_lease_witness:
  "\<exists>t. inspect_entry calm_env orphan (Some (sample_wanted CHR ''d'')) sample_index_world = (Inr Clear, t) \<and>
     map_of (xw_open t) (hex64 CHR ''b'') = None"
  using admission_lease [OF at_calm(1) calm_alone at_calm(2), of 0 10000000 "sample_wanted CHR ''d''"]
  by (auto simp: at_calm(4))


lemma calm_admits:
  assumes "p \<in> set ''abcd''" "c \<in> set ''abcd''" "3 \<le> l"
  shows "admit_claims calm_env (sample_identity p c) (sample_wanted p) (empty_index_world\<lparr>xw_tick := n, xw_life := l\<rparr>) =
    (Inr (), admitted_world (sample_identity p c) (sample_admission p c 10000000) (empty_index_world\<lparr>xw_tick := n + 2, xw_life := l\<rparr>))"
proof -
  let ?w = "(sample_wanted p)\<lparr>wc_except := Some (oi_operationId (sample_identity p c))\<rparr>" and ?s = "empty_index_world\<lparr>xw_tick := n, xw_life := l\<rparr>"
  let ?t = "?s\<lparr>xw_tick := Suc (xw_tick ?s)\<rparr>" and ?u = "empty_index_world\<lparr>xw_tick := n + 2, xw_life := l\<rparr>"
  have "xe_others calm_env m s = s" for m s by (simp add: calm_env_def sample_index_env_def)
  moreover have "check_claims calm_env ?w ?t = (Inr [], ?t)" by (rule check_idle) simp
  moreover have "in_step calm_env ?s" by (rule sample_in_step) simp
  moreover have "unknown_identity ?s (sample_identity p c)" "unknown_identity ?u (sample_identity p c)"
    using assms by (simp_all add: sample_unknown)
  moreover have "openEntries ?u = (Inr [], ?u)" by (rule openEntries_none) simp
  ultimately show ?thesis
    using admit_steps [OF at_calm(1) _ _ at_calm(3), where ?wanted = "sample_wanted p" and ?s = ?s and ?t = ?t and ?u = ?u and ?es = "[]" and ?clear = "[]"] assms(3)
    by (simp add: at_calm(4) sample_admission_def)
qed


theorem failed_prepare_releases_witness:
  "\<exists>t. admit_index calm_env identity_c (sample_wanted CHR ''d'') (lift (Inl (OtherError ''no funds''))) (empty_index_world\<lparr>xw_tick := 0, xw_life := 40\<rparr>) =
     (Inl (OtherError ''no funds'') :: unit result, t) \<and> map_of (xw_open t) (hex64 CHR ''c'') = None"
proof -
  note run = calm_admits [of "CHR ''d''" "CHR ''c''" 40 0, simplified]
  let ?s = "admitted_world identity_c (sample_admission CHR ''d'' CHR ''c'' 10000000) (empty_index_world\<lparr>xw_tick := Suc (Suc 0), xw_life := 40\<rparr>)"
  have "nameOf (sample_admission CHR ''d'' CHR ''c'' 10000000) \<noteq> None"
    using sample_path_parse [of "CHR ''d''" "CHR ''c''"] by (simp add: nameOf_def)
  then have "recordless calm_env ?s (sample_admission CHR ''d'' CHR ''c'' 10000000)"
    using sample_entry_valid [of "CHR ''d''" "CHR ''c''" 10000000]
    by (simp add: recordless_def sample_entry_adapter calm_env_def admitted_world_def sample_identity_def sample_family_def)
  moreover have "3 \<le> xw_life ?s" by (simp add: admitted_world_def sample_identity_def)
  moreover have "lift (Inl (OtherError ''no funds'')) ?s = (Inl (OtherError ''no funds'') :: unit result, ?s)" by simp
  ultimately show ?thesis
    using failed_prepare_releases [OF at_calm(1) calm_alone run, of "lift (Inl (OtherError ''no funds'')) :: (unit index_world, unit) stm"]
    by (fastforce simp: numeral_2_eq_2)
qed

section \<open>The window between check and lock\<close>

text \<open>
  Another process retries operation b, as the documentation of \<^verbatim>\<open>admit\<close> allows at any time, as soon
  as it finds b gone.
\<close>

definition retry :: "nat \<Rightarrow> unit index_world \<Rightarrow> unit index_world" where
  "retry n s = (if map_of (xw_open s) (hex64 CHR ''b'') = None
     then snd (admit_claims calm_env identity_b (sample_wanted CHR ''a'') s) else s)"

text \<open>
  The property C29. The guard has a window in which one account is admitted twice.
  The check of c verifies b, whose lease is over, forgets it and remembers its id as clear. The retry
  admits b again before c has the lock. The second look of c sees b collide but clear, and writes: two
  operations are admitted on one account, both with a fresh lease.
\<close>

theorem readmission_race:
  "\<exists>s b c. admit_claims (sample_index_env retry) identity_c (sample_wanted CHR ''d'') sample_index_world = (Inr (), s) \<and>
     open_entry s b \<and> open_entry s c \<and> oe_operationId b \<noteq> oe_operationId c \<and> leased b 10000000 \<and> leased c 10000000 \<and>
     collidingClaims (oe_claims b) (oe_claims c) \<noteq> []"
proof -
  let ?E = "sample_index_env retry" and ?s = "sample_index_world\<lparr>xw_tick := Suc 0\<rparr>"
  let ?w = "(sample_wanted CHR ''d'')\<lparr>wc_except := Some (oi_operationId identity_c)\<rparr>"
  let ?b = "sample_admission CHR ''a'' CHR ''b'' 10000000" and ?c = "sample_admission CHR ''d'' CHR ''c'' 10000000"
  have others: "xe_others ?E = retry" by (simp add: sample_index_env_def)
  have collides: "collides ?w (wantedClaims ?w) (sample_admission CHR ''a'' CHR ''b'' at)" for at
    using sample_collides(1) [where p = "CHR ''a''" and c = "CHR ''b''" and at = at and q = "CHR ''d''"] by (simp add: collides_def)
  have "recordless ?E ?s orphan" using sample_recordless [of retry] by simp
  moreover have "retry n (?s\<lparr>xw_tick := m\<rparr>) = ?s\<lparr>xw_tick := m\<rparr>" for n m by (simp add: retry_def)
  ultimately obtain clear n where checked: "check_claims ?E ?w ?s = (Inr clear, forgotten orphan (?s\<lparr>xw_tick := n\<rparr>))"
    "clear = [hex64 CHR ''b'']"
    using check_expired [OF sample_answers [of retry], of ?s orphan ?w] collides [of 0] by (auto simp: others sample_leased)
  let ?u = "admitted_world identity_b ?b (empty_index_world\<lparr>xw_tick := n + 3, xw_life := 37\<rparr>)"
  have gone: "forgotten orphan (?s\<lparr>xw_tick := n\<rparr>) = empty_index_world\<lparr>xw_tick := n, xw_life := 37\<rparr>" for n
    using sample_forgotten [of n] by simp
  have readmitted: "retry m (empty_index_world\<lparr>xw_tick := Suc n, xw_life := 37\<rparr>) = ?u" for m
    using calm_admits [of "CHR ''a''" "CHR ''b''" 37 "Suc n"] by (simp add: retry_def numeral_3_eq_3)
  have u: "xw_open ?u = [(hex64 CHR ''b'', Intact ?b)]" by (simp add: admitted_world_def)
  let ?f = "forgotten orphan (?s\<lparr>xw_tick := n\<rparr>)"
  have "in_step ?E sample_index_world" "unknown_identity sample_index_world identity_c" by (simp_all add: sample_in_step sample_unknown)
  note steps = admit_steps [OF sample_answers this sample_recordPath, where wanted = "sample_wanted CHR ''d''", simplified]
  have f: "?f\<lparr>xw_tick := Suc (xw_tick ?f)\<rparr> = empty_index_world\<lparr>xw_tick := Suc n, xw_life := 37\<rparr>"
    unfolding gone by (simp add: empty_index_world_def sample_index_world_def)
  have "xe_others ?E (Suc (xw_tick ?f)) (?f\<lparr>xw_tick := Suc (xw_tick ?f)\<rparr>) = ?u" unfolding f others by (rule readmitted)
  moreover have "openEntries ?u = (Inr [?b], ?u)" using openEntries_single [of ?u ?b] sample_entry_valid [of "CHR ''a''" "CHR ''b''"] by (simp add: u)
  moreover have "unknown_identity ?u identity_c" by (rule sample_unknown) (simp_all add: admitted_world_def sample_identity_def)
  moreover have "3 \<le> xw_life ?u" by (simp add: admitted_world_def sample_identity_def)
  moreover have "oe_operationId ?b \<in> set clear" by (simp add: checked(2))
  ultimately have "admit_claims ?E identity_c (sample_wanted CHR ''d'') sample_index_world =
      (Inr (), admitted_world identity_c (admitted_entry identity_c (sample_wanted CHR ''d'') (sample_path CHR ''d'' CHR ''c'') 10000000) ?u)"
    using checked(1) by (intro steps [of clear ?f ?u "[?b]"]) simp_all
  then have "admit_claims ?E identity_c (sample_wanted CHR ''d'') sample_index_world = (Inr (), admitted_world identity_c ?c ?u)"
    by (simp add: sample_admission_def)
  moreover have "open_entry (admitted_world identity_c ?c ?u) ?b" "open_entry (admitted_world identity_c ?c ?u) ?c"
    by (simp_all add: open_entry_def admitted_world_def update_conv')
  ultimately show ?thesis
    using sample_collides(2) [where p = "CHR ''a''" and c = "CHR ''b''" and at = 10000000 and q = "CHR ''d''" and d = "CHR ''c''" and at' = 10000000]
    by (intro exI [of _ "admitted_world identity_c ?c ?u"] exI [of _ ?b] exI [of _ ?c]) (simp add: sample_leased)
qed

end
