(* ===== verification/RailFamily.thy ===== *)
theory RailFamily
  imports OperationAdmission RailStore
begin

text \<open>
  The family of direct rail transfers in the operation index (\<^verbatim>\<open>operation-index/adapters/rail.ts\<close> with the
  helpers of \<^verbatim>\<open>adapter.ts\<close>): how the index reads the records of the rail service, and what its guard
  promises for their accounts.
\<close>

section \<open>Reading a record without its family's reader\<close>

text \<open>\<^verbatim>\<open>field\<close> of \<^verbatim>\<open>adapter.ts\<close>: a path of own members.\<close>

fun field :: "jval \<Rightarrow> string list \<Rightarrow> jval option" where
  "field value [] = Some value"
| "field (JObj members) (key # path) = (case map_of members key of None \<Rightarrow> None | Some v \<Rightarrow> field v path)"
| "field _ (key # path) = None"

definition text_field :: "jval \<Rightarrow> string list \<Rightarrow> string option" where
  "text_field value path = (case field value path of Some (JStr s) \<Rightarrow> Some s | _ \<Rightarrow> None)"

definition salvageRail :: "string option \<Rightarrow> string option \<Rightarrow> op_claim result" where
  "salvageRail rail acct =
     (case (rail, acct) of
        (Some r, Some a) \<Rightarrow>
          if r = ''solana'' \<and> solana_address_text a then rbind (conflict_domain_key SolanaRail a) (\<lambda>key. Inr (exclusive key))
          else if r = ''tron'' \<and> tron_base58_text a then rbind (conflict_domain_key TronRail a) (\<lambda>key. Inr (exclusive key))
          else Inl (OtherError ''Error'')
      | _ \<Rightarrow> Inl (OtherError ''Error''))"

definition salvageRecord :: "jval \<Rightarrow> (jval \<Rightarrow> op_claim list result) \<Rightarrow> string list \<Rightarrow> salvaged_record" where
  "salvageRecord raw extract profileFields =
     (let hashed = (\<lambda>name. case text_field raw [name] of Some s \<Rightarrow> if hash_text s then Some s else None | None \<Rightarrow> None) in
      \<lparr>sv_profileHashes = remdups (List.map_filter hashed profileFields), sv_idempotencyHash = hashed ''idempotencyHash'',
       sv_claims = (case extract raw of Inl _ \<Rightarrow> None | Inr claims \<Rightarrow> Some claims)\<rparr>)"

section \<open>The adapter\<close>

text \<open>A record file: of the shape of a rail record, or any other JSON, which its reader refuses.\<close>

datatype rail_file = RailShaped rail_operation | OtherShape jval

definition rail_file_json :: "rail_file \<Rightarrow> jval" where
  "rail_file_json f = (case f of RailShaped r \<Rightarrow> operation_json r | OtherShape j \<Rightarrow> j)"

definition RAIL_STORE :: op_store where
  "RAIL_STORE = \<lparr>os_directory = ''rail-operations'', os_perProfile = True\<rparr>"

definition standardIdentity :: "rail_operation \<Rightarrow> record_identity" where
  "standardIdentity r = \<lparr>ri_profileHash = ro_profileHash r, ri_operationId = ro_operationId r,
     ri_idempotencyHash = Some (ro_idempotencyHash r), ri_requestHash = Some (ro_requestHash r)\<rparr>"

definition railDomains :: "rail_operation \<Rightarrow> string result" where
  "railDomains r = conflict_domain_key (ac_rail (ro_account r)) (ac_address (ro_account r))"

text \<open>The repository's \<^verbatim>\<open>loadOperation\<close> at the path of the record.\<close>

definition rail_decode :: "prims \<Rightarrow> string \<Rightarrow> rail_file \<Rightarrow> rail_operation result" where
  "rail_decode P path file =
     rbind (requiredRecordPath RAIL_STORE path) (\<lambda>(profile, operationId).
     case file of OtherShape _ \<Rightarrow> corrupt
     | RailShaped value \<Rightarrow>
         rbind (validateRailOperation P value) (\<lambda>operation.
         rbind (check (Some (ro_profileHash operation) = profile \<and> ro_operationId operation = operationId)) (\<lambda>_. Inr operation)))"

definition railAdapter :: "prims \<Rightarrow> (rail_file, rail_operation) family_adapter" where
  "railAdapter P = \<lparr>fa_family = ''rail_transfer'', fa_stores = [RAIL_STORE],
     fa_path = (\<lambda>path. rbind (requiredRecordPath RAIL_STORE path) (\<lambda>_. Inr ())), fa_decode = rail_decode P,
     fa_identity = standardIdentity,
     fa_claims = (\<lambda>r. case railDomains r of Inl _ \<Rightarrow> None | Inr key \<Rightarrow> Some [exclusive key]),
     fa_holdsProfile = (\<lambda>_. True), fa_terminal = (\<lambda>_ r. Inr (ro_state r \<in> set RAIL_TERMINAL_STATES)),
     fa_state = (\<lambda>r. rail_state_text (ro_state r)), fa_admits = (\<lambda>_ _ _. False),
     fa_salvage = (\<lambda>f. salvageRecord (rail_file_json f) (\<lambda>raw.
       rbind (salvageRail (text_field raw [''account'', ''rail'']) (text_field raw [''account'', ''address''])) (\<lambda>c. Inr [c])) [''profileHash'']),
     fa_unknownClaims = []\<rparr>"

section \<open>Families whose records hold one account\<close>

lemma demand_exclusive: "exclusive key \<in> set cs \<Longrightarrow> demand cs key = Some True"
proof -
  assume "exclusive key \<in> set cs"
  moreover have "cl_key (exclusive key) = key" "\<not> cl_shared (exclusive key)" by (simp_all add: exclusive_def)
  ultimately have "key \<in> cl_key ` set cs" "\<exists>c \<in> set cs. cl_key c = key \<and> \<not> cl_shared c" by (metis imageI, blast)
  then show ?thesis by (simp add: demand_def)
qed

text \<open>
  What the guard relies on: a reader that only returns the record its path names, a family that never
  admits another operation beside its own, and the account key an open record claims exclusively.
\<close>

locale account_family =
  fixes A :: "('f, 'r) family_adapter" and account_key :: "'r \<Rightarrow> string option"
  assumes named: "fa_decode A path f = Inr r \<Longrightarrow>
      \<exists>directory profile. parseRecordPath path = Some (directory, profile, ri_operationId (fa_identity A r)) \<and>
        (profile = None \<or> profile = Some (ri_profileHash (fa_identity A r)))"
    and sole: "\<not> fa_admits A r w c"
    and holds: "account_key r = Some key \<Longrightarrow> \<exists>claims. fa_claims A r = Some claims \<and> exclusive key \<in> set claims"
begin

lemma read_derives:
  assumes "fa_decode A (oe_recordPath e) f = Inr r" "nameOf e = Some name"
  shows "fromRecord A name r = bnd (try_catch (bnd (asks (\<lambda>n. fa_terminal A n r)) (\<lambda>finished. ret (Some finished)))
          (\<lambda>e. if systemFailure e then lift (Inl e) else ret None)) (\<lambda>finished. ret (Some (record_entry A name r finished)))"
  using named [OF assms(1)] assms(2) by (auto simp: fromRecord_def Let_def nameOf_def split: if_splits)

lemma record_holds: "account_key r = Some key \<Longrightarrow> demand (record_claims A p r) key = Some True"
proof -
  assume "account_key r = Some key"
  from holds [OF this] obtain claims where "fa_claims A r = Some claims" "exclusive key \<in> set claims" by blast
  then show ?thesis by (simp add: record_claims_def demand_exclusive)
qed

lemma held_collides:
  assumes "c \<in> set held" "cl_key c = key" "demand wanted key = Some True"
  shows "collidingClaims held (normalizeClaims wanted) \<noteq> []"
proof -
  have "demand (normalizeClaims wanted) key = Some True" using assms(3) by simp
  then obtain w where "w \<in> set (normalizeClaims wanted)" "cl_key w = key" "\<not> cl_shared w"
    by (auto simp: demand_def simp del: demand_normalize split: if_splits)
  with assms(1,2) map_of_claims [OF normalize_distinct, of wanted key w] have "c \<in> set (collidingClaims held (normalizeClaims wanted))"
    by (simp add: collidingClaims_def)
  then show ?thesis by auto
qed

text \<open>A record on the account is never harmless to an admission that wants the account.\<close>

lemma account_blocks:
  assumes "harmless E t w x" "adapter_of E x = Some A" "wc_claims w = normalizeClaims wanted" "demand wanted key = Some True"
    "c \<in> set (oe_claims x)" "cl_key c = key" "map_of (xw_records t) (oe_recordPath x) = Some (Content f)"
    "fa_decode A (oe_recordPath x) f = Inr r"
  shows "account_key r \<noteq> Some key"
proof
  assume key: "account_key r = Some key"
  have stored: "collidingClaims (oe_claims x) (wc_claims w) \<noteq> []" using held_collides [OF assms(5,6,4)] assms(3) by simp
  from assms(1,2,7,8) obtain name where "list_all (fa_admits A r w) (collidingClaims (oe_claims x) (wc_claims w)) \<or>
      list_all (fa_admits A r w) (collidingClaims (oe_claims (record_entry A name r (Some False))) (wc_claims w))"
    by (auto simp: harmless_def)
  with sole stored have "collidingClaims (oe_claims (record_entry A name r (Some False))) (wc_claims w) = []"
    by (cases "collidingClaims (oe_claims x) (wc_claims w)"; cases "collidingClaims (oe_claims (record_entry A name r (Some False))) (wc_claims w)") auto
  moreover obtain c where "c \<in> set (oe_claims (record_entry A name r (Some False)))" "cl_key c = key"
  proof -
    have "demand (oe_claims (record_entry A name r (Some False))) key = Some True"
      by (simp add: record_entry_def Let_def entryOf_def record_holds [OF key])
    then show ?thesis using that by (auto simp: demand_def split: if_splits)
  qed
  ultimately show False using held_collides [OF _ _ assms(4)] assms(3) by metis
qed

text \<open>
  Once an operation that wants the account has been admitted, another open operation of the family that
  claims it is a dead admission, or its record is of another account.
\<close>

lemma admitted_alone:
  assumes "alone E" "find (\<lambda>B. fa_family B = fam) (xe_registry E) = Some A" "exclusive key \<in> set (wc_claims wanted)"
    "admit_claims E i wanted s = (Inr (), t)" "open_entry t x" "is_ok (validateIndexEntry (oe_operationId x) x)"
    "oe_operationId x \<noteq> oi_operationId i" "oe_family x = fam" "key \<in> cl_key ` set (oe_claims x)"
  shows "map_of (xw_records t) (oe_recordPath x) = None \<and> (\<exists>n. \<not> leased x (xe_now E n)) \<or>
    (\<exists>f r. map_of (xw_records t) (oe_recordPath x) = Some (Content f) \<and> fa_decode A (oe_recordPath x) f = Inr r \<and>
      account_key r \<noteq> Some key)"
proof -
  from assms(9) obtain c where c: "c \<in> set (oe_claims x)" "cl_key c = key" by blast
  have A: "adapter_of E x = Some A" using assms(2,8) by (simp add: adapter_of_def)
  obtain more where all: "wantedClaims wanted = normalizeClaims (wc_claims wanted @ more)"
    by (auto simp: wantedClaims_def Let_def)
  have demand: "demand (wc_claims wanted @ more) key = Some True" using assms(3) by (intro demand_exclusive) simp
  have "collidingClaims (oe_claims x) (wantedClaims wanted) \<noteq> []"
    using held_collides [OF c demand] by (simp add: all)
  with admitted_beside(2) [OF assms(1,4)] assms(5-7) have harmless: "harmless E t (admission_claims i wanted) x" by blast
  have w: "wc_claims (admission_claims i wanted) = normalizeClaims (wc_claims wanted @ more)" by (simp add: admission_claims_def all)
  from harmless show ?thesis
    unfolding harmless_def A option.inject using account_blocks [OF harmless A w demand c] by metis
qed

end

text \<open>The rail records keep the contract.\<close>

interpretation rail_family: account_family "railAdapter P" "\<lambda>r. case railDomains r of Inl _ \<Rightarrow> None | Inr key \<Rightarrow> Some key" for P
  by unfold_locales
    (auto simp: railAdapter_def rail_decode_def requiredRecordPath_def standardIdentity_def check_def corrupt_def
      split: option.splits prod.splits if_splits rail_file.splits sum.splits)


text \<open>An index over the records of one family, without any operation yet.\<close>

definition family_index_env :: "('f, 'r) family_adapter \<Rightarrow> ('f, 'r) index_env" where
  "family_index_env A = \<lparr>xe_registry = [A], xe_now = (\<lambda>_. 10000000), xe_random = (\<lambda>_. 0), xe_io = (\<lambda>_ _. Inr ()),
     xe_lock = (\<lambda>_. Inr ()), xe_others = (\<lambda>_ s. s), xe_consent = (\<lambda>_ _. Inr ())\<rparr>"

definition idle_index :: "nat \<Rightarrow> 'f index_world" where
  "idle_index n = \<lparr>xw_entries = [], xw_open = [], xw_pointers = [], xw_shards = [], xw_records = [], xw_tick = n, xw_life = 10\<rparr>"

lemma family_index_run:
  fixes A :: "('f, 'r) family_adapter" and p h defines "i \<equiv> \<lparr>oi_family = fa_family A, oi_profileHash = p, oi_operationId = h, oi_idempotencyHash = None, oi_requestHash = None\<rparr>"
  assumes "fa_stores A \<noteq> []"
  shows "\<exists>t. admit_claims (family_index_env A) i wanted (idle_index 0) = (Inr (), t)"
proof -
  let ?E = "family_index_env A" and ?w = "wanted\<lparr>wc_except := Some (oi_operationId i)\<rparr>"
  have "answers ?E" by (simp add: answers_def family_index_env_def)
  moreover have "in_step ?E (idle_index 0)" by (rule sample_in_step) (simp add: idle_index_def)
  moreover have "unknown_identity (idle_index n) i" for n by (simp add: unknown_identity_def idle_index_def i_def)
  moreover obtain path where "recordPathFor ?E i = Inr path"
    using assms by (cases "fa_stores A") (auto simp: recordPathFor_def family_index_env_def)
  moreover have "check_claims ?E ?w (idle_index 1) = (Inr [], idle_index 1)" by (rule check_idle) (simp add: idle_index_def)
  moreover have "openEntries (idle_index 2) = (Inr [], idle_index 2)" by (rule openEntries_none) (simp add: idle_index_def)
  ultimately show ?thesis
    using admit_steps [of ?E "idle_index 0" i path wanted "[]" "idle_index 1" "idle_index 2" "[]"]
    by (auto simp: family_index_env_def idle_index_def numeral_2_eq_2)
qed


end
