(* ===== verification/SwapRegistry.thy ===== *)
theory SwapRegistry
  imports AssetPolicyLaws
begin

text \<open>
  The protocol registry of the installed swap lanes (\<^verbatim>\<open>swap/protocol-registry.ts\<close>) and the choice of the
  one lane whose route both assets admit (\<^verbatim>\<open>swap/route-admission.ts\<close>).
\<close>

section \<open>The registry\<close>

record swap_protocol_record =
  spr_pin :: swap_mechanism_pin
  spr_mechanismDigest :: string

record swap_protocol_registry =
  spg_registryVersion :: string
  spg_records :: "swap_protocol_record list"
  spg_registryDigest :: string

definition SWAP_PROTOCOL_REGISTRY_SCHEMA :: string where
  "SWAP_PROTOCOL_REGISTRY_SCHEMA = ''apn.swap-protocol-registry.v1''"

text \<open>\<^verbatim>\<open>/^(?=[a-z0-9._-]{1,64}$)(?=.*[0-9])[a-z0-9][a-z0-9._-]*$/\<close>.\<close>

definition registry_version_text :: "string \<Rightarrow> bool" where
  "registry_version_text s \<longleftrightarrow> version_text s \<and> list_ex digit s"

definition protocol_record_json :: "swap_protocol_record \<Rightarrow> jval" where
  "protocol_record_json r = JObj [(''pin'', pin_json (spr_pin r)), (''mechanismDigest'', JStr (spr_mechanismDigest r))]"

definition protocol_registry_body :: "swap_protocol_registry \<Rightarrow> (string \<times> jval) list" where
  "protocol_registry_body g = [(''schemaVersion'', JStr SWAP_PROTOCOL_REGISTRY_SCHEMA), (''registryVersion'', JStr (spg_registryVersion g)),
     (''records'', JArr (map protocol_record_json (spg_records g)))]"

definition protocol_registry_json :: "swap_protocol_registry \<Rightarrow> jval" where
  "protocol_registry_json g = JObj (protocol_registry_body g @ [(''registryDigest'', JStr (spg_registryDigest g))])"

definition pin_identity :: "swap_mechanism_pin \<Rightarrow> string" where
  "pin_identity p = pin_chain p @ [CHR 0x00] @ protocol_text (pin_protocolFamily p) @ [CHR 0x00] @ pin_routerProgramIdentity p @
     [CHR 0x00] @ pin_transactionSchemaVersion p"

definition pin_constructor :: "swap_mechanism_pin \<Rightarrow> string" where
  "pin_constructor p = pin_constructorKind p @ [CHR 0x00] @ pin_constructorIdentity p @ [CHR 0x00] @ pin_constructorVersion p"

text \<open>
  Records are sorted by digest; digests are lower-case hexadecimal, which \<^verbatim>\<open>localeCompare\<close> orders as the
  texts are ordered.
\<close>

definition compileSwapProtocolRegistry :: "prims \<Rightarrow> string \<Rightarrow> swap_mechanism_pin list \<Rightarrow> swap_protocol_registry result" where
  "compileSwapProtocolRegistry P version pins =
     (if \<not> registry_version_text version \<or> length pins > 16 then invalid else
      rbind (rmap (\<lambda>raw. rbind (validateSwapMechanismPin P raw) (\<lambda>pin.
        rbind (swapMechanismDigest P pin) (\<lambda>d. Inr \<lparr>spr_pin = pin, spr_mechanismDigest = d\<rparr>))) pins) (\<lambda>made.
      let records = sort_key spr_mechanismDigest made in
      if \<not> distinct (map (pin_identity \<circ> spr_pin) records) \<or> \<not> distinct (map (pin_constructor \<circ> spr_pin) records) then invalid else
      let body = \<lparr>spg_registryVersion = version, spg_records = records, spg_registryDigest = []\<rparr> in
      rbind (canonicalJson (JObj (protocol_registry_body body))) (\<lambda>t.
        Inr (body\<lparr>spg_registryDigest := domainHash (sha P) SWAP_PROTOCOL_REGISTRY_SCHEMA t\<rparr>))))"

text \<open>Every way to fail is the same refusal.\<close>

definition registry_corrupt :: "'a result" where
  "registry_corrupt = Inl (ApnError APN_STATE_CORRUPT None)"

definition validateSwapProtocolRegistry :: "prims \<Rightarrow> swap_protocol_registry \<Rightarrow> swap_protocol_registry result" where
  "validateSwapProtocolRegistry P value =
     (if \<not> registry_version_text (spg_registryVersion value) \<or> length (spg_records value) > 16 \<or> \<not> hash_text (spg_registryDigest value)
      then registry_corrupt
      else if \<not> list_all (\<lambda>r. swapMechanismDigest P (spr_pin r) = Inr (spr_mechanismDigest r)) (spg_records value) then registry_corrupt
      else case compileSwapProtocolRegistry P (spg_registryVersion value) (map spr_pin (spg_records value)) of
        Inl _ \<Rightarrow> registry_corrupt
      | Inr compiled \<Rightarrow>
          if canonicalJson (protocol_registry_json compiled) \<noteq> canonicalJson (protocol_registry_json value) then registry_corrupt
          else Inr value)"

definition requireSwapProtocol :: "prims \<Rightarrow> swap_protocol_registry \<Rightarrow> string \<Rightarrow> swap_protocol_record result" where
  "requireSwapProtocol P value digest =
     rbind (validateSwapProtocolRegistry P value) (\<lambda>registry.
     case find (\<lambda>r. spr_mechanismDigest r = digest) (spg_records registry) of None \<Rightarrow> denied | Some r \<Rightarrow> Inr r)"

section \<open>The admitted lane\<close>

definition swapAdmissionMechanisms :: "policy_row \<Rightarrow> swap_admission list" where
  "swapAdmissionMechanisms row =
     (if \<not> swap (row_rails row) then []
      else case (case row_mechanismPins row of None \<Rightarrow> None | Some pins \<Rightarrow> pins_swap pins) of
        Some single \<Rightarrow> [single]
      | None \<Rightarrow> (case (case row_mechanismOptions row of None \<Rightarrow> None | Some os \<Rightarrow> options_swap os) of None \<Rightarrow> [] | Some os \<Rightarrow> os))"

text \<open>\<^verbatim>\<open>some\<close>: the digest of an admission that does not validate throws.\<close>

fun admits_route :: "prims \<Rightarrow> string \<Rightarrow> swap_admission list \<Rightarrow> bool result" where
  "admits_route P route [] = Inr False"
| "admits_route P route (m # ms) = rbind (swapRouteDigest P m) (\<lambda>d. if d = route then Inr True else admits_route P route ms)"

definition assetAdmitsSwapMechanism :: "prims \<Rightarrow> policy_row \<Rightarrow> swap_mechanism_pin \<Rightarrow> bool result" where
  "assetAdmitsSwapMechanism P row lanePin =
     rbind (swapRouteDigest P (LegacyPin lanePin)) (\<lambda>route. admits_route P route (swapAdmissionMechanisms row))"

fun rfilter :: "('a \<Rightarrow> bool result) \<Rightarrow> 'a list \<Rightarrow> 'a list result" where
  "rfilter f [] = Inr []"
| "rfilter f (x # xs) = rbind (f x) (\<lambda>keep. rbind (rfilter f xs) (\<lambda>ys. Inr (if keep then x # ys else ys)))"

definition admittedSwapProtocol ::
  "prims \<Rightarrow> swap_protocol_registry \<Rightarrow> string \<Rightarrow> policy_row \<Rightarrow> policy_row \<Rightarrow> string option \<Rightarrow> swap_protocol_record result" where
  "admittedSwapProtocol P registryValue chain source destination laneMechanismDigest =
     rbind (validateSwapProtocolRegistry P registryValue) (\<lambda>registry.
     let lanes = filter (\<lambda>r. pin_chain (spr_pin r) = chain \<and>
       (laneMechanismDigest = None \<or> laneMechanismDigest = Some (spr_mechanismDigest r))) (spg_records registry) in
     rbind (rfilter (\<lambda>r. assetAdmitsSwapMechanism P source (spr_pin r)) lanes) (\<lambda>bySource.
     if bySource = [] then denied else
     rbind (rfilter (\<lambda>r. assetAdmitsSwapMechanism P destination (spr_pin r)) bySource) (\<lambda>both.
     case both of [lane] \<Rightarrow> Inr lane | _ \<Rightarrow> denied)))"

section \<open>What the choice guarantees\<close>

lemma rfilter_Inr: "rfilter f xs = Inr ys \<Longrightarrow> ys = filter (\<lambda>x. f x = Inr True) xs \<and> (\<forall>x \<in> set xs. \<exists>b. f x = Inr b)"
  by (induction xs arbitrary: ys) (auto split: if_splits)

lemma registry_denied_not_Inr [simp]: "denied \<noteq> Inr x"
  by (simp add: denied_def)

lemma only_one: "(case xs of [x] \<Rightarrow> Inr x | _ \<Rightarrow> denied) = Inr r \<longleftrightarrow> xs = [r]"
  by (auto split: list.splits)

lemma admits_route_True: "admits_route P route ms = Inr True \<Longrightarrow> \<exists>m \<in> set ms. swapRouteDigest P m = Inr route"
  by (induction ms) (auto split: if_splits)

lemma asset_admits:
  "assetAdmitsSwapMechanism P row pin = Inr True \<Longrightarrow>
   \<exists>m \<in> set (swapAdmissionMechanisms row). swapRouteDigest P m = swapRouteDigest P (LegacyPin pin)"
  by (auto simp: assetAdmitsSwapMechanism_def dest: admits_route_True)

lemma protocol_registry_self: "validateSwapProtocolRegistry P g = Inr g' \<Longrightarrow> g' = g"
  by (auto simp: validateSwapProtocolRegistry_def registry_corrupt_def split: if_splits sum.splits)

lemma protocol_registry_records:
  "validateSwapProtocolRegistry P g = Inr g' \<Longrightarrow> r \<in> set (spg_records g) \<Longrightarrow> swapMechanismDigest P (spr_pin r) = Inr (spr_mechanismDigest r)"
  by (auto simp: validateSwapProtocolRegistry_def registry_corrupt_def list_all_iff split: if_splits sum.splits)

text \<open>
  The property C31. The lane that is chosen is a record of the validated registry on the
  swap's chain, a mechanism of the source row and one of the destination row have exactly its route,
  and no other record of the registry would have been possible.
\<close>

theorem swap_lane_admitted:
  assumes "admittedSwapProtocol P registry chain source destination lane = Inr r"
  shows "r \<in> set (spg_records registry) \<and> pin_chain (spr_pin r) = chain \<and>
    swapMechanismDigest P (spr_pin r) = Inr (spr_mechanismDigest r) \<and>
    (\<exists>m \<in> set (swapAdmissionMechanisms source). swapRouteDigest P m = swapRouteDigest P (LegacyPin (spr_pin r))) \<and>
    (\<exists>m \<in> set (swapAdmissionMechanisms destination). swapRouteDigest P m = swapRouteDigest P (LegacyPin (spr_pin r))) \<and>
    (\<forall>other \<in> set (spg_records registry). pin_chain (spr_pin other) = chain \<and> (lane = None \<or> lane = Some (spr_mechanismDigest other)) \<and>
      assetAdmitsSwapMechanism P source (spr_pin other) = Inr True \<and>
      assetAdmitsSwapMechanism P destination (spr_pin other) = Inr True \<longrightarrow> other = r)"
proof -
  let ?ok = "\<lambda>x. pin_chain (spr_pin x) = chain \<and> (lane = None \<or> lane = Some (spr_mechanismDigest x))"
  let ?by = "\<lambda>row x. assetAdmitsSwapMechanism P row (spr_pin x) = Inr True"
  from assms obtain g where g: "validateSwapProtocolRegistry P registry = Inr g" and
    both: "[r] = filter (?by destination) (filter (?by source) (filter ?ok (spg_records g)))"
    by (auto simp: admittedSwapProtocol_def Let_def only_one dest!: rfilter_Inr split: if_splits)
  have "set [r] = {x \<in> set (spg_records g). ?ok x \<and> ?by source x \<and> ?by destination x}" unfolding both by auto
  then have r: "{r} = {x \<in> set (spg_records registry). ?ok x \<and> ?by source x \<and> ?by destination x}"
    using protocol_registry_self [OF g] by simp
  then have "r \<in> set (spg_records registry)" "?ok r" "?by source r" "?by destination r" by auto
  with r asset_admits [of P source "spr_pin r"] asset_admits [of P destination "spr_pin r"]
    protocol_registry_records [OF g, of r] show ?thesis by blast
qed

lemma rmap_fixed: "(\<And>x. x \<in> set xs \<Longrightarrow> f (g x) = Inr x) \<Longrightarrow> rmap f (map g xs) = Inr xs"
  by (induction xs) auto

lemma rmap_Inr_set: "rmap f xs = Inr ys \<Longrightarrow> y \<in> set ys \<Longrightarrow> \<exists>x \<in> set xs. f x = Inr y"
  by (induction xs arbitrary: ys) auto

lemma rmap_length: "rmap f xs = Inr ys \<Longrightarrow> length ys = length xs"
  by (induction xs arbitrary: ys) auto

lemma compiled_validates:
  assumes "\<And>t. hash_text (sha P t)" "compileSwapProtocolRegistry P version pins = Inr g"
  shows "validateSwapProtocolRegistry P g = Inr g"
proof -
  let ?entry = "\<lambda>raw. rbind (validateSwapMechanismPin P raw) (\<lambda>pin.
        rbind (swapMechanismDigest P pin) (\<lambda>d. Inr \<lparr>spr_pin = pin, spr_mechanismDigest = d\<rparr>))"
  from assms(2) obtain made t where v: "registry_version_text version" "length pins \<le> 16" and made: "rmap ?entry pins = Inr made" and
    entries: "spg_records g = sort_key spr_mechanismDigest made" and version: "spg_registryVersion g = version" and
    digest: "spg_registryDigest g = domainHash (sha P) SWAP_PROTOCOL_REGISTRY_SCHEMA t"
    by (auto simp: compileSwapProtocolRegistry_def Let_def invalid_def split: if_splits)
  have each: "?entry (spr_pin r) = Inr r \<and> swapMechanismDigest P (spr_pin r) = Inr (spr_mechanismDigest r)" if "r \<in> set (spg_records g)" for r
  proof -
    from that have "r \<in> set made" by (simp add: entries)
    then obtain raw where "?entry raw = Inr r" using rmap_Inr_set [OF made] by blast
    then obtain d where "validateSwapMechanismPin P raw = Inr raw" "swapMechanismDigest P raw = Inr d"
      "r = \<lparr>spr_pin = raw, spr_mechanismDigest = d\<rparr>" using pin_route_valid(2) by auto
    then show ?thesis by simp
  qed
  then have "rmap ?entry (map spr_pin (spg_records g)) = Inr (spg_records g)" by (intro rmap_fixed) blast
  moreover have "sort_key spr_mechanismDigest (spg_records g) = spg_records g" by (simp add: entries sort_key_id_if_sorted)
  ultimately have "compileSwapProtocolRegistry P version (map spr_pin (spg_records g)) = Inr g"
    using assms(2) made rmap_length [OF made] by (simp add: compileSwapProtocolRegistry_def Let_def entries split: if_splits)
  moreover have "list_all (\<lambda>r. swapMechanismDigest P (spr_pin r) = Inr (spr_mechanismDigest r)) (spg_records g)"
    using each by (simp add: list_all_iff)
  moreover have "hash_text (spg_registryDigest g)" by (simp add: digest domainHash_def assms(1))
  ultimately show ?thesis
    using v rmap_length [OF made] by (simp add: validateSwapProtocolRegistry_def version entries)
qed

text \<open>
  A registry that compiles is accepted, unchanged, by the validation
  every reader applies.
\<close>

lemma protocol_registry_roundtrip:
  assumes "\<And>t. hash_text (sha P t)" "compileSwapProtocolRegistry P version pins = Inr g"
  shows "validateSwapProtocolRegistry P g = Inr g"
  by (rule compiled_validates) (rule assms)+

section \<open>A lane\<close>

definition sample_pin :: swap_mechanism_pin where
  "sample_pin = \<lparr>pin_protocolFamily = UniswapEthereum, pin_networkFamily = Evm, pin_chain = ''eip155:1'', pin_protocolVersion = ''3'',
     pin_constructorKind = ''sdk'', pin_constructorIdentity = ''apn'', pin_constructorVersion = ''1'', pin_routerProgramIdentity = ''r'',
     pin_auxiliary = [], pin_quoteSchemaVersion = ''1'', pin_transactionSchemaVersion = ''2'', pin_validationPolicyIdentity = ''apn'',
     pin_validationPolicyVersion = ''1''\<rparr>"

lemma sample_pin_valid: "validateSwapMechanismPin sample_prims sample_pin = Inr sample_pin"
  by code_simp

lemma pin_plain: "plain_json (pin_json p)"
  by (simp add: pin_json_def list_all_iff)

lemma sample_pin_digest: "swapMechanismDigest sample_prims sample_pin = Inr aaa"
  using sample_canonical [OF pin_plain] by (simp add: swapMechanismDigest_def sample_pin_valid del: rbind_eq_Inr)

definition sample_swap_registry :: swap_protocol_registry where
  "sample_swap_registry = \<lparr>spg_registryVersion = ''1'', spg_records = [\<lparr>spr_pin = sample_pin, spr_mechanismDigest = aaa\<rparr>],
     spg_registryDigest = aaa\<rparr>"

lemma sample_compiled: "compileSwapProtocolRegistry sample_prims ''1'' [sample_pin] = Inr sample_swap_registry"
proof -
  have plain: "plain_json (JObj (protocol_registry_body g))" for g
    by (simp add: protocol_registry_body_def protocol_record_json_def pin_plain list_all_iff)
  have "registry_version_text ''1''" by code_simp
  moreover have "rbind (canonicalJson (JObj (protocol_registry_body g))) (\<lambda>t. Inr (f (domainHash (sha sample_prims) d t))) = Inr (f aaa)" for f g d
    using canonicalJson_total [OF plain] by (auto simp: domainHash_def)
  ultimately show ?thesis
    by (simp add: compileSwapProtocolRegistry_def sample_pin_valid sample_pin_digest sample_swap_registry_def Let_def del: rbind_eq_Inr)
qed

definition sample_swap_row :: policy_row where
  "sample_swap_row = sample_row\<lparr>row_rails := \<lparr>direct = False, gasless = False, x402 = False, bridge = False, swap = True\<rparr>,
     row_mechanismPins := Some \<lparr>pins_gasless = None, pins_x402 = None, pins_bridge = None, pins_swap = Some (LegacyPin sample_pin)\<rparr>\<rparr>"

lemma sample_route: "swapRouteDigest sample_prims (LegacyPin sample_pin) = Inr aaa"
proof -
  have "plain_json (route_json r)" for r by (simp add: route_json_def list_all_iff)
  then show ?thesis
    using sample_canonical by (simp add: swapRouteDigest_def validateSwapAdmissionMechanism_def sample_pin_valid del: rbind_eq_Inr)
qed

lemma sample_lane:
  "admittedSwapProtocol sample_prims sample_swap_registry ''eip155:1'' sample_swap_row sample_swap_row None =
     Inr \<lparr>spr_pin = sample_pin, spr_mechanismDigest = aaa\<rparr>"
proof -
  have "validateSwapProtocolRegistry sample_prims sample_swap_registry = Inr sample_swap_registry"
    by (rule compiled_validates [OF _ sample_compiled]) (simp add: hash_text_def lower_hex_def list_all_iff)
  moreover have "assetAdmitsSwapMechanism sample_prims sample_swap_row sample_pin = Inr True"
    by (simp add: assetAdmitsSwapMechanism_def sample_route swapAdmissionMechanisms_def sample_swap_row_def)
  moreover have "pin_chain sample_pin = ''eip155:1''" by (simp add: sample_pin_def)
  ultimately show ?thesis by (simp add: admittedSwapProtocol_def sample_swap_registry_def)
qed

theorem swap_lane_admitted_witness:
  "\<exists>r. admittedSwapProtocol sample_prims sample_swap_registry ''eip155:1'' sample_swap_row sample_swap_row None = Inr r \<and>
    (\<exists>m \<in> set (swapAdmissionMechanisms sample_swap_row). swapRouteDigest sample_prims m = swapRouteDigest sample_prims (LegacyPin (spr_pin r)))"
  using swap_lane_admitted [OF sample_lane] sample_lane by blast

end
