(* ===== verification/SwapQuote.thy ===== *)
theory SwapQuote
  imports DirectGate
begin

text \<open>
  The quote a guarded swap is frozen to (\<^verbatim>\<open>swap/quote.ts\<close>) and the resolution of its assets in the
  frozen inventory (\<^verbatim>\<open>resolveAllowlistAsset\<close> of \<^verbatim>\<open>allowlist-inventory.ts\<close>).
\<close>

section \<open>Assets of the inventory\<close>

text \<open>\<^verbatim>\<open>canonicalToken\<close> of the inventory: the exact canonical spelling, never the zero address.\<close>

definition inventoryToken :: "prims \<Rightarrow> family \<Rightarrow> string \<Rightarrow> string result" where
  "inventoryToken P fam raw =
     (case family_address P fam raw of
        None \<Rightarrow> Inl (ApnError APN_ALLOWLIST_IDENTITY_INVALID (Some ''invalid_token_identifier''))
      | Some canonical \<Rightarrow>
          if canonical \<noteq> raw \<or> canonical = zero_evm
          then Inl (ApnError APN_ALLOWLIST_IDENTITY_INVALID (Some ''invalid_token_identifier'')) else Inr canonical)"

text \<open>
  The family of a network is the one of its identity, which the loader of the inventory checks; every
  network has its native row.
\<close>

definition resolveAllowlistAsset :: "prims \<Rightarrow> inventory \<Rightarrow> string \<Rightarrow> asset_kind \<Rightarrow> string option \<Rightarrow> listed_asset result" where
  "resolveAllowlistAsset P dataset chain kind identifier =
     (case (if chain \<in> set (iv_networks dataset) then policyChainFamily chain else None) of
        None \<Rightarrow> Inl (ApnError APN_ALLOWLIST_UNKNOWN_CHAIN (Some ''unknown_chain''))
      | Some fam \<Rightarrow>
          (case kind of
             Native \<Rightarrow>
               if identifier \<noteq> None then Inl (ApnError APN_ALLOWLIST_IDENTITY_INVALID (Some ''native_token_confusion''))
               else (case find (\<lambda>row. la_chain row = chain \<and> la_kind row = Native) (iv_assets dataset) of
                   None \<Rightarrow> Inl (OtherError ''TypeError'') | Some row \<Rightarrow> Inr row)
           | Token \<Rightarrow>
               (case identifier of None \<Rightarrow> Inl (ApnError APN_ALLOWLIST_IDENTITY_INVALID (Some ''missing_token_identifier''))
                | Some raw \<Rightarrow>
                    rbind (inventoryToken P fam raw) (\<lambda>canonical.
                    case find (\<lambda>row. la_chain row = chain \<and> la_kind row = Token \<and> la_identifier row = Some canonical) (iv_assets dataset) of
                      None \<Rightarrow> Inl (ApnError APN_ALLOWLIST_ASSET_NOT_FOUND (Some ''unknown_token_deployment''))
                    | Some row \<Rightarrow> Inr row))))"

section \<open>Data\<close>

record swap_asset =
  sa_chain :: string
  sa_kind :: asset_kind
  sa_identifier :: "string option"

record swap_simulation =
  ss_requestHash :: string
  ss_resultHash :: string
  ss_success :: bool
  ss_blockNumber :: string
  ss_blockHash :: string
  ss_headBlockNumber :: string
  ss_maxHeadDrift :: int
  ss_gasEstimate :: string

record swap_quote =
  sq_profile :: string
  sq_profileHash :: string
  sq_account :: string
  sq_recipient :: string
  sq_sourceAsset :: swap_asset
  sq_destinationAsset :: swap_asset
  sq_inputAmountAtomic :: string
  sq_expectedOutputAtomic :: string
  sq_minimumOutputAtomic :: string
  sq_slippageBps :: int
  sq_effectiveAt :: string
  sq_expiresAt :: string
  sq_providerResponseHash :: string
  sq_routeHash :: string
  sq_unsignedTransactionPayloadHash :: string
  sq_simulation :: swap_simulation
  sq_quoteHash :: string

definition SWAP_QUOTE_SCHEMA :: string where
  "SWAP_QUOTE_SCHEMA = ''apn.swap-quote.v1''"

definition swap_asset_json :: "swap_asset \<Rightarrow> jval" where
  "swap_asset_json a = JObj [(''chain'', JStr (sa_chain a)), (''kind'', JStr (kind_text (sa_kind a))), (''identifier'', nullable (sa_identifier a))]"

definition simulation_proof_json :: "swap_simulation \<Rightarrow> jval" where
  "simulation_proof_json s = JObj [(''requestHash'', JStr (ss_requestHash s)), (''resultHash'', JStr (ss_resultHash s)),
     (''success'', JBool (ss_success s)), (''blockNumber'', JStr (ss_blockNumber s)), (''blockHash'', JStr (ss_blockHash s)),
     (''headBlockNumber'', JStr (ss_headBlockNumber s)), (''maxHeadDrift'', JNum (ss_maxHeadDrift s)), (''gasEstimate'', JStr (ss_gasEstimate s))]"

definition quote_body :: "swap_quote \<Rightarrow> (string \<times> jval) list" where
  "quote_body q = [(''schemaVersion'', JStr SWAP_QUOTE_SCHEMA), (''profile'', JStr (sq_profile q)), (''account'', JStr (sq_account q)),
     (''recipient'', JStr (sq_recipient q)), (''sourceAsset'', swap_asset_json (sq_sourceAsset q)),
     (''destinationAsset'', swap_asset_json (sq_destinationAsset q)), (''inputAmountAtomic'', JStr (sq_inputAmountAtomic q)),
     (''expectedOutputAtomic'', JStr (sq_expectedOutputAtomic q)), (''minimumOutputAtomic'', JStr (sq_minimumOutputAtomic q)),
     (''slippageBps'', JNum (sq_slippageBps q)), (''effectiveAt'', JStr (sq_effectiveAt q)), (''expiresAt'', JStr (sq_expiresAt q)),
     (''providerResponseHash'', JStr (sq_providerResponseHash q)), (''routeHash'', JStr (sq_routeHash q)),
     (''unsignedTransactionPayloadHash'', JStr (sq_unsignedTransactionPayloadHash q)),
     (''simulation'', simulation_proof_json (sq_simulation q)), (''profileHash'', JStr (sq_profileHash q))]"

definition quote_json :: "swap_quote \<Rightarrow> jval" where
  "quote_json q = JObj (quote_body q @ [(''quoteHash'', JStr (sq_quoteHash q))])"

definition quote_hash :: "prims \<Rightarrow> swap_quote \<Rightarrow> string result" where
  "quote_hash P q = rbind (canonicalJson (JObj (quote_body q))) (\<lambda>t. Inr (domainHash (sha P) SWAP_QUOTE_SCHEMA t))"

definition swapProfileHash :: "prims \<Rightarrow> string \<Rightarrow> string" where
  "swapProfileHash P profile = domainHash (sha P) SWAP_QUOTE_SCHEMA (''profile'' @ [CHR 0x00] @ profile)"

section \<open>Validation\<close>

definition swap_asset_ok :: "swap_asset \<Rightarrow> bool \<Rightarrow> swap_asset result" where
  "swap_asset_ok a stored = (if (sa_kind a = Native) \<noteq> (sa_identifier a = None) then failure stored else Inr a)"

definition resolveInventory :: "prims \<Rightarrow> inventory \<Rightarrow> swap_asset \<Rightarrow> bool \<Rightarrow> listed_asset result" where
  "resolveInventory P dataset a stored =
     (case resolveAllowlistAsset P dataset (sa_chain a) (sa_kind a) (sa_identifier a) of Inl _ \<Rightarrow> failure stored | Inr row \<Rightarrow> Inr row)"

text \<open>The reviewed WBTC deployment on Ethereum of \<^verbatim>\<open>canonical-wbtc-policy-assets.ts\<close>.\<close>

definition WBTC_ETHEREUM :: listed_asset where
  "WBTC_ETHEREUM = \<lparr>la_chain = ''eip155:1'', la_kind = Token, la_identifier = Some ''0x2260FAC5E5542a773Aa44fBCfeDf7C193bc2C599'',
     la_symbol = ''WBTC'', la_decimals = 8\<rparr>"

definition wbtc_acquisition :: "swap_asset \<Rightarrow> swap_asset \<Rightarrow> bool" where
  "wbtc_acquisition source destination \<longleftrightarrow> sa_chain source = ''eip155:1'' \<and> sa_kind source = Native \<and> sa_identifier source = None \<and>
     sa_kind destination = Token \<and> sa_identifier destination = la_identifier WBTC_ETHEREUM"

definition canonicalParty :: "prims \<Rightarrow> family option \<Rightarrow> string \<Rightarrow> bool \<Rightarrow> string result" where
  "canonicalParty P fam value stored =
     (case fam of None \<Rightarrow> failure stored
      | Some f \<Rightarrow> (case family_address P f value of None \<Rightarrow> failure stored
         | Some a \<Rightarrow> if f = Evm \<and> (a \<noteq> value \<or> a = zero_evm) then failure stored else Inr a))"

definition swap_atomic :: "string \<Rightarrow> bool \<Rightarrow> bool \<Rightarrow> nat result" where
  "swap_atomic value positive stored = (if length value > 78 then failure stored else usage_atomic value positive stored)"

text \<open>The least output the declared slippage leaves, rounded up.\<close>

definition minimum_allowed :: "nat \<Rightarrow> int \<Rightarrow> nat" where
  "minimum_allowed expected bps = (expected * nat (10000 - bps) + 9999) div 10000"

definition simulation_ok :: "swap_simulation \<Rightarrow> bool \<Rightarrow> unit result" where
  "simulation_ok s stored =
     (if \<not> ss_success s \<or> \<not> hash_text (ss_requestHash s) \<or> \<not> hash_text (ss_resultHash s) \<or> \<not> tx_hash_text (ss_blockHash s) \<or>
         ss_maxHeadDrift s < 0 \<or> ss_maxHeadDrift s > 256 then failure stored
      else
     rbind (swap_atomic (ss_blockNumber s) False stored) (\<lambda>block.
     rbind (swap_atomic (ss_headBlockNumber s) False stored) (\<lambda>head.
     rbind (swap_atomic (ss_gasEstimate s) True stored) (\<lambda>_.
     if head < block \<or> head - block > nat (ss_maxHeadDrift s) then failure stored else Inr ()))))"

definition quote_amounts_ok :: "swap_quote \<Rightarrow> bool \<Rightarrow> unit result" where
  "quote_amounts_ok q stored =
     rbind (swap_atomic (sq_inputAmountAtomic q) True stored) (\<lambda>_.
     rbind (swap_atomic (sq_expectedOutputAtomic q) True stored) (\<lambda>expected.
     rbind (swap_atomic (sq_minimumOutputAtomic q) True stored) (\<lambda>minimum.
     if wbtc_acquisition (sq_sourceAsset q) (sq_destinationAsset q) \<and> minimum < 1000 then failure stored
     else if minimum > expected then failure stored
     else if minimum < minimum_allowed expected (sq_slippageBps q) then failure stored
     else Inr ())))"

definition quote_parties_ok :: "prims \<Rightarrow> inventory \<Rightarrow> swap_quote \<Rightarrow> bool \<Rightarrow> unit result" where
  "quote_parties_ok P dataset q stored =
     rbind (swap_asset_ok (sq_sourceAsset q) stored) (\<lambda>source_asset.
     rbind (swap_asset_ok (sq_destinationAsset q) stored) (\<lambda>destination_asset.
     if sa_chain source_asset \<noteq> sa_chain destination_asset then failure stored else
     rbind (resolveInventory P dataset source_asset stored) (\<lambda>source.
     rbind (if wbtc_acquisition source_asset destination_asset then Inr WBTC_ETHEREUM
       else resolveInventory P dataset destination_asset stored) (\<lambda>destination.
     let fam = policyChainFamily (la_chain source) in
     if fam \<noteq> policyChainFamily (la_chain destination) then failure stored else
     rbind (canonicalParty P fam (sq_account q) stored) (\<lambda>acct.
     rbind (canonicalParty P fam (sq_recipient q) stored) (\<lambda>recipient.
     if acct \<noteq> sq_account q \<or> recipient \<noteq> sq_recipient q then failure stored else Inr ()))))))"

definition validateSwapQuote :: "prims \<Rightarrow> inventory \<Rightarrow> swap_quote \<Rightarrow> bool \<Rightarrow> swap_quote result" where
  "validateSwapQuote P dataset q stored =
     (if \<not> version_text (sq_profile q) \<or> sq_slippageBps q < 0 \<or> sq_slippageBps q > 10000 \<or>
         \<not> isIsoInstant (sq_effectiveAt q) \<or> \<not> isIsoInstant (sq_expiresAt q) \<or> sq_expiresAt q \<le> sq_effectiveAt q
      then failure stored
      else
     rbind (quote_parties_ok P dataset q stored) (\<lambda>_.
     rbind (quote_amounts_ok q stored) (\<lambda>_.
     if canonicalJson (swap_asset_json (sq_sourceAsset q)) = canonicalJson (swap_asset_json (sq_destinationAsset q)) then failure stored
     else if \<not> list_all hash_text [sq_profileHash q, sq_providerResponseHash q, sq_routeHash q, sq_unsignedTransactionPayloadHash q, sq_quoteHash q]
     then failure stored
     else
     rbind (simulation_ok (sq_simulation q) stored) (\<lambda>_.
     rbind (quote_hash P q) (\<lambda>h.
     if sq_profileHash q \<noteq> swapProfileHash P (sq_profile q) \<or> sq_quoteHash q \<noteq> h then failure stored else Inr q)))))"

text \<open>The profile and quote hashes of the argument are ignored.\<close>

definition createSwapQuote :: "prims \<Rightarrow> inventory \<Rightarrow> swap_quote \<Rightarrow> swap_quote result" where
  "createSwapQuote P dataset input =
     (let body = input\<lparr>sq_profileHash := swapProfileHash P (sq_profile input)\<rparr> in
      rbind (quote_hash P body) (\<lambda>h. validateSwapQuote P dataset (body\<lparr>sq_quoteHash := h\<rparr>) False))"

end
