(* ===== verification/SwapOperation.thy ===== *)
theory SwapOperation
  imports SwapQuote
begin

text \<open>
  The durable record of a guarded swap (\<^verbatim>\<open>swap/model.ts\<close>): its states, the marker written before a
  signature may exist, the receipt that ends it, and the validation every read and write passes. Of
  \<^verbatim>\<open>legacy/orca-stable/mechanism.ts\<close>, the mechanisms whose records end by a proof that nothing was sent.
\<close>

section \<open>Data\<close>

datatype swap_state = SwapQuoted | SwapPrepared | SwapAwaitingApproval | SwapReserved | SwapSubmitting | SwapSubmitted
  | SwapUnknownFinality | SwapFinalized | SwapFailedBeforeEffect | SwapFailedConfirmedRevert | SwapExpiredUnlanded
  | SwapAbandonedUnknown

fun swap_state_text :: "swap_state \<Rightarrow> string" where
  "swap_state_text SwapQuoted = ''quoted''"
| "swap_state_text SwapPrepared = ''prepared''"
| "swap_state_text SwapAwaitingApproval = ''awaiting_approval''"
| "swap_state_text SwapReserved = ''reserved''"
| "swap_state_text SwapSubmitting = ''submitting''"
| "swap_state_text SwapSubmitted = ''submitted''"
| "swap_state_text SwapUnknownFinality = ''unknown_finality''"
| "swap_state_text SwapFinalized = ''finalized''"
| "swap_state_text SwapFailedBeforeEffect = ''failed_before_effect''"
| "swap_state_text SwapFailedConfirmedRevert = ''failed_confirmed_revert''"
| "swap_state_text SwapExpiredUnlanded = ''expired_unlanded''"
| "swap_state_text SwapAbandonedUnknown = ''abandoned_unknown''"

definition SWAP_TERMINAL_STATES :: "swap_state list" where
  "SWAP_TERMINAL_STATES = [SwapFinalized, SwapFailedBeforeEffect, SwapFailedConfirmedRevert, SwapExpiredUnlanded, SwapAbandonedUnknown]"

record swap_marker =
  smk_markerHash :: string
  smk_markedAt :: string
  smk_operationIntegrityHash :: string
  smk_payloadHash :: string

text \<open>The output of a reverted swap and an incomplete fee are null, the rent may be absent.\<close>

record swap_economics =
  sec_inputAtomic :: string
  sec_outputAtomic :: "string option"
  sec_networkFeeAtomic :: "string option"
  sec_nativeDebitAtomic :: "string option"
  sec_accountRentAtomic :: "string option"

record swap_receipt =
  srp_receiptHash :: string
  srp_transactionHash :: string
  srp_observedAt :: string
  srp_finalized :: bool
  srp_economics :: "swap_economics option"

record swap_operation =
  so_operationId :: string
  so_idempotencyHash :: string
  so_ownerProfileHash :: string
  so_state :: swap_state
  so_revision :: int
  so_createdAt :: string
  so_updatedAt :: string
  so_quote :: swap_quote
  so_policyDigest :: string
  so_policyVersion :: string
  so_registryDigest :: string
  so_registryVersion :: string
  so_mechanismDigest :: string
  so_usageLease :: "usage_reservation option"
  so_approvalCapAtomic :: string
  so_marker :: "swap_marker option"
  so_receipt :: "swap_receipt option"
  so_failureProofHash :: "string option"
  so_previousIntegrityHash :: "string option"
  so_integrityHash :: string

record new_swap =
  ns_operationId :: string
  ns_idempotencyHash :: string
  ns_quote :: swap_quote
  ns_policyDigest :: string
  ns_policyVersion :: string
  ns_registryDigest :: string
  ns_registryVersion :: string
  ns_mechanismDigest :: string
  ns_approvalCapAtomic :: string
  ns_now :: jsdate

definition SWAP_OPERATION_SCHEMA :: string where
  "SWAP_OPERATION_SCHEMA = ''apn.swap-operation.v1''"

section \<open>The record as JSON\<close>

definition swap_marker_body :: "string \<Rightarrow> swap_marker \<Rightarrow> jval" where
  "swap_marker_body operationId m = JObj [(''operationId'', JStr operationId), (''operationIntegrityHash'', JStr (smk_operationIntegrityHash m)),
     (''unsignedTransactionPayloadHash'', JStr (smk_payloadHash m)), (''markedAt'', JStr (smk_markedAt m))]"

definition swap_marker_hash :: "prims \<Rightarrow> string \<Rightarrow> swap_marker \<Rightarrow> string result" where
  "swap_marker_hash P operationId m =
     rbind (canonicalJson (swap_marker_body operationId m)) (\<lambda>t. Inr (domainHash (sha P) ''apn.swap-submission-marker.v1'' t))"

definition swap_marker_json :: "swap_marker \<Rightarrow> jval" where
  "swap_marker_json m = JObj [(''markerHash'', JStr (smk_markerHash m)), (''markedAt'', JStr (smk_markedAt m)),
     (''operationIntegrityHash'', JStr (smk_operationIntegrityHash m)), (''unsignedTransactionPayloadHash'', JStr (smk_payloadHash m))]"

definition swap_economics_json :: "swap_economics \<Rightarrow> jval" where
  "swap_economics_json e = JObj ([(''inputAtomic'', JStr (sec_inputAtomic e)), (''outputAtomic'', nullable (sec_outputAtomic e)),
     (''networkFeeAtomic'', nullable (sec_networkFeeAtomic e)), (''nativeDebitAtomic'', nullable (sec_nativeDebitAtomic e))] @
     opt_member ''accountRentAtomic'' (map_option JStr (sec_accountRentAtomic e)))"

definition swap_receipt_json :: "swap_receipt \<Rightarrow> jval" where
  "swap_receipt_json r = JObj ([(''receiptHash'', JStr (srp_receiptHash r)), (''transactionHash'', JStr (srp_transactionHash r)),
     (''observedAt'', JStr (srp_observedAt r)), (''finalized'', JBool (srp_finalized r))] @
     opt_member ''economics'' (map_option swap_economics_json (srp_economics r)))"

definition null_or :: "('a \<Rightarrow> jval) \<Rightarrow> 'a option \<Rightarrow> jval" where
  "null_or f v = (case v of None \<Rightarrow> JNull | Some x \<Rightarrow> f x)"

definition swap_body :: "swap_operation \<Rightarrow> (string \<times> jval) list" where
  "swap_body op = [(''schemaVersion'', JStr SWAP_OPERATION_SCHEMA), (''operationId'', JStr (so_operationId op)),
     (''idempotencyHash'', JStr (so_idempotencyHash op)), (''ownerProfileHash'', JStr (so_ownerProfileHash op)),
     (''state'', JStr (swap_state_text (so_state op))), (''revision'', JNum (so_revision op)), (''createdAt'', JStr (so_createdAt op)),
     (''updatedAt'', JStr (so_updatedAt op)), (''quote'', quote_json (so_quote op)), (''policyDigest'', JStr (so_policyDigest op)),
     (''policyVersion'', JStr (so_policyVersion op)), (''protocolRegistryDigest'', JStr (so_registryDigest op)),
     (''protocolRegistryVersion'', JStr (so_registryVersion op)), (''mechanismDigest'', JStr (so_mechanismDigest op)),
     (''usageLease'', null_or reservation_json (so_usageLease op)), (''approvalCapAtomic'', JStr (so_approvalCapAtomic op)),
     (''submissionMarker'', null_or swap_marker_json (so_marker op)), (''receiptProof'', null_or swap_receipt_json (so_receipt op)),
     (''failureProofHash'', nullable (so_failureProofHash op)), (''previousIntegrityHash'', nullable (so_previousIntegrityHash op))]"

definition swap_json :: "swap_operation \<Rightarrow> jval" where
  "swap_json op = JObj (swap_body op @ [(''integrityHash'', JStr (so_integrityHash op))])"

definition swap_digest :: "prims \<Rightarrow> swap_operation \<Rightarrow> string result" where
  "swap_digest P op = rbind (canonicalJson (JObj (swap_body op))) (\<lambda>t. Inr (domainHash (sha P) SWAP_OPERATION_SCHEMA t))"

section \<open>Mechanisms of the former stable lane\<close>

definition ORCA_STABLE_MECHANISM_PIN_SLOT_440170207 :: swap_mechanism_pin where
  "ORCA_STABLE_MECHANISM_PIN_SLOT_440170207 = \<lparr>pin_protocolFamily = OrcaSolana, pin_networkFamily = Solana,
     pin_chain = ''solana:5eykt4UsFv8P8NJdTREpY1vzqKqZKvdpKuc147dw2N9d'', pin_protocolVersion = ''whirlpool-stable-slot-440170207'',
     pin_constructorKind = ''sdk'', pin_constructorIdentity = ''apn.orca-whirlpool.stable-offline-preview'', pin_constructorVersion = ''1.0.0'',
     pin_routerProgramIdentity = ''whirLbMiicVdio4qvUfM5KAg6Ct8VwpYzGff3uctyCc'',
     pin_auxiliary = [''4fuUiYxTQ6QCrdSq9ouBYcTM7bqSwYTSyLueGZLTy4T4'', ''4oY1eVHJrt7ywuFoQnAZwto4qcQip1QhYMAhD11PU4QL'',
       ''4dSG9tKHZR4CAictyEnH9XuGZyKapodWXq5xyg7uFwE9'', ''2LecshUwdy9xi7meFgHtFJQNSKk4KdTrcpvaB56dP2NQ'',
       ''EPjFWdd5AufqSSqeM2qN1xzybapC8G4wEGGkZwyTDt1v'', ''Es9vMFrzaCERmJfrF4H2FYD4KCoNkY11McCe8BenwNYB'',
       ''TokenkegQfeZyiNwAJbNbGKPFXCWuBvf9Ss623VQ5DA'', ''ATokenGPvbdGVxr1b2hvZbsiqW5xWH25efTNsLJA8knL'',
       ''11111111111111111111111111111111'', ''ComputeBudget111111111111111111111111111111''],
     pin_quoteSchemaVersion = ''whirlpool-stable-onchain-state.exact-in-a-to-b.1'',
     pin_transactionSchemaVersion = ''v0.compute-budget-optional-ata-usdc-usdt-preview.1'',
     pin_validationPolicyIdentity = ''apn.orca.solana-usdc-usdt-untrusted-preview'', pin_validationPolicyVersion = ''1.0.0''\<rparr>"

definition ORCA_STABLE_GUARDED_MECHANISM_PIN_SLOT_440170207 :: swap_mechanism_pin where
  "ORCA_STABLE_GUARDED_MECHANISM_PIN_SLOT_440170207 = ORCA_STABLE_MECHANISM_PIN_SLOT_440170207
     \<lparr>pin_constructorIdentity := ''apn.orca-whirlpool.stable-guarded-candidate'',
      pin_transactionSchemaVersion := ''v0.compute-budget-optional-ata-usdc-usdt-simulated.1'',
      pin_validationPolicyIdentity := ''apn.orca.solana-usdc-usdt-guarded-candidate''\<rparr>"

definition ORCA_STABLE_GUARDED_MECHANISM_PIN_SLOT_457152296 :: swap_mechanism_pin where
  "ORCA_STABLE_GUARDED_MECHANISM_PIN_SLOT_457152296 =
     ORCA_STABLE_GUARDED_MECHANISM_PIN_SLOT_440170207\<lparr>pin_protocolVersion := ''whirlpool-stable-slot-457152296''\<rparr>"

definition ORCA_STABLE_GUARDED_MECHANISM_PIN :: swap_mechanism_pin where
  "ORCA_STABLE_GUARDED_MECHANISM_PIN = ORCA_STABLE_GUARDED_MECHANISM_PIN_SLOT_440170207
     \<lparr>pin_protocolVersion := ''whirlpool-stable-upgrade-authority.1'', pin_validationPolicyVersion := ''2.0.0''\<rparr>"

definition isOrcaStableGuardedMechanismDigest :: "prims \<Rightarrow> string \<Rightarrow> bool" where
  "isOrcaStableGuardedMechanismDigest P digest =
     list_ex (\<lambda>pin. swapMechanismDigest P pin = Inr digest)
       [ORCA_STABLE_GUARDED_MECHANISM_PIN, ORCA_STABLE_GUARDED_MECHANISM_PIN_SLOT_457152296,
        ORCA_STABLE_GUARDED_MECHANISM_PIN_SLOT_440170207]"

section \<open>Leaf checks\<close>

text \<open>\<^verbatim>\<open>date\<close>: a stored text, or a \<^verbatim>\<open>Date\<close> whose \<^verbatim>\<open>toISOString\<close> throws when it is invalid.\<close>

definition swap_date :: "string \<Rightarrow> bool \<Rightarrow> string result" where
  "swap_date value stored = (if \<not> isIsoInstant value then failure stored else Inr value)"

definition swap_now :: "jsdate \<Rightarrow> string result" where
  "swap_now value = (case value of None \<Rightarrow> Inl (OtherError ''RangeError'') | Some at \<Rightarrow> swap_date at False)"

definition swap_version :: "string \<Rightarrow> bool \<Rightarrow> string result" where
  "swap_version value stored = (if \<not> version_text value then failure stored else Inr value)"

definition swap_approval :: "string \<Rightarrow> string \<Rightarrow> bool \<Rightarrow> string result" where
  "swap_approval value input stored =
     (case parseAtomic (JStr value) False of Inl _ \<Rightarrow> failure stored
      | Inr amount \<Rightarrow> if amount > undec input \<or> amount = MAX_UINT256 then failure stored else Inr (dec amount))"

text \<open>\<^verbatim>\<open>/^(?:0|[1-9][0-9]{0,77})$/\<close>.\<close>

definition uint78 :: "string \<Rightarrow> bool" where
  "uint78 s \<longleftrightarrow> s = ''0'' \<or> (s \<noteq> [] \<and> length s \<le> 78 \<and> hd s \<noteq> CHR ''0'' \<and> list_all digit s)"

definition validSwapEconomics :: "swap_economics \<Rightarrow> bool" where
  "validSwapEconomics e \<longleftrightarrow> uint78 (sec_inputAtomic e) \<and>
     (case sec_outputAtomic e of None \<Rightarrow> True | Some x \<Rightarrow> uint78 x) \<and>
     (case sec_networkFeeAtomic e of None \<Rightarrow> sec_nativeDebitAtomic e = None
      | Some fee \<Rightarrow> uint78 fee \<and> (case sec_nativeDebitAtomic e of None \<Rightarrow> False | Some x \<Rightarrow> uint78 x)) \<and>
     (case sec_accountRentAtomic e of None \<Rightarrow> True | Some x \<Rightarrow> uint78 x)"

definition transaction_form :: "string \<Rightarrow> string \<Rightarrow> bool" where
  "transaction_form chain h \<longleftrightarrow>
     (starts_with ''eip155:'' chain \<longrightarrow> length h = 66 \<and> starts_with ''0x'' h \<and> list_all any_hex (drop 2 h)) \<and>
     (starts_with ''tron:'' chain \<longrightarrow> length h = 64 \<and> list_all any_hex h) \<and>
     (starts_with ''solana:'' chain \<longrightarrow> 64 \<le> length h \<and> length h \<le> 128 \<and> list_all base58 h)"

definition validateSwapReceiptProof :: "swap_receipt \<Rightarrow> string \<Rightarrow> string \<Rightarrow> string \<Rightarrow> bool \<Rightarrow> swap_receipt result" where
  "validateSwapReceiptProof r chain earliestAt latestAt stored =
     (if length (srp_transactionHash r) < 8 \<or> length (srp_transactionHash r) > 256 \<or>
         (case srp_economics r of None \<Rightarrow> False | Some e \<Rightarrow> \<not> srp_finalized r \<or> \<not> validSwapEconomics e) then failure stored
      else
     rbind (digest_of (srp_receiptHash r) stored) (\<lambda>_.
     rbind (swap_date (srp_observedAt r) stored) (\<lambda>observedAt.
     if observedAt < earliestAt \<or> latestAt < observedAt then failure stored
     else if \<not> transaction_form chain (srp_transactionHash r) then failure stored
     else Inr r)))"

section \<open>What a state carries\<close>

definition LEASED :: "swap_state list" where
  "LEASED = [SwapReserved, SwapSubmitting, SwapSubmitted, SwapUnknownFinality, SwapFinalized, SwapFailedConfirmedRevert,
     SwapExpiredUnlanded, SwapAbandonedUnknown]"

definition EXPOSED :: "swap_state list" where
  "EXPOSED = [SwapSubmitting, SwapSubmitted, SwapUnknownFinality, SwapFinalized, SwapFailedConfirmedRevert,
     SwapExpiredUnlanded, SwapAbandonedUnknown]"

text \<open>The state the lease of a leased operation must have; the other states have none.\<close>

fun expectedLeaseState :: "swap_state \<Rightarrow> usage_state option" where
  "expectedLeaseState SwapReserved = Some Reserved"
| "expectedLeaseState SwapSubmitting = Some Reserved"
| "expectedLeaseState SwapSubmitted = Some Submitted"
| "expectedLeaseState SwapUnknownFinality = Some UnknownFinality"
| "expectedLeaseState SwapFinalized = Some Finalized"
| "expectedLeaseState SwapFailedConfirmedRevert = Some FailedConfirmedRevert"
| "expectedLeaseState SwapExpiredUnlanded = Some ReleasedUnsubmitted"
| "expectedLeaseState SwapAbandonedUnknown = Some Finalized"
| "expectedLeaseState _ = None"

definition stableMarkedFailure :: "prims \<Rightarrow> swap_operation \<Rightarrow> bool" where
  "stableMarkedFailure P op \<longleftrightarrow> so_state op = SwapFailedBeforeEffect \<and>
     isOrcaStableGuardedMechanismDigest P (so_mechanismDigest op) \<and> so_marker op \<noteq> None"

definition marker_ok :: "prims \<Rightarrow> swap_operation \<Rightarrow> unit result" where
  "marker_ok P op =
     (case so_marker op of None \<Rightarrow> Inr ()
      | Some m \<Rightarrow>
          rbind (digest_of (smk_markerHash m) True) (\<lambda>_.
          rbind (swap_date (smk_markedAt m) True) (\<lambda>_.
          rbind (digest_of (smk_operationIntegrityHash m) True) (\<lambda>_.
          rbind (check (\<not> smk_markedAt m < so_createdAt op \<and> \<not> so_updatedAt op < smk_markedAt m \<and>
            smk_payloadHash m = sq_unsignedTransactionPayloadHash (so_quote op))) (\<lambda>_.
          rbind (swap_marker_hash P (so_operationId op) m) (\<lambda>h. check (smk_markerHash m = h)))))))"

definition receipt_ok :: "swap_operation \<Rightarrow> unit result" where
  "receipt_ok op =
     rbind (case so_receipt op of None \<Rightarrow> Inr ()
       | Some r \<Rightarrow> (case so_marker op of None \<Rightarrow> corrupt
           | Some m \<Rightarrow> rbind (validateSwapReceiptProof r (sa_chain (sq_sourceAsset (so_quote op))) (smk_markedAt m) (so_updatedAt op) True)
               (\<lambda>_. Inr ()))) (\<lambda>_.
     rbind (check (so_receipt op = None \<or>
       so_state op \<in> {SwapSubmitted, SwapUnknownFinality, SwapFinalized, SwapFailedConfirmedRevert})) (\<lambda>_.
     rbind (check (so_state op = SwapFinalized \<longrightarrow> (case so_receipt op of None \<Rightarrow> False | Some r \<Rightarrow> srp_finalized r))) (\<lambda>_.
     check (case so_receipt op of None \<Rightarrow> True
       | Some r \<Rightarrow> (case srp_economics r of None \<Rightarrow> True
           | Some e \<Rightarrow> if so_state op = SwapFinalized then sec_outputAtomic e \<noteq> None
               else so_state op = SwapFailedConfirmedRevert \<and> sec_outputAtomic e = None \<and> sec_inputAtomic e = ''0'')))))"

definition outcome_ok :: "prims \<Rightarrow> swap_operation \<Rightarrow> unit result" where
  "outcome_ok P op =
     rbind (case so_failureProofHash op of None \<Rightarrow> Inr () | Some h \<Rightarrow> rbind (digest_of h True) (\<lambda>_. Inr ())) (\<lambda>_.
     rbind (check ((so_state op \<in> {SwapFailedBeforeEffect, SwapFailedConfirmedRevert, SwapExpiredUnlanded, SwapAbandonedUnknown}) =
       (so_failureProofHash op \<noteq> None))) (\<lambda>_.
     rbind (check (so_state op = SwapFailedConfirmedRevert \<longrightarrow>
       (case so_receipt op of None \<Rightarrow> False | Some r \<Rightarrow> srp_finalized r \<and> Some (srp_receiptHash r) = so_failureProofHash op))) (\<lambda>_.
     rbind (check (so_state op = SwapFailedBeforeEffect \<longrightarrow>
       \<not> (so_marker op \<noteq> None \<and> \<not> stableMarkedFailure P op) \<and>
       (case so_usageLease op of None \<Rightarrow> True | Some l \<Rightarrow> res_state l = FailedBeforeEffect))) (\<lambda>_.
     rbind (check (so_state op = SwapExpiredUnlanded \<or> so_state op = SwapAbandonedUnknown \<longrightarrow>
       (case so_usageLease op of None \<Rightarrow> False | Some l \<Rightarrow> res_outcomeDigest l = so_failureProofHash op))) (\<lambda>_.
     check (stableMarkedFailure P op \<longrightarrow>
       (case so_usageLease op of None \<Rightarrow> False | Some l \<Rightarrow> res_outcomeDigest l = so_failureProofHash op \<and> so_receipt op = None)))))))"

definition validateStateBindings :: "prims \<Rightarrow> swap_operation \<Rightarrow> unit result" where
  "validateStateBindings P op =
     rbind (case so_previousIntegrityHash op of None \<Rightarrow> Inr () | Some h \<Rightarrow> rbind (digest_of h True) (\<lambda>_. Inr ())) (\<lambda>_.
     rbind (check (so_state op \<in> set LEASED \<longrightarrow> so_usageLease op \<noteq> None)) (\<lambda>_.
     rbind (check (so_state op \<in> {SwapQuoted, SwapPrepared, SwapAwaitingApproval} \<longrightarrow> so_usageLease op = None)) (\<lambda>_.
     rbind (check ((so_state op \<in> set EXPOSED \<or> stableMarkedFailure P op) = (so_marker op \<noteq> None))) (\<lambda>_.
     rbind (marker_ok P op) (\<lambda>_.
     rbind (check (case so_usageLease op of None \<Rightarrow> True
       | Some l \<Rightarrow> so_state op \<in> set LEASED \<longrightarrow> expectedLeaseState (so_state op) = Some (res_state l))) (\<lambda>_.
     rbind (receipt_ok op) (\<lambda>_. outcome_ok P op)))))))"

section \<open>Validation and creation\<close>

definition swap_asset_ref :: "swap_asset \<Rightarrow> asset_ref" where
  "swap_asset_ref a = (if sa_kind a = Native then \<lparr>ref_kind = Native, ref_identifier = None\<rparr>
     else \<lparr>ref_kind = Token, ref_identifier = sa_identifier a\<rparr>)"

definition lease_bound :: "swap_operation \<Rightarrow> usage_reservation \<Rightarrow> bool" where
  "lease_bound op l \<longleftrightarrow> id_account (res_identity l) = sq_account (so_quote op) \<and>
     id_chain (res_identity l) = sa_chain (sq_sourceAsset (so_quote op)) \<and> usage_rail l = Swap \<and>
     canonicalJson (asset_json (id_asset (res_identity l))) = canonicalJson (asset_json (swap_asset_ref (sq_sourceAsset (so_quote op)))) \<and>
     res_amountAtomic l = sq_inputAmountAtomic (so_quote op) \<and> res_policyDigest l = so_policyDigest op"

definition swap_fields_ok :: "prims \<Rightarrow> inventory \<Rightarrow> swap_operation \<Rightarrow> unit result" where
  "swap_fields_ok P dataset op =
     rbind (check (1 \<le> so_revision op \<and> so_revision op \<le> 9007199254740991)) (\<lambda>_.
     rbind (validateSwapQuote P dataset (so_quote op) True) (\<lambda>_.
     rbind (check (list_all hash_text [so_operationId op, so_idempotencyHash op, so_ownerProfileHash op, so_policyDigest op,
       so_registryDigest op, so_mechanismDigest op] \<and> version_text (so_policyVersion op) \<and> version_text (so_registryVersion op))) (\<lambda>_.
     rbind (swap_date (so_createdAt op) True) (\<lambda>createdAt.
     rbind (swap_date (so_updatedAt op) True) (\<lambda>updatedAt.
     rbind (check (\<not> updatedAt < createdAt \<and> so_ownerProfileHash op = sq_profileHash (so_quote op))) (\<lambda>_.
     rbind (swap_approval (so_approvalCapAtomic op) (sq_inputAmountAtomic (so_quote op)) True) (\<lambda>_.
     case so_usageLease op of None \<Rightarrow> Inr ()
     | Some l \<Rightarrow> rbind (validateAssetUsageReservation P l) (\<lambda>l. check (lease_bound op l)))))))))"

definition validateSwapOperation :: "prims \<Rightarrow> inventory \<Rightarrow> swap_operation \<Rightarrow> swap_operation result" where
  "validateSwapOperation P dataset op =
     rbind (swap_fields_ok P dataset op) (\<lambda>_.
     rbind (validateStateBindings P op) (\<lambda>_.
     rbind (swap_digest P op) (\<lambda>d. if so_integrityHash op \<noteq> d then corrupt else Inr op)))"

definition seal_swap :: "prims \<Rightarrow> inventory \<Rightarrow> swap_operation \<Rightarrow> swap_operation result" where
  "seal_swap P dataset op = rbind (swap_digest P op) (\<lambda>d. validateSwapOperation P dataset (op\<lparr>so_integrityHash := d\<rparr>))"

definition newSwapOperation :: "prims \<Rightarrow> inventory \<Rightarrow> new_swap \<Rightarrow> swap_operation result" where
  "newSwapOperation P dataset input =
     rbind (swap_now (ns_now input)) (\<lambda>at.
     rbind (validateSwapQuote P dataset (ns_quote input) False) (\<lambda>quote.
     if at < sq_effectiveAt quote \<or> sq_expiresAt quote \<le> at then invalid else
     rbind (digest_of (ns_operationId input) False) (\<lambda>operationId.
     rbind (digest_of (ns_idempotencyHash input) False) (\<lambda>idempotencyHash.
     rbind (digest_of (ns_policyDigest input) False) (\<lambda>policyDigest.
     rbind (swap_version (ns_policyVersion input) False) (\<lambda>policyVersion.
     rbind (digest_of (ns_registryDigest input) False) (\<lambda>registryDigest.
     rbind (swap_version (ns_registryVersion input) False) (\<lambda>registryVersion.
     rbind (digest_of (ns_mechanismDigest input) False) (\<lambda>mechanismDigest.
     rbind (swap_approval (ns_approvalCapAtomic input) (sq_inputAmountAtomic quote) False) (\<lambda>cap.
     seal_swap P dataset \<lparr>so_operationId = operationId, so_idempotencyHash = idempotencyHash, so_ownerProfileHash = sq_profileHash quote,
       so_state = SwapQuoted, so_revision = 1, so_createdAt = at, so_updatedAt = at, so_quote = quote, so_policyDigest = policyDigest,
       so_policyVersion = policyVersion, so_registryDigest = registryDigest, so_registryVersion = registryVersion,
       so_mechanismDigest = mechanismDigest, so_usageLease = None, so_approvalCapAtomic = cap, so_marker = None, so_receipt = None,
       so_failureProofHash = None, so_previousIntegrityHash = None, so_integrityHash = []\<rparr>))))))))))"

end
