(* ===== verification/SwapUnlanded.thy ===== *)
theory SwapUnlanded
  imports SwapOperation
begin

text \<open>
  The chain evidence that a marked swap can never land (\<^verbatim>\<open>swap/unlanded.ts\<close>): the proof, its
  validation, the digest an operation ends with, and the observers that produce it from RPC answers
  (with \<^verbatim>\<open>solanaBlockHeightValue\<close> of \<^verbatim>\<open>solana/rpc.ts\<close> and the quantities of \<^verbatim>\<open>evm-rpc-codec.ts\<close>).
  The answers of an RPC are a parameter, and so is the codec of Solana signatures.
\<close>

section \<open>The proof\<close>

datatype unlanded_proof =
    SolanaUnlanded "string option" string string
  | EvmUnlanded "string option" string string string
  | TronUnlanded string string string string

text \<open>Transaction identity, lifetime bound and the observed time that passed it.\<close>

fun up_transaction :: "unlanded_proof \<Rightarrow> string option" where
  "up_transaction (SolanaUnlanded tx _ _) = tx"
| "up_transaction (EvmUnlanded tx _ _ _) = tx"
| "up_transaction (TronUnlanded tx _ _ _) = Some tx"

fun up_bound :: "unlanded_proof \<Rightarrow> string" where
  "up_bound (SolanaUnlanded _ b _) = b"
| "up_bound (EvmUnlanded _ b _ _) = b"
| "up_bound (TronUnlanded _ b _ _) = b"

fun up_observed :: "unlanded_proof \<Rightarrow> string" where
  "up_observed (SolanaUnlanded _ _ t) = t"
| "up_observed (EvmUnlanded _ _ _ t) = t"
| "up_observed (TronUnlanded _ _ _ t) = t"

fun up_network :: "unlanded_proof \<Rightarrow> family" where
  "up_network (SolanaUnlanded _ _ _) = Solana"
| "up_network (EvmUnlanded _ _ _ _) = Evm"
| "up_network (TronUnlanded _ _ _ _) = Tron"

definition chain_network :: "string \<Rightarrow> family option" where
  "chain_network chain = (if starts_with ''solana:'' chain then Some Solana else if starts_with ''eip155:'' chain then Some Evm
     else if starts_with ''tron:'' chain then Some Tron else None)"

definition SWAP_UNLANDED_PROOF_SCHEMA :: string where
  "SWAP_UNLANDED_PROOF_SCHEMA = ''apn.swap-expired-unlanded-proof.v1''"

text \<open>The middle number of an EVM or TRON proof is the block that was read.\<close>

definition validateSwapUnlandedProof :: "(string \<Rightarrow> bool) \<Rightarrow> unlanded_proof \<Rightarrow> string \<Rightarrow> unlanded_proof result" where
  "validateSwapUnlandedProof signature_ok value chain =
     (if Some (up_network value) \<noteq> chain_network chain then invalid
      else case value of
        SolanaUnlanded tx lastValid height \<Rightarrow>
          if (case tx of None \<Rightarrow> False | Some t \<Rightarrow> \<not> signature_ok t) then Inl (ApnError APN_RPC_PROTOCOL None)
          else if \<not> uint78 lastValid \<or> \<not> uint78 height \<or> undec height \<le> undec lastValid then invalid else Inr value
      | EvmUnlanded tx deadline number timestamp \<Rightarrow>
          if (case tx of None \<Rightarrow> False | Some t \<Rightarrow> \<not> tx_hash_text t) \<or>
             \<not> uint78 deadline \<or> \<not> uint78 number \<or> \<not> uint78 timestamp \<or> undec timestamp \<le> undec deadline then invalid else Inr value
      | TronUnlanded tx expiration number timestamp \<Rightarrow>
          if \<not> hash_text tx \<or> \<not> uint78 expiration \<or> \<not> uint78 number \<or> \<not> uint78 timestamp \<or>
             undec timestamp \<le> undec expiration then invalid else Inr value)"

text \<open>One value per operation, transaction and bound, whatever was observed.\<close>

definition swapUnlandedProofHash :: "prims \<Rightarrow> swap_operation \<Rightarrow> unlanded_proof \<Rightarrow> string result" where
  "swapUnlandedProofHash P op value =
     rbind (canonicalJson (JObj [(''operationId'', JStr (so_operationId op)), (''markerHash'', nullable (map_option smk_markerHash (so_marker op))),
       (''network'', JStr (network_text (up_network value))), (''transactionId'', nullable (up_transaction value)),
       (''bound'', JStr (up_bound value))])) (\<lambda>t. Inr (domainHash (sha P) SWAP_UNLANDED_PROOF_SCHEMA t))"

section \<open>Reading an RPC answer\<close>

type_synonym rpc = "string \<Rightarrow> jval list \<Rightarrow> jval result"

definition rpc_failure :: "'a result" where
  "rpc_failure = Inl (ApnError APN_RPC_PROTOCOL None)"

definition rpcRecord :: "jval \<Rightarrow> (string \<times> jval) list result" where
  "rpcRecord value = (case value of JObj kvs \<Rightarrow> Inr kvs | _ \<Rightarrow> rpc_failure)"

text \<open>A number or bigint of the parser; both pass through the text form of \<^verbatim>\<open>chain-policy.ts\<close>.\<close>

definition rpcAtomic :: "jval \<Rightarrow> nat result" where
  "rpcAtomic value = (case value of JNum n \<Rightarrow> if n < 0 then Inl (ApnError APN_STATE_CORRUPT None) else u64 (dec (nat n)) False
     | _ \<Rightarrow> rpc_failure)"

definition solanaBlockHeightValue :: "jval \<Rightarrow> jval \<Rightarrow> nat result" where
  "solanaBlockHeightValue height latestBlockhash =
     rbind (rpcAtomic height) (\<lambda>value.
     rbind (rpcRecord latestBlockhash) (\<lambda>latest.
     rbind (rpcRecord (member latest ''value'')) (\<lambda>v.
     rbind (rpcAtomic (member v ''lastValidBlockHeight'')) (\<lambda>lastValid.
     if value > lastValid then Inl (ApnError APN_RPC_PROTOCOL (Some ''solana_block_height_inconsistent'')) else Inr value))))"

definition hexval :: "char \<Rightarrow> nat" where
  "hexval c = (if digit c then digval c else if lower c then of_char c - 87 else of_char c - 55)"

definition unhex :: "string \<Rightarrow> nat" where
  "unhex s = foldl (\<lambda>a c. a * 16 + hexval c) 0 s"

text \<open>\<^verbatim>\<open>/^0x(?:0|[1-9a-fA-F][0-9a-fA-F]{0,63})$/\<close>, and \<^verbatim>\<open>/^0x(?:[0-9a-fA-F]{2})*$/\<close> of the given length.\<close>

definition evmRpcQuantity :: "jval \<Rightarrow> nat result" where
  "evmRpcQuantity value =
     (case value of JStr s \<Rightarrow>
        if starts_with ''0x'' s \<and> (drop 2 s = ''0'' \<or> (drop 2 s \<noteq> [] \<and> length (drop 2 s) \<le> 64 \<and> hd (drop 2 s) \<noteq> CHR ''0'' \<and>
            list_all any_hex (drop 2 s)))
        then (if unhex (drop 2 s) > MAX_UINT256 then rpc_failure else Inr (unhex (drop 2 s)))
        else rpc_failure
      | _ \<Rightarrow> rpc_failure)"

definition evmRpcHex :: "jval \<Rightarrow> nat \<Rightarrow> string result" where
  "evmRpcHex value bytes =
     (case value of JStr s \<Rightarrow> if starts_with ''0x'' s \<and> length s = 2 + 2 * bytes \<and> list_all any_hex (drop 2 s) then Inr (to_lower s) else rpc_failure
      | _ \<Rightarrow> rpc_failure)"

text \<open>The block named \<^verbatim>\<open>finalized\<close>: its number and its members.\<close>

definition evmRpcBlockResult :: "jval \<Rightarrow> (string \<times> (string \<times> jval) list) result" where
  "evmRpcBlockResult value =
     rbind (rpcRecord value) (\<lambda>raw.
     rbind (evmRpcQuantity (member raw ''number'')) (\<lambda>number.
     rbind (evmRpcHex (member raw ''hash'') 32) (\<lambda>hash.
     if hash = ''0x'' @ replicate 64 CHR ''0'' then Inl (ApnError APN_RPC_PROTOCOL (Some ''evm_block_identity_changed''))
     else Inr (dec number, raw))))"

section \<open>Observers\<close>

text \<open>One status is asked for and one comes back; null when the signature was never seen.\<close>

definition statusAbsent :: "jval \<Rightarrow> bool result" where
  "statusAbsent statuses = (case statuses of JArr [status] \<Rightarrow> Inr (status = JNull) | _ \<Rightarrow> rpc_failure)"

definition solana_unseen :: "(string \<Rightarrow> bool) \<Rightarrow> rpc \<Rightarrow> string option \<Rightarrow> bool result" where
  "solana_unseen signature_ok call signature =
     (case signature of None \<Rightarrow> Inr True
      | Some s \<Rightarrow>
          if \<not> signature_ok s then rpc_failure else
          rbind (call ''getSignatureStatuses'' [JArr [JStr s], JObj [(''searchTransactionHistory'', JBool True)]]) (\<lambda>answer.
          rbind (rpcRecord answer) (\<lambda>kvs. statusAbsent (member kvs ''value''))))"

text \<open>The height is read before the signature that may have been persisted.\<close>

definition proveSolanaUnlanded ::
  "(string \<Rightarrow> bool) \<Rightarrow> rpc \<Rightarrow> string \<Rightarrow> string option result \<Rightarrow> unlanded_proof option result" where
  "proveSolanaUnlanded signature_ok call lastValidBlockHeight loadSignature =
     rbind (call ''getBlockHeight'' [JObj [(''commitment'', JStr ''finalized'')]]) (\<lambda>height.
     rbind (call ''getLatestBlockhash'' [JObj [(''commitment'', JStr ''finalized'')]]) (\<lambda>latest.
     rbind (solanaBlockHeightValue height latest) (\<lambda>finalized.
     if finalized \<le> undec lastValidBlockHeight then Inr None else
     rbind loadSignature (\<lambda>signature.
     rbind (solana_unseen signature_ok call signature) (\<lambda>unseen.
     Inr (if unseen then Some (SolanaUnlanded signature (dec (undec lastValidBlockHeight)) (dec finalized)) else None))))))"

definition evm_unseen :: "rpc \<Rightarrow> string option \<Rightarrow> bool result" where
  "evm_unseen call hash =
     (case hash of None \<Rightarrow> Inr True
      | Some h \<Rightarrow> rbind (evmRpcHex (JStr h) 32) (\<lambda>exact.
          rbind (call ''eth_getTransactionReceipt'' [JStr exact]) (\<lambda>receipt. Inr (receipt = JNull))))"

definition proveEvmUnlanded :: "rpc \<Rightarrow> nat \<Rightarrow> int \<Rightarrow> string option result \<Rightarrow> unlanded_proof option result" where
  "proveEvmUnlanded call chainId deadlineSeconds loadTransactionHash =
     (if deadlineSeconds > MAX_SAFE_INTEGER \<or> deadlineSeconds \<le> 0 then invalid else
      rbind (call ''eth_chainId'' []) (\<lambda>answer.
      rbind (evmRpcQuantity answer) (\<lambda>chain.
      if chain \<noteq> chainId then Inl (ApnError APN_CHAIN_MISMATCH None) else
      rbind (call ''eth_getBlockByNumber'' [JStr ''finalized'', JBool False]) (\<lambda>answer.
      rbind (evmRpcBlockResult answer) (\<lambda>block.
      rbind (evmRpcQuantity (member (snd block) ''timestamp'')) (\<lambda>timestamp.
      if timestamp \<le> nat deadlineSeconds then Inr None else
      rbind loadTransactionHash (\<lambda>hash.
      rbind (evm_unseen call hash) (\<lambda>unseen.
      Inr (if unseen then Some (EvmUnlanded (map_option to_lower hash) (dec (nat deadlineSeconds)) (fst block) (dec timestamp))
        else None)))))))))"

definition tron_integer :: "jval \<Rightarrow> nat result" where
  "tron_integer value = (case value of JNum n \<Rightarrow> if n < 0 \<or> n > MAX_SAFE_INTEGER then rpc_failure else Inr (nat n)
     | JStr s \<Rightarrow> if uint78 s then Inr (undec s) else rpc_failure | _ \<Rightarrow> rpc_failure)"

definition proveTronUnlanded :: "rpc \<Rightarrow> string \<Rightarrow> string \<Rightarrow> unlanded_proof option result" where
  "proveTronUnlanded call transactionId expirationMs =
     (if \<not> hash_text transactionId \<or> \<not> uint78 expirationMs then invalid else
      rbind (call ''walletsolidity/getnowblock'' []) (\<lambda>answer.
      rbind (rpcRecord answer) (\<lambda>block.
      rbind (rpcRecord (member block ''block_header'')) (\<lambda>block_header.
      rbind (rpcRecord (member block_header ''raw_data'')) (\<lambda>raw.
      rbind (tron_integer (member raw ''number'')) (\<lambda>number.
      rbind (tron_integer (member raw ''timestamp'')) (\<lambda>timestamp.
      if timestamp \<le> undec expirationMs then Inr None else
      rbind (call ''walletsolidity/gettransactionbyid'' [JStr transactionId]) (\<lambda>transaction.
      rbind (call ''walletsolidity/gettransactioninfobyid'' [JStr transactionId]) (\<lambda>info.
      if transaction \<noteq> JObj [] \<or> info \<noteq> JObj [] then Inr None
      else Inr (Some (TronUnlanded transactionId expirationMs (dec number) (dec timestamp))))))))))))"

section \<open>A proof that was produced validates\<close>

lemma uint78_dec: "n < 10 ^ 78 \<Longrightarrow> uint78 (dec n)"
  using length_dec_le [of n 78] atomic_text_dec [of n] by (auto simp: uint78_def atomic_text_def)

lemma uint78_undec: "uint78 s \<Longrightarrow> dec (undec s) = s"
  using dec_undec [of s] by (auto simp: uint78_def atomic_text_def)

lemma uint78_bound: "uint78 s \<Longrightarrow> undec s < 10 ^ 78"
proof -
  assume s: "uint78 s"
  then have "list_all digit s" "length s \<le> 78" by (auto simp: uint78_def digit_def less_eq_char_def)
  from this(1) have "undec s < 10 ^ length s" by (rule undec_bound)
  also have "\<dots> \<le> 10 ^ 78" by (rule power_increasing) (use \<open>length s \<le> 78\<close> in simp_all)
  finally show ?thesis .
qed

lemma rpcAtomic_bound: "rpcAtomic v = Inr n \<Longrightarrow> n \<le> MAX_UINT64"
  by (auto simp: rpcAtomic_def rpc_failure_def u64_Inr split: jval.splits if_splits)

lemma quantity_uint78: "evmRpcQuantity v = Inr n \<Longrightarrow> uint78 (dec n)"
  by (intro uint78_dec) (auto simp: evmRpcQuantity_def rpc_failure_def MAX_UINT256_def split: jval.splits if_splits)

lemma tron_integer_uint78: "tron_integer v = Inr n \<Longrightarrow> uint78 (dec n)"
  by (cases v) (auto simp: tron_integer_def rpc_failure_def MAX_SAFE_INTEGER_def uint78_undec intro: uint78_dec split: if_splits)

lemma height_uint78: "solanaBlockHeightValue h l = Inr n \<Longrightarrow> uint78 (dec n)"
  by (intro uint78_dec) (auto simp: solanaBlockHeightValue_def MAX_UINT64_def dest!: rpcAtomic_bound split: if_splits)


lemma to_lower_hex: "list_all any_hex s \<Longrightarrow> list_all lower_hex (to_lower s)"
proof (induction s)
  case (Cons c s)
  have "lower_hex (if upper c then char_of (of_char c + (32 :: nat)) else c)"
    using Cons.prems by (auto simp: any_hex_def lower_hex_def upper_def digit_def less_eq_char_def)
  with Cons show ?case by (simp add: to_lower_def del: if_split)
qed (simp add: to_lower_def)

lemma evm_hex_tx: "evmRpcHex (JStr h) 32 = Inr x \<Longrightarrow> tx_hash_text (to_lower h)"
proof -
  assume "evmRpcHex (JStr h) 32 = Inr x"
  then have h: "starts_with ''0x'' h" "length h = 66" "list_all any_hex (drop 2 h)" by (auto simp: evmRpcHex_def rpc_failure_def split: if_splits)
  then obtain r where r: "h = ''0x'' @ r" by (metis starts_with_def append_take_drop_id)
  have "list_all lower_hex (to_lower r)" using h(3) by (intro to_lower_hex) (simp add: r)
  moreover have "to_lower h = ''0x'' @ to_lower r" by (simp add: r to_lower_def upper_def less_eq_char_def)
  ultimately show ?thesis using h(2) by (simp add: tx_hash_text_def starts_with_def r to_lower_def)
qed

lemma solana_unseen_ok: "solana_unseen signature_ok call tx = Inr a \<Longrightarrow> case tx of None \<Rightarrow> True | Some s \<Rightarrow> signature_ok s"
  by (cases tx) (auto simp: solana_unseen_def rpc_failure_def split: if_splits)

lemma solana_proof_validates:
  assumes "proveSolanaUnlanded signature_ok call b pending = Inr (Some u)" "chain_network chain = Some Solana" "uint78 b"
  shows "validateSwapUnlandedProof signature_ok u chain = Inr u \<and> undec (up_bound u) < undec (up_observed u)"
  using assms
  by (auto simp: proveSolanaUnlanded_def validateSwapUnlandedProof_def uint78_undec dest: height_uint78 dest!: solana_unseen_ok
      split: if_splits option.split_asm option.split)

lemma evm_unseen_ok: "evm_unseen call tx = Inr a \<Longrightarrow> case map_option to_lower tx of None \<Rightarrow> True | Some h \<Rightarrow> tx_hash_text h"
  by (cases tx) (auto simp: evm_unseen_def dest: evm_hex_tx)

lemma block_uint78: "evmRpcBlockResult v = Inr (number, raw) \<Longrightarrow> uint78 number"
  by (auto simp: evmRpcBlockResult_def dest: quantity_uint78 split: if_splits)

lemma deadline_uint78: "d \<le> MAX_SAFE_INTEGER \<Longrightarrow> uint78 (dec (nat d))"
  by (intro uint78_dec) (auto simp: MAX_SAFE_INTEGER_def)

lemma evm_proof_shape:
  assumes "proveEvmUnlanded call c d pending = Inr (Some u)"
  obtains h v w number raw time where "u = EvmUnlanded (map_option to_lower h) (dec (nat d)) number (dec time)" "nat d < time"
    "d \<le> MAX_SAFE_INTEGER" "evmRpcBlockResult v = Inr (number, raw)" "evmRpcQuantity w = Inr time" "evm_unseen call h = Inr True"
  using assms by (auto simp: proveEvmUnlanded_def invalid_def not_le not_less split: if_splits)

lemma evm_proof_validates:
  assumes "proveEvmUnlanded call c d pending = Inr (Some u)" "chain_network chain = Some Evm"
  shows "validateSwapUnlandedProof signature_ok u chain = Inr u \<and> undec (up_bound u) < undec (up_observed u)"
proof -
  from assms(1) obtain h v w number raw time where
    u: "u = EvmUnlanded (map_option to_lower h) (dec (nat d)) number (dec time)" "nat d < time" "d \<le> MAX_SAFE_INTEGER" and
    v: "evmRpcBlockResult v = Inr (number, raw)" "evmRpcQuantity w = Inr time" and h: "evm_unseen call h = Inr True"
    by (rule evm_proof_shape)
  with assms(2) block_uint78 [OF v(1)] quantity_uint78 [OF v(2)] deadline_uint78 [OF u(3)] evm_unseen_ok [OF h] show ?thesis
    by (cases h) (simp_all add: validateSwapUnlandedProof_def)
qed

lemma tron_proof_validates:
  assumes "proveTronUnlanded call tx b = Inr (Some u)" "chain_network chain = Some Tron"
  shows "validateSwapUnlandedProof signature_ok u chain = Inr u \<and> undec (up_bound u) < undec (up_observed u)"
  using assms
  by (auto simp: proveTronUnlanded_def validateSwapUnlandedProof_def invalid_def dest: tron_integer_uint78 split: if_splits)


definition sample_tron_rpc :: rpc where
  "sample_tron_rpc name params = (if name = ''walletsolidity/getnowblock''
     then Inr (JObj [(''block_header'', JObj [(''raw_data'', JObj [(''number'', JNum 9), (''timestamp'', JNum 8)])])]) else Inr (JObj []))"



end
