(* ===== verification/SwapTransitions.thy ===== *)
theory SwapTransitions
  imports SwapUnlanded
begin

text \<open>
  The transitions of a guarded swap (\<^verbatim>\<open>swap/transitions.ts\<close>) with the proof that ends a marked stable
  swap without a send (\<^verbatim>\<open>legacy/orca-stable/no-send-proof.ts\<close>), and the laws of the records they
  produce: which edges exist, what a state carries and how the lease follows.
\<close>

section \<open>Evidence\<close>

record no_send_proof =
  nsp_operationId :: string
  nsp_ownerProfileHash :: string
  nsp_quoteHash :: string
  nsp_markerHash :: string
  nsp_markerOperationIntegrityHash :: string
  nsp_materialDigest :: string
  nsp_bindingHash :: "string option"
  nsp_custodyAccountIdentityHash :: string
  nsp_reservationId :: string
  nsp_reservedLeaseIntegrityHash :: string
  nsp_proofHash :: string

definition no_send_body :: "no_send_proof \<Rightarrow> jval" where
  "no_send_body p = JObj [(''schemaVersion'', JStr ''apn.orca-stable-no-send-proof.v1''), (''operationId'', JStr (nsp_operationId p)),
     (''ownerProfileHash'', JStr (nsp_ownerProfileHash p)), (''quoteHash'', JStr (nsp_quoteHash p)), (''markerHash'', JStr (nsp_markerHash p)),
     (''markerOperationIntegrityHash'', JStr (nsp_markerOperationIntegrityHash p)), (''materialDigest'', JStr (nsp_materialDigest p)),
     (''bindingHash'', nullable (nsp_bindingHash p)), (''custodyAccountIdentityHash'', JStr (nsp_custodyAccountIdentityHash p)),
     (''reservationId'', JStr (nsp_reservationId p)), (''reservedLeaseIntegrityHash'', JStr (nsp_reservedLeaseIntegrityHash p))]"

definition validateOrcaStableNoSendProof :: "prims \<Rightarrow> no_send_proof \<Rightarrow> no_send_proof result" where
  "validateOrcaStableNoSendProof P p =
     (if \<not> list_all hash_text [nsp_operationId p, nsp_ownerProfileHash p, nsp_quoteHash p, nsp_markerHash p,
         nsp_markerOperationIntegrityHash p, nsp_materialDigest p, nsp_custodyAccountIdentityHash p, nsp_reservationId p,
         nsp_reservedLeaseIntegrityHash p, nsp_proofHash p] \<or>
         (case nsp_bindingHash p of None \<Rightarrow> False | Some h \<Rightarrow> \<not> hash_text h) then corrupt
      else rbind (canonicalJson (no_send_body p)) (\<lambda>t.
        if nsp_proofHash p \<noteq> domainHash (sha P) ''apn.orca-stable-no-send-proof.v1'' t then corrupt else Inr p))"

record swap_evidence =
  ev_usageLease :: "usage_reservation option"
  ev_marker :: "swap_marker option"
  ev_receipt :: "swap_receipt option"
  ev_failureProofHash :: "string option"
  ev_noSend :: "no_send_proof option"

definition no_evidence :: swap_evidence where
  "no_evidence = \<lparr>ev_usageLease = None, ev_marker = None, ev_receipt = None, ev_failureProofHash = None, ev_noSend = None\<rparr>"

definition present :: "'a option \<Rightarrow> nat" where
  "present v = (case v of None \<Rightarrow> 0 | Some _ \<Rightarrow> 1)"

text \<open>\<^verbatim>\<open>Object.keys(evidence).length\<close>.\<close>

definition evidence_keys :: "swap_evidence \<Rightarrow> nat" where
  "evidence_keys ev = present (ev_usageLease ev) + present (ev_marker ev) + present (ev_receipt ev) +
     present (ev_failureProofHash ev) + present (ev_noSend ev)"

definition lease_in :: "usage_state \<Rightarrow> usage_reservation option \<Rightarrow> bool" where
  "lease_in st l \<longleftrightarrow> (case l of None \<Rightarrow> False | Some r \<Rightarrow> res_state r = st)"

definition final_receipt :: "swap_receipt option \<Rightarrow> bool" where
  "final_receipt r \<longleftrightarrow> (case r of None \<Rightarrow> False | Some x \<Rightarrow> srp_finalized x)"

section \<open>Transitions\<close>

fun ALLOWED :: "swap_state \<Rightarrow> swap_state list" where
  "ALLOWED SwapQuoted = [SwapPrepared, SwapFailedBeforeEffect]"
| "ALLOWED SwapPrepared = [SwapAwaitingApproval, SwapFailedBeforeEffect]"
| "ALLOWED SwapAwaitingApproval = [SwapReserved, SwapFailedBeforeEffect]"
| "ALLOWED SwapReserved = [SwapSubmitting, SwapFailedBeforeEffect]"
| "ALLOWED SwapSubmitting = [SwapSubmitted, SwapUnknownFinality]"
| "ALLOWED SwapSubmitted = [SwapUnknownFinality, SwapFinalized, SwapFailedConfirmedRevert]"
| "ALLOWED SwapUnknownFinality = [SwapFinalized, SwapFailedConfirmedRevert, SwapExpiredUnlanded, SwapAbandonedUnknown]"
| "ALLOWED SwapFinalized = []"
| "ALLOWED SwapFailedBeforeEffect = []"
| "ALLOWED SwapFailedConfirmedRevert = []"
| "ALLOWED SwapExpiredUnlanded = []"
| "ALLOWED SwapAbandonedUnknown = []"

text \<open>A marked stable swap fails by its own proof only.\<close>

definition stable_no_send :: "prims \<Rightarrow> swap_operation \<Rightarrow> swap_evidence \<Rightarrow> swap_operation result" where
  "stable_no_send P op ev =
     (case (so_marker op, so_usageLease op, ev_usageLease ev, ev_noSend ev) of
        (Some m, Some held, Some lease, Some raw) \<Rightarrow>
          if \<not> isOrcaStableGuardedMechanismDigest P (so_mechanismDigest op) \<or> so_receipt op \<noteq> None \<or> evidence_keys ev \<noteq> 3 then invalid
          else rbind (validateOrcaStableNoSendProof P raw) (\<lambda>p.
            if nsp_operationId p \<noteq> so_operationId op \<or> nsp_ownerProfileHash p \<noteq> so_ownerProfileHash op \<or>
               nsp_quoteHash p \<noteq> sq_quoteHash (so_quote op) \<or> nsp_markerHash p \<noteq> smk_markerHash m \<or>
               nsp_markerOperationIntegrityHash p \<noteq> smk_operationIntegrityHash m \<or> nsp_reservationId p \<noteq> res_reservationId held \<or>
               nsp_reservedLeaseIntegrityHash p \<noteq> res_reservationDigest held \<or> ev_failureProofHash ev \<noteq> Some (nsp_proofHash p) \<or>
               res_outcomeDigest lease \<noteq> Some (nsp_proofHash p) \<or> res_reservationId lease \<noteq> res_reservationId held \<or>
               res_state lease \<noteq> FailedBeforeEffect then invalid
            else Inr (op\<lparr>so_failureProofHash := Some (nsp_proofHash p), so_usageLease := Some lease\<rparr>))
      | _ \<Rightarrow> invalid)"

text \<open>The expiry or abandonment of a marked swap releases or charges exactly the lease it holds.\<close>

definition unlanded_patch :: "swap_operation \<Rightarrow> usage_state \<Rightarrow> swap_evidence \<Rightarrow> swap_operation result" where
  "unlanded_patch op lease_state ev =
     (case (ev_usageLease ev, ev_failureProofHash ev) of
        (Some lease, Some proof_hash) \<Rightarrow>
          if so_receipt op \<noteq> None \<or> so_marker op = None \<or> res_state lease \<noteq> lease_state \<or> \<not> hash_text proof_hash \<or>
             res_outcomeDigest lease \<noteq> Some proof_hash \<or> Some (res_reservationId lease) \<noteq> map_option res_reservationId (so_usageLease op) \<or>
             evidence_keys ev \<noteq> 2 then invalid
          else Inr (op\<lparr>so_usageLease := Some lease, so_failureProofHash := Some proof_hash\<rparr>)
      | _ \<Rightarrow> invalid)"

definition early_failure :: "swap_operation \<Rightarrow> swap_evidence \<Rightarrow> swap_operation result" where
  "early_failure op ev =
     (case ev_failureProofHash ev of
        None \<Rightarrow> invalid
      | Some h \<Rightarrow>
          if \<not> hash_text h \<or> (case ev_usageLease ev of None \<Rightarrow> False | Some l \<Rightarrow> res_state l \<noteq> FailedBeforeEffect) \<or>
             ev_marker ev \<noteq> None \<or> ev_receipt ev \<noteq> None \<or> ev_noSend ev \<noteq> None then invalid
          else Inr (op\<lparr>so_failureProofHash := Some h,
            so_usageLease := (case ev_usageLease ev of None \<Rightarrow> so_usageLease op | Some l \<Rightarrow> Some l)\<rparr>))"

definition posted_patch :: "swap_operation \<Rightarrow> usage_state \<Rightarrow> swap_evidence \<Rightarrow> swap_operation result" where
  "posted_patch op lease_state ev =
     (if \<not> lease_in lease_state (ev_usageLease ev) \<or> ev_marker ev \<noteq> None \<or> ev_failureProofHash ev \<noteq> None \<or> ev_noSend ev \<noteq> None then invalid
      else Inr (op\<lparr>so_usageLease := ev_usageLease ev,
        so_receipt := (case ev_receipt ev of None \<Rightarrow> so_receipt op | Some r \<Rightarrow> Some r)\<rparr>))"

text \<open>The operation with the members the evidence sets; the last clause is the unsupported transition.\<close>

fun transitionPatch :: "prims \<Rightarrow> swap_operation \<Rightarrow> swap_state \<Rightarrow> swap_evidence \<Rightarrow> string \<Rightarrow> swap_operation result" where
  "transitionPatch P op SwapPrepared ev at = (if evidence_keys ev \<noteq> 0 then invalid else Inr op)"
| "transitionPatch P op SwapAwaitingApproval ev at = (if evidence_keys ev \<noteq> 0 then invalid else Inr op)"
| "transitionPatch P op SwapReserved ev at =
     (if \<not> lease_in Reserved (ev_usageLease ev) \<or> evidence_keys ev \<noteq> 1 then invalid
      else Inr (op\<lparr>so_usageLease := ev_usageLease ev\<rparr>))"
| "transitionPatch P op SwapSubmitting ev at =
     (case ev_marker ev of None \<Rightarrow> invalid
      | Some m \<Rightarrow> if evidence_keys ev \<noteq> 1 \<or> smk_markedAt m \<noteq> at then invalid else Inr (op\<lparr>so_marker := Some m\<rparr>))"
| "transitionPatch P op SwapSubmitted ev at = posted_patch op Submitted ev"
| "transitionPatch P op SwapUnknownFinality ev at = posted_patch op UnknownFinality ev"
| "transitionPatch P op SwapFinalized ev at =
     (if \<not> lease_in Finalized (ev_usageLease ev) \<or> \<not> final_receipt (ev_receipt ev) \<or> evidence_keys ev \<noteq> 2 then invalid
      else Inr (op\<lparr>so_usageLease := ev_usageLease ev, so_receipt := ev_receipt ev\<rparr>))"
| "transitionPatch P op SwapFailedConfirmedRevert ev at =
     (if \<not> lease_in FailedConfirmedRevert (ev_usageLease ev) \<or> \<not> final_receipt (ev_receipt ev) \<or>
         ev_failureProofHash ev \<noteq> map_option srp_receiptHash (ev_receipt ev) \<or> evidence_keys ev \<noteq> 3 then invalid
      else Inr (op\<lparr>so_usageLease := ev_usageLease ev, so_receipt := ev_receipt ev, so_failureProofHash := ev_failureProofHash ev\<rparr>))"
| "transitionPatch P op SwapExpiredUnlanded ev at = unlanded_patch op ReleasedUnsubmitted ev"
| "transitionPatch P op SwapAbandonedUnknown ev at = unlanded_patch op Finalized ev"
| "transitionPatch P op SwapFailedBeforeEffect ev at =
     (if so_state op = SwapSubmitting then stable_no_send P op ev else early_failure op ev)"
| "transitionPatch P op SwapQuoted ev at = invalid"

definition stable_recovery :: "prims \<Rightarrow> swap_operation \<Rightarrow> swap_state \<Rightarrow> bool" where
  "stable_recovery P op st \<longleftrightarrow> so_state op = SwapSubmitting \<and> st = SwapFailedBeforeEffect \<and>
     isOrcaStableGuardedMechanismDigest P (so_mechanismDigest op)"

definition transitionSwapOperation ::
  "prims \<Rightarrow> inventory \<Rightarrow> swap_operation \<Rightarrow> swap_state \<Rightarrow> swap_evidence \<Rightarrow> jsdate \<Rightarrow> swap_operation result" where
  "transitionSwapOperation P dataset value st ev now =
     rbind (validateSwapOperation P dataset value) (\<lambda>op.
     if st \<notin> set (ALLOWED (so_state op)) \<and> \<not> stable_recovery P op st then blocked else
     rbind (instant now) (\<lambda>at.
     if at < so_updatedAt op then blocked else
     rbind (transitionPatch P op st ev at) (\<lambda>patched.
     seal_swap P dataset (patched\<lparr>so_state := st, so_revision := so_revision op + 1, so_updatedAt := at,
       so_previousIntegrityHash := Some (so_integrityHash op)\<rparr>))))"

section \<open>The order of the states\<close>

text \<open>
  An edge of the record: an allowed one, or the failure of a marked stable swap. Reachability along
  the edges is an order, so no record ever returns to a state it left.
\<close>

definition swap_edge :: "swap_state \<Rightarrow> swap_state \<Rightarrow> bool" where
  "swap_edge s t \<longleftrightarrow> t \<in> set (ALLOWED s) \<or> (s = SwapSubmitting \<and> t = SwapFailedBeforeEffect)"

fun swap_rank :: "swap_state \<Rightarrow> nat" where
  "swap_rank SwapQuoted = 0"
| "swap_rank SwapPrepared = 1"
| "swap_rank SwapAwaitingApproval = 2"
| "swap_rank SwapReserved = 3"
| "swap_rank SwapSubmitting = 4"
| "swap_rank SwapSubmitted = 5"
| "swap_rank SwapUnknownFinality = 6"
| "swap_rank _ = 7"

lemma edge_rank_rises: "swap_edge s t \<Longrightarrow> swap_rank s < swap_rank t"
  by (cases s) (auto simp: swap_edge_def)

lemma reach_rank_rises: "swap_edge\<^sup>+\<^sup>+ s t \<Longrightarrow> swap_rank s < swap_rank t"
  by (induction rule: tranclp_induct) (auto dest: edge_rank_rises)

instantiation swap_state :: order
begin

definition less_eq_swap_state :: "swap_state \<Rightarrow> swap_state \<Rightarrow> bool" where
  "less_eq_swap_state = swap_edge\<^sup>*\<^sup>*"

definition less_swap_state :: "swap_state \<Rightarrow> swap_state \<Rightarrow> bool" where
  "less_swap_state s t \<longleftrightarrow> s \<le> t \<and> \<not> t \<le> s"

instance
proof
  fix x y z :: swap_state
  show "(x < y) = (x \<le> y \<and> \<not> y \<le> x)" by (simp add: less_swap_state_def)
  show "x \<le> x" by (simp add: less_eq_swap_state_def)
  show "x \<le> y \<Longrightarrow> y \<le> z \<Longrightarrow> x \<le> z" by (simp add: less_eq_swap_state_def)
  show "x = y" if "x \<le> y" "y \<le> x"
  proof (rule ccontr)
    assume "x \<noteq> y"
    with that have "swap_edge\<^sup>+\<^sup>+ x y" "swap_edge\<^sup>+\<^sup>+ y x" by (auto simp: less_eq_swap_state_def dest: rtranclpD)
    then show False using reach_rank_rises by (meson less_asym)
  qed
qed

end

lemma swap_edge_less: "swap_edge s t \<Longrightarrow> s < t"
  using edge_rank_rises [of s t] reach_rank_rises [of t s]
  by (auto simp: less_swap_state_def less_eq_swap_state_def dest: rtranclpD)

text \<open>What a state lies beyond.\<close>

lemma terminal_swap_states: "swap_edge s t \<Longrightarrow> s \<notin> set SWAP_TERMINAL_STATES"
  by (cases s) (auto simp: swap_edge_def SWAP_TERMINAL_STATES_def)

lemma terminal_top: "s \<in> set SWAP_TERMINAL_STATES \<Longrightarrow> s \<le> t \<Longrightarrow> t = s"
  by (metis converse_rtranclpE less_eq_swap_state_def terminal_swap_states)

section \<open>Laws of a valid record\<close>

definition swap_ok :: "prims \<Rightarrow> inventory \<Rightarrow> swap_operation \<Rightarrow> bool" where
  "swap_ok P dataset op \<longleftrightarrow> validateSwapOperation P dataset op = Inr op"

lemma validate_swap_self: "validateSwapOperation P dataset v = Inr op \<Longrightarrow> op = v \<and> swap_ok P dataset v"
  by (auto simp: swap_ok_def validateSwapOperation_def split: if_splits)

lemma swap_okD:
  assumes "swap_ok P dataset op"
  shows "swap_fields_ok P dataset op = Inr ()" "validateStateBindings P op = Inr ()" "swap_digest P op = Inr (so_integrityHash op)"
  using assms by (auto simp: swap_ok_def validateSwapOperation_def split: if_splits)

lemma swap_okI:
  "swap_fields_ok P dataset op = Inr () \<Longrightarrow> validateStateBindings P op = Inr () \<Longrightarrow> swap_digest P op = Inr (so_integrityHash op) \<Longrightarrow>
   swap_ok P dataset op"
  by (simp add: swap_ok_def validateSwapOperation_def)

lemma seal_swap_ok: "seal_swap P dataset op = Inr r \<Longrightarrow> swap_ok P dataset r \<and> (\<exists>d. r = op\<lparr>so_integrityHash := d\<rparr>)"
  by (auto simp: seal_swap_def dest: validate_swap_self)

text \<open>The hold of an operation is decided by its state, up to a failure before any hold existed.\<close>

lemma swap_hold:
  assumes "swap_ok P dataset op"
  shows "so_state op \<in> set LEASED \<Longrightarrow> \<exists>l. so_usageLease op = Some l \<and> expectedLeaseState (so_state op) = Some (res_state l)"
    "so_state op \<in> {SwapQuoted, SwapPrepared, SwapAwaitingApproval} \<Longrightarrow> so_usageLease op = None"
    "so_state op = SwapFailedBeforeEffect \<Longrightarrow> so_usageLease op = Some l \<Longrightarrow> res_state l = FailedBeforeEffect"
  using swap_okD(2) [OF assms]
  by (auto simp: validateStateBindings_def outcome_ok_def split: option.splits)

lemma swap_lease_valid:
  assumes "swap_ok P dataset op" "so_usageLease op = Some l"
  shows "stored_ok P l" "lease_bound op l"
  using swap_okD(1) [OF assms(1)] assms(2) validate_self
  by (auto simp: swap_fields_ok_def stored_ok_def dest: validate_self)

lemma swap_marker_phase:
  assumes "swap_ok P dataset op"
  shows "so_marker op \<noteq> None \<longleftrightarrow> so_state op \<in> set EXPOSED \<or> stableMarkedFailure P op"
  using swap_okD(2) [OF assms] by (auto simp: validateStateBindings_def)

lemma swap_unmarked: "swap_ok P dataset op \<Longrightarrow> so_state op \<in> {SwapQuoted, SwapPrepared, SwapAwaitingApproval, SwapReserved} \<Longrightarrow> so_marker op = None"
  using swap_marker_phase [of P dataset op] by (auto simp: EXPOSED_def stableMarkedFailure_def)

lemma swap_marked: "swap_ok P dataset op \<Longrightarrow> so_state op \<in> set EXPOSED \<Longrightarrow> so_marker op \<noteq> None"
  using swap_marker_phase by blast

lemma swap_times:
  assumes "swap_ok P dataset op"
  shows "so_createdAt op \<le> so_updatedAt op" "isIsoInstant (so_updatedAt op)" "so_ownerProfileHash op = sq_profileHash (so_quote op)"
    "1 \<le> so_revision op"
  using swap_okD(1) [OF assms] by (auto simp: swap_fields_ok_def swap_date_def split: if_splits)

section \<open>Laws of a transition\<close>

text \<open>What no transition may change.\<close>

definition swap_frozen :: "swap_operation \<Rightarrow> swap_operation \<Rightarrow> bool" where
  "swap_frozen a b \<longleftrightarrow> so_operationId b = so_operationId a \<and> so_idempotencyHash b = so_idempotencyHash a \<and>
     so_ownerProfileHash b = so_ownerProfileHash a \<and> so_createdAt b = so_createdAt a \<and> so_quote b = so_quote a \<and>
     so_policyDigest b = so_policyDigest a \<and> so_policyVersion b = so_policyVersion a \<and> so_registryDigest b = so_registryDigest a \<and>
     so_registryVersion b = so_registryVersion a \<and> so_mechanismDigest b = so_mechanismDigest a \<and>
     so_approvalCapAtomic b = so_approvalCapAtomic a"

lemma frozen_refl [simp]: "swap_frozen a a"
  by (simp add: swap_frozen_def)

lemma frozen_trans [trans]: "swap_frozen a b \<Longrightarrow> swap_frozen b c \<Longrightarrow> swap_frozen a c"
  by (simp add: swap_frozen_def)

lemma invalid_not_Inr [simp]: "invalid \<noteq> Inr x"
  by (simp add: invalid_def)

lemmas patch_defs = stable_no_send_def unlanded_patch_def early_failure_def posted_patch_def

lemma patch_keeps:
  assumes "transitionPatch P op st ev at = Inr p"
  shows "swap_frozen op p" "st \<noteq> SwapSubmitting \<Longrightarrow> so_marker p = so_marker op"
    "so_usageLease op \<noteq> None \<Longrightarrow> so_usageLease p \<noteq> None"
  using assms
  by (cases st; auto simp: patch_defs swap_frozen_def lease_in_def split: if_splits option.splits)+

lemma swap_transition_result:
  assumes "transitionSwapOperation P dataset v st ev now = Inr n"
  obtains at p where "swap_ok P dataset v" "swap_ok P dataset n" "now = Some at" "so_updatedAt v \<le> at"
    "st \<in> set (ALLOWED (so_state v)) \<or> stable_recovery P v st" "transitionPatch P v st ev at = Inr p"
    "\<exists>d. n = p\<lparr>so_state := st, so_revision := so_revision v + 1, so_updatedAt := at,
      so_previousIntegrityHash := Some (so_integrityHash v), so_integrityHash := d\<rparr>"
  using assms
  by (auto simp: transitionSwapOperation_def instant_def not_less split: if_splits option.splits
      dest!: validate_swap_self seal_swap_ok)

lemma swap_transition_edge: "transitionSwapOperation P dataset v st ev now = Inr n \<Longrightarrow> swap_edge (so_state v) (so_state n) \<and> so_state n = st"
  by (erule swap_transition_result) (auto simp: swap_edge_def stable_recovery_def)

lemma swap_transition_frozen:
  assumes "transitionSwapOperation P dataset v st ev now = Inr n"
  shows "swap_frozen v n"
  using assms
proof (rule swap_transition_result)
  fix at p assume p: "transitionPatch P v st ev at = Inr p" and n: "\<exists>d. n = p\<lparr>so_state := st, so_revision := so_revision v + 1, so_updatedAt := at,
      so_previousIntegrityHash := Some (so_integrityHash v), so_integrityHash := d\<rparr>"
  from patch_keeps(1) [OF p] n show ?thesis by (auto simp: swap_frozen_def)
qed

lemma swap_transition_marker:
  assumes "transitionSwapOperation P dataset v st ev now = Inr n" "so_marker v = Some m"
  shows "so_marker n = Some m"
  using assms(1)
proof (rule swap_transition_result)
  fix at p assume v: "swap_ok P dataset v" and edge: "st \<in> set (ALLOWED (so_state v)) \<or> stable_recovery P v st"
    and p: "transitionPatch P v st ev at = Inr p" and n: "\<exists>d. n = p\<lparr>so_state := st, so_revision := so_revision v + 1, so_updatedAt := at,
      so_previousIntegrityHash := Some (so_integrityHash v), so_integrityHash := d\<rparr>"
  have "st \<noteq> SwapSubmitting"
  proof
    assume "st = SwapSubmitting"
    with edge have "so_state v = SwapReserved" by (cases "so_state v") (auto simp: stable_recovery_def)
    with swap_unmarked [OF v] assms(2) show False by simp
  qed
  with patch_keeps(2) [OF p] n assms(2) show ?thesis by auto
qed

text \<open>Marking for submission leaves the hold.\<close>

lemma marking_source: "transitionSwapOperation P dataset v SwapSubmitting ev now = Inr n \<Longrightarrow> so_state v = SwapReserved"
  using swap_transition_edge [of P dataset v SwapSubmitting ev now n] by (cases "so_state v") (auto simp: swap_edge_def)

lemma marking_lease:
  assumes "transitionSwapOperation P dataset v SwapSubmitting ev now = Inr n"
  shows "so_usageLease n = so_usageLease v" "swap_ok P dataset v" "swap_ok P dataset n"
proof -
  obtain at p d where "swap_ok P dataset v" "swap_ok P dataset n" and patch: "transitionPatch P v SwapSubmitting ev at = Inr p"
    and n: "n = p\<lparr>so_state := SwapSubmitting, so_revision := so_revision v + 1, so_updatedAt := at,
      so_previousIntegrityHash := Some (so_integrityHash v), so_integrityHash := d\<rparr>"
    using swap_transition_result [OF assms] by metis
  then show "swap_ok P dataset v" "swap_ok P dataset n" by blast+
  from patch show "so_usageLease n = so_usageLease v" by (auto simp: n split: option.splits if_splits)
qed

end
