(* ===== verification/SwapFamily.thy ===== *)
theory SwapFamily
  imports RailFamily SwapTransitions
begin

text \<open>
  The family of guarded swaps in the operation index (\<^verbatim>\<open>operation-index/adapters/swap.ts\<close>, with
  \<^verbatim>\<open>adapters/family-claims.ts\<close>, \<^verbatim>\<open>operation-conflict-domain.ts\<close> and \<^verbatim>\<open>unstarted-deadline.ts\<close>): the account a
  swap signs with, how the index reads its record, and what the guard promises for that account.
\<close>

section \<open>The account of a swap\<close>

text \<open>\<^verbatim>\<open>/^[1-9][0-9]{0,15}$/\<close> and \<^verbatim>\<open>/^0x[0-9a-fA-F]{40}$/\<close>.\<close>

definition evm_network_text :: "string \<Rightarrow> bool" where
  "evm_network_text s \<longleftrightarrow> s \<noteq> [] \<and> length s \<le> 16 \<and> hd s \<noteq> CHR ''0'' \<and> list_all digit s"

definition evmConflictDomain :: "string \<Rightarrow> string \<Rightarrow> string result" where
  "evmConflictDomain network acct =
     (if \<not> evm_network_text network \<or> \<not> evm_hex_text acct then Inl (OtherError ''Error'')
      else Inr (''evm:'' @ network @ '':'' @ to_lower acct))"

definition chainDomain :: "string \<Rightarrow> string \<Rightarrow> string result" where
  "chainDomain chain acct =
     (case split_on CHR '':'' chain of
        [scheme, net] \<Rightarrow>
          if scheme = ''eip155'' then evmConflictDomain net acct
          else if scheme = ''solana'' \<and> net = SOLANA_GENESIS then conflict_domain_key SolanaRail acct
          else if scheme = ''tron'' \<and> net = TRON_GENESIS then conflict_domain_key TronRail acct
          else Inl (OtherError ''Error'')
      | _ \<Rightarrow> Inl (OtherError ''Error''))"

definition swapDomain :: "swap_operation \<Rightarrow> string result" where
  "swapDomain r = chainDomain (sa_chain (sq_sourceAsset (so_quote r))) (sq_account (so_quote r))"

definition swapClaims :: "swap_operation \<Rightarrow> op_claim list result" where
  "swapClaims r = rbind (swapDomain r) (\<lambda>key. Inr [exclusive key])"

definition namedProfileHash :: "prims \<Rightarrow> string \<Rightarrow> string" where
  "namedProfileHash P profile = sha256 (sha P) (''profile'' @ [CHR 0x00] @ profile)"

definition namedProfileClaim :: "prims \<Rightarrow> string \<Rightarrow> op_claim" where
  "namedProfileClaim P profile = profileClaim (namedProfileHash P profile)"

section \<open>Reading a damaged record\<close>

text \<open>\<^verbatim>\<open>isAddress\<close> in its strict form: lower case, or the exact checksum.\<close>

definition salvageEvm :: "prims \<Rightarrow> string \<Rightarrow> string option \<Rightarrow> op_claim result" where
  "salvageEvm P network acct =
     (case acct of None \<Rightarrow> Inl (OtherError ''Error'')
      | Some a \<Rightarrow>
          if \<not> evm_hex_text a \<or> (to_lower a \<noteq> a \<and> getAddress P a \<noteq> Some a) then Inl (OtherError ''Error'')
          else rbind (evmConflictDomain network a) (\<lambda>key. Inr (exclusive key)))"

definition salvageChain :: "prims \<Rightarrow> string option \<Rightarrow> string option \<Rightarrow> op_claim result" where
  "salvageChain P chain acct =
     (case chain of None \<Rightarrow> Inl (OtherError ''Error'')
      | Some c \<Rightarrow>
          if starts_with ''eip155:'' c then salvageEvm P (drop 7 c) acct
          else if c = ''solana:'' @ SOLANA_GENESIS then salvageRail (Some ''solana'') acct
          else if c = ''tron:'' @ TRON_GENESIS then salvageRail (Some ''tron'') acct
          else Inl (OtherError ''Error''))"

section \<open>The adapter\<close>

datatype swap_file = SwapShaped swap_operation | SwapOther jval

definition swap_file_json :: "swap_file \<Rightarrow> jval" where
  "swap_file_json f = (case f of SwapShaped r \<Rightarrow> swap_json r | SwapOther j \<Rightarrow> j)"

definition SWAP_STORE :: op_store where
  "SWAP_STORE = \<lparr>os_directory = ''swap-operations'', os_perProfile = True\<rparr>"

text \<open>The repository's \<^verbatim>\<open>readBound\<close> of one file.\<close>

definition swap_read_bound :: "prims \<Rightarrow> inventory \<Rightarrow> string \<Rightarrow> string \<Rightarrow> swap_file \<Rightarrow> swap_operation result" where
  "swap_read_bound P dataset profile operationId file =
     (case file of SwapOther _ \<Rightarrow> corrupt
      | SwapShaped value \<Rightarrow>
          rbind (validateSwapOperation P dataset value) (\<lambda>operation.
          if so_ownerProfileHash operation \<noteq> profile \<or> so_operationId operation \<noteq> operationId then corrupt else Inr operation))"

definition swap_decode :: "prims \<Rightarrow> inventory \<Rightarrow> string \<Rightarrow> swap_file \<Rightarrow> swap_operation result" where
  "swap_decode P dataset path file =
     rbind (requiredRecordPath SWAP_STORE path) (\<lambda>(profile, operationId).
     case profile of None \<Rightarrow> corrupt | Some p \<Rightarrow> swap_read_bound P dataset p operationId file)"

definition UNSTARTED_DEADLINE_MARGIN_MS :: int where
  "UNSTARTED_DEADLINE_MARGIN_MS = 10 * 60000"

definition pastUnstartedDeadline :: "string \<Rightarrow> int \<Rightarrow> bool" where
  "pastUnstartedDeadline deadline now \<longleftrightarrow> isIsoInstant deadline \<and> dateParse deadline + UNSTARTED_DEADLINE_MARGIN_MS \<le> now"

definition swap_finished :: "int \<Rightarrow> swap_operation \<Rightarrow> bool" where
  "swap_finished now r \<longleftrightarrow> so_state r \<in> set SWAP_TERMINAL_STATES \<or>
     so_marker r = None \<and> pastUnstartedDeadline (sq_expiresAt (so_quote r)) now"

definition swap_held :: "prims \<Rightarrow> swap_operation \<Rightarrow> op_claim list option" where
  "swap_held P r = (case swapClaims r of Inl _ \<Rightarrow> None | Inr claims \<Rightarrow> Some (claims @ [namedProfileClaim P (sq_profile (so_quote r))]))"

definition swapAdapter :: "prims \<Rightarrow> inventory \<Rightarrow> (nat \<Rightarrow> int) \<Rightarrow> (swap_file, swap_operation) family_adapter" where
  "swapAdapter P dataset clock = \<lparr>fa_family = ''swap'', fa_stores = [SWAP_STORE],
     fa_path = (\<lambda>path. rbind (requiredRecordPath SWAP_STORE path) (\<lambda>_. Inr ())), fa_decode = swap_decode P dataset,
     fa_identity = (\<lambda>r. \<lparr>ri_profileHash = so_ownerProfileHash r, ri_operationId = so_operationId r,
       ri_idempotencyHash = None, ri_requestHash = None\<rparr>),
     fa_claims = swap_held P, fa_holdsProfile = (\<lambda>_. True), fa_terminal = (\<lambda>n r. Inr (swap_finished (clock n) r)),
     fa_state = (\<lambda>r. swap_state_text (so_state r)), fa_admits = (\<lambda>_ _ _. False),
     fa_salvage = (\<lambda>f. salvageRecord (swap_file_json f) (\<lambda>raw.
       rbind (salvageChain P (text_field raw [''quote'', ''sourceAsset'', ''chain'']) (text_field raw [''quote'', ''account'']))
         (\<lambda>c. Inr [c])) [''ownerProfileHash'']),
     fa_unknownClaims = []\<rparr>"

lemma swap_bound_read: "swap_read_bound P dataset p i f = Inr r \<Longrightarrow> so_ownerProfileHash r = p \<and> so_operationId r = i"
  by (auto simp: swap_read_bound_def corrupt_def split: swap_file.splits if_splits)

interpretation swap_family: account_family "swapAdapter P dataset clock" "\<lambda>r. case swapDomain r of Inl _ \<Rightarrow> None | Inr key \<Rightarrow> Some key"
  for P dataset clock
  by unfold_locales
    (auto simp: swapAdapter_def swap_decode_def requiredRecordPath_def swap_held_def swapClaims_def corrupt_def dest!: swap_bound_read
      split: option.splits prod.splits if_splits sum.splits)


text \<open>The index over swap records only.\<close>

definition sample_swap_index :: "(swap_file, swap_operation) index_env" where
  "sample_swap_index = family_index_env (swapAdapter sample_prims \<lparr>iv_networks = [], iv_assets = []\<rparr> (\<lambda>_. 0))"


end
