(* ===== verification/SwapStore.thy ===== *)
theory SwapStore
  imports SwapFamily SwapRegistry
begin

text \<open>
  The store of guarded swaps (\<^verbatim>\<open>swap/repository.ts\<close>) beside the common usage ledger. The records are the
  files of the operation index, so creating a swap runs its admission; \<open>xw_life\<close> of the index world is
  the number of writes the process makes before it dies, whatever it writes. Whenever locks are taken,
  the environment first lets other processes run.
\<close>

section \<open>World and environment\<close>

record swap_world =
  sw_index :: "swap_file index_world"
  sw_ledger :: ledger

record swap_env =
  se_index :: "(swap_file, swap_operation) index_env"
  se_ledger :: "nat \<Rightarrow> ledger_env"
  se_lock :: "nat \<Rightarrow> string list \<Rightarrow> unit result"
  se_others :: "nat \<Rightarrow> swap_world \<Rightarrow> swap_world"
  se_dataset :: inventory
  se_signature :: "string \<Rightarrow> bool"

definition on_index :: "(swap_file index_world, 'a) stm \<Rightarrow> (swap_world, 'a) stm" where
  "on_index m = (\<lambda>s. case m (sw_index s) of (r, t) \<Rightarrow> (r, s\<lparr>sw_index := t\<rparr>))"

definition others_act :: "swap_env \<Rightarrow> (swap_world, unit) stm" where
  "others_act E = (\<lambda>s. (Inr (), se_others E (xw_tick (sw_index s)) s))"

definition swap_locks :: "swap_env \<Rightarrow> string list \<Rightarrow> (swap_world, 'a) stm \<Rightarrow> (swap_world, 'a) stm" where
  "swap_locks E keys action = bnd (on_index (asks (\<lambda>n. se_lock E n keys))) (\<lambda>_. bnd (others_act E) (\<lambda>_. action))"

text \<open>One operation of the ledger, under its bucket lock.\<close>

definition charge :: "swap_env \<Rightarrow> (ledger_env \<Rightarrow> (ledger, 'a) stm) \<Rightarrow> (swap_world, 'a) stm" where
  "charge E m = swap_locks E [''asset-usage''] (\<lambda>s.
     if xw_life (sw_index s) = 0 then (Inl (OtherError ''crash''), s)
     else case m (se_ledger E (xw_tick (sw_index s))) (sw_ledger s) of
       (r, l) \<Rightarrow> (r, s\<lparr>sw_ledger := l, sw_index := (sw_index s)\<lparr>xw_life := xw_life (sw_index s) - 1\<rparr>\<rparr>))"

section \<open>The repository\<close>

definition swap_path :: "string \<Rightarrow> string \<Rightarrow> string" where
  "swap_path profile operationId = record_path SWAP_STORE profile operationId"

definition swap_lock_keys :: "string \<Rightarrow> string \<Rightarrow> string list" where
  "swap_lock_keys profile operationId = [''profile:'' @ profile, ''operation:'' @ operationId]"

definition read_swap :: "prims \<Rightarrow> inventory \<Rightarrow> swap_file index_world \<Rightarrow> string \<Rightarrow> string \<Rightarrow> swap_operation option result" where
  "read_swap P dataset s profile operationId =
     (case map_of (xw_records s) (swap_path profile operationId) of
        None \<Rightarrow> Inr None
      | Some NotJson \<Rightarrow> corrupt
      | Some (Content file) \<Rightarrow> rbind (swap_read_bound P dataset profile operationId file) (\<lambda>r. Inr (Some r)))"

definition readBound :: "prims \<Rightarrow> swap_env \<Rightarrow> string \<Rightarrow> string \<Rightarrow> (swap_world, swap_operation option) stm" where
  "readBound P E profile operationId = on_index (looks (\<lambda>s. read_swap P (se_dataset E) s profile operationId))"

definition identifiers :: "string list \<Rightarrow> unit result" where
  "identifiers ids = rbind (rmap stateIdentifier ids) (\<lambda>_. Inr ())"

definition swap_load :: "prims \<Rightarrow> swap_env \<Rightarrow> string \<Rightarrow> string \<Rightarrow> (swap_world, swap_operation option) stm" where
  "swap_load P E profile operationId =
     bnd (lift (identifiers [profile, operationId])) (\<lambda>_.
       swap_locks E (swap_lock_keys profile operationId) (readBound P E profile operationId))"

text \<open>Without a lock: the reader of the index and of the lookup by operation id alone.\<close>

definition swap_read :: "prims \<Rightarrow> swap_env \<Rightarrow> string \<Rightarrow> string \<Rightarrow> (swap_world, swap_operation option) stm" where
  "swap_read P E profile operationId = bnd (lift (identifiers [profile, operationId])) (\<lambda>_. readBound P E profile operationId)"

text \<open>The profile directories of the store, as its record files name them.\<close>

definition swap_profiles :: "swap_file index_world \<Rightarrow> string list" where
  "swap_profiles s = remdups (List.map_filter (\<lambda>(path, _). case split_on CHR ''/'' path of
     [dir, profile, _] \<Rightarrow> if dir = ''swap-operations'' then Some profile else None | _ \<Rightarrow> None) (xw_records s))"

fun find_swap :: "prims \<Rightarrow> swap_env \<Rightarrow> string \<Rightarrow> string list \<Rightarrow> swap_operation option \<Rightarrow> (swap_world, swap_operation option) stm" where
  "find_swap P E operationId [] found = ret found"
| "find_swap P E operationId (profile # profiles) found =
     (if \<not> hash_text profile then lift corrupt
      else bnd (readBound P E profile operationId) (\<lambda>candidate.
        case candidate of None \<Rightarrow> find_swap P E operationId profiles found
        | Some c \<Rightarrow> if found \<noteq> None then lift corrupt else find_swap P E operationId profiles (Some c)))"

definition swap_loadAny :: "prims \<Rightarrow> swap_env \<Rightarrow> string \<Rightarrow> (swap_world, swap_operation option) stm" where
  "swap_loadAny P E operationId =
     bnd (lift (identifiers [operationId])) (\<lambda>_.
     bnd (on_index (looks (\<lambda>s. Inr (swap_profiles s)))) (\<lambda>profiles. find_swap P E operationId profiles None))"

definition put_swap :: "string \<Rightarrow> swap_operation \<Rightarrow> (swap_file index_world, unit) stm" where
  "put_swap path operation = put (\<lambda>s. s\<lparr>xw_records := AList.update path (Content (SwapShaped operation)) (xw_records s)\<rparr>)"

text \<open>A create-only write refuses an occupied path.\<close>

definition create_swap :: "string \<Rightarrow> swap_operation \<Rightarrow> (swap_file index_world, unit) stm" where
  "create_swap path operation =
     bnd (looks (\<lambda>s. if map_of (xw_records s) path \<noteq> None then Inl (ApnError APN_STATE_SECURITY None) else Inr ())) (\<lambda>_.
       put_swap path operation)"

definition immutable_json :: "swap_operation \<Rightarrow> jval" where
  "immutable_json op = JObj [(''operationId'', JStr (so_operationId op)), (''idempotencyHash'', JStr (so_idempotencyHash op)),
     (''ownerProfileHash'', JStr (so_ownerProfileHash op)), (''quote'', quote_json (so_quote op)), (''policyDigest'', JStr (so_policyDigest op)),
     (''policyVersion'', JStr (so_policyVersion op)), (''protocolRegistryDigest'', JStr (so_registryDigest op)),
     (''protocolRegistryVersion'', JStr (so_registryVersion op)), (''mechanismDigest'', JStr (so_mechanismDigest op)),
     (''approvalCapAtomic'', JStr (so_approvalCapAtomic op))]"

definition sameImmutable :: "swap_operation \<Rightarrow> swap_operation \<Rightarrow> bool" where
  "sameImmutable a b \<longleftrightarrow> canonicalJson (immutable_json a) = canonicalJson (immutable_json b)"

definition swap_identity :: "swap_operation \<Rightarrow> op_identity" where
  "swap_identity op = \<lparr>oi_family = ''swap'', oi_profileHash = so_ownerProfileHash op, oi_operationId = so_operationId op,
     oi_idempotencyHash = None, oi_requestHash = None\<rparr>"

definition swap_wanted :: "prims \<Rightarrow> swap_operation \<Rightarrow> op_claim list \<Rightarrow> wanted_claims" where
  "swap_wanted P op claims = \<lparr>wc_family = None, wc_profileHash = Some (so_ownerProfileHash op), wc_claims = claims,
     wc_holds = [namedProfileClaim P (sq_profile (so_quote op))], wc_waits = [], wc_tag = None, wc_except = None\<rparr>"

definition swap_create :: "prims \<Rightarrow> swap_env \<Rightarrow> swap_operation \<Rightarrow> (swap_world, swap_operation) stm" where
  "swap_create P E operationValue =
     bnd (lift (validateSwapOperation P (se_dataset E) operationValue)) (\<lambda>operation.
     let profile = so_ownerProfileHash operation; operationId = so_operationId operation in
     swap_locks E (swap_lock_keys profile operationId)
       (bnd (readBound P E profile operationId) (\<lambda>existing.
        case existing of
          Some e \<Rightarrow> if sameImmutable e operation then ret e else lift blocked
        | None \<Rightarrow>
            bnd (lift (swapClaims operation)) (\<lambda>claims.
            on_index (admit_index (se_index E) (swap_identity operation) (swap_wanted P operation claims)
              (bnd (create_swap (swap_path profile operationId) operation) (\<lambda>_. ret operation)))))))"

definition swap_move :: "prims \<Rightarrow> swap_env \<Rightarrow> string \<Rightarrow> string \<Rightarrow> string \<Rightarrow> swap_state \<Rightarrow> swap_evidence \<Rightarrow> jsdate \<Rightarrow>
    (swap_world, swap_operation) stm" where
  "swap_move P E profile operationId expected st evidence now =
     bnd (lift (identifiers [profile, operationId, expected])) (\<lambda>_.
     swap_locks E (swap_lock_keys profile operationId)
       (bnd (readBound P E profile operationId) (\<lambda>loaded.
        case loaded of None \<Rightarrow> lift (Inl (ApnError APN_OPERATION_NOT_FOUND None))
        | Some operation \<Rightarrow>
            if so_integrityHash operation \<noteq> expected then lift blocked
            else bnd (lift (transitionSwapOperation P (se_dataset E) operation st evidence now)) (\<lambda>next_record.
              bnd (on_index (put_swap (swap_path profile operationId) next_record)) (\<lambda>_. ret next_record)))))"

end
