(* ===== verification/SwapService.thy ===== *)
theory SwapService
  imports SwapStore
begin

text \<open>
  The service that moves a guarded swap (\<^verbatim>\<open>swap/service.ts\<close>): every operation checks the record it was
  given, moves the hold in the usage ledger, and then the stored record, if it is still the given one.
\<close>

section \<open>Identity\<close>

definition swapIdempotencyHash :: "prims \<Rightarrow> string \<Rightarrow> string result" where
  "swapIdempotencyHash P key =
     (if \<not> idempotency_key_text 200 key then invalid else Inr (sha256 (sha P) (''swap-idempotency'' @ [CHR 0x00] @ key)))"

definition preparedSwapOperationId :: "prims \<Rightarrow> string \<Rightarrow> string \<Rightarrow> string result" where
  "preparedSwapOperationId P profile key =
     rbind (swapIdempotencyHash P key) (\<lambda>h.
     rbind (canonicalJson (JObj [(''profileHash'', JStr (swapProfileHash P profile)), (''idempotencyHash'', JStr h)])) (\<lambda>t.
       Inr (domainHash (sha P) ''apn.swap-operation-id.v1'' t)))"

definition swap_usage_identity :: "swap_operation \<Rightarrow> usage_identity" where
  "swap_usage_identity op = \<lparr>id_account = sq_account (so_quote op), id_chain = sa_chain (sq_sourceAsset (so_quote op)),
     id_asset = swap_asset_ref (sq_sourceAsset (so_quote op))\<rparr>"

definition assertLiveQuote :: "swap_operation \<Rightarrow> jsdate \<Rightarrow> string result" where
  "assertLiveQuote op now = rbind (instant now) (\<lambda>at.
     if at < sq_effectiveAt (so_quote op) \<or> sq_expiresAt (so_quote op) \<le> at then blocked else Inr at)"

definition swap_evaluation :: "swap_asset \<Rightarrow> string \<Rightarrow> string \<Rightarrow> evaluation_input" where
  "swap_evaluation a amount at = \<lparr>in_chain = sa_chain a, in_asset = swap_asset_ref a, in_rail = Swap, in_mechanism = None,
     in_amountAtomic = amount, in_dailyUsageAtomic = ''0'', in_asOfDate = take 10 at, in_asOf = Some at\<rparr>"

definition bound_admission :: "prims \<Rightarrow> swap_operation \<Rightarrow> policy_registry \<Rightarrow> swap_asset \<Rightarrow> string \<Rightarrow> string \<Rightarrow> unit result" where
  "bound_admission P op policy a amount at =
     rbind (evaluateAssetPolicy P policy (swap_evaluation a amount at)) (\<lambda>admission.
     if adm_policyDigest admission \<noteq> so_policyDigest op \<or> adm_registryVersion admission \<noteq> so_policyVersion op \<or>
        swapAdmissionMechanisms (adm_asset admission) = [] then blocked else Inr ())"

definition assertPolicyBindings :: "prims \<Rightarrow> swap_operation \<Rightarrow> policy_registry \<Rightarrow> string \<Rightarrow> unit result" where
  "assertPolicyBindings P op policy at =
     rbind (bound_admission P op policy (sq_sourceAsset (so_quote op)) (sq_inputAmountAtomic (so_quote op)) at) (\<lambda>_.
       bound_admission P op policy (sq_destinationAsset (so_quote op)) (sq_minimumOutputAtomic (so_quote op)) at)"

section \<open>Prepare\<close>

record swap_prepare_input =
  sp_quote :: swap_quote
  sp_assetPolicy :: policy_registry
  sp_protocolRegistry :: swap_protocol_registry
  sp_idempotencyKey :: string
  sp_approvalCapAtomic :: string
  sp_now :: jsdate
  sp_laneMechanismDigest :: "string option"

definition prepared_operation :: "prims \<Rightarrow> inventory \<Rightarrow> swap_prepare_input \<Rightarrow> swap_operation result" where
  "prepared_operation P dataset input =
     rbind (createSwapQuote P dataset (sp_quote input)) (\<lambda>quote.
     rbind (instant (sp_now input)) (\<lambda>at.
     rbind (validateAssetPolicyRegistry P (sp_assetPolicy input)) (\<lambda>policy.
     if at < sq_effectiveAt quote \<or> sq_expiresAt quote \<le> at then invalid else
     rbind (evaluateAssetPolicy P policy (swap_evaluation (sq_sourceAsset quote) (sq_inputAmountAtomic quote) at)) (\<lambda>admission.
     rbind (evaluateAssetPolicy P policy (swap_evaluation (sq_destinationAsset quote) (sq_minimumOutputAtomic quote) at)) (\<lambda>destination.
     rbind (validateSwapProtocolRegistry P (sp_protocolRegistry input)) (\<lambda>registry.
     rbind (admittedSwapProtocol P registry (sa_chain (sq_sourceAsset quote)) (adm_asset admission) (adm_asset destination)
       (sp_laneMechanismDigest input)) (\<lambda>lane.
     rbind (swapIdempotencyHash P (sp_idempotencyKey input)) (\<lambda>idempotencyHash.
     rbind (preparedSwapOperationId P (sq_profile quote) (sp_idempotencyKey input)) (\<lambda>operationId.
     newSwapOperation P dataset \<lparr>ns_operationId = operationId, ns_idempotencyHash = idempotencyHash, ns_quote = quote,
       ns_policyDigest = adm_policyDigest admission, ns_policyVersion = adm_registryVersion admission,
       ns_registryDigest = spg_registryDigest registry, ns_registryVersion = spg_registryVersion registry,
       ns_mechanismDigest = spr_mechanismDigest lane, ns_approvalCapAtomic = sp_approvalCapAtomic input, ns_now = sp_now input\<rparr>)))))))))"

definition advance :: "prims \<Rightarrow> swap_env \<Rightarrow> swap_operation \<Rightarrow> swap_state \<Rightarrow> swap_evidence \<Rightarrow> jsdate \<Rightarrow> (swap_world, swap_operation) stm" where
  "advance P E op st evidence now =
     swap_move P E (so_ownerProfileHash op) (so_operationId op) (so_integrityHash op) st evidence now"

definition advance_from :: "prims \<Rightarrow> swap_env \<Rightarrow> swap_state \<Rightarrow> swap_state \<Rightarrow> jsdate \<Rightarrow> swap_operation \<Rightarrow> (swap_world, swap_operation) stm" where
  "advance_from P E source target now op =
     (if so_state op = source then advance P E op target no_evidence now else ret op)"

definition swap_prepare :: "prims \<Rightarrow> swap_env \<Rightarrow> swap_prepare_input \<Rightarrow> (swap_world, swap_operation) stm" where
  "swap_prepare P E input =
     bnd (lift (prepared_operation P (se_dataset E) input)) (\<lambda>fresh.
     bnd (swap_create P E fresh) (\<lambda>operation.
     bnd (advance_from P E SwapQuoted SwapPrepared (sp_now input) operation)
       (advance_from P E SwapPrepared SwapAwaitingApproval (sp_now input))))"

section \<open>The hold\<close>

definition swap_reserve_input :: "swap_operation \<Rightarrow> policy_registry \<Rightarrow> jsdate \<Rightarrow> reserve_input" where
  "swap_reserve_input op policy now = \<lparr>ri_identity = swap_usage_identity op, ri_registry = policy, ri_rail = Swap, ri_mechanism = None,
     ri_amountAtomic = sq_inputAmountAtomic (so_quote op), ri_idempotencyKey = ''swap-'' @ so_idempotencyHash op, ri_now = now,
     ri_retryFailedBeforeEffect = False\<rparr>"

definition reserve_checked :: "prims \<Rightarrow> swap_operation \<Rightarrow> policy_registry \<Rightarrow> jsdate \<Rightarrow> unit result" where
  "reserve_checked P op policy now =
     (if so_state op \<noteq> SwapAwaitingApproval then blocked else
      rbind (assertLiveQuote op now) (\<lambda>at.
      rbind (validateAssetPolicyRegistry P policy) (\<lambda>registry.
      if reg_policyDigest registry \<noteq> so_policyDigest op \<or> reg_registryVersion registry \<noteq> so_policyVersion op then blocked
      else assertPolicyBindings P op registry at)))"

definition swap_reserve :: "prims \<Rightarrow> swap_env \<Rightarrow> swap_operation \<Rightarrow> policy_registry \<Rightarrow> jsdate \<Rightarrow> (swap_world, swap_operation) stm" where
  "swap_reserve P E operationValue policy now =
     bnd (lift (validateSwapOperation P (se_dataset E) operationValue)) (\<lambda>op.
     bnd (lift (reserve_checked P op policy now)) (\<lambda>_.
     bnd (charge E (\<lambda>L. reserve P L (swap_reserve_input op policy now))) (\<lambda>lease.
       advance P E op SwapReserved (no_evidence\<lparr>ev_usageLease := Some lease\<rparr>) now)))"

text \<open>\<^verbatim>\<open>operation.usageLease!.reservationId\<close> of a record without a lease is a type error.\<close>

definition usage_move :: "swap_operation \<Rightarrow> usage_state \<Rightarrow> jsdate \<Rightarrow> string option \<Rightarrow> transition_input result" where
  "usage_move op st now outcome =
     (case so_usageLease op of None \<Rightarrow> Inl (OtherError ''TypeError'')
      | Some l \<Rightarrow> Inr \<lparr>ti_identity = swap_usage_identity op, ti_reservationId = res_reservationId l, ti_policyDigest = so_policyDigest op,
          ti_state = st, ti_now = now, ti_outcomeDigest = outcome, ti_consumedAtomic = None, ti_effectAt = None,
          ti_expectedCurrentStates = None\<rparr>)"

definition move_lease :: "prims \<Rightarrow> swap_env \<Rightarrow> swap_operation \<Rightarrow> usage_state \<Rightarrow> jsdate \<Rightarrow> string option \<Rightarrow> (swap_world, usage_reservation) stm" where
  "move_lease P E op st now outcome =
     bnd (lift (usage_move op st now outcome)) (\<lambda>input. charge E (\<lambda>L. transition P L input))"

section \<open>Sending\<close>

definition submission_marker :: "prims \<Rightarrow> swap_operation \<Rightarrow> string \<Rightarrow> swap_marker result" where
  "submission_marker P op at =
     (let m = \<lparr>smk_markerHash = [], smk_markedAt = at, smk_operationIntegrityHash = so_integrityHash op,
        smk_payloadHash = sq_unsignedTransactionPayloadHash (so_quote op)\<rparr> in
      rbind (swap_marker_hash P (so_operationId op) m) (\<lambda>h. Inr (m\<lparr>smk_markerHash := h\<rparr>)))"

definition markSubmitting :: "prims \<Rightarrow> swap_env \<Rightarrow> swap_operation \<Rightarrow> jsdate \<Rightarrow> (swap_world, swap_operation) stm" where
  "markSubmitting P E operationValue now =
     bnd (lift (validateSwapOperation P (se_dataset E) operationValue)) (\<lambda>op.
     if so_state op \<noteq> SwapReserved then lift blocked
     else if isOrcaStableGuardedMechanismDigest P (so_mechanismDigest op) then lift blocked
     else bnd (lift (assertLiveQuote op now)) (\<lambda>at.
       bnd (lift (submission_marker P op at)) (\<lambda>m.
         advance P E op SwapSubmitting (no_evidence\<lparr>ev_marker := Some m\<rparr>) now)))"

text \<open>\<^verbatim>\<open>operation.submissionMarker!.markedAt\<close>.\<close>

definition swap_receipt_proof :: "swap_operation \<Rightarrow> string \<Rightarrow> swap_receipt \<Rightarrow> swap_receipt result" where
  "swap_receipt_proof op at r =
     (case so_marker op of None \<Rightarrow> Inl (OtherError ''TypeError'')
      | Some m \<Rightarrow> validateSwapReceiptProof r (sa_chain (sq_sourceAsset (so_quote op))) (smk_markedAt m) at False)"

fun posted_lease :: "swap_state \<Rightarrow> usage_state result" where
  "posted_lease SwapSubmitted = Inr Submitted"
| "posted_lease SwapUnknownFinality = Inr UnknownFinality"
| "posted_lease _ = invalid"

definition recordPossibleSend :: "prims \<Rightarrow> swap_env \<Rightarrow> swap_operation \<Rightarrow> swap_state \<Rightarrow> jsdate \<Rightarrow> swap_receipt option \<Rightarrow>
    (swap_world, swap_operation) stm" where
  "recordPossibleSend P E operationValue st now receiptProof =
     bnd (lift (validateSwapOperation P (se_dataset E) operationValue)) (\<lambda>op.
     bnd (lift (posted_lease st)) (\<lambda>lease_state.
     if so_state op \<noteq> SwapSubmitting \<and> so_state op \<noteq> SwapSubmitted then lift blocked else
     bnd (lift (instant now)) (\<lambda>at.
     bnd (lift (case receiptProof of None \<Rightarrow> Inr None | Some r \<Rightarrow> rbind (swap_receipt_proof op at r) (\<lambda>r. Inr (Some r)))) (\<lambda>receipt.
     bnd (move_lease P E op lease_state now None) (\<lambda>lease.
       advance P E op st (no_evidence\<lparr>ev_usageLease := Some lease, ev_receipt := receipt\<rparr>) now)))))"

definition awaiting_finality :: "swap_state \<Rightarrow> bool" where
  "awaiting_finality st \<longleftrightarrow> st = SwapSubmitted \<or> st = SwapUnknownFinality"

definition final_proof :: "swap_operation \<Rightarrow> jsdate \<Rightarrow> swap_receipt \<Rightarrow> swap_receipt result" where
  "final_proof op now r =
     (if \<not> awaiting_finality (so_state op) then blocked else
      rbind (instant now) (\<lambda>at.
      rbind (swap_receipt_proof op at r) (\<lambda>r. if \<not> srp_finalized r then invalid else Inr r)))"

definition finalize :: "prims \<Rightarrow> swap_env \<Rightarrow> swap_operation \<Rightarrow> jsdate \<Rightarrow> swap_receipt \<Rightarrow> (swap_world, swap_operation) stm" where
  "finalize P E operationValue now receiptProof =
     bnd (lift (validateSwapOperation P (se_dataset E) operationValue)) (\<lambda>op.
     bnd (lift (final_proof op now receiptProof)) (\<lambda>r.
     bnd (move_lease P E op Finalized now (Some (srp_receiptHash r))) (\<lambda>lease.
       advance P E op SwapFinalized (no_evidence\<lparr>ev_usageLease := Some lease, ev_receipt := Some r\<rparr>) now)))"

definition failConfirmedRevert :: "prims \<Rightarrow> swap_env \<Rightarrow> swap_operation \<Rightarrow> jsdate \<Rightarrow> swap_receipt \<Rightarrow> (swap_world, swap_operation) stm" where
  "failConfirmedRevert P E operationValue now revertProof =
     bnd (lift (validateSwapOperation P (se_dataset E) operationValue)) (\<lambda>op.
     bnd (lift (final_proof op now revertProof)) (\<lambda>r.
     bnd (move_lease P E op FailedConfirmedRevert now (Some (srp_receiptHash r))) (\<lambda>lease.
       advance P E op SwapFailedConfirmedRevert (no_evidence\<lparr>ev_usageLease := Some lease, ev_receipt := Some r,
         ev_failureProofHash := Some (srp_receiptHash r)\<rparr>) now)))"

section \<open>Ending without a receipt\<close>

definition failBeforeEffect :: "prims \<Rightarrow> swap_env \<Rightarrow> swap_operation \<Rightarrow> jsdate \<Rightarrow> string \<Rightarrow> (swap_world, swap_operation) stm" where
  "failBeforeEffect P E operationValue now failureProofHash =
     bnd (lift (validateSwapOperation P (se_dataset E) operationValue)) (\<lambda>op.
     if so_state op \<notin> {SwapQuoted, SwapPrepared, SwapAwaitingApproval, SwapReserved} then lift blocked else
     bnd (if so_usageLease op = None then ret None
       else bnd (move_lease P E op FailedBeforeEffect now (Some failureProofHash)) (\<lambda>lease. ret (Some lease))) (\<lambda>lease.
       advance P E op SwapFailedBeforeEffect
         (no_evidence\<lparr>ev_usageLease := lease, ev_failureProofHash := Some failureProofHash\<rparr>) now))"

definition open_unknown :: "swap_operation \<Rightarrow> bool" where
  "open_unknown op \<longleftrightarrow> so_state op \<in> {SwapSubmitting, SwapSubmitted, SwapUnknownFinality} \<and> so_marker op \<noteq> None \<and>
     so_receipt op = None \<and> so_usageLease op \<noteq> None"

definition as_unknown :: "prims \<Rightarrow> swap_env \<Rightarrow> swap_operation \<Rightarrow> jsdate \<Rightarrow> (swap_world, swap_operation) stm" where
  "as_unknown P E op now =
     (if so_state op \<noteq> SwapUnknownFinality then recordPossibleSend P E op SwapUnknownFinality now None else ret op)"

definition expireUnlanded :: "prims \<Rightarrow> swap_env \<Rightarrow> swap_operation \<Rightarrow> jsdate \<Rightarrow> unlanded_proof \<Rightarrow> (swap_world, swap_operation) stm" where
  "expireUnlanded P E operationValue now proof_value =
     bnd (lift (validateSwapOperation P (se_dataset E) operationValue)) (\<lambda>op.
     if \<not> open_unknown op then lift blocked else
     bnd (lift (instant now)) (\<lambda>_.
     bnd (lift (rbind (validateSwapUnlandedProof (se_signature E) proof_value (sa_chain (sq_sourceAsset (so_quote op))))
       (swapUnlandedProofHash P op))) (\<lambda>h.
     bnd (as_unknown P E op now) (\<lambda>op.
     bnd (move_lease P E op ReleasedUnsubmitted now (Some h)) (\<lambda>lease.
       advance P E op SwapExpiredUnlanded (no_evidence\<lparr>ev_usageLease := Some lease, ev_failureProofHash := Some h\<rparr>) now)))))"

definition abandonUnknown :: "prims \<Rightarrow> swap_env \<Rightarrow> swap_operation \<Rightarrow> jsdate \<Rightarrow> string \<Rightarrow> (swap_world, swap_operation) stm" where
  "abandonUnknown P E operationValue now acknowledgement =
     bnd (lift (validateSwapOperation P (se_dataset E) operationValue)) (\<lambda>op.
     if \<not> open_unknown op then lift blocked else
     bnd (lift (instant now)) (\<lambda>_.
     bnd (as_unknown P E op now) (\<lambda>op.
     bnd (move_lease P E op Finalized now (Some acknowledgement)) (\<lambda>lease.
       advance P E op SwapAbandonedUnknown (no_evidence\<lparr>ev_usageLease := Some lease, ev_failureProofHash := Some acknowledgement\<rparr>) now))))"

section \<open>Resuming\<close>

datatype resume_directive = PrepareOrApprove | ObserveOnly | TerminalSwap

definition resumeDirective :: "prims \<Rightarrow> inventory \<Rightarrow> swap_operation \<Rightarrow> resume_directive result" where
  "resumeDirective P dataset operationValue =
     rbind (validateSwapOperation P dataset operationValue) (\<lambda>op.
     Inr (if so_state op \<in> set SWAP_TERMINAL_STATES then TerminalSwap
       else if so_marker op = None then PrepareOrApprove else ObserveOnly))"

end
