(* ===== verification/SwapSamples.thy ===== *)
theory SwapSamples
  imports SwapTransitions UsageSamples
begin

text \<open>
  A sample swap: five units of a token against the native asset of one chain, at every state of its
  life before the outcome, with the hold it carries. The witnesses of the swap properties run on it.
\<close>

section \<open>The quote\<close>

definition sample_dataset :: inventory where
  "sample_dataset = \<lparr>iv_networks = [''eip155:8453''], iv_assets =
     [\<lparr>la_chain = ''eip155:8453'', la_kind = Native, la_identifier = None, la_symbol = ''ETH'', la_decimals = 18\<rparr>,
      \<lparr>la_chain = ''eip155:8453'', la_kind = Token, la_identifier = Some sample_usdc, la_symbol = ''USDC'', la_decimals = 6\<rparr>]\<rparr>"

definition sample_swap_at :: string where
  "sample_swap_at = ''2026-05-05T10:00:00.000Z''"

definition sample_quote :: swap_quote where
  "sample_quote = \<lparr>sq_profile = ''main'', sq_profileHash = aaa, sq_account = sample_recipient, sq_recipient = sample_recipient,
     sq_sourceAsset = \<lparr>sa_chain = ''eip155:8453'', sa_kind = Token, sa_identifier = Some sample_usdc\<rparr>,
     sq_destinationAsset = \<lparr>sa_chain = ''eip155:8453'', sa_kind = Native, sa_identifier = None\<rparr>,
     sq_inputAmountAtomic = ''5'', sq_expectedOutputAtomic = ''100'', sq_minimumOutputAtomic = ''99'', sq_slippageBps = 100,
     sq_effectiveAt = ''2026-05-05T09:00:00.000Z'', sq_expiresAt = ''2026-05-05T11:00:00.000Z'',
     sq_providerResponseHash = aaa, sq_routeHash = aaa, sq_unsignedTransactionPayloadHash = aaa,
     sq_simulation = \<lparr>ss_requestHash = aaa, ss_resultHash = aaa, ss_success = True, ss_blockNumber = ''7'',
       ss_blockHash = ''0x'' @ aaa, ss_headBlockNumber = ''8'', ss_maxHeadDrift = 2, ss_gasEstimate = ''1''\<rparr>,
     sq_quoteHash = aaa\<rparr>"

lemma sample_quote_plain: "plain_json (JObj (quote_body sample_quote))"
  by (simp add: quote_body_def swap_asset_json_def simulation_proof_json_def sample_quote_def MAX_SAFE_INTEGER_def)

lemma sample_quote_hash: "quote_hash sample_prims sample_quote = Inr aaa"
  unfolding quote_hash_def by (rule sample_canonical) (rule sample_quote_plain)

lemma swap_atomic_dec: "dec n = t \<Longrightarrow> length t \<le> 78 \<Longrightarrow> 0 < n \<Longrightarrow> n \<le> MAX_UINT256 \<Longrightarrow> swap_atomic t p b = Inr n"
  using parseAtomic_dec [of n p] by (auto simp: swap_atomic_def usage_atomic_def)

lemma sample_decimals: "dec 5 = ''5''" "dec 100 = ''100''" "dec 99 = ''99''" "dec 7 = ''7''" "dec 8 = ''8''" "dec 1 = ''1''"
  by code_simp+

lemma sample_atomics:
  "swap_atomic ''5'' p b = Inr 5" "swap_atomic ''100'' p b = Inr 100" "swap_atomic ''99'' p b = Inr 99" "swap_atomic ''7'' p b = Inr 7"
  "swap_atomic ''8'' p b = Inr 8" "swap_atomic ''1'' p b = Inr 1"
  by (rule swap_atomic_dec; simp add: sample_decimals sample_decimals(6) [simplified] MAX_UINT256_def)+

lemma sample_simulation_texts: "hash_text aaa" "tx_hash_text (''0x'' @ aaa)"
  by code_simp+

lemma sample_quote_checks:
  "quote_parties_ok sample_prims sample_dataset sample_quote b = Inr ()" "quote_amounts_ok sample_quote b = Inr ()"
  "simulation_ok (sq_simulation sample_quote) b = Inr ()"
proof -
  show "quote_parties_ok sample_prims sample_dataset sample_quote b = Inr ()" by (cases b; code_simp)
  show "quote_amounts_ok sample_quote b = Inr ()"
    by (simp add: quote_amounts_ok_def sample_quote_def sample_atomics minimum_allowed_def wbtc_acquisition_def)
  show "simulation_ok (sq_simulation sample_quote) b = Inr ()"
    using sample_simulation_texts by (simp add: simulation_ok_def sample_quote_def sample_atomics)
qed

lemma sample_quote_texts:
  "version_text (sq_profile sample_quote)" "isIsoInstant (sq_effectiveAt sample_quote)" "isIsoInstant (sq_expiresAt sample_quote)"
  "sq_effectiveAt sample_quote < sq_expiresAt sample_quote"
  "list_all hash_text [sq_profileHash sample_quote, sq_providerResponseHash sample_quote, sq_routeHash sample_quote,
     sq_unsignedTransactionPayloadHash sample_quote, sq_quoteHash sample_quote]"
  "canonicalJson (swap_asset_json (sq_sourceAsset sample_quote)) \<noteq> canonicalJson (swap_asset_json (sq_destinationAsset sample_quote))"
  by code_simp+

lemma sample_quote_ok: "validateSwapQuote sample_prims sample_dataset sample_quote b = Inr sample_quote"
proof -
  have "sq_slippageBps sample_quote = 100" "sq_quoteHash sample_quote = aaa" "sq_profileHash sample_quote = aaa" by (simp_all add: sample_quote_def)
  then show ?thesis
    using sample_quote_texts by (simp add: validateSwapQuote_def sample_quote_checks sample_quote_hash not_less swapProfileHash_def domainHash_def)
qed

section \<open>The record\<close>

abbreviation bbb :: string where
  "bbb \<equiv> replicate 64 CHR ''b''"

definition sample_lease :: "usage_state \<Rightarrow> usage_reservation" where
  "sample_lease st = sample_hold\<lparr>usage_rail := Swap, res_state := st\<rparr>"

definition sample_marker :: swap_marker where
  "sample_marker = \<lparr>smk_markerHash = aaa, smk_markedAt = sample_swap_at, smk_operationIntegrityHash = aaa, smk_payloadHash = aaa\<rparr>"

text \<open>Every state up to an unknown outcome; the mechanism is not one of the former stable lane.\<close>

definition sample_swap :: "swap_state \<Rightarrow> swap_operation" where
  "sample_swap st = \<lparr>so_operationId = aaa, so_idempotencyHash = aaa, so_ownerProfileHash = aaa, so_state = st,
     so_revision = int (swap_rank st) + 1, so_createdAt = sample_swap_at, so_updatedAt = sample_swap_at, so_quote = sample_quote,
     so_policyDigest = aaa, so_policyVersion = ''r1'', so_registryDigest = aaa, so_registryVersion = ''r1'', so_mechanismDigest = bbb,
     so_usageLease = map_option sample_lease (expectedLeaseState st), so_approvalCapAtomic = ''5'',
     so_marker = (if st \<in> set EXPOSED then Some sample_marker else None), so_receipt = None, so_failureProofHash = None,
     so_previousIntegrityHash = (if st = SwapQuoted then None else Some aaa), so_integrityHash = aaa\<rparr>"

definition SAMPLE_STATES :: "swap_state list" where
  "SAMPLE_STATES = [SwapQuoted, SwapPrepared, SwapAwaitingApproval, SwapReserved, SwapSubmitting, SwapSubmitted, SwapUnknownFinality]"

lemma sample_swap_fields [simp]:
  "so_state (sample_swap st) = st" "so_integrityHash (sample_swap st) = aaa" "so_quote (sample_swap st) = sample_quote"
  "so_usageLease (sample_swap st) = map_option sample_lease (expectedLeaseState st)" "so_mechanismDigest (sample_swap st) = bbb"
  "so_updatedAt (sample_swap st) = sample_swap_at" "so_operationId (sample_swap st) = aaa" "so_ownerProfileHash (sample_swap st) = aaa"
  "so_revision (sample_swap st) = int (swap_rank st) + 1" "so_policyDigest (sample_swap st) = aaa" "so_receipt (sample_swap st) = None"
  by (simp_all add: sample_swap_def)

lemma sample_not_stable [simp]: "\<not> isOrcaStableGuardedMechanismDigest sample_prims bbb"
proof -
  have "swapMechanismDigest sample_prims pin \<noteq> Inr bbb" for pin
    by (cases "canonicalJson (pin_json pin)") (auto simp: swapMechanismDigest_def domainHash_def)
  then show ?thesis by (simp add: isOrcaStableGuardedMechanismDigest_def)
qed

lemma sample_swap_plain: "st \<in> set SAMPLE_STATES \<Longrightarrow> plain_json (JObj (swap_body (sample_swap st)))"
  using sample_quote_plain
  by (auto simp: swap_body_def sample_swap_def quote_json_def null_or_def swap_marker_json_def reservation_plain SAMPLE_STATES_def
      MAX_SAFE_INTEGER_def split: option.splits)

lemma sample_swap_digest: "st \<in> set SAMPLE_STATES \<Longrightarrow> swap_digest sample_prims (sample_swap st) = Inr aaa"
  unfolding swap_digest_def by (rule sample_canonical) (rule sample_swap_plain)

lemma sample_lease_ok:
  assumes "st \<in> {Reserved, Submitted, UnknownFinality}"
  shows "validateAssetUsageReservation sample_prims (sample_lease st) = Inr (sample_lease st)"
proof -
  have "validateBody sample_prims (sample_lease Reserved) = Inr ()" "shape_ok (sample_lease Reserved)"
    "validateBody sample_prims (sample_lease Submitted) = Inr ()" "shape_ok (sample_lease Submitted)"
    "validateBody sample_prims (sample_lease UnknownFinality) = Inr ()" "shape_ok (sample_lease UnknownFinality)"
    by code_simp+
  with assms have "validateBody sample_prims (sample_lease st) = Inr ()" "shape_ok (sample_lease st)" by auto
  then show ?thesis using sample_hold_body(3) by (simp add: validateAssetUsageReservation_def) (simp add: sample_lease_def sample_hold_def)
qed

lemma sample_lease_values [simp]:
  "res_state (sample_lease st) = st" "res_policyDigest (sample_lease st) = aaa" "res_amountAtomic (sample_lease st) = ''5''"
  "usage_rail (sample_lease st) = Swap" "res_identity (sample_lease st) = oc_identity sample_owner_input" "res_reservationId (sample_lease st) = aaa"
  by (simp_all add: sample_lease_def sample_hold_def)

lemma sample_lease_bound: "lease_bound (sample_swap st) (sample_lease u)"
  by (simp add: lease_bound_def) (simp add: sample_quote_def sample_owner_input_def swap_asset_ref_def)

lemma sample_swap_texts:
  "hash_text aaa" "hash_text bbb" "version_text ''r1''" "isIsoInstant sample_swap_at"
  "swap_approval ''5'' ''5'' b = Inr ''5''"
  by (cases b; code_simp)+

lemma sample_expected: "expectedLeaseState st = Some u \<Longrightarrow> st \<in> set SAMPLE_STATES \<Longrightarrow> u \<in> {Reserved, Submitted, UnknownFinality}"
  by (auto simp: SAMPLE_STATES_def)

lemma sample_swap_values [simp]:
  "so_createdAt (sample_swap st) = sample_swap_at" "so_idempotencyHash (sample_swap st) = aaa" "so_registryDigest (sample_swap st) = aaa"
  "so_policyVersion (sample_swap st) = ''r1''" "so_registryVersion (sample_swap st) = ''r1''" "so_approvalCapAtomic (sample_swap st) = ''5''"
  "so_failureProofHash (sample_swap st) = None"
  "so_marker (sample_swap st) = (if st \<in> set EXPOSED then Some sample_marker else None)"
  "so_previousIntegrityHash (sample_swap st) = (if st = SwapQuoted then None else Some aaa)"
  "sq_inputAmountAtomic sample_quote = ''5''" "sq_profileHash sample_quote = aaa" "sq_unsignedTransactionPayloadHash sample_quote = aaa"
  "smk_markerHash sample_marker = aaa" "smk_markedAt sample_marker = sample_swap_at" "smk_operationIntegrityHash sample_marker = aaa"
  "smk_payloadHash sample_marker = aaa"
  by (simp_all add: sample_swap_def sample_quote_def sample_marker_def)

lemma sample_marker_hash [simp]: "swap_marker_hash sample_prims i m = Inr aaa"
  unfolding swap_marker_hash_def by (rule sample_canonical) (simp add: swap_marker_body_def)

lemma sample_fields_ok: "st \<in> set SAMPLE_STATES \<Longrightarrow> swap_fields_ok sample_prims sample_dataset (sample_swap st) = Inr ()"
  using sample_expected [of st] sample_lease_ok sample_lease_bound
  by (cases "expectedLeaseState st")
    (auto simp: swap_fields_ok_def sample_quote_ok check_def sample_swap_texts swap_date_def SAMPLE_STATES_def)

lemma sample_bindings_ok: "st \<in> set SAMPLE_STATES \<Longrightarrow> validateStateBindings sample_prims (sample_swap st) = Inr ()"
  using sample_expected [of st]
  by (auto simp: validateStateBindings_def check_def digest_of_def sample_swap_texts marker_ok_def receipt_ok_def outcome_ok_def
      stableMarkedFailure_def SAMPLE_STATES_def LEASED_def EXPOSED_def swap_date_def)

lemma sample_swap_ok: "st \<in> set SAMPLE_STATES \<Longrightarrow> swap_ok sample_prims sample_dataset (sample_swap st)"
  by (intro swap_okI) (simp_all add: sample_fields_ok sample_bindings_ok sample_swap_digest)

section \<open>Its transitions\<close>

text \<open>What each state is entered with.\<close>

definition sample_evidence :: "swap_state \<Rightarrow> swap_evidence" where
  "sample_evidence st = (if st = SwapSubmitting then no_evidence\<lparr>ev_marker := Some sample_marker\<rparr>
     else no_evidence\<lparr>ev_usageLease := map_option sample_lease (expectedLeaseState st)\<rparr>)"

fun sample_next :: "swap_state \<Rightarrow> swap_state" where
  "sample_next SwapQuoted = SwapPrepared"
| "sample_next SwapPrepared = SwapAwaitingApproval"
| "sample_next SwapAwaitingApproval = SwapReserved"
| "sample_next SwapReserved = SwapSubmitting"
| "sample_next SwapSubmitting = SwapSubmitted"
| "sample_next st = SwapUnknownFinality"

lemma sample_patch:
  assumes "st \<in> set SAMPLE_STATES" "st \<noteq> SwapUnknownFinality"
  shows "transitionPatch sample_prims (sample_swap st) (sample_next st) (sample_evidence (sample_next st)) sample_swap_at =
    Inr ((sample_swap (sample_next st))\<lparr>so_state := st, so_revision := so_revision (sample_swap st),
      so_previousIntegrityHash := so_previousIntegrityHash (sample_swap st)\<rparr>)"
proof -
  have entered: "so_usageLease (sample_swap (sample_next st)) = (if sample_next st = SwapSubmitting \<or> expectedLeaseState (sample_next st) = None
      then so_usageLease (sample_swap st) else map_option sample_lease (expectedLeaseState (sample_next st)))"
    "so_marker (sample_swap (sample_next st)) = (if sample_next st = SwapSubmitting then Some sample_marker else so_marker (sample_swap st))"
    using assms by (auto simp: SAMPLE_STATES_def EXPOSED_def)
  have "(sample_swap (sample_next st))\<lparr>so_state := st, so_revision := so_revision (sample_swap st),
      so_previousIntegrityHash := so_previousIntegrityHash (sample_swap st)\<rparr> =
    (sample_swap st)\<lparr>so_usageLease := so_usageLease (sample_swap (sample_next st)), so_marker := so_marker (sample_swap (sample_next st))\<rparr>"
    by (simp add: sample_swap_def)
  moreover have "transitionPatch sample_prims (sample_swap st) (sample_next st) (sample_evidence (sample_next st)) sample_swap_at =
    Inr ((sample_swap st)\<lparr>so_usageLease := so_usageLease (sample_swap (sample_next st)), so_marker := so_marker (sample_swap (sample_next st))\<rparr>)"
    unfolding entered using assms [unfolded SAMPLE_STATES_def list.set]
    by (elim insertE) ((simp_all add: sample_evidence_def no_evidence_def evidence_keys_def present_def lease_in_def posted_patch_def EXPOSED_def),
      (simp_all add: sample_swap_def EXPOSED_def)?)
  ultimately show ?thesis by simp
qed

lemma sample_swap_transition:
  assumes "st \<in> set SAMPLE_STATES" "st \<noteq> SwapUnknownFinality"
  shows "transitionSwapOperation sample_prims sample_dataset (sample_swap st) (sample_next st) (sample_evidence (sample_next st))
    (Some sample_swap_at) = Inr (sample_swap (sample_next st))"
proof -
  have n: "sample_next st \<in> set SAMPLE_STATES" "sample_next st \<in> set (ALLOWED st)" "so_revision (sample_swap (sample_next st)) = so_revision (sample_swap st) + 1"
    "so_previousIntegrityHash (sample_swap (sample_next st)) = Some aaa"
    using assms by (auto simp: SAMPLE_STATES_def)
  have d: "(sample_swap (sample_next st))\<lparr>so_integrityHash := aaa\<rparr> = sample_swap (sample_next st)" by (simp add: sample_swap_def)
  have next_record: "(sample_swap (sample_next st))\<lparr>so_state := st, so_revision := so_revision (sample_swap st),
      so_previousIntegrityHash := so_previousIntegrityHash (sample_swap st), so_state := sample_next st,
      so_revision := so_revision (sample_swap st) + 1, so_updatedAt := sample_swap_at, so_previousIntegrityHash := Some aaa\<rparr> =
    sample_swap (sample_next st)"
    using n(3,4) by (simp add: sample_swap_def)
  have "seal_swap sample_prims sample_dataset (sample_swap (sample_next st)) = Inr (sample_swap (sample_next st))"
    using sample_swap_ok [OF n(1)] by (simp add: seal_swap_def swap_ok_def sample_swap_digest [OF n(1)] d)
  then show ?thesis
    using sample_swap_ok [OF assms(1)] n(2) sample_patch [OF assms] next_record
    by (simp add: transitionSwapOperation_def swap_ok_def instant_def sample_swap_texts)
qed

end
