(* ===== verification/SwapLaws.thy ===== *)
theory SwapLaws
  imports SwapSamples
begin

text \<open>
  What the life of a swap's record guarantees: every transition continues the record it replaces, the hold
  on the input follows the record, and the state that precedes a signature is entered once.
\<close>

section \<open>The quote\<close>

text \<open>
  The property C32. The least output of a valid quote is positive, at most the expected one, and at least
  what the declared slippage leaves of it, however the division rounds; the two assets are of one chain
  and the quote ends after it begins.
\<close>

theorem quote_slippage_bound:
  assumes "validateSwapQuote P dataset q stored = Inr r"
  shows "r = q \<and> 0 < undec (sq_minimumOutputAtomic q) \<and> undec (sq_minimumOutputAtomic q) \<le> undec (sq_expectedOutputAtomic q) \<and>
    undec (sq_expectedOutputAtomic q) * nat (10000 - sq_slippageBps q) \<le> undec (sq_minimumOutputAtomic q) * 10000 \<and>
    sa_chain (sq_sourceAsset q) = sa_chain (sq_destinationAsset q) \<and> sq_effectiveAt q < sq_expiresAt q"
proof -
  have r: "r = q" "sq_effectiveAt q < sq_expiresAt q" "quote_amounts_ok q stored = Inr ()" "quote_parties_ok P dataset q stored = Inr ()"
    using assms by (auto simp: validateSwapQuote_def not_le split: if_splits)
  from r(3) obtain expected minimum where amounts: "swap_atomic (sq_expectedOutputAtomic q) True stored = Inr expected"
    "swap_atomic (sq_minimumOutputAtomic q) True stored = Inr minimum" "minimum \<le> expected" "minimum_allowed expected (sq_slippageBps q) \<le> minimum"
    by (auto simp: quote_amounts_ok_def split: if_splits)
  have amount: "n = undec v \<and> 0 < n" if "swap_atomic v True stored = Inr n" for v n
    using that by (auto simp: swap_atomic_def usage_atomic_def dest!: parseAtomic_InrD split: if_splits sum.splits)
  have "expected * nat (10000 - sq_slippageBps q) \<le> minimum_allowed expected (sq_slippageBps q) * 10000"
    unfolding minimum_allowed_def by linarith
  also have "\<dots> \<le> minimum * 10000" using amounts(4) by simp
  finally show ?thesis
    using r amount [OF amounts(1)] amount [OF amounts(2)] amounts(3) by (auto simp: quote_parties_ok_def swap_asset_ok_def split: if_splits)
qed

section \<open>One transition\<close>

text \<open>
  A transition that the model of the record accepts follows an edge of the
  state graph, keeps every frozen member, counts one revision, names the digest of the record it replaces
  and never moves backward in time; the record it returns validates, and one with a marker keeps it.
\<close>

lemma swap_transition_continuity:
  assumes "transitionSwapOperation P dataset v st ev now = Inr n"
  shows "so_state v < so_state n \<and> so_state n = st \<and> swap_frozen v n \<and> so_revision n = so_revision v + 1 \<and>
    so_previousIntegrityHash n = Some (so_integrityHash v) \<and> so_updatedAt v \<le> so_updatedAt n \<and> now = Some (so_updatedAt n) \<and>
    validateSwapOperation P dataset n = Inr n \<and> (so_marker v \<noteq> None \<longrightarrow> so_marker n = so_marker v)"
proof -
  have "so_revision n = so_revision v + 1 \<and> so_previousIntegrityHash n = Some (so_integrityHash v) \<and> so_updatedAt v \<le> so_updatedAt n \<and>
    now = Some (so_updatedAt n) \<and> swap_ok P dataset n"
    using assms by (rule swap_transition_result) auto
  with swap_transition_edge [OF assms] swap_transition_frozen [OF assms] swap_transition_marker [OF assms] show ?thesis
    by (auto simp: swap_ok_def dest: swap_edge_less)
qed

section \<open>The hold follows the record\<close>

text \<open>
  The abstract hold of an operation is the state of the ledger row it carries. A transition leaves it,
  takes it, records that it was released before any effect, or moves it along an edge of the ledger.
\<close>

definition swap_hold_state :: "swap_operation \<Rightarrow> usage_state option" where
  "swap_hold_state op = map_option res_state (so_usageLease op)"

inductive hold_step :: "usage_state option \<Rightarrow> usage_state option \<Rightarrow> bool" where
  keep: "hold_step h h"
| take: "hold_step None (Some Reserved)"
| never_sent: "hold_step None (Some FailedBeforeEffect)"
| move: "hold_step (Some a) (Some b)" if "b \<in> set (allowed_transitions a)"

inductive_cases hold_step_from_none: "hold_step None h"
inductive_simps hold_step_simps [simp]: "hold_step (Some a) h" "hold_step None h"

lemma swap_edges:
  assumes "swap_edge s t"
  obtains "s \<in> {SwapQuoted, SwapPrepared}" "t \<in> {SwapPrepared, SwapAwaitingApproval}"
  | "s \<in> {SwapQuoted, SwapPrepared, SwapAwaitingApproval}" "t = SwapFailedBeforeEffect"
  | "s = SwapAwaitingApproval" "t = SwapReserved"
  | "s \<in> {SwapReserved, SwapSubmitting}" "t = SwapFailedBeforeEffect"
  | "s \<in> set LEASED" "t \<in> set LEASED" "\<exists>a b. expectedLeaseState s = Some a \<and> expectedLeaseState t = Some b \<and> (a = b \<or> b \<in> set (allowed_transitions a))"
  using assms by (cases s) (auto simp: swap_edge_def LEASED_def)

text \<open>
  The property C34. Every transition of a swap's record is a step of its hold: the two state machines
  agree, and the hold is always of the swap's own account, chain, asset, amount and policy.
\<close>

theorem swap_hold_refines:
  assumes "transitionSwapOperation P dataset v st ev now = Inr n"
  shows "hold_step (swap_hold_state v) (swap_hold_state n) \<and>
    (\<forall>l. so_usageLease n = Some l \<longrightarrow> stored_ok P l \<and> lease_bound n l)"
proof -
  obtain p at d where ok: "swap_ok P dataset v" "swap_ok P dataset n" and p: "transitionPatch P v st ev at = Inr p"
    and n: "n = p\<lparr>so_state := st, so_revision := so_revision v + 1, so_updatedAt := at,
      so_previousIntegrityHash := Some (so_integrityHash v), so_integrityHash := d\<rparr>"
    using swap_transition_result [OF assms] by metis
  have keeps: "so_usageLease v \<noteq> None \<Longrightarrow> so_usageLease n \<noteq> None" using patch_keeps(3) [OF p] n by simp
  have "hold_step (swap_hold_state v) (swap_hold_state n)"
    using conjunct1 [OF swap_transition_edge [OF assms]]
  proof (cases rule: swap_edges)
    case 1
    with swap_hold(2) [OF ok(1)] swap_hold(2) [OF ok(2)] show ?thesis by (auto simp: swap_hold_state_def)
  next
    case 2
    with swap_hold(2) [OF ok(1)] swap_hold(3) [OF ok(2)] show ?thesis by (cases "so_usageLease n") (auto simp: swap_hold_state_def)
  next
    case 3
    with swap_hold(2) [OF ok(1)] swap_hold(1) [OF ok(2)] show ?thesis by (auto simp: swap_hold_state_def LEASED_def)
  next
    case 4
    with swap_hold(1) [OF ok(1)] keeps swap_hold(3) [OF ok(2)] show ?thesis by (fastforce simp: swap_hold_state_def LEASED_def)
  next
    case 5
    with swap_hold(1) [OF ok(1)] swap_hold(1) [OF ok(2)] show ?thesis by (fastforce simp: swap_hold_state_def)
  qed
  with swap_lease_valid [OF ok(2)] show ?thesis by blast
qed

section \<open>Histories of a record\<close>

definition swap_step :: "prims \<Rightarrow> inventory \<Rightarrow> swap_operation \<Rightarrow> swap_operation \<Rightarrow> bool" where
  "swap_step P dataset a b \<longleftrightarrow> (\<exists>st ev now. transitionSwapOperation P dataset a st ev now = Inr b)"

lemma history_rises:
  assumes "(swap_step P dataset)\<^sup>*\<^sup>* a b"
  shows "so_state a \<le> so_state b" "swap_frozen a b" "so_marker a \<noteq> None \<longrightarrow> so_marker b = so_marker a" "so_revision a \<le> so_revision b"
  using assms
proof (induction rule: rtranclp_induct)
  case (step b c)
  { case 1 with step show ?case by (auto simp: swap_step_def dest!: swap_transition_edge swap_edge_less) }
  { case 2 with step show ?case by (auto simp: swap_step_def dest: swap_transition_frozen intro: frozen_trans) }
  { case 3 with step show ?case by (fastforce simp: swap_step_def dest: swap_transition_marker) }
  { case 4 with step show ?case by (force simp: swap_step_def elim!: swap_transition_result) }
qed simp_all

text \<open>
  The property C35. However many processes move a record, a history of it enters
  \<^verbatim>\<open>submitting\<close>, the state that precedes a signature, at most once; from then on every record of the history
  carries the marker written there.
\<close>

theorem swap_marked_once:
  assumes "(swap_step P dataset)\<^sup>*\<^sup>* a b" "swap_step P dataset b c" "so_state c = SwapSubmitting"
    "(swap_step P dataset)\<^sup>*\<^sup>* c d" "swap_step P dataset d e"
  shows "so_state e \<noteq> SwapSubmitting \<and> so_marker a = None \<and> so_marker c \<noteq> None \<and> so_marker e = so_marker c \<and>
    so_quote e = so_quote a \<and> so_operationId e = so_operationId a"
proof -
  have bc: "so_state b < so_state c" and de: "so_state d < so_state e"
    using assms(2,5) by (auto simp: swap_step_def dest!: swap_transition_edge swap_edge_less)
  have "so_state c \<le> so_state d" using history_rises(1) [OF assms(4)] .
  then have e: "so_state c < so_state e" using de by (rule le_less_trans)
  obtain v where "swap_ok P dataset b" "swap_ok P dataset c" using assms(2) by (auto simp: swap_step_def elim!: swap_transition_result)
  moreover have "so_state b = SwapReserved"
    using assms(2,3) by (cases "so_state b") (auto simp: swap_step_def swap_edge_def dest!: swap_transition_edge)
  ultimately have b: "so_marker b = None" and c: "so_marker c \<noteq> None"
    using assms(3) swap_unmarked swap_marked by (auto simp: EXPOSED_def)
  have a: "so_marker a = None" using history_rises(3) [OF assms(1)] b by auto
  have "(swap_step P dataset)\<^sup>*\<^sup>* c e" using assms(4,5) by simp
  note ce = history_rises [OF this]
  have "(swap_step P dataset)\<^sup>*\<^sup>* a e" using assms(1,2,4,5) by (meson rtranclp.rtrancl_into_rtrancl rtranclp_trans)
  from history_rises(2) [OF this] ce(3) a c e assms(3) show ?thesis by (auto simp: swap_frozen_def)
qed

section \<open>Witnesses\<close>

lemma sample_runs:
  "transitionSwapOperation sample_prims sample_dataset (sample_swap SwapAwaitingApproval) SwapReserved (sample_evidence SwapReserved)
     (Some sample_swap_at) = Inr (sample_swap SwapReserved)"
  "transitionSwapOperation sample_prims sample_dataset (sample_swap SwapReserved) SwapSubmitting (sample_evidence SwapSubmitting)
     (Some sample_swap_at) = Inr (sample_swap SwapSubmitting)"
  "transitionSwapOperation sample_prims sample_dataset (sample_swap SwapSubmitting) SwapSubmitted (sample_evidence SwapSubmitted)
     (Some sample_swap_at) = Inr (sample_swap SwapSubmitted)"
  using sample_swap_transition [of SwapAwaitingApproval] sample_swap_transition [of SwapReserved] sample_swap_transition [of SwapSubmitting]
  by (simp_all add: SAMPLE_STATES_def)

theorem quote_slippage_bound_witness:
  "0 < undec ''99'' \<and> undec ''99'' \<le> undec ''100'' \<and> undec ''100'' * 9900 \<le> undec ''99'' * 10000"
  using quote_slippage_bound [OF sample_quote_ok] by (simp add: sample_quote_def)

theorem swap_hold_refines_witness:
  "hold_step None (Some Reserved) \<and> stored_ok sample_prims (sample_lease Reserved) \<and> lease_bound (sample_swap SwapReserved) (sample_lease Reserved)"
  using swap_hold_refines [OF sample_runs(1)] by (simp add: swap_hold_state_def)

theorem swap_marked_once_witness:
  "so_state (sample_swap SwapSubmitted) \<noteq> SwapSubmitting \<and> so_marker (sample_swap SwapReserved) = None \<and>
   so_marker (sample_swap SwapSubmitted) = so_marker (sample_swap SwapSubmitting)"
proof -
  have "swap_step sample_prims sample_dataset (sample_swap SwapReserved) (sample_swap SwapSubmitting)"
    "swap_step sample_prims sample_dataset (sample_swap SwapSubmitting) (sample_swap SwapSubmitted)"
    using sample_runs by (auto simp: swap_step_def)
  from swap_marked_once [OF rtranclp.rtrancl_refl this(1) _ rtranclp.rtrancl_refl this(2)] show ?thesis by simp
qed

end
