(* ===== verification/SwapServiceLaws.thy ===== *)
theory SwapServiceLaws
  imports SwapService SwapLaws DirectGateLaws
begin

text \<open>
  What the swap service guarantees whoever calls it with whatever record: the stored records move only
  along their histories and the ledger only along its own steps; what a resumed swap may still do; and
  the one order of two processes that leaves a marked swap without its hold.
\<close>

section \<open>Every run moves records along their histories\<close>

datatype swap_action = Reserving policy_registry | Marking | PossibleSend swap_state "swap_receipt option" | Finalizing swap_receipt
  | Reverting swap_receipt | FailingEarly string | Expiring unlanded_proof | Abandoning string

fun perform :: "prims \<Rightarrow> swap_env \<Rightarrow> swap_operation \<Rightarrow> jsdate \<Rightarrow> swap_action \<Rightarrow> (swap_world, swap_operation) stm" where
  "perform P E op now (Reserving policy) = swap_reserve P E op policy now"
| "perform P E op now Marking = markSubmitting P E op now"
| "perform P E op now (PossibleSend st receipt) = recordPossibleSend P E op st now receipt"
| "perform P E op now (Finalizing receipt) = finalize P E op now receipt"
| "perform P E op now (Reverting receipt) = failConfirmedRevert P E op now receipt"
| "perform P E op now (FailingEarly h) = failBeforeEffect P E op now h"
| "perform P E op now (Expiring p) = expireUnlanded P E op now p"
| "perform P E op now (Abandoning h) = abandonUnknown P E op now h"

definition stored_swap :: "swap_world \<Rightarrow> string \<Rightarrow> swap_operation option" where
  "stored_swap s path = (case map_of (xw_records (sw_index s)) path of Some (Content (SwapShaped c)) \<Rightarrow> Some c | _ \<Rightarrow> None)"

definition swap_moves :: "prims \<Rightarrow> inventory \<Rightarrow> swap_world \<Rightarrow> swap_world \<Rightarrow> bool" where
  "swap_moves P dataset s t \<longleftrightarrow> (ledger_step P)\<^sup>*\<^sup>* (sw_ledger s) (sw_ledger t) \<and>
     (\<forall>path c. stored_swap s path = Some c \<longrightarrow> (\<exists>d. stored_swap t path = Some d \<and> (swap_step P dataset)\<^sup>*\<^sup>* c d))"

lemma moves_same: "sw_ledger t = sw_ledger s \<Longrightarrow> xw_records (sw_index t) = xw_records (sw_index s) \<Longrightarrow> swap_moves P dataset s t"
  by (auto simp: swap_moves_def stored_swap_def)

interpretation swap_runs: stable_runs "\<lambda>_. True" "swap_moves P dataset" for P dataset
proof
  show "swap_moves P dataset s u" if "swap_moves P dataset s t" "swap_moves P dataset t u" for s t u
    using that unfolding swap_moves_def by (meson rtranclp_trans)
qed (simp_all add: moves_same)

abbreviation moving :: "prims \<Rightarrow> inventory \<Rightarrow> (swap_world, 'a) stm \<Rightarrow> bool" where
  "moving P dataset m \<equiv> keeps (\<lambda>_. True) (swap_moves P dataset) m"

text \<open>Other processes keep to the same rule.\<close>

definition orderly :: "prims \<Rightarrow> swap_env \<Rightarrow> bool" where
  "orderly P E \<longleftrightarrow> (\<forall>n s. swap_moves P (se_dataset E) s (se_others E n s))"

lemma moving_asks: "moving P dataset (on_index (asks f))"
  by (rule keepsI) (auto simp: on_index_def asks_def query_def bnd_def intro!: moves_same split: prod.splits sum.splits)

lemma moving_others: "orderly P E \<Longrightarrow> moving P (se_dataset E) (others_act E)"
  by (auto simp: keeps_def others_act_def orderly_def)

lemma moving_locks: "orderly P E \<Longrightarrow> moving P (se_dataset E) m \<Longrightarrow> moving P (se_dataset E) (swap_locks E keys m)"
  unfolding swap_locks_def by (intro swap_runs.keeps_bnd moving_asks moving_others)

lemma moving_charge:
  assumes "orderly P E" "\<And>L s. runs_step P s (m L)"
  shows "moving P (se_dataset E) (charge E m)"
  unfolding charge_def
proof (rule moving_locks [OF assms(1)], rule keepsI)
  fix s :: swap_world and r s' assume "(if xw_life (sw_index s) = 0 then (Inl (OtherError ''crash''), s)
     else case m (se_ledger E (xw_tick (sw_index s))) (sw_ledger s) of
       (r, l) \<Rightarrow> (r, s\<lparr>sw_ledger := l, sw_index := (sw_index s)\<lparr>xw_life := xw_life (sw_index s) - 1\<rparr>\<rparr>)) = (r, s')"
  moreover have "ledger_step P (sw_ledger s) (snd (m (se_ledger E (xw_tick (sw_index s))) (sw_ledger s)))"
    using assms(2) by (simp add: runs_step_def)
  ultimately show "swap_moves P (se_dataset E) s s'"
    by (auto simp: swap_moves_def stored_swap_def split: if_splits prod.splits)
qed

lemma read_swap_stored:
  "read_swap P dataset (sw_index s) profile operationId = Inr (Some c) \<Longrightarrow>
   stored_swap s (swap_path profile operationId) = Some c \<and> swap_ok P dataset c \<and> so_ownerProfileHash c = profile \<and> so_operationId c = operationId"
  by (auto simp: read_swap_def stored_swap_def swap_read_bound_def corrupt_def dest: validate_swap_self
      split: option.splits record_file.splits swap_file.splits if_splits)

lemma put_stored:
  "stored_swap (s\<lparr>sw_index := t\<rparr>) path = (case map_of (xw_records t) path of Some (Content (SwapShaped c)) \<Rightarrow> Some c | _ \<Rightarrow> None)"
  by (simp add: stored_swap_def)

lemma moving_move:
  assumes "orderly P E"
  shows "moving P (se_dataset E) (swap_move P E profile operationId expected st evidence now)"
  unfolding swap_move_def
proof (rule swap_runs.keeps_bnd [OF swap_runs.keeps_lift], rule moving_locks [OF assms], rule keepsI)
  fix s s' :: swap_world and r
  assume run: "bnd (readBound P E profile operationId) (\<lambda>loaded.
        case loaded of None \<Rightarrow> lift (Inl (ApnError APN_OPERATION_NOT_FOUND None))
        | Some operation \<Rightarrow>
            if so_integrityHash operation \<noteq> expected then lift blocked
            else bnd (lift (transitionSwapOperation P (se_dataset E) operation st evidence now)) (\<lambda>next_record.
              bnd (on_index (put_swap (swap_path profile operationId) next_record)) (\<lambda>_. ret next_record))) s = (r, s')"
  show "swap_moves P (se_dataset E) s s'"
  proof (cases "\<exists>c n. read_swap P (se_dataset E) (sw_index s) profile operationId = Inr (Some c) \<and> so_integrityHash c = expected \<and>
      transitionSwapOperation P (se_dataset E) c st evidence now = Inr n \<and> xw_life (sw_index s) \<noteq> 0")
    case True
    then obtain c n where c: "read_swap P (se_dataset E) (sw_index s) profile operationId = Inr (Some c)" "so_integrityHash c = expected"
      "transitionSwapOperation P (se_dataset E) c st evidence now = Inr n" "xw_life (sw_index s) \<noteq> 0" by blast
    then have s': "s' = s\<lparr>sw_index := (sw_index s)\<lparr>xw_life := xw_life (sw_index s) - 1,
        xw_records := AList.update (swap_path profile operationId) (Content (SwapShaped n)) (xw_records (sw_index s))\<rparr>\<rparr>"
      using run by (auto simp: bnd_def readBound_def on_index_def looks_def put_swap_def put_def)
    have "swap_step P (se_dataset E) c n" using c(3) by (auto simp: swap_step_def)
    with read_swap_stored [OF c(1)] show ?thesis
      unfolding s' swap_moves_def put_stored by (auto simp: update_conv' stored_swap_def)
  next
    case False
    with run have "s' = s"
      by (auto simp: bnd_def readBound_def on_index_def looks_def put_swap_def put_def blocked_def split: sum.splits option.splits if_splits)
    then show ?thesis by (simp add: moves_same)
  qed
qed

lemma moving_lease: "orderly P E \<Longrightarrow> moving P (se_dataset E) (move_lease P E op st now outcome)"
  unfolding move_lease_def by (intro swap_runs.keeps_bnd swap_runs.keeps_lift moving_charge transition_step)

lemma moving_advance: "orderly P E \<Longrightarrow> moving P (se_dataset E) (advance P E op st ev now)"
  unfolding advance_def by (rule moving_move)

lemmas moving_rules = swap_runs.keeps_rules moving_lease moving_advance moving_charge reserveBound_step

lemma moving_possible_send: "orderly P E \<Longrightarrow> moving P (se_dataset E) (recordPossibleSend P E op st now receipt)"
  unfolding recordPossibleSend_def by (intro moving_rules)

lemma moving_as_unknown: "orderly P E \<Longrightarrow> moving P (se_dataset E) (as_unknown P E op now)"
  unfolding as_unknown_def by (intro moving_rules moving_possible_send)


section \<open>Resuming\<close>

text \<open>
  A valid record resumes exactly by its state: to prepare or approve while nothing was
  marked, to observe only once its marker exists, and not at all when it is terminal.
\<close>

lemma resume_observes_marked:
  assumes "swap_ok P dataset op"
  shows "(resumeDirective P dataset op = Inr PrepareOrApprove \<longleftrightarrow>
      so_state op \<in> {SwapQuoted, SwapPrepared, SwapAwaitingApproval, SwapReserved}) \<and>
    (resumeDirective P dataset op = Inr ObserveOnly \<longleftrightarrow> so_state op \<in> {SwapSubmitting, SwapSubmitted, SwapUnknownFinality}) \<and>
    (resumeDirective P dataset op = Inr TerminalSwap \<longleftrightarrow> so_state op \<in> set SWAP_TERMINAL_STATES)"
  using assms swap_unmarked [OF assms] swap_marked [OF assms]
  by (cases "so_state op") (auto simp: resumeDirective_def swap_ok_def SWAP_TERMINAL_STATES_def EXPOSED_def)

section \<open>A failure that comes too late\<close>

lemma transition_source:
  assumes "transition P E t s = (Inr r, s')"
  shows "\<exists>old. load P (ti_identity t) (ti_reservationId t) s = (Inr (Some old), s) \<and>
    (res_state old = ti_state t \<or> ti_state t \<in> set (allowed_transitions (res_state old)))"
proof -
  let ?Q = "\<lambda>r s'. \<exists>old. load P (ti_identity t) (ti_reservationId t) s = (Inr (Some old), s) \<and>
    (res_state old = ti_state t \<or> ti_state t \<in> set (allowed_transitions (res_state old)))"
  have "wp (transition P E t) ?Q (\<lambda>_ _. True) s"
    unfolding transition_def Let_def
    by (intro wp_bnd_lift wp_load wp_read wp_write wp_if wp_option wp_ret wp_lift)
      (simp_all, (rule exI, rule conjI, rule load_Some, assumption+, simp, assumption, simp)+)
  with assms show ?thesis by (rule wp_Inr [rotated])
qed

text \<open>No other process acts and no lock fails.\<close>

definition calm_swap :: "swap_env \<Rightarrow> bool" where
  "calm_swap E \<longleftrightarrow> (\<forall>n s. se_others E n s = s) \<and> (\<forall>n keys. se_lock E n keys = Inr ())"

lemma locks_calm: "calm_swap E \<Longrightarrow> swap_locks E keys m s = m (s\<lparr>sw_index := (sw_index s)\<lparr>xw_tick := Suc (xw_tick (sw_index s))\<rparr>\<rparr>)"
  by (simp add: calm_swap_def swap_locks_def on_index_def asks_def query_def others_act_def bnd_def)

lemma charge_calm:
  assumes "calm_swap E" "charge E m s = (Inr r, t)"
  shows "m (se_ledger E (Suc (xw_tick (sw_index s)))) (sw_ledger s) = (Inr r, sw_ledger t)"
  using assms(2) by (auto simp: charge_def locks_calm [OF assms(1)] split: if_splits prod.splits)

lemma ended_hold_stays:
  assumes "load P i rid L = (Inr (Some lease), L)" "res_state lease = FailedBeforeEffect" "ti_state input \<noteq> FailedBeforeEffect"
    "ti_identity input = i" "ti_reservationId input = rid"
  shows "transition P E input L \<noteq> (Inr r, L')"
proof
  assume "transition P E input L = (Inr r, L')"
  from transition_source [OF this] assms show False by auto
qed

lemma move_lease_calm:
  assumes "calm_swap E" "move_lease P E op st now h s = (Inr r, t)"
  shows "\<exists>input l. usage_move op st now h = Inr input \<and> so_usageLease op = Some l \<and> ti_state input = st \<and>
    ti_identity input = swap_usage_identity op \<and> ti_reservationId input = res_reservationId l \<and>
    transition P (se_ledger E (Suc (xw_tick (sw_index s)))) input (sw_ledger s) = (Inr r, sw_ledger t)"
  using assms(2) charge_calm [OF assms(1)]
  by (fastforce simp: move_lease_def bnd_Inr usage_move_def split: option.splits)

lemma ended_no_send:
  assumes "calm_swap E" "so_usageLease c = Some l" "res_state lease = FailedBeforeEffect"
    "load P (swap_usage_identity c) (res_reservationId l) (sw_ledger s) = (Inr (Some lease), sw_ledger s)"
  shows "recordPossibleSend P E c st now receipt s \<noteq> (Inr r, t)"
proof
  assume "recordPossibleSend P E c st now receipt s = (Inr r, t)"
  then obtain u v ls where run: "move_lease P E c ls now None s = (Inr u, v)" and ls: "posted_lease st = Inr ls"
    by (auto simp: recordPossibleSend_def bnd_Inr dest!: validate_swap_self split: if_splits)
  from ls have "ls \<noteq> FailedBeforeEffect" by (cases st) (auto simp: invalid_def)
  with move_lease_calm [OF assms(1) run] assms(2) ended_hold_stays [OF assms(4,3)] show False by fastforce
qed

text \<open>Nothing the service offers succeeds on a marked swap whose hold has ended as never sent.\<close>

lemma ended_stuck:
  assumes "calm_swap E" "so_state c = SwapSubmitting" "so_usageLease c = Some l" "res_state lease = FailedBeforeEffect"
    "load P (swap_usage_identity c) (res_reservationId l) (sw_ledger s) = (Inr (Some lease), sw_ledger s)"
  shows "perform P E c now action s \<noteq> (Inr r, t)"
proof (cases action)
  case (PossibleSend st receipt)
  then show ?thesis using ended_no_send [OF assms(1,3-5)] by simp
next
  case (Expiring p)
  then show ?thesis using ended_no_send [OF assms(1,3-5)] assms(2)
    by (auto simp: expireUnlanded_def bnd_Inr as_unknown_def dest!: validate_swap_self split: if_splits)
next
  case (Abandoning h)
  then show ?thesis using ended_no_send [OF assms(1,3-5)] assms(2)
    by (auto simp: abandonUnknown_def bnd_Inr as_unknown_def dest!: validate_swap_self split: if_splits)
qed (use assms(2) in \<open>auto simp: swap_reserve_def markSubmitting_def finalize_def failConfirmedRevert_def failBeforeEffect_def
      reserve_checked_def final_proof_def awaiting_finality_def bnd_Inr blocked_def dest!: validate_swap_self\<close>)

lemma late_failure_refused:
  assumes "calm_swap E" "stored_swap s (swap_path profile operationId) = Some c" "swap_ok P (se_dataset E) c"
    "so_ownerProfileHash c = profile" "so_operationId c = operationId" "so_state c = SwapSubmitting"
    "\<not> isOrcaStableGuardedMechanismDigest P (so_mechanismDigest c)"
  shows "\<exists>e u. swap_move P E profile operationId expected SwapFailedBeforeEffect ev now s = (Inl e, u) \<and>
    stored_swap u = stored_swap s \<and> sw_ledger u = sw_ledger s"
proof -
  have "read_swap P (se_dataset E) ((sw_index s)\<lparr>xw_tick := n\<rparr>) profile operationId = Inr (Some c)" for n
    using assms(2-5) by (auto simp: stored_swap_def read_swap_def swap_read_bound_def swap_ok_def split: option.splits record_file.splits swap_file.splits)
  moreover have "transitionSwapOperation P (se_dataset E) c SwapFailedBeforeEffect ev now = blocked"
    using assms(3,6,7) by (simp add: transitionSwapOperation_def swap_ok_def stable_recovery_def)
  ultimately show ?thesis
    using assms(6) by (cases "identifiers [profile, operationId, expected]")
      (auto simp: swap_move_def locks_calm [OF assms(1)] bnd_def readBound_def on_index_def looks_def blocked_def stored_swap_def fun_eq_iff)
qed

text \<open>
  The property C38. The service releases the hold before it compares the stored record. When one process
  marks a reserved swap for sending while another, still holding the reserved record, reports that
  nothing was sent, the second call fails and leaves the marked record as it is, but the hold has gone:
  the ledger row reads as never sent, and from then on no action of the service on the marked swap
  succeeds, so a sent swap is neither charged nor can it ever be finished.
\<close>

theorem swap_stale_failure:
  assumes "calm_swap E" "transitionSwapOperation P (se_dataset E) op SwapSubmitting ev at = Inr c"
    "stored_swap s (swap_path (so_ownerProfileHash op) (so_operationId op)) = Some c"
    "\<not> isOrcaStableGuardedMechanismDigest P (so_mechanismDigest op)"
    "move_lease P E op FailedBeforeEffect now (Some h) s = (Inr lease, s1)"
  shows "\<exists>e t l. failBeforeEffect P E op now h s = (Inl e, t) \<and> stored_swap t = stored_swap s \<and> sw_ledger t = sw_ledger s1 \<and>
    so_usageLease c = Some l \<and> res_state lease = FailedBeforeEffect \<and>
    load P (swap_usage_identity c) (res_reservationId l) (sw_ledger t) = (Inr (Some lease), sw_ledger t) \<and>
    (\<forall>later action. \<exists>e. fst (perform P E c later action t) = Inl e)"
proof -
  note ok = marking_lease(2,3) [OF assms(2)] and reserved = marking_source [OF assms(2)] and lease = marking_lease(1) [OF assms(2)]
  have frozen: "swap_frozen op c" using assms(2) by (rule swap_transition_frozen)
  have c: "so_state c = SwapSubmitting" using swap_transition_edge [OF assms(2)] by blast
  obtain input l where l: "so_usageLease op = Some l" and input: "ti_state input = FailedBeforeEffect" "ti_identity input = swap_usage_identity op"
      "ti_reservationId input = res_reservationId l" and
    run: "transition P (se_ledger E (Suc (xw_tick (sw_index s)))) input (sw_ledger s) = (Inr lease, sw_ledger s1)"
    using move_lease_calm [OF assms(1,5)] by blast
  have ended: "res_state lease = FailedBeforeEffect" "load P (swap_usage_identity c) (res_reservationId l) (sw_ledger s1) = (Inr (Some lease), sw_ledger s1)"
    using transition_result [OF run] input frozen by (simp_all add: swap_usage_identity_def swap_frozen_def)
  have s1: "stored_swap s1 = stored_swap s"
    using assms(5) by (auto simp: move_lease_def bnd_Inr charge_def locks_calm [OF assms(1)] stored_swap_def fun_eq_iff split: if_splits prod.splits)
  have same: "so_ownerProfileHash c = so_ownerProfileHash op" "so_operationId c = so_operationId op" "so_mechanismDigest c = so_mechanismDigest op"
    using frozen by (simp_all add: swap_frozen_def)
  have "stored_swap s1 (swap_path (so_ownerProfileHash op) (so_operationId op)) = Some c" "\<not> isOrcaStableGuardedMechanismDigest P (so_mechanismDigest c)"
    using assms(3,4) s1 same by simp_all
  from late_failure_refused [OF assms(1) this(1) ok(2) same(1,2) c this(2)] obtain e t where
    t: "advance P E op SwapFailedBeforeEffect (no_evidence\<lparr>ev_usageLease := Some lease, ev_failureProofHash := Some h\<rparr>) now s1 = (Inl e, t)"
      "stored_swap t = stored_swap s1" "sw_ledger t = sw_ledger s1"
    unfolding advance_def by blast
  have "failBeforeEffect P E op now h s = (Inl e, t)"
    using ok(1) reserved l t(1) assms(5) by (simp add: failBeforeEffect_def swap_ok_def bnd_def)
  moreover have "\<exists>e. fst (perform P E c later action t) = Inl e" for later action
    using ended_stuck [OF assms(1) c _ ended(1), of l P t later action] ended(2) lease l t(3)
    by (cases "perform P E c later action t"; cases "fst (perform P E c later action t)") auto
  ultimately show ?thesis using ended lease l t(2,3) s1 by auto
qed

section \<open>Witnesses\<close>

definition sample_swap_env :: swap_env where
  "sample_swap_env = \<lparr>se_index = \<lparr>xe_registry = [], xe_now = (\<lambda>_. 0), xe_random = (\<lambda>_. 0), xe_io = (\<lambda>_ _. Inr ()), xe_lock = (\<lambda>_. Inr ()),
       xe_others = (\<lambda>_ s. s), xe_consent = (\<lambda>_ _. Inr ())\<rparr>,
     se_ledger = (\<lambda>_. sample_env), se_lock = (\<lambda>_ _. Inr ()), se_others = (\<lambda>_ s. s), se_dataset = sample_dataset, se_signature = (\<lambda>_. True)\<rparr>"

text \<open>One record, and the hold it was reserved with.\<close>

definition sample_swap_world :: "swap_state \<Rightarrow> swap_world" where
  "sample_swap_world st = \<lparr>sw_index = \<lparr>xw_entries = [], xw_open = [], xw_pointers = [], xw_shards = [],
       xw_records = [(swap_path aaa aaa, Content (SwapShaped (sample_swap st)))], xw_tick = 0, xw_life = 10\<rparr>,
     sw_ledger = (\<lambda>_. [])(aaa := [(aaa, sample_lease Reserved)])\<rparr>"

lemma sample_calm: "calm_swap sample_swap_env" "orderly sample_prims sample_swap_env" "se_dataset sample_swap_env = sample_dataset"
  by (simp_all add: calm_swap_def orderly_def sample_swap_env_def swap_runs.R_refl)

lemma sample_swap_stored: "stored_swap (sample_swap_world st) (swap_path aaa aaa) = Some (sample_swap st)"
  by (simp add: stored_swap_def sample_swap_world_def)

lemma sample_identifiers: "identifiers [aaa, aaa, aaa] = Inr ()"
  by (simp add: identifiers_def stateIdentifier_def sample_swap_texts)

lemma sample_live: "assertLiveQuote (sample_swap st) (Some sample_swap_at) = Inr sample_swap_at"
proof -
  have "\<not> sample_swap_at < sq_effectiveAt sample_quote" "\<not> sq_expiresAt sample_quote \<le> sample_swap_at" by code_simp+
  then show ?thesis by (simp add: assertLiveQuote_def instant_def)
qed

lemma sample_submission: "submission_marker sample_prims (sample_swap st) sample_swap_at = Inr sample_marker"
  by (simp add: submission_marker_def Let_def sample_marker_def)

lemma sample_read:
  assumes "st \<in> set SAMPLE_STATES"
  shows "read_swap sample_prims sample_dataset ((sw_index (sample_swap_world st))\<lparr>xw_tick := n\<rparr>) aaa aaa = Inr (Some (sample_swap st))"
  using sample_swap_ok [OF assms] by (simp add: read_swap_def sample_swap_world_def swap_read_bound_def swap_ok_def)

lemma sample_marking:
  "\<exists>t. perform sample_prims sample_swap_env (sample_swap SwapReserved) (Some sample_swap_at) Marking (sample_swap_world SwapReserved) =
     (Inr (sample_swap SwapSubmitting), t) \<and> stored_swap t (swap_path aaa aaa) = Some (sample_swap SwapSubmitting)"
proof -
  have "swap_ok sample_prims sample_dataset (sample_swap SwapReserved)" by (rule sample_swap_ok) (simp add: SAMPLE_STATES_def)
  moreover have "no_evidence\<lparr>ev_marker := Some sample_marker\<rparr> = sample_evidence SwapSubmitting" by (simp add: sample_evidence_def)
  moreover have "SwapReserved \<in> set SAMPLE_STATES" by (simp add: SAMPLE_STATES_def)
  moreover have "xw_life (sw_index (sample_swap_world st)) \<noteq> 0" for st by (simp add: sample_swap_world_def)
  ultimately show ?thesis
    using sample_read [of SwapReserved "Suc (xw_tick (sw_index (sample_swap_world SwapReserved)))"] sample_runs(2)
    by (simp add: markSubmitting_def swap_ok_def bnd_def sample_live sample_submission advance_def swap_move_def sample_identifiers
        locks_calm [OF sample_calm(1)] readBound_def on_index_def looks_def sample_calm(3) put_swap_def put_def stored_swap_def update_conv')
qed


text \<open>The stale process releases the hold of the marked swap.\<close>

definition sample_released :: usage_reservation where
  "sample_released = (sample_lease FailedBeforeEffect)\<lparr>res_outcomeDigest := Some aaa\<rparr>"

lemma sample_release_seal:
  "seal sample_prims ((sample_lease Reserved)\<lparr>res_state := FailedBeforeEffect, res_updatedAt := sample_swap_at, res_effectAt := None,
     res_outcomeDigest := Some aaa\<rparr>) = Inr sample_released"
proof -
  have "validateBody sample_prims sample_released = Inr ()" "shape_ok sample_released" by code_simp+
  moreover have "res_reservationDigest sample_released = aaa" by (simp add: sample_released_def sample_lease_def sample_hold_def)
  ultimately have "validateAssetUsageReservation sample_prims sample_released = Inr sample_released"
    using sample_hold_body(3) by (simp add: validateAssetUsageReservation_def)
  moreover have "(sample_lease Reserved)\<lparr>res_state := FailedBeforeEffect, res_updatedAt := sample_swap_at, res_effectAt := None,
     res_outcomeDigest := Some aaa, res_reservationDigest := aaa\<rparr> = sample_released"
    by (simp add: sample_released_def sample_lease_def sample_hold_def sample_swap_at_def)
  ultimately show ?thesis by (simp add: seal_def)
qed

lemma sample_usage_identity: "swap_usage_identity (sample_swap st) = oc_identity sample_owner_input"
  by (simp add: swap_usage_identity_def) (simp add: sample_quote_def sample_owner_input_def swap_asset_ref_def)

lemma sample_release:
  "\<exists>t. move_lease sample_prims sample_swap_env (sample_swap SwapReserved) FailedBeforeEffect (Some sample_swap_at) (Some aaa)
     (sample_swap_world SwapSubmitting) = (Inr sample_released, t)"
proof -
  have row: "validateAssetUsageReservation sample_prims (sample_lease Reserved) = Inr (sample_lease Reserved)" by (rule sample_lease_ok) simp
  have fields: "res_updatedAt (sample_lease st) = sample_swap_at" "res_metamaskNativeReservation (sample_lease st) = None"
    "res_cleanup85NativeReservation (sample_lease st) = None" "res_consumedAtomic (sample_lease st) = None" for st
    by (simp_all add: sample_lease_def sample_hold_def sample_swap_at_def)
  have noted: "(sample_lease Reserved)\<lparr>res_state := FailedBeforeEffect, res_updatedAt := sample_swap_at, res_effectAt := None,
      res_outcomeDigest := Some aaa, res_consumedAtomic := None\<rparr> =
    (sample_lease Reserved)\<lparr>res_state := FailedBeforeEffect, res_updatedAt := sample_swap_at, res_effectAt := None, res_outcomeDigest := Some aaa\<rparr>"
    by (simp add: sample_lease_def sample_hold_def)
  let ?L = "(\<lambda>_. [])(aaa := [(aaa, sample_lease Reserved)])"
  have load: "loadBucket sample_prims (oc_identity sample_owner_input) ?L = (Inr [sample_lease Reserved], ?L)"
    using row by (simp add: loadBucket_def bnd_def load_entry_def sample_hold_body same_identity_def)
  let ?t = "\<lparr>ti_identity = oc_identity sample_owner_input, ti_reservationId = aaa, ti_policyDigest = aaa, ti_state = FailedBeforeEffect,
    ti_now = Some sample_swap_at, ti_outcomeDigest = Some aaa, ti_consumedAtomic = None, ti_effectAt = None, ti_expectedCurrentStates = None\<rparr>"
  have run: "transition sample_prims sample_env ?t ?L = (Inr sample_released, ?L(aaa := [(aaa, sample_released)]))"
    using row
    by (simp add: transition_def sample_identity_checks digest_of_def sample_hold_body instant_def bnd_def load sample_env_def
        readRecord_def fields same_identity_def bucketStamp_def newest_def noted sample_release_seal writeRecord_def Let_def assertTransition_def)
  have "se_ledger sample_swap_env n = sample_env" for n by (simp add: sample_swap_env_def)
  moreover have "usage_move (sample_swap SwapReserved) FailedBeforeEffect (Some sample_swap_at) (Some aaa) = Inr ?t"
    by (simp add: usage_move_def sample_usage_identity)
  moreover have "sw_ledger (sample_swap_world st) = ?L" "xw_life (sw_index (sample_swap_world st)) = 10" for st by (simp_all add: sample_swap_world_def)
  ultimately show ?thesis using run by (simp add: move_lease_def bnd_lift_ok charge_def locks_calm [OF sample_calm(1)])
qed

theorem swap_stale_failure_witness:
  "\<exists>e t. failBeforeEffect sample_prims sample_swap_env (sample_swap SwapReserved) (Some sample_swap_at) aaa (sample_swap_world SwapSubmitting) = (Inl e, t) \<and>
     stored_swap t (swap_path aaa aaa) = Some (sample_swap SwapSubmitting) \<and>
     load sample_prims (oc_identity sample_owner_input) aaa (sw_ledger t) = (Inr (Some sample_released), sw_ledger t) \<and>
     (\<forall>later action. \<exists>e. fst (perform sample_prims sample_swap_env (sample_swap SwapSubmitting) later action t) = Inl e)"
proof -
  obtain t where t: "move_lease sample_prims sample_swap_env (sample_swap SwapReserved) FailedBeforeEffect (Some sample_swap_at) (Some aaa)
     (sample_swap_world SwapSubmitting) = (Inr sample_released, t)" using sample_release by blast
  have run: "transitionSwapOperation sample_prims (se_dataset sample_swap_env) (sample_swap SwapReserved) SwapSubmitting (sample_evidence SwapSubmitting)
    (Some sample_swap_at) = Inr (sample_swap SwapSubmitting)" using sample_runs(2) by (simp add: sample_calm(3))
  from swap_stale_failure [OF sample_calm(1) run _ _ t] show ?thesis
    by (auto simp: sample_swap_stored sample_usage_identity)
qed

end
