(* ===== verification/SwapApproval.thy ===== *)
theory SwapApproval
  imports SwapSamples
begin

text \<open>
  The foreground approval of a guarded swap (\<^verbatim>\<open>swap/runtime.ts\<close>): the intent shown to the owner, the
  sealed artifact that records the answer, and the validation that binds it to one record.
\<close>

section \<open>Data\<close>

text \<open>An object of texts is the list of its members, whose names are distinct.\<close>

type_synonym display = "(string \<times> string) list"

record swap_material =
  sm_quote :: swap_quote
  sm_approvalCapAtomic :: string
  sm_gasOrEnergy :: display
  sm_execution :: jval

record swap_intent =
  si_operationId :: string
  si_profile :: string
  si_account :: string
  si_recipient :: string
  si_inputAmountAtomic :: string
  si_expectedOutputAtomic :: string
  si_minimumOutputAtomic :: string
  si_slippageBps :: int
  si_gasOrEnergy :: display
  si_deadline :: string
  si_quoteHash :: string
  si_policyDigest :: string
  si_mechanismDigest :: string
  si_registryDigest :: string

record swap_artifact =
  sfa_intent :: swap_intent
  sfa_approvedAt :: string
  sfa_expiresAt :: string
  sfa_verifierProofHash :: string
  sfa_artifactHash :: string

definition GUARDED_SWAP_APPROVAL_SCHEMA :: string where
  "GUARDED_SWAP_APPROVAL_SCHEMA = ''apn.guarded-swap-approval.v1''"

definition display_json :: "display \<Rightarrow> jval" where
  "display_json d = JObj (map (\<lambda>(k, v). (k, JStr v)) d)"

definition intent_members :: "swap_intent \<Rightarrow> (string \<times> jval) list" where
  "intent_members i = [(''operationId'', JStr (si_operationId i)), (''profile'', JStr (si_profile i)), (''account'', JStr (si_account i)),
     (''recipient'', JStr (si_recipient i)), (''inputAmountAtomic'', JStr (si_inputAmountAtomic i)),
     (''expectedOutputAtomic'', JStr (si_expectedOutputAtomic i)), (''minimumOutputAtomic'', JStr (si_minimumOutputAtomic i)),
     (''slippageBps'', JNum (si_slippageBps i)), (''gasOrEnergy'', display_json (si_gasOrEnergy i)), (''deadline'', JStr (si_deadline i)),
     (''quoteHash'', JStr (si_quoteHash i)), (''policyDigest'', JStr (si_policyDigest i)), (''mechanismDigest'', JStr (si_mechanismDigest i)),
     (''protocolRegistryDigest'', JStr (si_registryDigest i))]"

definition intent_json :: "swap_intent \<Rightarrow> jval" where
  "intent_json i = JObj (intent_members i)"

definition artifact_body :: "swap_artifact \<Rightarrow> jval" where
  "artifact_body a = JObj ((''schemaVersion'', JStr GUARDED_SWAP_APPROVAL_SCHEMA) # intent_members (sfa_intent a) @
     [(''approvedAt'', JStr (sfa_approvedAt a)), (''expiresAt'', JStr (sfa_expiresAt a)),
      (''verifierProofHash'', JStr (sfa_verifierProofHash a))])"

definition artifact_hash :: "prims \<Rightarrow> swap_artifact \<Rightarrow> string result" where
  "artifact_hash P a = rbind (canonicalJson (artifact_body a)) (\<lambda>t. Inr (domainHash (sha P) GUARDED_SWAP_APPROVAL_SCHEMA t))"

section \<open>The intent of a record\<close>

definition approvalIntent :: "swap_operation \<Rightarrow> display \<Rightarrow> swap_intent" where
  "approvalIntent op gas = (let q = so_quote op in
     \<lparr>si_operationId = so_operationId op, si_profile = sq_profile q, si_account = sq_account q, si_recipient = sq_recipient q,
      si_inputAmountAtomic = sq_inputAmountAtomic q, si_expectedOutputAtomic = sq_expectedOutputAtomic q,
      si_minimumOutputAtomic = sq_minimumOutputAtomic q, si_slippageBps = sq_slippageBps q, si_gasOrEnergy = gas,
      si_deadline = sq_expiresAt q, si_quoteHash = sq_quoteHash q, si_policyDigest = so_policyDigest op,
      si_mechanismDigest = so_mechanismDigest op, si_registryDigest = so_registryDigest op\<rparr>)"

text \<open>\<^verbatim>\<open>/^[a-z][a-zA-Z0-9]{0,63}$/\<close>.\<close>

definition display_key :: "string \<Rightarrow> bool" where
  "display_key k \<longleftrightarrow> k \<noteq> [] \<and> length k \<le> 64 \<and> lower (hd k) \<and> list_all alnum k"

definition validateGasOrEnergy :: "display \<Rightarrow> unit result" where
  "validateGasOrEnergy d = (if d = [] \<or> length d > 16 \<or> \<not> list_all (\<lambda>(k, v). display_key k \<and> uint78 v) d then invalid else Inr ())"

section \<open>Sealing and validation\<close>

definition sealGuardedSwapApproval :: "prims \<Rightarrow> swap_intent \<Rightarrow> jsdate \<Rightarrow> string \<Rightarrow> swap_artifact result" where
  "sealGuardedSwapApproval P intent approvedAt verifierProofHash =
     rbind (instant approvedAt) (\<lambda>at.
     if \<not> hash_text verifierProofHash then blocked else
     let a = \<lparr>sfa_intent = intent, sfa_approvedAt = at, sfa_expiresAt = si_deadline intent, sfa_verifierProofHash = verifierProofHash,
       sfa_artifactHash = []\<rparr> in
     rbind (artifact_hash P a) (\<lambda>h. Inr (a\<lparr>sfa_artifactHash := h\<rparr>)))"

definition same_intent :: "swap_intent \<Rightarrow> swap_intent \<Rightarrow> bool" where
  "same_intent i j \<longleftrightarrow> canonicalJson (intent_json i) = canonicalJson (intent_json j)"

definition validateGuardedSwapApprovalArtifact ::
  "prims \<Rightarrow> swap_artifact \<Rightarrow> swap_operation \<Rightarrow> swap_intent option \<Rightarrow> jsdate option \<Rightarrow> swap_artifact result" where
  "validateGuardedSwapApprovalArtifact P a op expected now =
     (if \<not> hash_text (sfa_verifierProofHash a) \<or> \<not> hash_text (sfa_artifactHash a) then blocked else
      rbind (validateGasOrEnergy (si_gasOrEnergy (sfa_intent a))) (\<lambda>_.
      rbind (artifact_hash P a) (\<lambda>h.
      if sfa_artifactHash a \<noteq> h \<or> \<not> same_intent (approvalIntent op (si_gasOrEnergy (sfa_intent a))) (sfa_intent a) \<or>
         (case expected of None \<Rightarrow> False | Some i \<Rightarrow> \<not> same_intent i (sfa_intent a)) \<or>
         sfa_expiresAt a \<noteq> si_deadline (sfa_intent a) \<or> sfa_approvedAt a < so_updatedAt op \<or> sfa_expiresAt a \<le> sfa_approvedAt a then blocked
      else
      rbind (case now of None \<Rightarrow> Inr True | Some t \<Rightarrow> rbind (instant t) (\<lambda>n. Inr (sfa_approvedAt a \<le> n \<and> n < sfa_expiresAt a))) (\<lambda>timely.
      if timely then Inr a else blocked))))"

section \<open>What an accepted approval says\<close>

lemma display_plain [simp]: "plain_json (display_json d)"
  by (auto simp: display_json_def list_all_iff)

lemma artifact_plain: "plain_json (artifact_body a) \<longleftrightarrow> \<bar>si_slippageBps (sfa_intent a)\<bar> \<le> MAX_SAFE_INTEGER"
  by (auto simp: artifact_body_def intent_members_def)

lemma approval_plain: "swap_ok P dataset op \<Longrightarrow> plain_json (intent_json (approvalIntent op gas))"
  using swap_okD(1) [of P dataset op]
  by (auto simp: intent_json_def intent_members_def approvalIntent_def Let_def swap_fields_ok_def validateSwapQuote_def MAX_SAFE_INTEGER_def
      split: if_splits)

lemma intent_floats [simp]: "floats_ok (intent_json i)"
  by (auto simp: intent_json_def intent_members_def display_json_def list_all_iff)

lemma same_intent_members:
  assumes "same_intent i j" "canonicalJson (intent_json i) = Inr t" "(k, JStr v) \<in> set (intent_members i)"
  shows "(k, JStr v) \<in> set (intent_members j)"
  using canonicalJson_member [of "intent_members i" t "intent_members j" k v] assms intent_floats [of i] intent_floats [of j]
  by (simp add: same_intent_def intent_json_def)

text \<open>What an accepted artifact says of a valid record.\<close>

lemma accepted_intent:
  assumes "validateGuardedSwapApprovalArtifact P a op expected now = Inr r" "swap_ok P dataset op"
  shows "r = a" "si_operationId (sfa_intent a) = so_operationId op" "si_account (sfa_intent a) = sq_account (so_quote op)"
    "si_recipient (sfa_intent a) = sq_recipient (so_quote op)" "si_inputAmountAtomic (sfa_intent a) = sq_inputAmountAtomic (so_quote op)"
    "si_minimumOutputAtomic (sfa_intent a) = sq_minimumOutputAtomic (so_quote op)" "si_quoteHash (sfa_intent a) = sq_quoteHash (so_quote op)"
    "si_policyDigest (sfa_intent a) = so_policyDigest op" "si_mechanismDigest (sfa_intent a) = so_mechanismDigest op"
    "si_registryDigest (sfa_intent a) = so_registryDigest op" "so_updatedAt op \<le> sfa_approvedAt a"
    "sfa_approvedAt a < sq_expiresAt (so_quote op)"
proof -
  let ?i = "approvalIntent op (si_gasOrEnergy (sfa_intent a))"
  have accepted: "r = a" "same_intent ?i (sfa_intent a)" "sfa_expiresAt a = si_deadline (sfa_intent a)" "so_updatedAt op \<le> sfa_approvedAt a"
    "sfa_approvedAt a < sfa_expiresAt a"
    using assms(1) by (auto simp: validateGuardedSwapApprovalArtifact_def blocked_def not_less not_le split: if_splits)
  obtain t where "canonicalJson (intent_json ?i) = Inr t" using canonicalJson_total [OF approval_plain [OF assms(2)]] by blast
  note members = same_intent_members [OF accepted(2) this]
  have "si_deadline (sfa_intent a) = sq_expiresAt (so_quote op)"
    using members [of "''deadline''" "sq_expiresAt (so_quote op)"] by (auto simp: intent_members_def approvalIntent_def Let_def display_json_def)
  then show "r = a" "si_operationId (sfa_intent a) = so_operationId op" "si_account (sfa_intent a) = sq_account (so_quote op)"
    "si_recipient (sfa_intent a) = sq_recipient (so_quote op)" "si_inputAmountAtomic (sfa_intent a) = sq_inputAmountAtomic (so_quote op)"
    "si_minimumOutputAtomic (sfa_intent a) = sq_minimumOutputAtomic (so_quote op)" "si_quoteHash (sfa_intent a) = sq_quoteHash (so_quote op)"
    "si_policyDigest (sfa_intent a) = so_policyDigest op" "si_mechanismDigest (sfa_intent a) = so_mechanismDigest op"
    "si_registryDigest (sfa_intent a) = so_registryDigest op" "so_updatedAt op \<le> sfa_approvedAt a" "sfa_approvedAt a < sq_expiresAt (so_quote op)"
    using accepted members [of "''operationId''" "so_operationId op"] members [of "''account''" "sq_account (so_quote op)"]
      members [of "''recipient''" "sq_recipient (so_quote op)"] members [of "''inputAmountAtomic''" "sq_inputAmountAtomic (so_quote op)"]
      members [of "''minimumOutputAtomic''" "sq_minimumOutputAtomic (so_quote op)"] members [of "''quoteHash''" "sq_quoteHash (so_quote op)"]
      members [of "''policyDigest''" "so_policyDigest op"] members [of "''mechanismDigest''" "so_mechanismDigest op"]
      members [of "''protocolRegistryDigest''" "so_registryDigest op"]
    by (auto simp: intent_members_def approvalIntent_def Let_def display_json_def)
qed

text \<open>
  The property C39. An artifact accepted for a valid record was given for exactly that swap: its owner and
  recipient, the amount that leaves and the least that returns, its quote, its policy, its mechanism and
  registry; it was given after the record's last write and before the quote expired.
\<close>

theorem approval_binds_swap:
  assumes "validateGuardedSwapApprovalArtifact P a op expected now = Inr r" "swap_ok P dataset op"
  shows "r = a \<and> si_operationId (sfa_intent a) = so_operationId op \<and> si_account (sfa_intent a) = sq_account (so_quote op) \<and>
    si_recipient (sfa_intent a) = sq_recipient (so_quote op) \<and> si_inputAmountAtomic (sfa_intent a) = sq_inputAmountAtomic (so_quote op) \<and>
    si_minimumOutputAtomic (sfa_intent a) = sq_minimumOutputAtomic (so_quote op) \<and> si_quoteHash (sfa_intent a) = sq_quoteHash (so_quote op) \<and>
    si_policyDigest (sfa_intent a) = so_policyDigest op \<and> si_mechanismDigest (sfa_intent a) = so_mechanismDigest op \<and>
    si_registryDigest (sfa_intent a) = so_registryDigest op \<and> so_updatedAt op \<le> sfa_approvedAt a \<and>
    sfa_approvedAt a < sq_expiresAt (so_quote op)"
  using accepted_intent [OF assms] by simp

text \<open>What the foreground verifier seals for the intent it was shown is accepted while the quote lasts.\<close>

lemma sealed_approval_accepted:
  assumes "sealGuardedSwapApproval P (approvalIntent op gas) approvedAt proof_hash = Inr a" "validateGasOrEnergy gas = Inr ()"
    "so_updatedAt op \<le> sfa_approvedAt a" "sfa_approvedAt a \<le> n" "n < sq_expiresAt (so_quote op)" "\<And>t. hash_text (sha P t)"
  shows "validateGuardedSwapApprovalArtifact P a op (Some (approvalIntent op gas)) (Some (Some n)) = Inr a"
proof -
  obtain at h where a: "a = \<lparr>sfa_intent = approvalIntent op gas, sfa_approvedAt = at, sfa_expiresAt = si_deadline (approvalIntent op gas),
      sfa_verifierProofHash = proof_hash, sfa_artifactHash = h\<rparr>" and "hash_text proof_hash" and
    h: "artifact_hash P (a\<lparr>sfa_artifactHash := []\<rparr>) = Inr h"
    using assms(1) by (auto simp: sealGuardedSwapApproval_def blocked_def split: if_splits)
  have "artifact_hash P a = Inr h" using h by (simp add: artifact_hash_def artifact_body_def a)
  moreover have "hash_text h" using h assms(6) by (auto simp: artifact_hash_def domainHash_def)
  moreover have "si_gasOrEnergy (approvalIntent op gas) = gas" "si_deadline (approvalIntent op gas) = sq_expiresAt (so_quote op)"
    by (simp_all add: approvalIntent_def Let_def)
  ultimately show ?thesis
    using assms(2-5) \<open>hash_text proof_hash\<close>
    by (auto simp: validateGuardedSwapApprovalArtifact_def a same_intent_def instant_def)
qed

definition sample_gas :: display where
  "sample_gas = [(''gasLimit'', ''5'')]"

lemma sample_sealed:
  "\<exists>a. sealGuardedSwapApproval sample_prims (approvalIntent (sample_swap st) sample_gas) (Some sample_swap_at) aaa = Inr a \<and>
     validateGuardedSwapApprovalArtifact sample_prims a (sample_swap st) (Some (approvalIntent (sample_swap st) sample_gas))
       (Some (Some sample_swap_at)) = Inr a"
proof -
  let ?i = "approvalIntent (sample_swap st) sample_gas"
  have "plain_json (artifact_body \<lparr>sfa_intent = ?i, sfa_approvedAt = at, sfa_expiresAt = e, sfa_verifierProofHash = v, sfa_artifactHash = h\<rparr>)"
    for at e v h
    by (simp add: artifact_plain approvalIntent_def Let_def) (simp add: sample_quote_def MAX_SAFE_INTEGER_def)
  then have "artifact_hash sample_prims \<lparr>sfa_intent = ?i, sfa_approvedAt = at, sfa_expiresAt = e, sfa_verifierProofHash = v,
      sfa_artifactHash = h\<rparr> = Inr aaa" for at e v h
    unfolding artifact_hash_def by (rule sample_canonical)
  then obtain a where a: "sealGuardedSwapApproval sample_prims ?i (Some sample_swap_at) aaa = Inr a" "sfa_approvedAt a = sample_swap_at"
    by (auto simp: sealGuardedSwapApproval_def instant_def sample_swap_texts Let_def)
  have "validateGasOrEnergy sample_gas = Inr ()" "sample_swap_at < sq_expiresAt sample_quote" by code_simp+
  with sealed_approval_accepted [OF a(1), of sample_swap_at] a show ?thesis by (auto simp: sample_swap_texts)
qed

theorem approval_binds_swap_witness:
  "\<exists>a. sealGuardedSwapApproval sample_prims (approvalIntent (sample_swap SwapAwaitingApproval) sample_gas) (Some sample_swap_at) aaa = Inr a \<and>
     si_account (sfa_intent a) = sq_account sample_quote \<and> sfa_approvedAt a < sq_expiresAt sample_quote"
proof -
  let ?op = "sample_swap SwapAwaitingApproval"
  have ok: "swap_ok sample_prims sample_dataset ?op" by (rule sample_swap_ok) (simp add: SAMPLE_STATES_def)
  from sample_sealed [of SwapAwaitingApproval] obtain a where
    "sealGuardedSwapApproval sample_prims (approvalIntent ?op sample_gas) (Some sample_swap_at) aaa = Inr a" and
    accepted: "validateGuardedSwapApprovalArtifact sample_prims a ?op (Some (approvalIntent ?op sample_gas)) (Some (Some sample_swap_at)) = Inr a"
    by blast
  with approval_binds_swap [OF accepted ok] show ?thesis by auto
qed

end
