(* ===== verification/SwapRuntime.thy ===== *)
theory SwapRuntime
  imports SwapApproval SwapService
begin

text \<open>
  The runtime around the swap service (\<^verbatim>\<open>swap/runtime.ts\<close>): prepare, the owner's foreground consent, the
  single execution of an approved swap and its observation. The lane's material store, its driver, the
  owner admission, the foreground verifier, the policy of a profile and the clock are the injected
  dependencies, fields of \<open>swap_runtime\<close>; each question is numbered. An answer of another shape than the
  type of its field is refused before it is used: it counts as an error of the dependency.
\<close>

section \<open>World and dependencies\<close>

record runtime_world =
  rtw_swap :: swap_world
  rtw_approvals :: "(string \<times> swap_artifact) list"

text \<open>\<open>sr_date\<close> is the \<^verbatim>\<open>Date\<close> of a text.\<close>

record swap_runtime =
  sr_chain :: string
  sr_env :: swap_env
  sr_material :: "nat \<Rightarrow> string \<Rightarrow> swap_material option result"
  sr_policy :: "nat \<Rightarrow> string \<Rightarrow> policy_registry option result"
  sr_clock :: "nat \<Rightarrow> jsdate"
  sr_date :: "string \<Rightarrow> jsdate"
  sr_registry :: swap_protocol_registry
  sr_owner :: "nat \<Rightarrow> swap_operation \<Rightarrow> swap_material \<Rightarrow> unit result"
  sr_foreground :: "nat \<Rightarrow> swap_intent \<Rightarrow> swap_artifact result"
  sr_caps :: "nat \<Rightarrow> display"
  sr_others :: "nat \<Rightarrow> runtime_world \<Rightarrow> runtime_world"
  sr_execute :: "swap_operation \<Rightarrow> swap_material \<Rightarrow> swap_artifact \<Rightarrow> string \<Rightarrow> (swap_world, swap_operation) stm"
  sr_observe :: "swap_operation \<Rightarrow> swap_material \<Rightarrow> string \<Rightarrow> (swap_world, swap_operation) stm"
  sr_prove :: "swap_operation \<Rightarrow> swap_material \<Rightarrow> string \<Rightarrow> (swap_world, unlanded_proof option) stm"

definition on_swap :: "(swap_world, 'a) stm \<Rightarrow> (runtime_world, 'a) stm" where
  "on_swap m = (\<lambda>s. case m (rtw_swap s) of (r, t) \<Rightarrow> (r, s\<lparr>rtw_swap := t\<rparr>))"

text \<open>A numbered question that is answered at once, and one that is awaited: other processes act meanwhile.\<close>

definition asked :: "(nat \<Rightarrow> 'a result) \<Rightarrow> (runtime_world, 'a) stm" where
  "asked f = on_swap (on_index (asks f))"

definition inquire :: "swap_runtime \<Rightarrow> (nat \<Rightarrow> 'a result) \<Rightarrow> (runtime_world, 'a) stm" where
  "inquire R f = bnd (asked f) (\<lambda>x s. (Inr x, sr_others R (xw_tick (sw_index (rtw_swap s))) s))"

abbreviation sr_dataset :: "swap_runtime \<Rightarrow> inventory" where
  "sr_dataset R \<equiv> se_dataset (sr_env R)"

section \<open>Checks\<close>

definition runtime_now :: "swap_runtime \<Rightarrow> (runtime_world, string) stm" where
  "runtime_now R = asked (\<lambda>n. instant (sr_clock R n))"

definition runtime_material :: "prims \<Rightarrow> swap_runtime \<Rightarrow> string \<Rightarrow> (runtime_world, swap_material) stm" where
  "runtime_material P R hash =
     bnd (inquire R (\<lambda>n. sr_material R n hash)) (\<lambda>loaded.
     case loaded of None \<Rightarrow> lift (Inl (ApnError APN_OPERATION_NOT_FOUND None))
     | Some m \<Rightarrow> bnd (lift (validateSwapQuote P (sr_dataset R) (sm_quote m) False)) (\<lambda>_.
         bnd (lift (validateGasOrEnergy (sm_gasOrEnergy m))) (\<lambda>_. ret m)))"

definition bindMaterial :: "prims \<Rightarrow> swap_runtime \<Rightarrow> swap_operation \<Rightarrow> swap_material \<Rightarrow> unit result" where
  "bindMaterial P R op m =
     rbind (validateSwapQuote P (sr_dataset R) (sm_quote m) False) (\<lambda>q.
     if sq_quoteHash q \<noteq> sq_quoteHash (so_quote op) \<or> canonicalJson (quote_json q) \<noteq> canonicalJson (quote_json (so_quote op)) \<or>
        sm_approvalCapAtomic m \<noteq> so_approvalCapAtomic op then blocked else Inr ())"

definition bound_material :: "prims \<Rightarrow> swap_runtime \<Rightarrow> swap_operation \<Rightarrow> (runtime_world, swap_material) stm" where
  "bound_material P R op =
     bnd (runtime_material P R (sq_quoteHash (so_quote op))) (\<lambda>m. bnd (lift (bindMaterial P R op m)) (\<lambda>_. ret m))"

definition activePolicy :: "prims \<Rightarrow> swap_runtime \<Rightarrow> string \<Rightarrow> (runtime_world, policy_registry) stm" where
  "activePolicy P R profile =
     bnd (inquire R (\<lambda>n. sr_policy R n profile)) (\<lambda>policy.
     case policy of None \<Rightarrow> lift blocked | Some p \<Rightarrow> lift (validateAssetPolicyRegistry P p))"

definition lane_admitted :: "prims \<Rightarrow> policy_registry \<Rightarrow> swap_mechanism_pin \<Rightarrow> swap_asset \<Rightarrow> string \<Rightarrow> string \<Rightarrow> unit result" where
  "lane_admitted P policy lane a amount at =
     rbind (evaluateAssetPolicy P policy (swap_evaluation a amount at)) (\<lambda>admission.
     rbind (assetAdmitsSwapMechanism P (adm_asset admission) lane) (\<lambda>admits. if admits then Inr () else blocked))"

definition current_policy :: "prims \<Rightarrow> swap_runtime \<Rightarrow> swap_operation \<Rightarrow> policy_registry \<Rightarrow> string \<Rightarrow> unit result" where
  "current_policy P R op policy at =
     (if reg_policyDigest policy \<noteq> so_policyDigest op \<or> reg_registryVersion policy \<noteq> so_policyVersion op then blocked else
      rbind (validateSwapProtocolRegistry P (sr_registry R)) (\<lambda>registry.
      if spg_registryDigest registry \<noteq> so_registryDigest op \<or> spg_registryVersion registry \<noteq> so_registryVersion op then blocked else
      rbind (requireSwapProtocol P registry (so_mechanismDigest op)) (\<lambda>lane.
      rbind (lane_admitted P policy (spr_pin lane) (sq_sourceAsset (so_quote op)) (sq_inputAmountAtomic (so_quote op)) at) (\<lambda>_.
        lane_admitted P policy (spr_pin lane) (sq_destinationAsset (so_quote op)) (sq_minimumOutputAtomic (so_quote op)) at))))"

definition assertCurrentPolicy :: "prims \<Rightarrow> swap_runtime \<Rightarrow> swap_operation \<Rightarrow> (runtime_world, policy_registry) stm" where
  "assertCurrentPolicy P R op =
     bnd (activePolicy P R (sq_profile (so_quote op))) (\<lambda>policy.
     bnd (runtime_now R) (\<lambda>at.
     bnd (lift (current_policy P R op policy at)) (\<lambda>_. ret policy)))"

definition required_swap :: "prims \<Rightarrow> swap_runtime \<Rightarrow> string \<Rightarrow> (runtime_world, swap_operation) stm" where
  "required_swap P R operationId =
     bnd (on_swap (swap_loadAny P (sr_env R) operationId)) (\<lambda>loaded.
     case loaded of None \<Rightarrow> lift (Inl (ApnError APN_OPERATION_NOT_FOUND None))
     | Some c \<Rightarrow> bnd (lift (validateSwapOperation P (sr_dataset R) c)) (\<lambda>op.
         if sa_chain (sq_sourceAsset (so_quote op)) \<noteq> sr_chain R then lift blocked else ret op))"

section \<open>Stored approvals\<close>

definition approval_path :: "swap_operation \<Rightarrow> string result" where
  "approval_path op = rbind (stateIdentifier (so_ownerProfileHash op)) (\<lambda>_. rbind (stateIdentifier (so_operationId op)) (\<lambda>_.
     Inr (''swap-approvals/'' @ so_ownerProfileHash op @ ''/'' @ so_operationId op @ ''.json'')))"

definition read_approval :: "prims \<Rightarrow> swap_operation \<Rightarrow> (runtime_world, swap_artifact option) stm" where
  "read_approval P op =
     bnd (lift (approval_path op)) (\<lambda>path s.
       (case map_of (rtw_approvals s) path of None \<Rightarrow> Inr None
        | Some a \<Rightarrow> rbind (validateGuardedSwapApprovalArtifact P a op None None) (\<lambda>a. Inr (Some a)), s))"

definition write_approval :: "swap_operation \<Rightarrow> swap_artifact \<Rightarrow> (runtime_world, unit) stm" where
  "write_approval op a =
     bnd (lift (approval_path op)) (\<lambda>path.
     bnd (on_swap (on_index (put (\<lambda>w. w)))) (\<lambda>_ s. (Inr (), s\<lparr>rtw_approvals := AList.update path a (rtw_approvals s)\<rparr>)))"

definition store_approval :: "prims \<Rightarrow> swap_runtime \<Rightarrow> swap_operation \<Rightarrow> swap_artifact \<Rightarrow> (runtime_world, swap_artifact) stm" where
  "store_approval P R operationValue a =
     bnd (lift (validateSwapOperation P (sr_dataset R) operationValue)) (\<lambda>op.
     bnd (lift (validateGuardedSwapApprovalArtifact P a op None None)) (\<lambda>artifact.
     bnd (inquire R (\<lambda>n. se_lock (sr_env R) n [''swap-approval:'' @ so_operationId op])) (\<lambda>_.
     bnd (read_approval P op) (\<lambda>existing.
     case existing of
       Some prior \<Rightarrow> if sfa_artifactHash prior \<noteq> sfa_artifactHash artifact then lift blocked else ret prior
     | None \<Rightarrow> bnd (write_approval op artifact) (\<lambda>_. ret artifact)))))"

definition load_approval :: "prims \<Rightarrow> swap_runtime \<Rightarrow> swap_operation \<Rightarrow> (runtime_world, swap_artifact option) stm" where
  "load_approval P R operationValue =
     bnd (lift (validateSwapOperation P (sr_dataset R) operationValue)) (\<lambda>op. read_approval P op)"

section \<open>Consent\<close>

definition material_json :: "swap_material \<Rightarrow> jval" where
  "material_json m = JObj [(''quote'', quote_json (sm_quote m)), (''approvalCapAtomic'', JStr (sm_approvalCapAtomic m)),
     (''gasOrEnergy'', display_json (sm_gasOrEnergy m)), (''execution'', sm_execution m)]"

definition consent_binding :: "prims \<Rightarrow> swap_operation \<Rightarrow> swap_material \<Rightarrow> display \<Rightarrow> string result" where
  "consent_binding P op m caps =
     rbind (canonicalJson (JObj [(''operation'', swap_json op), (''material'', material_json m),
       (''intent'', intent_json (approvalIntent op (sm_gasOrEnergy m))), (''caps'', display_json caps)]))
     (\<lambda>t. Inr (domainHash (sha P) ''apn.guarded-swap-consent-binding.v1'' t))"

definition consent :: "prims \<Rightarrow> swap_runtime \<Rightarrow> string \<Rightarrow> jsdate \<Rightarrow>
    (runtime_world, swap_operation \<times> swap_material \<times> swap_artifact) stm" where
  "consent P R operationId now =
     bnd (asked (\<lambda>n. Inr (sr_caps R n))) (\<lambda>caps.
     bnd (required_swap P R operationId) (\<lambda>operation.
     if so_state operation \<noteq> SwapAwaitingApproval then lift blocked else
     bnd (lift (instant now)) (\<lambda>_.
     bnd (bound_material P R operation) (\<lambda>m.
     bnd (assertCurrentPolicy P R operation) (\<lambda>_.
     bnd (inquire R (\<lambda>n. sr_owner R n operation m)) (\<lambda>_.
     let intent = approvalIntent operation (sm_gasOrEnergy m) in
     bnd (lift (consent_binding P operation m caps)) (\<lambda>binding.
     bnd (inquire R (\<lambda>n. sr_foreground R n intent)) (\<lambda>answer.
     bnd (runtime_now R) (\<lambda>answered.
     bnd (lift (validateGuardedSwapApprovalArtifact P answer operation (Some intent) (Some (Some answered)))) (\<lambda>artifact.
     bnd (required_swap P R operationId) (\<lambda>latest.
     bnd (asked (\<lambda>n. Inr (sr_caps R n))) (\<lambda>later_caps.
     bnd (lift (consent_binding P latest m later_caps)) (\<lambda>rebound.
     if binding \<noteq> rebound then lift blocked else
     bnd (inquire R (\<lambda>n. sr_owner R n operation m)) (\<lambda>_.
     bnd (assertCurrentPolicy P R operation) (\<lambda>policy.
     bnd (on_swap (swap_reserve P (sr_env R) operation policy (sr_date R (sfa_approvedAt artifact)))) (\<lambda>reserved.
     bnd (store_approval P R reserved artifact) (\<lambda>_. ret (reserved, m, artifact))))))))))))))))))"

section \<open>Execution and observation\<close>

definition unsent_release :: "prims \<Rightarrow> swap_operation \<Rightarrow> string \<Rightarrow> string result" where
  "unsent_release P op reason =
     rbind (canonicalJson (JObj [(''operationId'', JStr (so_operationId op)), (''integrityHash'', JStr (so_integrityHash op)),
       (''reason'', JStr reason)])) (\<lambda>t. Inr (domainHash (sha P) ''apn.guarded-swap-unsent-release.v1'' t))"

definition driver_result :: "prims \<Rightarrow> swap_runtime \<Rightarrow> swap_operation \<Rightarrow> swap_operation \<Rightarrow> swap_operation result" where
  "driver_result P R op answer =
     rbind (validateSwapOperation P (sr_dataset R) answer) (\<lambda>result.
     if so_operationId result \<noteq> so_operationId op \<or> so_marker result = None then corrupt else Inr result)"

definition executeApproved :: "prims \<Rightarrow> swap_runtime \<Rightarrow> swap_operation \<Rightarrow> swap_material option \<Rightarrow> swap_artifact option \<Rightarrow>
    (runtime_world, swap_operation) stm" where
  "executeApproved P R op material artifact =
     (if so_state op \<noteq> SwapReserved \<or> \<not> lease_in Reserved (so_usageLease op) then lift blocked else
      bnd (runtime_now R) (\<lambda>at.
      case (material, artifact) of
        (Some m, Some a) \<Rightarrow>
          if sq_expiresAt (so_quote op) \<le> at
          then bnd (lift (unsent_release P op ''quote_expired'')) (\<lambda>h. on_swap (failBeforeEffect P (sr_env R) op (Some at) h))
          else bnd (lift (validateGuardedSwapApprovalArtifact P a op None (Some (Some at)))) (\<lambda>_.
            bnd (on_swap (sr_execute R op m a at)) (\<lambda>answer. lift (driver_result P R op answer)))
      | _ \<Rightarrow> bnd (lift (unsent_release P op (if artifact = None then ''approval_missing'' else ''quote_expired''))) (\<lambda>h.
          on_swap (failBeforeEffect P (sr_env R) op (Some at) h))))"

text \<open>A proof that fails to be read counts as not there yet.\<close>

definition expire_if_proven :: "prims \<Rightarrow> swap_runtime \<Rightarrow> swap_operation \<Rightarrow> swap_material \<Rightarrow> (runtime_world, swap_operation) stm" where
  "expire_if_proven P R result m =
     bnd (try_catch (bnd (runtime_now R) (\<lambda>at. on_swap (sr_prove R result m at))) (\<lambda>_. ret None)) (\<lambda>found.
     case found of None \<Rightarrow> ret result
     | Some p \<Rightarrow> bnd (runtime_now R) (\<lambda>at. on_swap (expireUnlanded P (sr_env R) result (Some at) p)))"

definition observe :: "prims \<Rightarrow> swap_runtime \<Rightarrow> swap_operation \<Rightarrow> (runtime_world, swap_operation) stm" where
  "observe P R op =
     (if so_state op \<in> set SWAP_TERMINAL_STATES then ret op else
      bnd (bound_material P R op) (\<lambda>m.
      bnd (runtime_now R) (\<lambda>at.
      bnd (on_swap (sr_observe R op m at)) (\<lambda>answer.
      bnd (lift (driver_result P R op answer)) (\<lambda>result.
      if so_state result \<in> {SwapSubmitting, SwapSubmitted, SwapUnknownFinality} \<and> so_receipt result = None
      then expire_if_proven P R result m else ret result)))))"

section \<open>Commands\<close>

definition runtime_prepare :: "prims \<Rightarrow> swap_runtime \<Rightarrow> string \<Rightarrow> string \<Rightarrow> string \<Rightarrow> jsdate \<Rightarrow> (runtime_world, swap_operation) stm" where
  "runtime_prepare P R profile quoteHash key now =
     bnd (runtime_material P R quoteHash) (\<lambda>m.
     bnd (lift (validateSwapQuote P (sr_dataset R) (sm_quote m) False)) (\<lambda>q.
     if sq_profile q \<noteq> profile \<or> sq_quoteHash q \<noteq> quoteHash \<or> sa_chain (sq_sourceAsset q) \<noteq> sr_chain R \<or>
        sa_chain (sq_destinationAsset q) \<noteq> sr_chain R then lift blocked else
     bnd (activePolicy P R profile) (\<lambda>policy.
       on_swap (swap_prepare P (sr_env R) \<lparr>sp_quote = q, sp_assetPolicy = policy, sp_protocolRegistry = sr_registry R,
         sp_idempotencyKey = key, sp_approvalCapAtomic = sm_approvalCapAtomic m, sp_now = now, sp_laneMechanismDigest = None\<rparr>))))"

definition approve :: "prims \<Rightarrow> swap_runtime \<Rightarrow> string \<Rightarrow> jsdate \<Rightarrow> (runtime_world, swap_operation) stm" where
  "approve P R operationId now = bnd (consent P R operationId now) (\<lambda>(reserved, _, _). ret reserved)"

definition approveAndExecute :: "prims \<Rightarrow> swap_runtime \<Rightarrow> string \<Rightarrow> jsdate \<Rightarrow> (runtime_world, swap_operation) stm" where
  "approveAndExecute P R operationId now =
     bnd (consent P R operationId now) (\<lambda>(reserved, m, artifact). executeApproved P R reserved (Some m) (Some artifact))"

definition runtime_execute :: "prims \<Rightarrow> swap_runtime \<Rightarrow> string \<Rightarrow> jsdate \<Rightarrow> (runtime_world, swap_operation) stm" where
  "runtime_execute P R operationId now =
     bnd (required_swap P R operationId) (\<lambda>operation.
     bnd (lift (instant now)) (\<lambda>_.
     if so_marker operation \<noteq> None then observe P R operation else
     bnd (load_approval P R operation) (\<lambda>artifact.
     case artifact of None \<Rightarrow> executeApproved P R operation None None
     | Some a \<Rightarrow>
         bnd (runtime_now R) (\<lambda>at.
         if sq_expiresAt (so_quote operation) \<le> at then executeApproved P R operation None artifact else
         bnd (bound_material P R operation) (\<lambda>m.
         bnd (inquire R (\<lambda>n. sr_owner R n operation m)) (\<lambda>_.
         bnd (assertCurrentPolicy P R operation) (\<lambda>_.
         bnd (runtime_now R) (\<lambda>at.
         bnd (lift (validateGuardedSwapApprovalArtifact P a operation (Some (approvalIntent operation (sm_gasOrEnergy m))) (Some (Some at)))) (\<lambda>_.
           executeApproved P R operation (Some m) artifact)))))))))"

definition runtime_status :: "prims \<Rightarrow> swap_runtime \<Rightarrow> string \<Rightarrow> jsdate \<Rightarrow> (runtime_world, swap_operation) stm" where
  "runtime_status P R operationId now =
     bnd (required_swap P R operationId) (\<lambda>operation.
     bnd (lift (instant now)) (\<lambda>_.
     if so_marker operation = None then ret operation else observe P R operation))"

end
