(* ===== verification/SwapRuntimeLaws.thy ===== *)
theory SwapRuntimeLaws
  imports SwapRuntime SwapServiceLaws
begin

text \<open>
  The driver of a lane is the only part of the runtime that signs and sends. What the runtime hands it is
  always an approved reservation: a driver that did anything else with any other input would not be noticed.
\<close>

section \<open>Commands\<close>

datatype runtime_command = PrepareSwap string string string | ApproveSwap string | ApproveAndExecuteSwap string
  | ExecuteSwap string | StatusSwap string

fun run_command :: "prims \<Rightarrow> swap_runtime \<Rightarrow> runtime_command \<Rightarrow> jsdate \<Rightarrow> (runtime_world, swap_operation) stm" where
  "run_command P R (PrepareSwap profile quoteHash key) now = runtime_prepare P R profile quoteHash key now"
| "run_command P R (ApproveSwap operationId) now = approve P R operationId now"
| "run_command P R (ApproveAndExecuteSwap operationId) now = approveAndExecute P R operationId now"
| "run_command P R (ExecuteSwap operationId) now = runtime_execute P R operationId now"
| "run_command P R (StatusSwap operationId) now = runtime_status P R operationId now"

text \<open>What the driver may count on.\<close>

definition approved :: "prims \<Rightarrow> inventory \<Rightarrow> swap_operation \<Rightarrow> swap_material \<Rightarrow> swap_artifact \<Rightarrow> string \<Rightarrow> bool" where
  "approved P dataset op m a at \<longleftrightarrow> swap_ok P dataset op \<and> so_state op = SwapReserved \<and> so_marker op = None \<and>
     at < sq_expiresAt (so_quote op) \<and> sq_quoteHash (sm_quote m) = sq_quoteHash (so_quote op) \<and>
     validateGuardedSwapApprovalArtifact P a op None (Some (Some at)) = Inr a"

definition guarded :: "prims \<Rightarrow> swap_runtime \<Rightarrow>
    (swap_operation \<Rightarrow> swap_material \<Rightarrow> swap_artifact \<Rightarrow> string \<Rightarrow> (swap_world, swap_operation) stm) \<Rightarrow> swap_runtime" where
  "guarded P R d = R\<lparr>sr_execute := \<lambda>op m a at. if approved P (sr_dataset R) op m a at then sr_execute R op m a at else d op m a at\<rparr>"

section \<open>The driver is asked in one place\<close>

lemma guarded_fields [simp]:
  "sr_chain (guarded P R d) = sr_chain R" "sr_env (guarded P R d) = sr_env R" "sr_material (guarded P R d) = sr_material R"
  "sr_policy (guarded P R d) = sr_policy R" "sr_clock (guarded P R d) = sr_clock R" "sr_date (guarded P R d) = sr_date R"
  "sr_registry (guarded P R d) = sr_registry R" "sr_owner (guarded P R d) = sr_owner R" "sr_foreground (guarded P R d) = sr_foreground R"
  "sr_caps (guarded P R d) = sr_caps R" "sr_others (guarded P R d) = sr_others R" "sr_observe (guarded P R d) = sr_observe R"
  "sr_prove (guarded P R d) = sr_prove R"
  by (simp_all add: guarded_def)

lemma guarded_inquire [simp]: "inquire (guarded P R d) = inquire R"
  by (intro ext; simp only: guarded_fields inquire_def)

lemma guarded_checks [simp]:
  "runtime_now (guarded P R d) = runtime_now R" "runtime_material Q (guarded P R d) = runtime_material Q R"
  "bindMaterial Q (guarded P R d) = bindMaterial Q R" "activePolicy Q (guarded P R d) = activePolicy Q R"
  "current_policy Q (guarded P R d) = current_policy Q R" "required_swap Q (guarded P R d) = required_swap Q R"
  "store_approval Q (guarded P R d) = store_approval Q R" "load_approval Q (guarded P R d) = load_approval Q R"
  "driver_result Q (guarded P R d) = driver_result Q R"
  by (intro ext; simp only: guarded_fields guarded_inquire runtime_now_def runtime_material_def bindMaterial_def activePolicy_def current_policy_def required_swap_def
      store_approval_def load_approval_def driver_result_def)+

lemma guarded_steps [simp]:
  "bound_material Q (guarded P R d) = bound_material Q R" "assertCurrentPolicy Q (guarded P R d) = assertCurrentPolicy Q R"
  "expire_if_proven Q (guarded P R d) = expire_if_proven Q R"
  by (intro ext; simp only: guarded_fields guarded_inquire guarded_checks bound_material_def assertCurrentPolicy_def expire_if_proven_def)+

lemma guarded_parts [simp]:
  "consent Q (guarded P R d) = consent Q R" "observe Q (guarded P R d) = observe Q R"
  by (intro ext; simp only: guarded_fields guarded_inquire guarded_checks guarded_steps consent_def observe_def)+

lemma bnd_same: "(\<And>x t. m s = (Inr x, t) \<Longrightarrow> f x t = g x t) \<Longrightarrow> bnd m f s = bnd m g s"
  by (auto simp: bnd_def split: prod.splits sum.splits)

lemma if_same: "(c \<Longrightarrow> m s = m' s) \<Longrightarrow> (\<not> c \<Longrightarrow> n s = n' s) \<Longrightarrow> (if c then m else n) s = (if c then m' else n') s"
  by simp

lemma option_same:
  "(v = None \<Longrightarrow> m s = m' s) \<Longrightarrow> (\<And>x. v = Some x \<Longrightarrow> f x s = g x s) \<Longrightarrow>
   (case v of None \<Rightarrow> m | Some x \<Rightarrow> f x) s = (case v of None \<Rightarrow> m' | Some x \<Rightarrow> g x) s"
  by (cases v) simp_all

lemmas same_rules = refl bnd_same if_same option_same

lemma accepted_same: "validateGuardedSwapApprovalArtifact P a op expected now = Inr r \<Longrightarrow> r = a"
  by (auto simp: validateGuardedSwapApprovalArtifact_def blocked_def split: if_splits)

text \<open>An approval given for the prepared material is handed on with that material only.\<close>

definition fits :: "swap_material option \<Rightarrow> swap_artifact option \<Rightarrow> bool" where
  "fits material artifact \<longleftrightarrow> (\<forall>m a. material = Some m \<longrightarrow> artifact = Some a \<longrightarrow> sq_quoteHash (sm_quote m) = si_quoteHash (sfa_intent a))"

lemma execute_guarded:
  assumes ok: "swap_ok P (sr_dataset R) op" and fit: "fits material artifact"
  shows "executeApproved P (guarded P R d) op material artifact s = executeApproved P R op material artifact s"
proof (cases "so_state op = SwapReserved \<and> material \<noteq> None \<and> artifact \<noteq> None")
  case True
  then obtain m a where ma: "material = Some m" "artifact = Some a" "so_state op = SwapReserved" by auto
  have "approved P (sr_dataset R) op m a at"
    if "validateGuardedSwapApprovalArtifact P a op None (Some (Some at)) = Inr r" "\<not> sq_expiresAt (so_quote op) \<le> at" for at r
    using that ok ma fit swap_unmarked [OF ok] accepted_same [OF that(1)] accepted_intent(7) [OF that(1) ok]
    by (auto simp: approved_def fits_def not_le)
  then show ?thesis
    unfolding executeApproved_def guarded_checks guarded_fields ma option.case prod.case
    by (auto intro!: bnd_same simp: guarded_def)
next
  case False
  then consider "so_state op \<noteq> SwapReserved" | "material = None" | "artifact = None" by blast
  then show ?thesis
    by cases (simp_all only: executeApproved_def guarded_checks guarded_fields option.case prod.case simp_thms if_True split: option.split)
qed

section \<open>What is handed to it\<close>

lemma required_ok: "required_swap P R operationId s = (Inr op, t) \<Longrightarrow> swap_ok P (sr_dataset R) op"
  by (auto simp: required_swap_def bnd_Inr blocked_def dest: validate_swap_self split: option.splits if_splits)

lemma bound_hash: "bound_material P R op s = (Inr m, t) \<Longrightarrow> sq_quoteHash (sm_quote m) = sq_quoteHash (so_quote op)"
  by (auto simp: bound_material_def bnd_Inr bindMaterial_def validateSwapQuote_def blocked_def split: if_splits)

lemma execute_unsent:
  "required_swap P R operationId s = (Inr op, t) \<Longrightarrow> executeApproved P (guarded P R d) op None a u = executeApproved P R op None a u"
  by (simp add: execute_guarded fits_def required_ok)

lemma execute_given:
  assumes "required_swap P R operationId s = (Inr op, t)" "bound_material P R op x = (Inr m, y)"
    "lift (validateGuardedSwapApprovalArtifact P a op expected at) z = (Inr r, w)"
  shows "executeApproved P (guarded P R d) op (Some m) (Some a) u = executeApproved P R op (Some m) (Some a) u"
  using assms(3) bound_hash [OF assms(2)] accepted_intent(7) [OF _ required_ok [OF assms(1)], of a expected at r]
  by (auto intro!: execute_guarded required_ok [OF assms(1)] simp: fits_def lift_def)

lemma on_swap_Inr: "on_swap m s = (Inr x, t) \<Longrightarrow> \<exists>u. m (rtw_swap s) = (Inr x, u)"
  by (auto simp: on_swap_def split: prod.splits)

lemma move_ok: "swap_move P E profile operationId expected st evidence now s = (Inr r, t) \<Longrightarrow> swap_ok P (se_dataset E) r"
  by (auto simp: swap_move_def swap_locks_def bnd_Inr blocked_def elim: swap_transition_result split: option.splits if_splits)

lemma reserve_ok: "swap_reserve P E op policy now s = (Inr r, t) \<Longrightarrow> swap_ok P (se_dataset E) r"
  by (auto simp: swap_reserve_def advance_def bnd_Inr dest: move_ok)

lemma consented:
  assumes "required_swap P R operationId u = (Inr op, v)" "bound_material P R op u' = (Inr m, v')"
    "validateGuardedSwapApprovalArtifact P n op expected at = Inr a" "swap_reserve P (sr_env R) op' policy now w = (Inr reserved, z)"
  shows "swap_ok P (sr_dataset R) reserved \<and> fits (Some m) (Some a)"
  using accepted_same [OF assms(3)] accepted_intent(7) [OF assms(3) required_ok [OF assms(1)]] bound_hash [OF assms(2)] reserve_ok [OF assms(4)]
  by (simp add: fits_def)

lemma consent_InrD:
  "consent P R operationId now s = (Inr (reserved, m, a), t) \<Longrightarrow> swap_ok P (sr_dataset R) reserved \<and> fits (Some m) (Some a)"
  by (clarsimp simp: consent_def bnd_Inr Let_def blocked_def dest!: on_swap_Inr split: if_splits) (rule consented)

text \<open>
  The property C40. Whatever command of the runtime runs, whatever its dependencies answer and
  other processes do meanwhile, the driver is only ever asked to execute what is \<open>approved\<close>: a valid record in
  its reservation without a submission marker, the material of its very quote, and an approval that binds
  this record and holds at that instant, before the quote expires. A driver that did anything else (\<open>d\<close>) on any
  other input would run the same.
\<close>

theorem runtime_driver_approved:
  "run_command P (guarded P R d) command now s = run_command P R command now s"
proof (cases command)
  case (ApproveAndExecuteSwap operationId)
  show ?thesis unfolding ApproveAndExecuteSwap run_command.simps approveAndExecute_def guarded_parts
    by (rule bnd_same) (auto simp: execute_guarded dest: consent_InrD)
next
  case (ExecuteSwap operationId)
  show ?thesis
    unfolding ExecuteSwap run_command.simps runtime_execute_def guarded_parts guarded_checks guarded_steps guarded_fields guarded_inquire
    by (intro same_rules) (auto intro: execute_unsent execute_given)
qed (simp_all only: run_command.simps runtime_prepare_def approve_def runtime_status_def guarded_parts guarded_checks guarded_fields)

text \<open>Such reservations exist.\<close>

lemma accepted_unshown: "validateGuardedSwapApprovalArtifact P a op expected now = Inr r \<Longrightarrow> validateGuardedSwapApprovalArtifact P a op None now = Inr r"
  by (auto simp: validateGuardedSwapApprovalArtifact_def blocked_def split: if_splits)

lemma sample_approved:
  "\<exists>m a. approved sample_prims sample_dataset (sample_swap SwapReserved) m a sample_swap_at"
proof -
  let ?op = "sample_swap SwapReserved"
  have ok: "swap_ok sample_prims sample_dataset ?op" by (rule sample_swap_ok) (simp add: SAMPLE_STATES_def)
  have "sample_swap_at < sq_expiresAt sample_quote" by code_simp
  moreover obtain a where "validateGuardedSwapApprovalArtifact sample_prims a ?op None (Some (Some sample_swap_at)) = Inr a"
    using sample_sealed [of SwapReserved] accepted_unshown by blast
  ultimately have "approved sample_prims sample_dataset ?op \<lparr>sm_quote = sample_quote, sm_approvalCapAtomic = ''0'', sm_gasOrEnergy = sample_gas,
      sm_execution = JNull\<rparr> a sample_swap_at"
    using ok swap_unmarked [OF ok] by (simp add: approved_def)
  then show ?thesis by blast
qed

end
