(* ===== verification/Spec2Isabelle.thy ===== *)
theory Spec2Isabelle
  imports UsageSafety DirectGateLaws TronResources RailProgress RailFamily SwapRegistry SwapServiceLaws SwapRuntimeLaws
begin

text \<open>
  A verification library of the agent payment node, the TypeScript program under \<^verbatim>\<open>src/src\<close>: an agent
  prepares a payment, its owner approves it, the node signs and sends it once and follows it to its
  end. The library models the program's own decisions, the durable records they are kept in and the
  order in which they become durable; what other programs answer (chains, wallets, the owner at the
  terminal, the disk) is a parameter.

  \<^bold>\<open>How the parts of the program depend on each other.\<close> Every digest is taken over canonical JSON. The
  owner's asset policy decides which chain, asset, rail, mechanism and recipient is admitted and under
  which caps. The usage ledger holds the daily usage every rail reserves before it sends. The direct
  gate binds one transfer to the active policy and a row of the ledger. A rail operation carries a
  Solana or TRON transfer through its journal under that gate. A guarded swap carries a frozen quote, a
  mechanism the policy admits and a row of the ledger through its record. The operation index admits one
  open operation per account over the records of all families, rails and swaps among them.

  \<^bold>\<open>Shared base.\<close> \<open>Prelude\<close>: \<^verbatim>\<open>errors.ts\<close>; an error is a value of \<open>js_error\<close>, a computation that may throw
  is \<open>'a result\<close>, one that also changes state is \<open>('s, 'a) stm\<close> with \<open>ret\<close>, \<open>lift\<close>, \<open>bnd\<close> and \<open>try_catch\<close>;
  a throw keeps the state reached. \<open>Decimal\<close>, \<open>Money\<close> (\<^verbatim>\<open>money.ts\<close>): amounts are decimal texts, as in the
  code. \<open>Json\<close> (\<^verbatim>\<open>canonical.ts\<close>). \<open>Instants\<close>: instants are ISO texts compared as texts, a \<^verbatim>\<open>Date\<close> is
  \<open>jsdate\<close>, \<open>None\<close> when invalid. \<open>Addresses\<close> (\<^verbatim>\<open>tron/codec.ts\<close>, \<^verbatim>\<open>allowlist-recipient-pins.ts\<close>). \<open>Wp\<close> is a
  weakest-precondition calculus and \<open>Runs\<close> a calculus of relations kept by runs (locale \<open>stable_runs\<close>).
  SHA-256 and the address codecs of the npm packages are the fields of the record \<open>prims\<close>.

  \<^bold>\<open>Policy.\<close> \<open>SwapPins\<close> (\<^verbatim>\<open>swap/pin.ts\<close>, \<^verbatim>\<open>swap/route-admission.ts\<close>), \<open>AssetPolicy\<close>
  (\<^verbatim>\<open>asset-policy-registry.ts\<close>) and \<open>AssetPolicyLaws\<close>: an admission is within its caps, of a listed row, to
  an admitted recipient; sealing a registry validates.

  \<^bold>\<open>Usage ledger.\<close> \<open>UsageRecord\<close> and \<open>UsageLedger\<close> (\<^verbatim>\<open>asset-usage-ledger*.ts\<close>): the state is the map from
  bucket directories to rows, each operation one step under its bucket lock. \<open>UsageSamples\<close> runs it on a
  small ledger, \<open>UsageSafety\<close> proves that every operation refines an abstract ledger step, that rows stay
  valid and terminal, and that a day's usage stays within the daily limit.

  \<^bold>\<open>Direct transfers.\<close> \<open>DirectGate\<close>, \<open>DirectGateLaws\<close> (\<^verbatim>\<open>direct-allowlist-gate.ts\<close>,
  \<^verbatim>\<open>direct-asset-usage-adapter.ts\<close>, \<^verbatim>\<open>allowlist-active-policy.ts\<close>): the locale of the ledger operations that
  \<^verbatim>\<open>follow\<close> calls, interpreted on the ledger. \<open>RailPorts\<close>, \<open>ChainPolicy\<close>, \<open>TronResources\<close>, \<open>RailRecord\<close>,
  \<open>RailRecordLaws\<close>: data, caps, fees and the journal (\<^verbatim>\<open>direct-rail-ports.ts\<close>, \<^verbatim>\<open>chain-policy*.ts\<close>,
  \<^verbatim>\<open>tron/resource-model.ts\<close>, \<^verbatim>\<open>rail-operation-model.ts\<close>). \<open>RailStore\<close>, \<open>RailLifecycle\<close>, \<open>RailService\<close>: the
  repository, the claims and the commands prepare, approve, resume and receipt
  (\<^verbatim>\<open>rail-operation-*.ts\<close>). \<open>RailSafety\<close>: no transfer is handed to its rail twice; \<open>RailProgress\<close>: the
  recursion of a resumption ends.

  \<^bold>\<open>Operation index.\<close> \<open>OperationClaims\<close>, \<open>OperationIndex\<close>, \<open>OperationGuard\<close> (\<^verbatim>\<open>operation-index/*.ts\<close>), \<open>RailFamily\<close>
  (\<^verbatim>\<open>operation-index/adapters/rail.ts\<close>). \<open>OperationGuardLaws\<close>, \<open>OperationSamples\<close>, \<open>OperationAdmission\<close>:
  exclusive admission, the lease of a dead prepare, and the window in which two admissions meet. The
  locale \<open>account_family\<close> is the contract of a family adapter; \<open>RailFamily\<close> and \<open>SwapFamily\<close> interpret it.

  \<^bold>\<open>Swaps.\<close> \<open>SwapRegistry\<close> (\<^verbatim>\<open>swap/protocol-registry.ts\<close>, \<^verbatim>\<open>swap/route-admission.ts\<close>): the one installed
  lane both assets admit. \<open>SwapQuote\<close>, \<open>SwapOperation\<close>, \<open>SwapTransitions\<close> (\<^verbatim>\<open>swap/quote.ts\<close>, \<^verbatim>\<open>swap/model.ts\<close>,
  \<^verbatim>\<open>swap/transitions.ts\<close>): the frozen quote, the record and what each state carries; its states are ordered
  by reachability (an instance of \<open>order\<close>). \<open>SwapUnlanded\<close> (\<^verbatim>\<open>swap/unlanded.ts\<close>): the proofs that a marked swap can
  never land. \<open>SwapFamily\<close> (\<^verbatim>\<open>operation-index/adapters/swap.ts\<close>), \<open>SwapStore\<close>, \<open>SwapService\<close>
  (\<^verbatim>\<open>swap/repository.ts\<close>, \<^verbatim>\<open>swap/service.ts\<close>): the state is the operation index with the swap files beside the usage
  ledger. \<open>SwapSamples\<close> runs one swap; \<open>SwapLaws\<close>: the hold follows the record and a swap is marked
  for sending once; \<open>SwapServiceLaws\<close>: every run of the service keeps to these histories, and the order of
  two processes in which a marked swap loses its hold. \<open>SwapApproval\<close>, \<open>SwapRuntime\<close> (\<^verbatim>\<open>swap/runtime.ts\<close>): the
  owner's approval, a sealed artifact bound to one record, and the commands around the service;
  \<open>SwapRuntimeLaws\<close>: the driver that signs and sends is asked for approved reservations only.

  \<^bold>\<open>Crashes and other processes.\<close> Every durable write costs one of the process's remaining lives
  (\<open>gs_life\<close>, \<open>xw_life\<close>); a process without lives writes nothing more, which is all a crash leaves. At
  each lock the other processes act (\<open>interleave\<close>, \<open>meet\<close>), by any function the theorem's
  hypothesis allows. Every answer of the environment is numbered by \<open>gs_tick\<close> or \<open>xw_tick\<close>, so the same question may be
  answered differently later.

  \<^bold>\<open>Bounds and fuel.\<close> The code bounds its own loops, and the model keeps its bounds: four bind attempts
  before a send, two attempts to claim an account, three to bind a pointer. The only recursion without a bound in the code is the
  resumption of a local Solana transfer; the model lets it go three levels deep and
  \<open>resumption_depth\<close> shows that more levels change nothing.

  \<^bold>\<open>Not modelled.\<close> Messages and details of errors, apart from reason tokens that decide something. RPC
  clients, transaction codecs, signing and key custody, the owner dialogue, command parsing and
  output: they are input and output, or third-party protocols, and enter as parameters. Of the rail commands, the
  renaming of rate-limit errors and the admission of chain policies. Of the swaps, the owner
  abandonment, the economics beside a status, a runtime that overrides the approval, and the venues, whose
  drivers are parameters of the runtime. The x402 payments, bridges,
  gasless transfers and wallet providers: each is a component of its own, of which only its holds in the
  usage ledger are modelled here. Native helpers, generated
  JavaScript, vendored code and tests are outside the TypeScript implementation.
\<close>

end
